(* ===== verification/Prelude.thy ===== *)
theory Prelude
  imports Main "HOL-Library.AList"
begin

text \<open>
  Shared vocabulary of the development: the collections of simplification rules the components
  add to, Python dictionaries as association lists in insertion order, the state-and-exception
  computations in which the services are written, and generic lemmas on lists.
\<close>

named_theorems exec_simps "running a computation of the state-and-exception monad"
named_theorems enum_simps "values and parsers of the string enumerations"
named_theorems frame_simps "what an operation leaves unchanged"

section \<open>Python dictionaries\<close>

text \<open>
  A Python dict keeps the order in which its keys were first inserted and replaces the value of a
  key in place. An association list with distinct keys has both properties, and the library's
  \<open>AList.update\<close> is the assignment \<open>d[k] = v\<close>.
\<close>

type_synonym ('k, 'v) dict = "('k \<times> 'v) list"

abbreviation dict_get :: "'k \<Rightarrow> ('k, 'v) dict \<Rightarrow> 'v option" where
  "dict_get k d \<equiv> map_of d k"

abbreviation dict_set :: "'k \<Rightarrow> 'v \<Rightarrow> ('k, 'v) dict \<Rightarrow> ('k, 'v) dict" where
  "dict_set k v d \<equiv> AList.update k v d"

abbreviation dict_keys :: "('k, 'v) dict \<Rightarrow> 'k list" where
  "dict_keys d \<equiv> map fst d"

text \<open>The display \<open>{**a, **b}\<close> and a loop of assignments: the entries are assigned in order.\<close>

definition dict_union :: "('k, 'v) dict \<Rightarrow> ('k, 'v) dict \<Rightarrow> ('k, 'v) dict" where
  "dict_union a b = fold (\<lambda>(k, v) d. dict_set k v d) b a"

lemma map_of_dict_set [simp]: "map_of (AList.update k v d) = (map_of d)(k \<mapsto> v)"
  by (fact update_conv')

lemma dict_set_new: "k \<notin> set (dict_keys d) \<Longrightarrow> dict_set k v d = d @ [(k, v)]"
  by (induction d) auto

lemma distinct_dict_set [simp]: "distinct (dict_keys d) \<Longrightarrow> distinct (dict_keys (dict_set k v d))"
  by (rule distinct_update)

lemma dict_union_lookup:
  "map_of (dict_union a b) = map_of a ++ map_of (rev b)"
proof -
  have "map_of (fold (\<lambda>(k, v) d. dict_set k v d) b a) = map_of a ++ map_of (rev b)"
    by (induction b arbitrary: a) (auto simp: fun_eq_iff map_add_def split: option.splits)
  then show ?thesis by (simp add: dict_union_def)
qed

lemma distinct_dict_union:
  "distinct (dict_keys a) \<Longrightarrow> distinct (dict_keys (dict_union a b))"
  unfolding dict_union_def by (induction b arbitrary: a) (auto simp del: fst_conv)

section \<open>Computations with state and exceptions\<close>

text \<open>
  A method that reads and writes shared state and may raise is a function from the state to a
  result (\<open>Inl\<close> an exception, \<open>Inr\<close> a value) and the new state. An exception does not undo the
  writes made before it: undoing them is the business of the database transaction.
\<close>

type_synonym ('e, 's, 'a) comp = "'s \<Rightarrow> ('e + 'a) \<times> 's"

definition ret :: "'a \<Rightarrow> ('e, 's, 'a) comp" where
  "ret x s = (Inr x, s)"

definition throw :: "'e \<Rightarrow> ('e, 's, 'a) comp" where
  "throw e s = (Inl e, s)"

definition bindE :: "('e, 's, 'a) comp \<Rightarrow> ('a \<Rightarrow> ('e, 's, 'b) comp) \<Rightarrow> ('e, 's, 'b) comp" where
  "bindE m f s = (case m s of (Inl e, s') \<Rightarrow> (Inl e, s') | (Inr x, s') \<Rightarrow> f x s')"

definition thenE :: "('e, 's, 'a) comp \<Rightarrow> ('e, 's, 'b) comp \<Rightarrow> ('e, 's, 'b) comp" where
  "thenE m k = bindE m (\<lambda>_. k)"

text \<open>\<open>try: m except Exception as exc: h exc\<close>\<close>

definition catchE :: "('e, 's, 'a) comp \<Rightarrow> ('e \<Rightarrow> ('e, 's, 'a) comp) \<Rightarrow> ('e, 's, 'a) comp" where
  "catchE m h s = (case m s of (Inl e, s') \<Rightarrow> h e s' | (Inr x, s') \<Rightarrow> (Inr x, s'))"

definition liftE :: "'e + 'a \<Rightarrow> ('e, 's, 'a) comp" where
  "liftE r s = (r, s)"

definition getE :: "('s \<Rightarrow> 'a) \<Rightarrow> ('e, 's, 'a) comp" where
  "getE f s = (Inr (f s), s)"

definition modifyE :: "('s \<Rightarrow> 's) \<Rightarrow> ('e, 's, unit) comp" where
  "modifyE f s = (Inr (), f s)"

fun forE :: "'a list \<Rightarrow> ('a \<Rightarrow> ('e, 's, unit) comp) \<Rightarrow> ('e, 's, unit) comp" where
  "forE [] f = ret ()"
| "forE (x # xs) f = thenE (f x) (forE xs f)"

lemmas [exec_simps] = ret_def throw_def bindE_def thenE_def catchE_def liftE_def getE_def modifyE_def

lemma bindE_ret [simp]: "bindE (ret x) f = f x"
  by (simp add: fun_eq_iff exec_simps)

lemma bindE_throw [simp]: "bindE (throw e) f = throw e"
  by (simp add: fun_eq_iff exec_simps)

lemma bindE_assoc: "bindE (bindE m f) g = bindE m (\<lambda>x. bindE (f x) g)"
  by (simp add: fun_eq_iff exec_simps split: prod.splits sum.splits)

lemma bindE_Inr:
  "bindE m f s = (Inr y, t) \<longleftrightarrow> (\<exists>x u. m s = (Inr x, u) \<and> f x u = (Inr y, t))"
  by (auto simp: bindE_def split: prod.splits sum.splits)

lemma bindE_Inl:
  "bindE m f s = (Inl e, t) \<longleftrightarrow>
     m s = (Inl e, t) \<or> (\<exists>x u. m s = (Inr x, u) \<and> f x u = (Inl e, t))"
  by (auto simp: bindE_def split: prod.splits sum.splits)

text \<open>
  A relation between the state before and after that every run of a computation respects. The
  frame facts of the services are instances, and the rules below give them for composed code.
\<close>

definition keeps :: "('s \<Rightarrow> 's \<Rightarrow> bool) \<Rightarrow> ('e, 's, 'a) comp \<Rightarrow> bool" where
  "keeps R m \<longleftrightarrow> (\<forall>s. R s (snd (m s)))"

lemma keepsI: "(\<And>s. R s (snd (m s))) \<Longrightarrow> keeps R m"
  by (simp add: keeps_def)

lemma keepsD: "keeps R m \<Longrightarrow> m s = (r, t) \<Longrightarrow> R s t"
  by (metis keeps_def snd_conv)

lemma keeps_ret: "reflp R \<Longrightarrow> keeps R (ret x)"
  by (simp add: keeps_def ret_def reflpD)

lemma keeps_throw: "reflp R \<Longrightarrow> keeps R (throw e)"
  by (simp add: keeps_def throw_def reflpD)

lemma keeps_getE: "reflp R \<Longrightarrow> keeps R (getE f)"
  by (simp add: keeps_def getE_def reflpD)

lemma keeps_liftE: "reflp R \<Longrightarrow> keeps R (liftE r)"
  by (simp add: keeps_def liftE_def reflpD)

lemma keeps_bindE:
  assumes "transp R" "keeps R m" "\<And>x. keeps R (f x)"
  shows "keeps R (bindE m f)"
proof (rule keepsI)
  fix s
  obtain r u where ms: "m s = (r, u)" by fastforce
  then have "R s u" using keepsD [OF assms(2)] by blast
  moreover have "r = Inr x \<Longrightarrow> R u (snd (f x u))" for x
    using assms(3) by (simp add: keeps_def)
  ultimately show "R s (snd (bindE m f s))"
    using assms(1) by (cases r) (auto simp: bindE_def ms dest: transpD)
qed

lemma keeps_thenE: "transp R \<Longrightarrow> keeps R m \<Longrightarrow> keeps R k \<Longrightarrow> keeps R (thenE m k)"
  unfolding thenE_def by (rule keeps_bindE)

lemma keeps_catchE:
  assumes "transp R" "keeps R m" "\<And>e. keeps R (h e)"
  shows "keeps R (catchE m h)"
proof (rule keepsI)
  fix s
  obtain r u where ms: "m s = (r, u)" by fastforce
  then have "R s u" using keepsD [OF assms(2)] by blast
  moreover have "r = Inl e \<Longrightarrow> R u (snd (h e u))" for e
    using assms(3) by (simp add: keeps_def)
  ultimately show "R s (snd (catchE m h s))"
    using assms(1) by (cases r) (auto simp: catchE_def ms dest: transpD)
qed

lemma keeps_forE:
  "reflp R \<Longrightarrow> transp R \<Longrightarrow> (\<And>x. x \<in> set xs \<Longrightarrow> keeps R (f x)) \<Longrightarrow> keeps R (forE xs f)"
  by (induction xs) (auto intro: keeps_ret keeps_thenE)

lemmas keeps_rules = keeps_ret keeps_throw keeps_getE keeps_liftE keeps_bindE keeps_thenE
  keeps_catchE keeps_forE

text \<open>A state relation that says a view of the state is unchanged.\<close>

lemma reflp_same [simp]: "reflp (\<lambda>s t. f s = f t)"
  by (simp add: reflp_def)

lemma transp_same [simp]: "transp (\<lambda>s t. f s = f t)"
  by (simp add: transp_def)

section \<open>Lists\<close>

lemma distinct_map_fst_unique:
  "distinct (map f xs) \<Longrightarrow> x \<in> set xs \<Longrightarrow> y \<in> set xs \<Longrightarrow> f x = f y \<Longrightarrow> x = y"
  by (metis distinct_map inj_onD)

lemma dropWhile_none: "\<forall>x \<in> set xs. \<not> P x \<Longrightarrow> dropWhile P xs = xs"
  by (cases xs) auto

lemma find_filter: "List.find P xs = (case filter P xs of [] \<Rightarrow> None | x # _ \<Rightarrow> Some x)"
  by (induction xs) auto

lemma find_SomeD: "List.find P xs = Some x \<Longrightarrow> x \<in> set xs \<and> P x"
  by (auto simp: find_Some_iff)

lemma sum_list_map_nonneg: "(\<And>x. x \<in> set xs \<Longrightarrow> (0::int) \<le> f x) \<Longrightarrow> 0 \<le> sum_list (map f xs)"
  by (induction xs) auto

lemma map_last_row:
  "key r0 \<notin> key ` set rs \<Longrightarrow> k = key r0 \<Longrightarrow>
     map (\<lambda>x. if key x = k then r else x) (rs @ [r0]) = rs @ [r]"
  by (simp, intro map_idI) (metis image_eqI)

end
