(* ===== verification/StrEnum.thy ===== *)
theory StrEnum
  imports Prelude
begin

text \<open>
  Python's \<open>StrEnum\<close>. A member is a constructor and \<open>value\<close> its string; calling the class on a
  string, \<open>X(raw)\<close>, looks the member up in declaration order and raises \<open>ValueError\<close> (here
  \<open>None\<close>) when there is none. The locale states what every enumeration of the program relies on:
  its values are pairwise distinct, so storing a member as a string loses nothing.
\<close>

definition enum_parse :: "('a :: enum \<Rightarrow> string) \<Rightarrow> string \<Rightarrow> 'a option" where
  "enum_parse val raw = List.find (\<lambda>x. val x = raw) Enum.enum"

lemma enum_parse_value: "enum_parse val raw = Some x \<Longrightarrow> val x = raw"
  by (auto simp: enum_parse_def dest: find_SomeD)

locale str_enum =
  fixes val :: "'a :: enum \<Rightarrow> string"
  assumes val_inj: "val x = val y \<Longrightarrow> x = y"
begin

lemma val_eq_iff: "val x = val y \<longleftrightarrow> x = y"
  using val_inj by blast

lemma parse_val: "enum_parse val (val x) = Some x"
proof -
  have "x \<in> set Enum.enum" by (simp add: enum_UNIV)
  then obtain y where y: "enum_parse val (val x) = Some y"
    unfolding enum_parse_def by (metis (mono_tags, lifting) find_None_iff not_Some_eq)
  then have "val y = val x" by (rule enum_parse_value)
  then have "y = x" by (rule val_inj)
  with y show ?thesis by simp
qed

lemma parse_Some_iff: "enum_parse val raw = Some x \<longleftrightarrow> raw = val x"
  using enum_parse_value parse_val by blast

lemma parse_None_iff: "enum_parse val raw = None \<longleftrightarrow> (\<forall>x. raw \<noteq> val x)"
  using parse_Some_iff by (metis not_Some_eq)

end

end
