(* ===== verification/PyString.thy ===== *)
theory PyString
  imports Prelude "HOL-Library.Sublist"
begin

text \<open>
  The Python string operations the program uses, on character lists. Characters stand for the code
  points 0 to 255; case mapping is the ASCII one. \<open>str.split()\<close>, \<open>str.strip()\<close>,
  \<open>str.splitlines()\<close>, \<open>str.join\<close>, \<open>in\<close> on strings and decimal rendering are modelled by
  recursion over the characters.
\<close>

section \<open>Character classes\<close>

definition code :: "char \<Rightarrow> nat" where
  "code c = of_char c"

definition is_space :: "char \<Rightarrow> bool" where
  "is_space c \<longleftrightarrow> code c \<in> {9, 10, 11, 12, 13, 28, 29, 30, 31, 32, 133, 160}"

definition is_line_break :: "char \<Rightarrow> bool" where
  "is_line_break c \<longleftrightarrow> code c \<in> {10, 11, 12, 13, 28, 29, 30, 133}"

definition is_digit :: "char \<Rightarrow> bool" where
  "is_digit c \<longleftrightarrow> 48 \<le> code c \<and> code c \<le> 57"

definition is_upper :: "char \<Rightarrow> bool" where
  "is_upper c \<longleftrightarrow> 65 \<le> code c \<and> code c \<le> 90"

definition is_lower :: "char \<Rightarrow> bool" where
  "is_lower c \<longleftrightarrow> 97 \<le> code c \<and> code c \<le> 122"

definition lower_char :: "char \<Rightarrow> char" where
  "lower_char c = (if is_upper c then char_of (code c + 32) else c)"

definition upper_char :: "char \<Rightarrow> char" where
  "upper_char c = (if is_lower c then char_of (code c - 32) else c)"

definition lower :: "string \<Rightarrow> string" where
  "lower s = map lower_char s"

definition upper :: "string \<Rightarrow> string" where
  "upper s = map upper_char s"

lemma code_char_of [simp]: "n < 256 \<Longrightarrow> code (char_of n) = n"
  by (simp add: code_def)

lemma code_less [simp]: "code c < 256"
  unfolding code_def using of_char_mod_256 [of c, where 'a = nat] by (metis mod_less_divisor zero_less_numeral)

lemma lower_char_idem [simp]: "lower_char (lower_char c) = lower_char c"
  by (auto simp: lower_char_def is_upper_def)

lemma lower_idem [simp]: "lower (lower s) = lower s"
  by (simp add: lower_def)

lemma length_lower [simp]: "length (lower s) = length s"
  by (simp add: lower_def)

lemma is_space_lower [simp]: "is_space (lower_char c) = is_space c"
  by (auto simp: lower_char_def is_upper_def is_space_def)

section \<open>strip, split, splitlines, join\<close>

definition lstrip :: "string \<Rightarrow> string" where
  "lstrip s = dropWhile is_space s"

definition rstrip :: "string \<Rightarrow> string" where
  "rstrip s = rev (dropWhile is_space (rev s))"

definition strip :: "string \<Rightarrow> string" where
  "strip s = rstrip (lstrip s)"

fun split_ws_from :: "string \<Rightarrow> string \<Rightarrow> string list" where
  "split_ws_from w [] = (if w = [] then [] else [w])"
| "split_ws_from w (c # cs) =
     (if is_space c then (if w = [] then [] else [w]) @ split_ws_from [] cs
      else split_ws_from (w @ [c]) cs)"

definition split_ws :: "string \<Rightarrow> string list" where
  "split_ws s = split_ws_from [] s"

fun split_on :: "char \<Rightarrow> string \<Rightarrow> string list" where
  "split_on d [] = [[]]"
| "split_on d (c # cs) =
     (if c = d then [] # split_on d cs
      else (case split_on d cs of [] \<Rightarrow> [[c]] | w # ws \<Rightarrow> (c # w) # ws))"

function splitlines_from :: "string \<Rightarrow> string \<Rightarrow> string list" where
  "splitlines_from w [] = (if w = [] then [] else [w])"
| "splitlines_from w (c # cs) =
     (if c = CHR 0x0D
      then w # splitlines_from [] (if cs \<noteq> [] \<and> hd cs = CHR 0x0A then tl cs else cs)
      else if is_line_break c then w # splitlines_from [] cs
      else splitlines_from (w @ [c]) cs)"
  by pat_completeness auto
termination
  by (relation "measure (\<lambda>(w, cs). length cs)") auto

definition splitlines :: "string \<Rightarrow> string list" where
  "splitlines s = splitlines_from [] s"

fun join :: "string \<Rightarrow> string list \<Rightarrow> string" where
  "join sep [] = []"
| "join sep [w] = w"
| "join sep (w # x # ws) = w @ sep @ join sep (x # ws)"

definition starts_with :: "string \<Rightarrow> string \<Rightarrow> bool" where
  "starts_with p s \<longleftrightarrow> take (length p) s = p"

fun contains :: "string \<Rightarrow> string \<Rightarrow> bool" where
  "contains p [] = (p = [])"
| "contains p (c # cs) = (starts_with p (c # cs) \<or> contains p cs)"

lemma starts_with_prefix: "starts_with p s \<longleftrightarrow> prefix p s"
proof
  assume "starts_with p s"
  then show "prefix p s" unfolding starts_with_def by (metis take_is_prefix)
next
  assume "prefix p s"
  then show "starts_with p s" by (auto simp: prefix_def starts_with_def)
qed

lemma starts_with_Nil [simp]: "starts_with [] s"
  by (simp add: starts_with_def)

lemma contains_sublist: "contains p s \<longleftrightarrow> sublist p s"
  by (induction s) (auto simp: starts_with_prefix sublist_Cons_right)

subsection \<open>Facts on strip\<close>

lemma dropWhile_hd: "dropWhile P s \<noteq> [] \<Longrightarrow> \<not> P (hd (dropWhile P s))"
  by (rule hd_dropWhile)

lemma dropWhile_idem [simp]: "dropWhile P (dropWhile P s) = dropWhile P s"
  by (induction s) auto

lemma rstrip_snoc: "rstrip (s @ [c]) = (if is_space c then rstrip s else s @ [c])"
  by (simp add: rstrip_def)

lemma rstrip_Nil [simp]: "rstrip [] = []"
  by (simp add: rstrip_def)

lemma rstrip_Cons: "\<not> is_space c \<Longrightarrow> rstrip (c # s) = c # rstrip s"
  by (simp add: rstrip_def dropWhile_append)

lemma rstrip_idem [simp]: "rstrip (rstrip s) = rstrip s"
  by (simp add: rstrip_def)

lemma lstrip_rstrip: "lstrip (rstrip (lstrip s)) = rstrip (lstrip s)"
proof (cases "lstrip s")
  case Nil
  then show ?thesis by simp (simp add: lstrip_def)
next
  case (Cons c cs)
  then have "\<not> is_space c"
    unfolding lstrip_def by (metis dropWhile_hd list.distinct(1) list.sel(1))
  then show ?thesis by (simp add: Cons rstrip_Cons) (simp add: lstrip_def)
qed

lemma strip_idem [simp]: "strip (strip s) = strip s"
  by (simp add: strip_def lstrip_rstrip)

lemma strip_no_space: "\<forall>c \<in> set s. \<not> is_space c \<Longrightarrow> strip s = s"
proof (induction s)
  case Nil
  then show ?case by (simp add: strip_def lstrip_def)
next
  case (Cons c s)
  then have "strip s = s" by simp
  with Cons.prems show ?case
    by (cases s) (auto simp: strip_def lstrip_def rstrip_Cons)
qed

lemma strip_Nil [simp]: "strip [] = []"
  by (simp add: strip_def lstrip_def)

subsection \<open>split and join are inverse on words\<close>

definition is_word :: "string \<Rightarrow> bool" where
  "is_word w \<longleftrightarrow> w \<noteq> [] \<and> (\<forall>c \<in> set w. \<not> is_space c)"

lemma split_ws_from_words:
  "\<forall>c \<in> set w. \<not> is_space c \<Longrightarrow> x \<in> set (split_ws_from w s) \<Longrightarrow> is_word x"
proof (induction w s rule: split_ws_from.induct)
  case (1 w)
  then show ?case by (auto simp: is_word_def split: if_splits)
next
  case (2 w c cs)
  then show ?case
    by (cases "is_space c"; cases "w = []") (auto simp: is_word_def)
qed

lemma split_ws_words: "x \<in> set (split_ws s) \<Longrightarrow> is_word x"
  unfolding split_ws_def by (rule split_ws_from_words) auto

lemma split_ws_from_append:
  "\<forall>c \<in> set v. \<not> is_space c \<Longrightarrow> split_ws_from w (v @ s) = split_ws_from (w @ v) s"
  by (induction v arbitrary: w) auto

lemma is_space_blank [simp]: "is_space (CHR 0x20)"
  by (simp add: is_space_def code_def)

lemma split_ws_join: "\<forall>w \<in> set ws. is_word w \<Longrightarrow> split_ws (join [CHR 0x20] ws) = ws"
proof (induction "[CHR 0x20]" ws rule: join.induct)
  case 1
  then show ?case by (simp add: split_ws_def)
next
  case (2 w)
  then show ?case
    using split_ws_from_append [of w "[]" "[]"] by (auto simp: split_ws_def is_word_def)
next
  case (3 w x ws)
  then have "split_ws (join [CHR 0x20] (x # ws)) = x # ws" by simp
  with "3.prems" show ?case
    by (auto simp: split_ws_def is_word_def split_ws_from_append)
qed

lemma join_length: "is_word w \<Longrightarrow> w \<in> set ws \<Longrightarrow> join sep ws \<noteq> []"
  by (induction sep ws rule: join.induct) (auto simp: is_word_def)

section \<open>Decimal numerals\<close>

definition digit_char :: "nat \<Rightarrow> char" where
  "digit_char n = char_of (48 + n)"

fun nat_str :: "nat \<Rightarrow> string" where
  "nat_str n = (if n < 10 then [digit_char n] else nat_str (n div 10) @ [digit_char (n mod 10)])"

declare nat_str.simps [simp del]

definition int_str :: "int \<Rightarrow> string" where
  "int_str i = (if i < 0 then CHR ''-'' # nat_str (nat (- i)) else nat_str (nat i))"

definition digit_val :: "char \<Rightarrow> nat" where
  "digit_val c = code c - 48"

definition digits_val :: "string \<Rightarrow> nat" where
  "digits_val s = foldl (\<lambda>acc c. 10 * acc + digit_val c) 0 s"

lemma digit_val_char [simp]: "n < 10 \<Longrightarrow> digit_val (digit_char n) = n"
  by (simp add: digit_val_def digit_char_def)

lemma is_digit_char [simp]: "n < 10 \<Longrightarrow> is_digit (digit_char n)"
  by (simp add: is_digit_def digit_char_def)

lemma nat_str_digits: "\<forall>c \<in> set (nat_str n). is_digit c"
proof (induction n rule: nat_str.induct)
  case (1 n)
  then show ?case by (subst nat_str.simps) auto
qed

lemma digits_val_snoc: "digits_val (s @ [c]) = 10 * digits_val s + digit_val c"
  by (simp add: digits_val_def)

lemma digits_val_nat_str [simp]: "digits_val (nat_str n) = n"
proof (induction n rule: nat_str.induct)
  case (1 n)
  show ?case
  proof (cases "n < 10")
    case True
    then show ?thesis by (subst nat_str.simps) (simp add: digits_val_def)
  next
    case False
    with "1.IH" show ?thesis by (subst nat_str.simps) (simp add: digits_val_snoc)
  qed
qed

lemma nat_str_inj: "nat_str m = nat_str n \<longleftrightarrow> m = n"
  by (metis digits_val_nat_str)

lemma nat_str_nonempty [simp]: "nat_str n \<noteq> []"
  by (subst nat_str.simps) simp

text \<open>Evaluation of a numeral's decimal form inside proofs, one digit at a time.\<close>

lemma nat_str_numeral:
  "nat_str (numeral k) =
     (if numeral k < (10 :: nat) then [digit_char (numeral k)]
      else nat_str (numeral k div 10) @ [digit_char (numeral k mod 10)])"
  by (rule nat_str.simps)

lemma nat_str_0: "nat_str 0 = ''0''"
  by code_simp

lemma nat_str_1: "nat_str (Suc 0) = ''1''"
  by code_simp

end
