(* ===== verification/PyFloat.thy ===== *)
theory PyFloat
  imports Complex_Main PyString
begin

text \<open>
  Python's \<open>float\<close>: IEEE 754 binary64 with rounding to nearest, ties to even. A finite value is the
  rational number it denotes, so every operation is the exact rational result rounded by \<open>fl\<close>;
  the two zeros are identified. Division by zero raises, as in Python. \<open>sum\<close> over floats is the
  compensated loop of CPython 3.12, the interpreter of the project's images, and \<open>math.sqrt\<close>,
  \<open>round(x, n)\<close> and the \<open>.nf\<close> and \<open>.n%\<close> formats are correctly rounded.
\<close>

datatype pyfloat = Fin rat | PInf | NInf | NaN

section \<open>Rounding\<close>

definition pow2 :: "int \<Rightarrow> rat" where
  "pow2 e = (if 0 \<le> e then of_int (2 ^ nat e) else 1 / of_int (2 ^ nat (- e)))"

function ilog2 :: "int \<Rightarrow> int" where
  "ilog2 n = (if n < 2 then 0 else 1 + ilog2 (n div 2))"
  by pat_completeness auto
termination
  by (relation "measure nat") auto

declare ilog2.simps [simp del]

text \<open>The exponent of a positive rational: \<open>2 ^ e \<le> q < 2 ^ (e + 1)\<close>.\<close>

definition expo :: "rat \<Rightarrow> int" where
  "expo q = (case quotient_of q of (a, b) \<Rightarrow>
     let e = ilog2 a - ilog2 b
     in if q < pow2 e then e - 1 else e)"

definition round_half_even :: "rat \<Rightarrow> int" where
  "round_half_even q =
     (let n = \<lfloor>q\<rfloor>; d = q - of_int n
      in if d < 1 / 2 then n else if 1 / 2 < d then n + 1 else if even n then n else n + 1)"

definition fl :: "rat \<Rightarrow> pyfloat" where
  "fl q =
     (if q = 0 then Fin 0
      else let e = max (expo \<bar>q\<bar> - 52) (- 1074);
               r = of_int (round_half_even (q / pow2 e)) * pow2 e
           in if 2 ^ 1024 \<le> r then PInf else if r \<le> - (2 ^ 1024) then NInf else Fin r)"

section \<open>Comparisons\<close>

fun flt :: "pyfloat \<Rightarrow> pyfloat \<Rightarrow> bool" where
  "flt NaN y = False"
| "flt x NaN = False"
| "flt PInf y = False"
| "flt x NInf = False"
| "flt NInf y = True"
| "flt x PInf = True"
| "flt (Fin a) (Fin b) = (a < b)"

fun fle :: "pyfloat \<Rightarrow> pyfloat \<Rightarrow> bool" where
  "fle NaN y = False"
| "fle x NaN = False"
| "fle x PInf = True"
| "fle PInf y = False"
| "fle NInf y = True"
| "fle x NInf = False"
| "fle (Fin a) (Fin b) = (a \<le> b)"

fun feq :: "pyfloat \<Rightarrow> pyfloat \<Rightarrow> bool" where
  "feq NaN y = False"
| "feq x NaN = False"
| "feq x y = (x = y)"

definition is_finite :: "pyfloat \<Rightarrow> bool" where
  "is_finite x = (case x of Fin _ \<Rightarrow> True | _ \<Rightarrow> False)"

section \<open>Arithmetic\<close>

fun fneg :: "pyfloat \<Rightarrow> pyfloat" where
  "fneg (Fin a) = Fin (- a)" | "fneg PInf = NInf" | "fneg NInf = PInf" | "fneg NaN = NaN"

fun fabs :: "pyfloat \<Rightarrow> pyfloat" where
  "fabs (Fin a) = Fin \<bar>a\<bar>" | "fabs PInf = PInf" | "fabs NInf = PInf" | "fabs NaN = NaN"

fun fadd :: "pyfloat \<Rightarrow> pyfloat \<Rightarrow> pyfloat" where
  "fadd NaN y = NaN"
| "fadd x NaN = NaN"
| "fadd PInf NInf = NaN"
| "fadd NInf PInf = NaN"
| "fadd PInf y = PInf"
| "fadd x PInf = PInf"
| "fadd NInf y = NInf"
| "fadd x NInf = NInf"
| "fadd (Fin a) (Fin b) = fl (a + b)"

definition fsub :: "pyfloat \<Rightarrow> pyfloat \<Rightarrow> pyfloat" where
  "fsub x y = fadd x (fneg y)"

text \<open>An infinity times a number of the given sign.\<close>

definition inf_times :: "bool \<Rightarrow> rat \<Rightarrow> pyfloat" where
  "inf_times pos a = (if a = 0 then NaN else if (0 < a) = pos then PInf else NInf)"

fun fmul :: "pyfloat \<Rightarrow> pyfloat \<Rightarrow> pyfloat" where
  "fmul NaN y = NaN"
| "fmul x NaN = NaN"
| "fmul (Fin a) (Fin b) = fl (a * b)"
| "fmul PInf (Fin b) = inf_times True b"
| "fmul NInf (Fin b) = inf_times False b"
| "fmul (Fin a) PInf = inf_times True a"
| "fmul (Fin a) NInf = inf_times False a"
| "fmul PInf PInf = PInf"
| "fmul NInf NInf = PInf"
| "fmul PInf NInf = NInf"
| "fmul NInf PInf = NInf"

text \<open>\<open>x / y\<close>, with \<open>None\<close> for \<open>ZeroDivisionError\<close>.\<close>

fun fdiv :: "pyfloat \<Rightarrow> pyfloat \<Rightarrow> pyfloat option" where
  "fdiv x (Fin b) =
     (if b = 0 then None
      else Some (case x of Fin a \<Rightarrow> fl (a / b) | PInf \<Rightarrow> inf_times True b
                         | NInf \<Rightarrow> inf_times False b | NaN \<Rightarrow> NaN))"
| "fdiv NaN y = Some NaN"
| "fdiv x NaN = Some NaN"
| "fdiv (Fin a) y = Some (Fin 0)"
| "fdiv x y = Some NaN"

function isqrt :: "int \<Rightarrow> int" where
  "isqrt n = (if n \<le> 0 then 0
     else let r = 2 * isqrt (n div 4) in if (r + 1) * (r + 1) \<le> n then r + 1 else r)"
  by pat_completeness auto
termination
  by (relation "measure nat") auto

declare isqrt.simps [simp del]

text \<open>\<open>math.sqrt\<close>, with \<open>None\<close> for the \<open>ValueError\<close> on a negative argument.\<close>

fun fsqrt :: "pyfloat \<Rightarrow> pyfloat option" where
  "fsqrt NaN = Some NaN"
| "fsqrt PInf = Some PInf"
| "fsqrt NInf = None"
| "fsqrt (Fin q) =
     (if q < 0 then None else if q = 0 then Some (Fin 0)
      else let k = nat (max 0 ((116 - expo q) div 2));
               s = isqrt \<lfloor>q * 4 ^ k\<rfloor>
           in Some (if of_int (s * s) = q * 4 ^ k then fl (of_int s / 2 ^ k)
                    else fl (of_int (2 * s + 1) / 2 ^ (k + 1))))"

section \<open>sum over floats\<close>

fun sum_loop :: "pyfloat \<Rightarrow> pyfloat \<Rightarrow> pyfloat list \<Rightarrow> pyfloat" where
  "sum_loop f c [] = (if is_finite c \<and> c \<noteq> Fin 0 then fadd f c else f)"
| "sum_loop f c (x # xs) =
     (let t = fadd f x
      in sum_loop t
           (fadd c (if fle (fabs x) (fabs f) then fadd (fsub f t) x else fadd (fsub x t) f)) xs)"

fun py_sum :: "pyfloat list \<Rightarrow> pyfloat" where
  "py_sum [] = Fin 0"
| "py_sum (x # xs) = sum_loop x (Fin 0) xs"

section \<open>round and formatting\<close>

fun py_round :: "nat \<Rightarrow> pyfloat \<Rightarrow> pyfloat" where
  "py_round n (Fin q) = fl (of_int (round_half_even (q * 10 ^ n)) / 10 ^ n)"
| "py_round n x = x"

definition pad_zeros :: "nat \<Rightarrow> string \<Rightarrow> string" where
  "pad_zeros n s = replicate (n - length s) (CHR ''0'') @ s"

fun fmt_fixed :: "nat \<Rightarrow> pyfloat \<Rightarrow> string" where
  "fmt_fixed n (Fin q) =
     (let k = nat (round_half_even (\<bar>q\<bar> * 10 ^ n));
          sign = (if q < 0 then ''-'' else '''')
      in sign @ nat_str (k div 10 ^ n)
         @ (if n = 0 then '''' else CHR ''.'' # pad_zeros n (nat_str (k mod 10 ^ n))))"
| "fmt_fixed n PInf = ''inf''"
| "fmt_fixed n NInf = ''-inf''"
| "fmt_fixed n NaN = ''nan''"

fun fmt_percent :: "nat \<Rightarrow> pyfloat \<Rightarrow> string" where
  "fmt_percent n (Fin q) = fmt_fixed n (fl (q * 100)) @ ''%''"
| "fmt_percent n x = fmt_fixed n x @ ''%''"

section \<open>Facts\<close>

lemma pow2_pos [simp]: "0 < pow2 e"
  by (simp add: pow2_def)

lemma ilog2_bounds: "0 < n \<Longrightarrow> 2 ^ nat (ilog2 n) \<le> n \<and> n < 2 ^ (nat (ilog2 n) + 1) \<and> 0 \<le> ilog2 n"
proof (induction n rule: ilog2.induct)
  case (1 n)
  show ?case
  proof (cases "n < 2")
    case True
    with 1 show ?thesis by (subst (1 2 3) ilog2.simps) auto
  next
    case False
    then have "0 < n div 2" by auto
    with 1 False have IH: "2 ^ nat (ilog2 (n div 2)) \<le> n div 2" "n div 2 < 2 ^ (nat (ilog2 (n div 2)) + 1)"
      "0 \<le> ilog2 (n div 2)" by auto
    moreover have "nat (1 + ilog2 (n div 2)) = Suc (nat (ilog2 (n div 2)))" using IH(3) by simp
    moreover have "2 * (n div 2) \<le> n" "n \<le> 2 * (n div 2) + 1" by presburger+
    ultimately show ?thesis using False by (simp add: ilog2.simps [of n])
  qed
qed

lemma round_half_even_of_int [simp]: "round_half_even (of_int n) = n"
  by (simp add: round_half_even_def)

lemma round_half_even_near: "\<bar>of_int (round_half_even q) - q\<bar> \<le> 1 / 2"
proof -
  have "of_int \<lfloor>q\<rfloor> \<le> q" "q < of_int \<lfloor>q\<rfloor> + 1" by linarith+
  then show ?thesis by (auto simp: round_half_even_def Let_def abs_le_iff)
qed

lemma round_half_even_mono:
  assumes "p \<le> q"
  shows "round_half_even p \<le> round_half_even q"
proof (cases "\<lfloor>p\<rfloor> = \<lfloor>q\<rfloor>")
  case True
  with assms show ?thesis by (auto simp: round_half_even_def Let_def)
next
  case False
  with assms have "\<lfloor>p\<rfloor> + 1 \<le> \<lfloor>q\<rfloor>" using floor_mono [OF assms] by linarith
  moreover have "round_half_even p \<le> \<lfloor>p\<rfloor> + 1" "\<lfloor>q\<rfloor> \<le> round_half_even q"
    by (auto simp: round_half_even_def Let_def)
  ultimately show ?thesis by linarith
qed

lemma round_half_even_nonneg: "0 \<le> q \<Longrightarrow> 0 \<le> round_half_even q"
  using round_half_even_mono [of 0 q] round_half_even_of_int [of 0] by simp

lemma fl_0 [simp]: "fl 0 = Fin 0"
  by (simp add: fl_def)

lemma fl_not_NaN [simp]: "fl q \<noteq> NaN"
  by (simp add: fl_def Let_def)

lemma scaled_round_nonneg:
  "0 \<le> q \<Longrightarrow> 0 \<le> of_int (round_half_even (q / pow2 e)) * pow2 e"
  by (intro mult_nonneg_nonneg) (simp_all add: round_half_even_nonneg less_imp_le [OF pow2_pos])

lemma neg_big: "(0 :: rat) \<le> x \<Longrightarrow> \<not> x \<le> - (2 ^ 1024)"
proof -
  assume "0 \<le> x"
  moreover have "(0 :: rat) < 2 ^ 1024" by (rule zero_less_power) simp
  ultimately show ?thesis by linarith
qed

lemma fl_nonneg: "0 \<le> q \<Longrightarrow> fle (Fin 0) (fl q)"
  using neg_big [OF scaled_round_nonneg] scaled_round_nonneg [of q]
  by (simp add: fl_def Let_def del: power_numeral)

lemma flt_irrefl [simp]: "\<not> flt x x"
  by (cases x) auto

lemma flt_trans: "flt x y \<Longrightarrow> flt y z \<Longrightarrow> flt x z"
  by (cases x; cases y; cases z) auto

lemma fle_iff: "x \<noteq> NaN \<Longrightarrow> y \<noteq> NaN \<Longrightarrow> fle x y \<longleftrightarrow> \<not> flt y x"
  by (cases x; cases y) auto

lemma fle_trans: "fle x y \<Longrightarrow> fle y z \<Longrightarrow> fle x z"
  by (cases x; cases y; cases z) auto

lemma fle_refl: "x \<noteq> NaN \<Longrightarrow> fle x x"
  by (cases x) auto

lemma fle_total: "x \<noteq> NaN \<Longrightarrow> y \<noteq> NaN \<Longrightarrow> fle x y \<or> fle y x"
  by (cases x; cases y) auto

lemma fle_antisym: "fle x y \<Longrightarrow> fle y x \<Longrightarrow> x = y"
  by (cases x; cases y) auto

lemma fle_not_NaN: "fle x y \<Longrightarrow> x \<noteq> NaN \<and> y \<noteq> NaN"
  by (cases x; cases y) auto

lemma flt_not_NaN: "flt x y \<Longrightarrow> x \<noteq> NaN \<and> y \<noteq> NaN"
  by (cases x; cases y) auto

section \<open>Rounding stays near\<close>

lemma pow2_powi: "pow2 e = 2 powi e"
  by (auto simp: pow2_def power_int_def field_simps)

lemma pow2_add: "pow2 (a + b) = pow2 a * pow2 b"
  by (simp add: pow2_powi power_int_add)

lemma pow2_diff: "pow2 (a - b) = pow2 a / pow2 b"
  by (simp add: pow2_powi power_int_diff)

lemma pow2_le: "a \<le> b \<Longrightarrow> pow2 a \<le> pow2 b"
  by (simp add: pow2_powi power_int_increasing)

lemma pow2_nonneg_exp: "0 \<le> e \<Longrightarrow> pow2 e = of_int (2 ^ nat e)"
  by (simp add: pow2_def)

lemma expo_le:
  assumes "0 < q"
  shows "pow2 (expo q) \<le> q"
proof -
  obtain a b where ab: "quotient_of q = (a, b)" by fastforce
  then have b: "0 < b" by (rule quotient_of_denom_pos)
  have q: "q = of_int a / of_int b" using ab by (rule quotient_of_div)
  then have a: "0 < a" using assms b by (auto simp: zero_less_divide_iff)
  define la lb where "la = ilog2 a" "lb = ilog2 b"
  have la: "pow2 la \<le> of_int a" and lb: "of_int b \<le> pow2 (lb + 1)"
    using ilog2_bounds [OF a] ilog2_bounds [OF b]
    by (simp_all add: la_lb_def pow2_nonneg_exp nat_add_distrib less_imp_le flip: of_int_power)
  have "pow2 (la - lb - 1) = pow2 la / pow2 (lb + 1)"
    by (simp add: pow2_diff [symmetric] algebra_simps)
  also have "\<dots> \<le> of_int a / of_int b"
    using la lb b a by (intro frac_le) auto
  finally have "pow2 (la - lb - 1) \<le> q" by (simp add: q)
  then show ?thesis by (auto simp: expo_def ab Let_def la_lb_def)
qed

lemma rounded_near:
  fixes q :: rat and e :: int
  shows "\<bar>of_int (round_half_even (q / pow2 e)) * pow2 e - q\<bar> \<le> pow2 e / 2"
proof -
  have "of_int (round_half_even (q / pow2 e)) * pow2 e - q =
      (of_int (round_half_even (q / pow2 e)) - q / pow2 e) * pow2 e"
    using less_imp_neq [OF pow2_pos [of e]] by (simp add: field_simps)
  then have "\<bar>of_int (round_half_even (q / pow2 e)) * pow2 e - q\<bar> =
      \<bar>of_int (round_half_even (q / pow2 e)) - q / pow2 e\<bar> * pow2 e"
    by (simp add: abs_mult less_imp_le)
  also have "\<dots> \<le> 1 / 2 * pow2 e"
    using round_half_even_near [of "q / pow2 e"] by (intro mult_right_mono) (auto simp: less_imp_le)
  finally show ?thesis by simp
qed

text \<open>A number of moderate size rounds to a finite float of about its size.\<close>

lemma fl_finite:
  assumes "\<bar>q\<bar> \<le> 2 ^ 1000"
  shows "\<exists>r. fl q = Fin r \<and> \<bar>r\<bar> \<le> 2 * \<bar>q\<bar> + 1"
proof (cases "q = 0")
  case False
  define e where "e = max (expo \<bar>q\<bar> - 52) (- 1074)"
  define r where "r = of_int (round_half_even (q / pow2 e)) * pow2 e"
  have "pow2 e \<le> 2 * \<bar>q\<bar> + 2"
  proof (cases "expo \<bar>q\<bar> - 52 \<ge> - 1074")
    case True
    then have "pow2 e \<le> pow2 (expo \<bar>q\<bar>)" by (intro pow2_le) (simp add: e_def)
    also have "\<dots> \<le> \<bar>q\<bar>" using False by (intro expo_le) simp
    finally show ?thesis using abs_ge_zero [of q] by linarith
  next
    case False
    then have "pow2 e \<le> pow2 0" by (intro pow2_le) (simp add: e_def)
    then show ?thesis using abs_ge_zero [of q] by (simp add: pow2_def)
  qed
  then have r: "\<bar>r\<bar> \<le> 2 * \<bar>q\<bar> + 1"
    using rounded_near [of q e] unfolding r_def by linarith
  have big: "(2::rat) * 2 ^ 1000 + 1 < 2 ^ 1024" by (simp add: eval_nat_numeral)
  with r assms have "\<bar>r\<bar> < 2 ^ 1024" by linarith
  then have "\<not> 2 ^ 1024 \<le> r" "\<not> r \<le> - (2 ^ 1024)"
    unfolding abs_less_iff by linarith+
  then have "fl q = Fin r"
    using False by (simp add: fl_def Let_def e_def r_def del: power_numeral)
  with r show ?thesis by blast
qed simp

text \<open>Dyadic numbers of at most 53 bits are represented exactly.\<close>

lemma fl_exact:
  assumes "\<bar>m\<bar> < 2 ^ 53" "k \<le> 1000"
  shows "fl (of_int m / 2 ^ k) = Fin (of_int m / 2 ^ k)"
proof (cases "m = 0")
  case False
  let ?q = "of_int m / 2 ^ k :: rat"
  define e where "e = max (expo \<bar>?q\<bar> - 52) (- 1074)"
  have abs: "\<bar>?q\<bar> = of_int \<bar>m\<bar> / 2 ^ k" by simp
  have pos: "0 < \<bar>?q\<bar>" using False by simp
  have "pow2 (expo \<bar>?q\<bar>) \<le> \<bar>?q\<bar>" using pos by (intro expo_le)
  also have "\<dots> < 2 ^ 53 / 2 ^ k" unfolding abs
    using assms(1) by (intro divide_strict_right_mono) (metis of_int_less_iff of_int_numeral of_int_power, simp)
  also have "\<dots> = pow2 (53 - int k)" by (simp add: pow2_diff) (simp add: pow2_def)
  finally have "expo \<bar>?q\<bar> < 53 - int k" using pow2_le [of "53 - int k" "expo \<bar>?q\<bar>"] by linarith
  then have e: "e \<le> - int k" using assms(2) by (simp add: e_def)
  have "?q = of_int m * pow2 (- int k)" by (simp add: pow2_def)
  also have "pow2 (- int k) = pow2 (- int k - e) * pow2 e" by (simp flip: pow2_add)
  finally have "?q / pow2 e = of_int m * pow2 (- int k - e)" by (simp add: pow2_pos [THEN less_imp_neq, THEN not_sym])
  also have "\<dots> = of_int (m * 2 ^ nat (- int k - e))" using e by (simp add: pow2_nonneg_exp)
  finally have *: "of_int (round_half_even (?q / pow2 e)) * pow2 e = ?q"
    using pow2_pos [of e] by (metis nonzero_eq_divide_eq order_less_irrefl round_half_even_of_int)
  have small: "\<bar>?q\<bar> < 2 ^ 1024"
  proof -
    have "\<bar>?q\<bar> \<le> of_int \<bar>m\<bar>" unfolding abs by (simp add: divide_le_eq mult_le_cancel_left1)
    also have "\<dots> < 2 ^ 53" using assms(1) by (metis of_int_less_iff of_int_numeral of_int_power)
    also have "(2 ^ 53 :: rat) \<le> 2 ^ 1024" by (intro power_increasing) auto
    finally show ?thesis .
  qed
  have big: "\<not> 2 ^ 1024 \<le> ?q" "\<not> ?q \<le> - (2 ^ 1024)"
    using small unfolding abs_less_iff by linarith+
  show ?thesis
    unfolding fl_def Let_def e_def [symmetric] * using False big by simp
qed simp

lemma fl_int: "\<bar>m\<bar> < 2 ^ 53 \<Longrightarrow> fl (of_int m) = Fin (of_int m)"
  using fl_exact [of m 0] by simp

end
