(* ===== verification/Json.thy ===== *)
theory Json
  imports PyFloat "HOL-Library.Char_ord" "HOL-Library.List_Lexorder" "HOL-Library.Multiset"
begin

text \<open>
  JSON values as Python holds them after decoding: what request payloads, error details, audit
  contexts and JSON columns contain. Also \<open>bool(v)\<close>, \<open>repr\<close> of a float, and \<open>json.dumps\<close> with
  \<open>sort_keys=True\<close> and the compact separators that the audit agent uses.
\<close>

datatype json =
    JNull
  | JBool bool
  | JInt int
  | JFloat pyfloat
  | JStr string
  | JArr "json list"
  | JObj "(string \<times> json) list"

type_synonym json_dict = "(string, json) dict"

fun truthy :: "json \<Rightarrow> bool" where
  "truthy JNull = False"
| "truthy (JBool b) = b"
| "truthy (JInt i) = (i \<noteq> 0)"
| "truthy (JFloat x) = (x \<noteq> Fin 0)"
| "truthy (JStr s) = (s \<noteq> [])"
| "truthy (JArr xs) = (xs \<noteq> [])"
| "truthy (JObj d) = (d \<noteq> [])"

text \<open>\<open>payload.get(k, default)\<close>\<close>

definition jget :: "string \<Rightarrow> json \<Rightarrow> json_dict \<Rightarrow> json" where
  "jget k dflt d = (case dict_get k d of None \<Rightarrow> dflt | Some v \<Rightarrow> v)"

definition jopt :: "('a \<Rightarrow> json) \<Rightarrow> 'a option \<Rightarrow> json" where
  "jopt f x = (case x of None \<Rightarrow> JNull | Some y \<Rightarrow> f y)"

section \<open>repr of a float\<close>

text \<open>
  The shortest decimal that rounds back to the float, the nearest one among those of that length.
  \<open>decimal_exp q\<close> is the power of ten of the leading digit.
\<close>

function ilog10 :: "int \<Rightarrow> int" where
  "ilog10 n = (if n < 10 then 0 else 1 + ilog10 (n div 10))"
  by pat_completeness auto
termination
  by (relation "measure nat") auto

declare ilog10.simps [simp del]

definition pow10 :: "int \<Rightarrow> rat" where
  "pow10 e = (if 0 \<le> e then of_int (10 ^ nat e) else 1 / of_int (10 ^ nat (- e)))"

definition decimal_exp :: "rat \<Rightarrow> int" where
  "decimal_exp q = (case quotient_of q of (a, b) \<Rightarrow>
     let e = ilog10 a - ilog10 b
     in if q < pow10 e then e - 1 else if pow10 (e + 1) \<le> q then e + 1 else e)"

text \<open>The decimals of \<open>n\<close> significant digits around \<open>q\<close> that round to it, as digits and exponent.\<close>

definition digit_candidates :: "rat \<Rightarrow> nat \<Rightarrow> (int \<times> int) list" where
  "digit_candidates q n =
     (let e = decimal_exp q - int n + 1; m = \<lfloor>q / pow10 e\<rfloor>;
          near = (if 2 * (q / pow10 e - of_int m) < 1
                    \<or> (2 * (q / pow10 e - of_int m) = 1 \<and> even m) then [m, m + 1] else [m + 1, m])
      in map (\<lambda>d. (d, e)) (filter (\<lambda>d. fl (of_int d * pow10 e) = Fin q) near))"

definition shortest_digits :: "rat \<Rightarrow> int \<times> int" where
  "shortest_digits q = (case concat (map (digit_candidates q) [1..<18]) of
     [] \<Rightarrow> (0, 0) | c # _ \<Rightarrow> c)"

function drop_zeros :: "int \<times> int \<Rightarrow> int \<times> int" where
  "drop_zeros (d, e) = (if d \<noteq> 0 \<and> d mod 10 = 0 then drop_zeros (d div 10, e + 1) else (d, e))"
  by pat_completeness auto
termination
  by (relation "measure (\<lambda>(d, e). nat \<bar>d\<bar>)") auto

declare drop_zeros.simps [simp del]

text \<open>
  Positional form with a point for exponents from \<open>-4\<close> to \<open>15\<close>, otherwise scientific form with an
  exponent of at least two digits.
\<close>

definition float_repr_pos :: "rat \<Rightarrow> string" where
  "float_repr_pos q =
     (case drop_zeros (shortest_digits q) of (d, e) \<Rightarrow>
        let s = int_str d; k = int (length s); p = k + e;
            i = nat p; x = p - 1
        in if - 4 \<le> x \<and> x < 16 then
             (if p \<le> 0 then ''0.'' @ replicate (nat (- p)) (CHR ''0'') @ s
              else if k \<le> p then s @ replicate (nat (p - k)) (CHR ''0'') @ ''.0''
              else take i s @ ''.'' @ drop i s)
           else (take 1 s @ (if k = 1 then [] else CHR ''.'' # drop 1 s)
                 @ (if x < 0 then ''e-'' else ''e+'') @ pad_zeros 2 (int_str \<bar>x\<bar>)))"

fun float_repr :: "pyfloat \<Rightarrow> string" where
  "float_repr (Fin q) =
     (if q = 0 then ''0.0'' else if q < 0 then CHR ''-'' # float_repr_pos (- q) else float_repr_pos q)"
| "float_repr PInf = ''inf''"
| "float_repr NInf = ''-inf''"
| "float_repr NaN = ''nan''"

section \<open>json.dumps\<close>

definition hex4 :: "nat \<Rightarrow> string" where
  "hex4 n = (let h = (\<lambda>k. if k < 10 then char_of (48 + k) else char_of (87 + k))
             in [CHR ''0'', CHR ''0'', h (n div 16 mod 16), h (n mod 16)])"

definition escape_char :: "char \<Rightarrow> string" where
  "escape_char c =
     (let n = code c; bs = CHR 0x5C
      in if n = 34 \<or> n = 92 then [bs, c]
         else if n = 10 then [bs, CHR ''n'']
         else if n = 13 then [bs, CHR ''r'']
         else if n = 9 then [bs, CHR ''t'']
         else if n = 12 then [bs, CHR ''f'']
         else if n = 8 then [bs, CHR ''b'']
         else if 32 \<le> n \<and> n \<le> 126 then [c]
         else [bs, CHR ''u''] @ hex4 n)"

definition dump_string :: "string \<Rightarrow> string" where
  "dump_string s = CHR 0x22 # concat (map escape_char s) @ [CHR 0x22]"

definition dump_float :: "pyfloat \<Rightarrow> string" where
  "dump_float x = (case x of PInf \<Rightarrow> ''Infinity'' | NInf \<Rightarrow> ''-Infinity'' | NaN \<Rightarrow> ''NaN''
     | Fin _ \<Rightarrow> float_repr x)"

text \<open>\<open>json.dumps(v, sort_keys=True, separators=(',', ':'))\<close>\<close>

fun dumps :: "json \<Rightarrow> string" where
  "dumps JNull = ''null''"
| "dumps (JBool b) = (if b then ''true'' else ''false'')"
| "dumps (JInt i) = int_str i"
| "dumps (JFloat x) = dump_float x"
| "dumps (JStr s) = dump_string s"
| "dumps (JArr xs) = ''['' @ join '','' (map dumps xs) @ '']''"
| "dumps (JObj d) =
     ''{'' @ join '',''
       (map (\<lambda>(k, s). dump_string k @ '':'' @ s)
         (sort_key fst (map (\<lambda>(k, v). (k, dumps v)) d))) @ ''}''"

text \<open>\<open>json.dumps(v)\<close>: insertion order and the default separators.\<close>

fun dumps_default :: "json \<Rightarrow> string" where
  "dumps_default (JArr xs) = ''['' @ join '', '' (map dumps_default xs) @ '']''"
| "dumps_default (JObj d) =
     ''{'' @ join '', '' (map (\<lambda>(k, v). dump_string k @ '': '' @ dumps_default v) d) @ ''}''"
| "dumps_default v = dumps v"

section \<open>Equality of dictionaries and the canonical form\<close>

text \<open>
  Python compares dictionaries without regard to the order of their items. \<open>json_eqv\<close> is that
  equality on values whose objects have distinct keys.
\<close>

inductive json_eqv :: "json \<Rightarrow> json \<Rightarrow> bool" where
  eqv_refl: "json_eqv v v"
| eqv_arr: "list_all2 json_eqv xs ys \<Longrightarrow> json_eqv (JArr xs) (JArr ys)"
| eqv_obj: "distinct (map fst d) \<Longrightarrow> mset d = mset d' \<Longrightarrow>
     list_all2 (\<lambda>p q. fst p = fst q \<and> json_eqv (snd p) (snd q)) d' d'' \<Longrightarrow>
     json_eqv (JObj d) (JObj d'')"

lemma filter_key_unique:
  "distinct (map fst zs) \<Longrightarrow> length (filter (\<lambda>x. k = fst x) zs) \<le> 1"
  by (induction zs) (auto simp: filter_empty_conv)

lemma short_lists_mset_eq: "length xs \<le> 1 \<Longrightarrow> mset xs = mset ys \<Longrightarrow> xs = ys"
  by (cases xs) auto

lemma sort_key_fst_perm:
  assumes "distinct (map fst xs)" "mset xs = mset ys"
  shows "sort_key fst xs = sort_key fst ys"
proof (rule properties_for_sort_key)
  show "mset (sort_key fst ys) = mset xs" using assms(2) by simp
  show "sorted (map fst (sort_key fst ys))" by simp
  fix k assume "k \<in> set (sort_key fst ys)"
  have "filter (\<lambda>x. fst k = fst x) xs = filter (\<lambda>x. fst k = fst x) (sort_key fst ys)"
  proof (rule short_lists_mset_eq)
    show "length (filter (\<lambda>x. fst k = fst x) xs) \<le> 1"
      using assms(1) by (rule filter_key_unique)
    show "mset (filter (\<lambda>x. fst k = fst x) xs) = mset (filter (\<lambda>x. fst k = fst x) (sort_key fst ys))"
      using assms(2) by (simp add: mset_filter)
  qed
  then show "filter (\<lambda>x. fst k = fst x) (sort_key fst ys) = filter (\<lambda>x. fst k = fst x) xs"
    by (rule sym)
qed

lemma list_all2_map_eq:
  "list_all2 (\<lambda>x y. f x = g y) xs ys \<Longrightarrow> map f xs = map g ys"
  by (induction rule: list_all2_induct) auto

lemma dumps_eqv: "json_eqv a b \<Longrightarrow> dumps a = dumps b"
proof (induction rule: json_eqv.induct)
  case (eqv_refl v)
  show ?case by (rule refl)
next
  case (eqv_arr xs ys)
  then have "map dumps xs = map dumps ys"
    by (intro list_all2_map_eq) (auto elim: list_all2_mono)
  then show ?case by simp
next
  case (eqv_obj d d' d'')
  let ?f = "\<lambda>(k, v). (k, dumps v)"
  have "map ?f d' = map ?f d''"
    using eqv_obj(3) by (intro list_all2_map_eq) (auto elim!: list_all2_mono)
  moreover have "sort_key fst (map ?f d) = sort_key fst (map ?f d')"
  proof (rule sort_key_fst_perm)
    have "map fst (map ?f d) = map fst d" by (simp add: case_prod_unfold)
    with eqv_obj(1) show "distinct (map fst (map ?f d))" by (simp only:)
    show "mset (map ?f d) = mset (map ?f d')" using eqv_obj(2) by (simp add: mset_map)
  qed
  ultimately show ?case by simp
qed

end
