(* ===== verification/Errors.thy ===== *)
theory Errors
  imports Json
begin

text \<open>
  The application error hierarchy of core/errors.py, the exceptions of the program as one type, and
  the handlers of api/exception_handlers.py that turn an exception into a status code and the
  canonical envelope.
\<close>

section \<open>AppError and its subclasses\<close>

datatype app_class =
    AppError
  | ValidationAppError
  | AuthenticationError
  | AuthorizationError
  | NotFoundError
  | ConflictError
  | RateLimitError
  | WorkflowStateError
  | LLMProviderError
  | ModelRouterError
  | AgentError

text \<open>The base class of each class; attributes that a class does not set come from its base.\<close>

fun base_class :: "app_class \<Rightarrow> app_class option" where
  "base_class AppError = None"
| "base_class WorkflowStateError = Some ConflictError"
| "base_class c = Some AppError"

definition is_instance :: "app_class \<Rightarrow> app_class \<Rightarrow> bool" where
  "is_instance c d \<longleftrightarrow> c = d \<or> base_class c = Some d
     \<or> (case base_class c of None \<Rightarrow> False | Some b \<Rightarrow> base_class b = Some d)"

fun err_code :: "app_class \<Rightarrow> string" where
  "err_code AppError = ''app_error''"
| "err_code ValidationAppError = ''validation_error''"
| "err_code AuthenticationError = ''authentication_error''"
| "err_code AuthorizationError = ''authorization_error''"
| "err_code NotFoundError = ''not_found''"
| "err_code ConflictError = ''conflict''"
| "err_code RateLimitError = ''rate_limited''"
| "err_code WorkflowStateError = ''invalid_workflow_state''"
| "err_code LLMProviderError = ''llm_provider_error''"
| "err_code ModelRouterError = ''model_router_error''"
| "err_code AgentError = ''agent_error''"

fun own_status_code :: "app_class \<Rightarrow> nat option" where
  "own_status_code AppError = Some 500"
| "own_status_code ValidationAppError = Some 422"
| "own_status_code AuthenticationError = Some 401"
| "own_status_code AuthorizationError = Some 403"
| "own_status_code NotFoundError = Some 404"
| "own_status_code ConflictError = Some 409"
| "own_status_code RateLimitError = Some 429"
| "own_status_code WorkflowStateError = None"
| "own_status_code LLMProviderError = Some 502"
| "own_status_code ModelRouterError = Some 503"
| "own_status_code AgentError = Some 500"

text \<open>Attribute lookup through the base classes; the hierarchy is three deep.\<close>

definition status_code :: "app_class \<Rightarrow> nat" where
  "status_code c = (case own_status_code c of Some n \<Rightarrow> n
     | None \<Rightarrow> (case base_class c of None \<Rightarrow> 500
         | Some b \<Rightarrow> (case own_status_code b of Some n \<Rightarrow> n | None \<Rightarrow> 500)))"

fun class_message :: "app_class \<Rightarrow> string" where
  "class_message AppError = ''An unexpected error occurred.''"
| "class_message ValidationAppError = ''Request validation failed.''"
| "class_message AuthenticationError = ''Authentication required or failed.''"
| "class_message AuthorizationError = ''You do not have permission to perform this action.''"
| "class_message NotFoundError = ''Resource not found.''"
| "class_message ConflictError = ''The request conflicts with the current state.''"
| "class_message RateLimitError = ''Too many requests.''"
| "class_message WorkflowStateError =
     ''The workflow is not in a state that allows this transition.''"
| "class_message LLMProviderError = ''An LLM provider call failed.''"
| "class_message ModelRouterError = ''No LLM provider was able to serve the request.''"
| "class_message AgentError = ''An agent failed to complete its task.''"

section \<open>Exceptions\<close>

text \<open>
  An exception is an application error with its message and details, or any other Python exception
  with its class name and its \<open>str()\<close>.
\<close>

datatype exn =
    App app_class string json_dict
  | Py string string

definition mk_app :: "app_class \<Rightarrow> string option \<Rightarrow> json_dict option \<Rightarrow> exn" where
  "mk_app c msg det =
     App c (case msg of Some (m # ms) \<Rightarrow> m # ms | _ \<Rightarrow> class_message c)
       (case det of None \<Rightarrow> [] | Some d \<Rightarrow> d)"

abbreviation app_err :: "app_class \<Rightarrow> string \<Rightarrow> exn" where
  "app_err c msg \<equiv> mk_app c (Some msg) None"

abbreviation app_err_details :: "app_class \<Rightarrow> string \<Rightarrow> json_dict \<Rightarrow> exn" where
  "app_err_details c msg det \<equiv> mk_app c (Some msg) (Some det)"

fun class_name :: "app_class \<Rightarrow> string" where
  "class_name AppError = ''AppError''"
| "class_name ValidationAppError = ''ValidationAppError''"
| "class_name AuthenticationError = ''AuthenticationError''"
| "class_name AuthorizationError = ''AuthorizationError''"
| "class_name NotFoundError = ''NotFoundError''"
| "class_name ConflictError = ''ConflictError''"
| "class_name RateLimitError = ''RateLimitError''"
| "class_name WorkflowStateError = ''WorkflowStateError''"
| "class_name LLMProviderError = ''LLMProviderError''"
| "class_name ModelRouterError = ''ModelRouterError''"
| "class_name AgentError = ''AgentError''"

text \<open>\<open>type(exc).__name__\<close> and \<open>str(exc)\<close>.\<close>

fun exn_name :: "exn \<Rightarrow> string" where
  "exn_name (App c m d) = class_name c"
| "exn_name (Py n m) = n"

fun exn_str :: "exn \<Rightarrow> string" where
  "exn_str (App c m d) = m"
| "exn_str (Py n m) = m"

definition exn_is :: "app_class \<Rightarrow> exn \<Rightarrow> bool" where
  "exn_is c e = (case e of App d _ _ \<Rightarrow> is_instance d c | Py _ _ \<Rightarrow> False)"

text \<open>The text \<open>f"{type(exc).__name__}: {exc}"\<close> the agents record for an unexpected exception.\<close>

definition describe_exn :: "exn \<Rightarrow> string" where
  "describe_exn e = exn_name e @ '': '' @ exn_str e"

type_synonym 'a res = "exn + 'a"

section \<open>The envelope and the HTTP responses\<close>

definition envelope :: "string \<Rightarrow> string \<Rightarrow> json_dict \<Rightarrow> json" where
  "envelope c m d =
     JObj [(''error'', JObj [(''code'', JStr c), (''message'', JStr m), (''details'', JObj d)])]"

definition to_envelope :: "app_class \<Rightarrow> string \<Rightarrow> json_dict \<Rightarrow> json" where
  "to_envelope c m d = envelope (err_code c) m d"

text \<open>What the framework raises for a request that does not match the declared schema.\<close>

record validation_item =
  vi_loc :: "string list"
  vi_msg :: string
  vi_type :: string

datatype http_exn =
    AppExn exn
  | RequestValidation "validation_item list"
  | StarletteHTTP nat string

definition safe_errors :: "validation_item list \<Rightarrow> json" where
  "safe_errors errs =
     JArr (map (\<lambda>e. JObj [(''loc'', JArr (map JStr (vi_loc e))), (''msg'', JStr (vi_msg e)),
                          (''type'', JStr (vi_type e))]) errs)"

definition app_error_handler :: "app_class \<Rightarrow> string \<Rightarrow> json_dict \<Rightarrow> nat \<times> json" where
  "app_error_handler c m d = (status_code c, to_envelope c m d)"

definition validation_handler :: "validation_item list \<Rightarrow> nat \<times> json" where
  "validation_handler errs =
     (422, envelope ''validation_error'' ''Request validation failed.''
        [(''errors'', safe_errors errs)])"

definition http_exception_handler :: "nat \<Rightarrow> string \<Rightarrow> nat \<times> json" where
  "http_exception_handler st detail = (st, envelope ''http_error'' detail [])"

definition unhandled_handler :: "exn \<Rightarrow> nat \<times> json" where
  "unhandled_handler e =
     (500, envelope ''internal_error'' ''An unexpected error occurred.'' [])"

text \<open>The handlers as registered: the most specific class of the exception wins.\<close>

definition render_exception :: "http_exn \<Rightarrow> nat \<times> json" where
  "render_exception x = (case x of
       AppExn (App c m d) \<Rightarrow> app_error_handler c m d
     | AppExn (Py n m) \<Rightarrow> unhandled_handler (Py n m)
     | RequestValidation errs \<Rightarrow> validation_handler errs
     | StarletteHTTP st detail \<Rightarrow> http_exception_handler st detail)"

lemma exn_is_mk_app [simp]: "exn_is c (mk_app d m det) = is_instance d c"
  by (simp add: exn_is_def mk_app_def)

lemma is_instance_refl [simp]: "is_instance c c"
  by (simp add: is_instance_def)

lemma is_instance_AppError [simp]: "is_instance c AppError"
  by (cases c) (simp_all add: is_instance_def)

lemma is_instance_leaf:
  "d \<in> {LLMProviderError, AgentError, WorkflowStateError, AuthorizationError, AuthenticationError,
    NotFoundError, ModelRouterError, ValidationAppError} \<Longrightarrow> is_instance c d \<longleftrightarrow> c = d"
  by (cases c) (auto simp: is_instance_def)

lemma mk_app_message: "m \<noteq> [] \<Longrightarrow> mk_app c (Some m) det = App c m (case det of None \<Rightarrow> [] | Some d \<Rightarrow> d)"
  by (cases m) (simp_all add: mk_app_def)

text \<open>An error body has exactly one shape, and an unexpected exception leaks nothing of itself.\<close>

definition is_envelope :: "json \<Rightarrow> bool" where
  "is_envelope j \<longleftrightarrow> (\<exists>c m d. j = envelope c m d)"

lemma render_is_envelope: "is_envelope (snd (render_exception x))"
  by (auto simp: render_exception_def is_envelope_def app_error_handler_def to_envelope_def
      unhandled_handler_def validation_handler_def http_exception_handler_def
      split: http_exn.splits exn.splits)

end
