(* ===== verification/Uuid.thy ===== *)
theory Uuid
  imports PyString "HOL-Library.Word"
begin

text \<open>
  \<open>uuid.UUID\<close>: a 128-bit value, its canonical text \<open>8-4-4-4-12\<close> and the parser the constructor
  runs on a string (removal of \<open>urn:\<close> and \<open>uuid:\<close>, of braces at the ends and of hyphens, a length
  check, and \<open>int(hex, 16)\<close> with Python's liberal syntax). The round trip is what the services use
  when they store \<open>str(id)\<close> and read it back.
\<close>

type_synonym uuid = "128 word"

definition hex_char :: "nat \<Rightarrow> char" where
  "hex_char n = (if n < 10 then char_of (48 + n) else char_of (87 + n))"

definition hex_digit :: "char \<Rightarrow> nat option" where
  "hex_digit c =
     (if 48 \<le> code c \<and> code c \<le> 57 then Some (code c - 48)
      else if 97 \<le> code c \<and> code c \<le> 102 then Some (code c - 87)
      else if 65 \<le> code c \<and> code c \<le> 70 then Some (code c - 55)
      else None)"

fun hex_fixed :: "nat \<Rightarrow> nat \<Rightarrow> string" where
  "hex_fixed 0 n = []"
| "hex_fixed (Suc k) n = hex_fixed k (n div 16) @ [hex_char (n mod 16)]"

definition uuid_hex :: "uuid \<Rightarrow> string" where
  "uuid_hex u = hex_fixed 32 (unat u)"

definition uuid_str :: "uuid \<Rightarrow> string" where
  "uuid_str u =
     (let h = uuid_hex u
      in take 8 h @ ''-'' @ take 4 (drop 8 h) @ ''-'' @ take 4 (drop 12 h) @ ''-''
         @ take 4 (drop 16 h) @ ''-'' @ drop 20 h)"

text \<open>\<open>s.replace(p, '')\<close> for a non-empty \<open>p\<close>: occurrences from left to right.\<close>

function remove_all :: "string \<Rightarrow> string \<Rightarrow> string" where
  "remove_all p [] = []"
| "remove_all p (c # cs) =
     (if p \<noteq> [] \<and> starts_with p (c # cs) then remove_all p (drop (length p) (c # cs))
      else c # remove_all p cs)"
  by pat_completeness auto
termination
  by (relation "measure (\<lambda>(p, s). length s)") (auto simp: neq_Nil_conv)

definition strip_chars :: "char set \<Rightarrow> string \<Rightarrow> string" where
  "strip_chars cs s = rev (dropWhile (\<lambda>c. c \<in> cs) (rev (dropWhile (\<lambda>c. c \<in> cs) s)))"

text \<open>Hexadecimal digits with single underscores between them, from the left.\<close>

fun hex_digits :: "nat \<Rightarrow> string \<Rightarrow> nat option" where
  "hex_digits acc [] = Some acc"
| "hex_digits acc (c # cs) =
     (if c = CHR ''_'' then
        (case cs of [] \<Rightarrow> None
         | d # ds \<Rightarrow> (case hex_digit d of None \<Rightarrow> None | Some v \<Rightarrow> hex_digits (16 * acc + v) ds))
      else (case hex_digit c of None \<Rightarrow> None | Some v \<Rightarrow> hex_digits (16 * acc + v) cs))"

definition int_base16 :: "string \<Rightarrow> int option" where
  "int_base16 s =
     (let t = strip s;
          neg = starts_with ''-'' t;
          u = (if neg \<or> starts_with ''+'' t then drop 1 t else t);
          pre = starts_with ''0x'' (lower u);
          v = (if pre then drop 2 u else u);
          w = (if pre \<and> starts_with ''_'' v then drop 1 v else v)
      in case w of [] \<Rightarrow> None
         | c # cs \<Rightarrow>
             (case hex_digit c of None \<Rightarrow> None
              | Some d \<Rightarrow> map_option (\<lambda>n. if neg then - int n else int n) (hex_digits d cs)))"

text \<open>\<open>uuid.UUID(s)\<close>; \<open>None\<close> is the \<open>ValueError\<close> of a badly formed string.\<close>

definition uuid_parse :: "string \<Rightarrow> uuid option" where
  "uuid_parse s =
     (let h = remove_all ''-'' (strip_chars {CHR ''{'', CHR ''}''}
                (remove_all ''uuid:'' (remove_all ''urn:'' s)))
      in if length h \<noteq> 32 then None
         else case int_base16 h of None \<Rightarrow> None
              | Some n \<Rightarrow> if 0 \<le> n \<and> n < 2 ^ 128 then Some (word_of_int n) else None)"

section \<open>Round trip\<close>

lemma hex_digit_char [simp]: "n < 16 \<Longrightarrow> hex_digit (hex_char n) = Some n"
  by (auto simp: hex_digit_def hex_char_def)

definition is_hex :: "char \<Rightarrow> bool" where
  "is_hex c \<longleftrightarrow> (48 \<le> code c \<and> code c \<le> 57) \<or> (97 \<le> code c \<and> code c \<le> 102)"

lemma is_hex_char: "n < 16 \<Longrightarrow> is_hex (hex_char n)"
  by (auto simp: is_hex_def hex_char_def)

lemma length_hex_fixed [simp]: "length (hex_fixed k n) = k"
  by (induction k arbitrary: n) auto

lemma hex_fixed_is_hex: "c \<in> set (hex_fixed k n) \<Longrightarrow> is_hex c"
  by (induction k arbitrary: n) (auto simp: is_hex_char)

lemma code_lits [simp]:
  "code (CHR ''-'') = 45" "code (CHR ''+'') = 43" "code (CHR ''_'') = 95" "code (CHR ''x'') = 120"
  "code (CHR ''u'') = 117" "code (CHR ''{'') = 123" "code (CHR ''}'') = 125"
  by (simp_all add: code_def)

lemma is_hex_not:
  assumes "is_hex c"
  shows "c \<noteq> CHR ''-''" "c \<noteq> CHR ''+''" "c \<noteq> CHR ''_''" "c \<noteq> CHR ''x''" "c \<noteq> CHR ''u''"
    "c \<noteq> CHR ''{''" "c \<noteq> CHR ''}''" "\<not> is_space c" "lower_char c = c"
  using assms by (auto simp: is_hex_def is_space_def lower_char_def is_upper_def)

lemma hex_digits_append:
  "(\<forall>c \<in> set s. is_hex c) \<Longrightarrow> hex_digits acc (s @ t) =
     (case hex_digits acc s of None \<Rightarrow> None | Some a \<Rightarrow> hex_digits a t)"
  by (induction acc s rule: hex_digits.induct) (auto simp: is_hex_not split: option.splits)

lemma hex_digits_fixed: "n < 16 ^ k \<Longrightarrow> hex_digits acc (hex_fixed k n) = Some (acc * 16 ^ k + n)"
proof (induction k arbitrary: n)
  case 0
  then show ?case by simp
next
  case (Suc k)
  then have n: "n div 16 < 16 ^ k" by (simp add: less_mult_imp_div_less mult.commute)
  have "hex_char (n mod 16) \<noteq> CHR ''_''" using is_hex_char is_hex_not(3) by auto
  then have "hex_digits acc (hex_fixed (Suc k) n) = Some (16 * (acc * 16 ^ k + n div 16) + n mod 16)"
    by (simp add: hex_digits_append hex_fixed_is_hex Suc.IH [OF n])
  then show ?case by (simp add: algebra_simps)
qed

lemma starts_with_Cons: "starts_with (p # ps) (c # cs) \<longleftrightarrow> p = c \<and> starts_with ps cs"
  by (auto simp: starts_with_def)

lemma starts_with_empty: "starts_with (p # ps) [] \<longleftrightarrow> False"
  by (simp add: starts_with_def)

lemma remove_all_absent: "p = q # qs \<Longrightarrow> q \<notin> set s \<Longrightarrow> remove_all p s = s"
  by (induction p s rule: remove_all.induct) (auto simp: starts_with_Cons)

lemma remove_all_hyphen: "remove_all ''-'' (s @ t) = remove_all ''-'' s @ remove_all ''-'' t"
  by (induction s) (auto simp: starts_with_Cons)

lemma int_base16_fixed:
  assumes "n < 16 ^ Suc k"
  shows "int_base16 (hex_fixed (Suc k) n) = Some (int n)"
proof -
  define s where "s = hex_fixed (Suc k) n"
  have hex: "is_hex c" if "c \<in> set s" for c using that hex_fixed_is_hex s_def by blast
  have "length s = Suc k" by (simp only: s_def length_hex_fixed)
  then obtain c cs where s: "s = c # cs" by (cases s) auto
  have "strip s = s" using hex is_hex_not(8) by (intro strip_no_space) blast
  moreover have "\<not> starts_with ''-'' s" "\<not> starts_with ''+'' s"
    using hex is_hex_not(1,2) by (auto simp: s starts_with_Cons)
  moreover have "\<not> starts_with ''0x'' (lower s)"
  proof
    assume "starts_with ''0x'' (lower s)"
    then have "CHR ''x'' \<in> set (lower s)"
      by (auto simp: starts_with_prefix prefix_def)
    then obtain d where "d \<in> set s" "lower_char d = CHR ''x''" by (auto simp: lower_def)
    then show False using hex is_hex_not(4,9) by metis
  qed
  moreover have "c \<noteq> CHR ''_''" "is_hex c" using hex s is_hex_not(3) by auto
  moreover have "hex_digits 0 s = Some n"
    using hex_digits_fixed [OF assms, of 0] by (simp add: s_def del: hex_fixed.simps)
  ultimately have "int_base16 s = Some (int n)"
    by (auto simp: int_base16_def s split: option.splits)
  then show ?thesis by (simp add: s_def)
qed

lemma remove_all_uuid_str: "remove_all ''-'' (uuid_str u) = uuid_hex u"
proof -
  let ?h = "uuid_hex u"
  have hex: "remove_all ''-'' s = s" if "set s \<subseteq> set ?h" for s
  proof (rule remove_all_absent [OF refl])
    show "CHR ''-'' \<notin> set s" using that is_hex_not(1) hex_fixed_is_hex
      unfolding uuid_hex_def by blast
  qed
  have take_h: "set (take i (drop j ?h)) \<subseteq> set ?h" "set (drop j ?h) \<subseteq> set ?h"
    "set (take i ?h) \<subseteq> set ?h" for i j
    by (meson set_drop_subset set_take_subset subset_trans)+
  have split: "?h = take 8 ?h @ take 4 (drop 8 ?h) @ take 4 (drop 12 ?h) @ take 4 (drop 16 ?h) @ drop 20 ?h"
    using append_take_drop_id [of 8 ?h] append_take_drop_id [of 4 "drop 8 ?h"]
      append_take_drop_id [of 4 "drop 12 ?h"] append_take_drop_id [of 4 "drop 16 ?h"]
    by simp
  show ?thesis
    unfolding uuid_str_def Let_def
    by (simp only: remove_all_hyphen hex take_h)
       (simp add: starts_with_Cons split [symmetric])
qed

lemma uuid_str_chars: "c \<in> set (uuid_str u) \<Longrightarrow> is_hex c \<or> c = CHR ''-''"
  unfolding uuid_str_def Let_def uuid_hex_def
  by (auto dest!: in_set_takeD in_set_dropD hex_fixed_is_hex)

lemma strip_chars_absent: "set s \<inter> cs = {} \<Longrightarrow> strip_chars cs s = s"
  unfolding strip_chars_def by (subst (1 2) dropWhile_none) (auto simp: dropWhile_none)

theorem uuid_roundtrip: "uuid_parse (uuid_str u) = Some u"
proof -
  let ?s = "uuid_str u"
  have "remove_all ''urn:'' ?s = ?s" "remove_all ''uuid:'' ?s = ?s"
    using uuid_str_chars is_hex_not(5) by (auto intro!: remove_all_absent)
  moreover have "strip_chars {CHR ''{'', CHR ''}''} ?s = ?s"
    using uuid_str_chars [of _ u] is_hex_not(6,7) by (intro strip_chars_absent) auto
  moreover have "int_base16 (uuid_hex u) = Some (int (unat u))"
    unfolding uuid_hex_def using int_base16_fixed [of "unat u" 31] unsigned_less [of u]
    by (simp del: hex_fixed.simps)
  moreover have "length (uuid_hex u) = 32"
    by (simp only: uuid_hex_def length_hex_fixed)
  moreover have "uint u < 2 ^ 128" using unsigned_less [of u] by simp
  ultimately show ?thesis
    by (simp add: uuid_parse_def remove_all_uuid_str)
qed

lemma uuid_str_inj: "uuid_str u = uuid_str v \<longleftrightarrow> u = v"
  by (metis option.inject uuid_roundtrip)

lemma uuid_str_not_Nil [simp]: "uuid_str u \<noteq> []"
  by (simp add: uuid_str_def Let_def)

end
