(* ===== verification/LlmTypes.thy ===== *)
theory LlmTypes
  imports StrEnum Errors Uuid
begin

text \<open>
  ai/types.py and ai/cost.py: the requests and results that agents, router and providers exchange,
  and the token-cost estimate.
\<close>

section \<open>Messages, requests, results\<close>

datatype msg_role =
    MSG_SYSTEM
  | MSG_USER
  | MSG_ASSISTANT

fun msg_role_value :: "msg_role \<Rightarrow> string" where
  "msg_role_value MSG_SYSTEM = ''system''"
| "msg_role_value MSG_USER = ''user''"
| "msg_role_value MSG_ASSISTANT = ''assistant''"

instantiation msg_role :: enum
begin

definition "enum_msg_role = [MSG_SYSTEM, MSG_USER, MSG_ASSISTANT]"
definition "enum_all_msg_role P \<longleftrightarrow> (\<forall>x \<in> set [MSG_SYSTEM, MSG_USER, MSG_ASSISTANT]. P x)"
definition "enum_ex_msg_role P \<longleftrightarrow> (\<exists>x \<in> set [MSG_SYSTEM, MSG_USER, MSG_ASSISTANT]. P x)"

lemma UNIV_msg_role: "(UNIV :: msg_role set) = set [MSG_SYSTEM, MSG_USER, MSG_ASSISTANT]"
proof (intro equalityI subsetI)
  fix x :: msg_role
  show "x \<in> set [MSG_SYSTEM, MSG_USER, MSG_ASSISTANT]" by (cases x) simp_all
qed simp

instance
  by intro_classes
    (simp_all add: enum_msg_role_def enum_all_msg_role_def enum_ex_msg_role_def UNIV_msg_role)

end

interpretation msg_role: str_enum msg_role_value
proof
  fix x y
  show "msg_role_value x = msg_role_value y \<Longrightarrow> x = y" by (cases x; cases y) simp_all
qed

record chat_message =
  cm_role :: msg_role
  cm_content :: string

record completion_request =
  cq_messages :: "chat_message list"
  cq_max_tokens :: int
  cq_temperature :: pyfloat
  cq_json_mode :: bool
  cq_prompt_version :: "string option"

text \<open>The bounds the model class declares on a request.\<close>

definition request_valid :: "completion_request \<Rightarrow> bool" where
  "request_valid r \<longleftrightarrow> 1 \<le> cq_max_tokens r \<and> cq_max_tokens r \<le> 32000
     \<and> fle (Fin 0) (cq_temperature r) \<and> fle (cq_temperature r) (Fin 2)"

definition estimated_prompt_tokens :: "completion_request \<Rightarrow> int" where
  "estimated_prompt_tokens r =
     max 1 (sum_list (map (\<lambda>m. int (length (cm_content m))) (cq_messages r)) div 4)"

record completion_result =
  cr_text :: string
  cr_provider :: string
  cr_model :: string
  cr_used_fallback :: bool
  cr_fallback_reason :: "string option"
  cr_prompt_tokens :: int
  cr_completion_tokens :: int
  cr_latency_ms :: int

definition total_tokens :: "completion_result \<Rightarrow> int" where
  "total_tokens r = cr_prompt_tokens r + cr_completion_tokens r"

section \<open>Cost\<close>

definition PRICES :: "((string \<times> string) \<times> (pyfloat \<times> pyfloat)) list" where
  "PRICES =
     [((''groq'', ''llama-3.1-8b''), (fl (5 / 100000), fl (8 / 100000))),
      ((''groq'', ''llama-3.1-70b''), (fl (59 / 100000), fl (79 / 100000))),
      ((''groq'', ''mixtral''), (fl (24 / 100000), fl (24 / 100000))),
      ((''local_gemma'', []), (Fin 0, Fin 0)),
      ((''echo'', []), (Fin 0, Fin 0))]"

definition default_price :: "pyfloat \<times> pyfloat" where
  "default_price = (fl (5 / 10000), fl (15 / 10000))"

text \<open>The loop of \<open>_lookup\<close>: the best price so far and the length of its prefix.\<close>

type_synonym price = "pyfloat \<times> pyfloat"

fun lookup_loop ::
  "string \<Rightarrow> string \<Rightarrow> price option \<Rightarrow> int \<Rightarrow> ((string \<times> string) \<times> price) list
     \<Rightarrow> price option \<times> int" where
  "lookup_loop provider model best best_len [] = (best, best_len)"
| "lookup_loop provider model best best_len (((prov, prefix'), price) # rest) =
     (if prov = provider \<and> starts_with prefix' model \<and> best_len < int (length prefix')
      then lookup_loop provider model (Some price) (int (length prefix')) rest
      else lookup_loop provider model best best_len rest)"

definition price_lookup :: "string \<Rightarrow> string \<Rightarrow> price" where
  "price_lookup provider model = (case fst (lookup_loop provider model None (- 1) PRICES) of
     None \<Rightarrow> default_price | Some p \<Rightarrow> p)"

text \<open>\<open>n / 1000.0\<close> for an integer: the divisor is not zero.\<close>

definition per_thousand :: "int \<Rightarrow> pyfloat" where
  "per_thousand n = (case fdiv (fl (of_int n)) (Fin 1000) of None \<Rightarrow> NaN | Some x \<Rightarrow> x)"

definition estimate_cost_usd :: "string \<Rightarrow> string \<Rightarrow> int \<Rightarrow> int \<Rightarrow> pyfloat" where
  "estimate_cost_usd provider model prompt completion =
     (case price_lookup provider model of (in_price, out_price) \<Rightarrow>
        py_round 6 (fadd (fmul (per_thousand prompt) in_price)
                         (fmul (per_thousand completion) out_price)))"

section \<open>Facts\<close>

lemma estimated_prompt_tokens_pos: "1 \<le> estimated_prompt_tokens r"
  by (simp add: estimated_prompt_tokens_def)

lemma lookup_loop_mono: "best_len \<le> snd (lookup_loop p m best best_len ps)"
  by (induction p m best best_len ps rule: lookup_loop.induct) auto

lemma lookup_loop_longest:
  "((p, pre), q) \<in> set ps \<Longrightarrow> starts_with pre m
     \<Longrightarrow> int (length pre) \<le> snd (lookup_loop p m best best_len ps)"
proof (induction p m best best_len ps rule: lookup_loop.induct)
  case (2 p m best best_len prov pre' price rest)
  then show ?case
    using lookup_loop_mono [of "int (length pre')" p m "Some price" rest]
      lookup_loop_mono [of best_len p m best rest]
    by (auto split: if_splits)
qed simp

lemma lookup_loop_source:
  "lookup_loop p m best best_len ps = (best, best_len)
   \<or> (\<exists>pre q. ((p, pre), q) \<in> set ps \<and> starts_with pre m
        \<and> lookup_loop p m best best_len ps = (Some q, int (length pre)))"
proof (induction p m best best_len ps rule: lookup_loop.induct)
  case (2 p m best best_len prov pre' price rest)
  show ?case
  proof (cases "prov = p \<and> starts_with pre' m \<and> best_len < int (length pre')")
    case True
    with "2.IH"(1) [OF True] show ?thesis by (cases price) fastforce
  next
    case False
    with "2.IH"(2) [OF False] show ?thesis by auto
  qed
qed simp

text \<open>The price found is that of a longest matching prefix of the provider, or the default.\<close>

lemma price_lookup_longest:
  "(price_lookup p m = default_price \<and> (\<forall>pre q. ((p, pre), q) \<in> set PRICES \<longrightarrow> \<not> starts_with pre m))
   \<or> (\<exists>pre. ((p, pre), price_lookup p m) \<in> set PRICES \<and> starts_with pre m
        \<and> (\<forall>pre' q. ((p, pre'), q) \<in> set PRICES \<longrightarrow> starts_with pre' m \<longrightarrow> length pre' \<le> length pre))"
  (is "?none \<or> ?some")
proof (cases "lookup_loop p m None (- 1) PRICES = (None, - 1)")
  case True
  then have "\<not> starts_with pre m" if "((p, pre), q) \<in> set PRICES" for pre q
    using lookup_loop_longest [OF that, of m None "- 1"] by auto
  with True show ?thesis by (auto simp: price_lookup_def)
next
  case False
  then obtain pre q where *: "((p, pre), q) \<in> set PRICES" "starts_with pre m"
    "lookup_loop p m None (- 1) PRICES = (Some q, int (length pre))"
    using lookup_loop_source [of p m None "- 1" PRICES] by blast
  moreover have "length pre' \<le> length pre" if "((p, pre'), q') \<in> set PRICES" "starts_with pre' m"
    for pre' q' using lookup_loop_longest [OF that, of None "- 1"] *(3) by simp
  ultimately have ?some by (auto simp: price_lookup_def)
  then show ?thesis by (rule disjI2)
qed

lemma fadd_nonneg: "fle (Fin 0) x \<Longrightarrow> fle (Fin 0) y \<Longrightarrow> fle (Fin 0) (fadd x y)"
  by (cases x; cases y) (auto intro: fl_nonneg)

lemma fmul_nonneg:
  "fle (Fin 0) x \<Longrightarrow> is_finite x \<Longrightarrow> fle (Fin 0) y \<Longrightarrow> is_finite y \<Longrightarrow> fle (Fin 0) (fmul x y)"
  by (cases x; cases y) (auto simp: is_finite_def intro: fl_nonneg)

lemma py_round_nonneg: "fle (Fin 0) x \<Longrightarrow> fle (Fin 0) (py_round n x)"
  by (cases x) (auto intro!: fl_nonneg simp: round_half_even_nonneg)

end
