(* ===== verification/Calendar.thy ===== *)
theory Calendar
  imports PyString
begin

text \<open>
  Calendar dates: validity of a day, the comparison on (month, day) the age computation makes, and
  \<open>datetime.strptime\<close> for the three numeric formats the KYC agent accepts. A directive is the list
  of ways it can match a prefix, in the order the regular expression of \<open>strptime\<close> tries them.
\<close>

record date =
  dt_year :: int
  dt_month :: int
  dt_day :: int

definition is_leap :: "int \<Rightarrow> bool" where
  "is_leap y \<longleftrightarrow> y mod 4 = 0 \<and> (y mod 100 \<noteq> 0 \<or> y mod 400 = 0)"

definition days_in_month :: "int \<Rightarrow> int \<Rightarrow> int" where
  "days_in_month y m = (if m = 2 then if is_leap y then 29 else 28
                        else if m \<in> {4, 6, 9, 11} then 30 else 31)"

definition valid_date :: "date \<Rightarrow> bool" where
  "valid_date d \<longleftrightarrow> 1 \<le> dt_year d \<and> dt_year d \<le> 9999 \<and> 1 \<le> dt_month d \<and> dt_month d \<le> 12
     \<and> 1 \<le> dt_day d \<and> dt_day d \<le> days_in_month (dt_year d) (dt_month d)"

section \<open>strptime\<close>

type_synonym 'a matches = "('a \<times> string) list"

definition dig :: "char \<Rightarrow> int" where
  "dig c = int (digit_val c)"

fun match_two :: "(char \<Rightarrow> bool) \<Rightarrow> (char \<Rightarrow> bool) \<Rightarrow> string \<Rightarrow> int matches" where
  "match_two P Q (a # b # s) = (if P a \<and> Q b then [(10 * dig a + dig b, s)] else [])"
| "match_two P Q s = []"

fun match_one :: "(char \<Rightarrow> bool) \<Rightarrow> string \<Rightarrow> int matches" where
  "match_one P (a # s) = (if P a then [(dig a, s)] else [])"
| "match_one P [] = []"

definition between :: "nat \<Rightarrow> nat \<Rightarrow> char \<Rightarrow> bool" where
  "between m n c \<longleftrightarrow> is_digit c \<and> m \<le> digit_val c \<and> digit_val c \<le> n"

fun match_blank_day :: "string \<Rightarrow> int matches" where
  "match_blank_day (a # b # s) = (if a = CHR 0x20 \<and> between 1 9 b then [(dig b, s)] else [])"
| "match_blank_day s = []"

text \<open>\<open>%m\<close> is \<open>1[0-2]|0[1-9]|[1-9]\<close>, \<open>%d\<close> is \<open>3[0-1]|[1-2]\d|0[1-9]|[1-9]| [1-9]\<close>, \<open>%Y\<close> is \<open>\d\d\d\d\<close>.\<close>

definition match_month :: "string \<Rightarrow> int matches" where
  "match_month s = match_two (between 1 1) (between 0 2) s @ match_two (between 0 0) (between 1 9) s
     @ match_one (between 1 9) s"

definition match_day :: "string \<Rightarrow> int matches" where
  "match_day s = match_two (between 3 3) (between 0 1) s @ match_two (between 1 2) is_digit s
     @ match_two (between 0 0) (between 1 9) s @ match_one (between 1 9) s @ match_blank_day s"

fun match_year :: "string \<Rightarrow> int matches" where
  "match_year (a # b # c # d # s) =
     (if is_digit a \<and> is_digit b \<and> is_digit c \<and> is_digit d
      then [(1000 * dig a + 100 * dig b + 10 * dig c + dig d, s)] else [])"
| "match_year s = []"

fun match_lit :: "char \<Rightarrow> string \<Rightarrow> unit matches" where
  "match_lit x (c # s) = (if c = x then [((), s)] else [])"
| "match_lit x [] = []"

definition seq_match :: "(string \<Rightarrow> 'a matches) \<Rightarrow> ('a \<Rightarrow> string \<Rightarrow> 'b matches) \<Rightarrow> string \<Rightarrow> 'b matches"
  where "seq_match p q s = concat (map (\<lambda>(x, s'). q x s') (p s))"

text \<open>Three numeric directives separated by a literal.\<close>

definition match_three ::
  "(string \<Rightarrow> int matches) \<Rightarrow> (string \<Rightarrow> int matches) \<Rightarrow> (string \<Rightarrow> int matches) \<Rightarrow> char
     \<Rightarrow> string \<Rightarrow> (int \<times> int \<times> int) matches" where
  "match_three p q r sep =
     seq_match p (\<lambda>a. seq_match (match_lit sep) (\<lambda>_. seq_match q (\<lambda>b.
       seq_match (match_lit sep) (\<lambda>_. seq_match r (\<lambda>c s. [((a, b, c), s)])))))"

datatype date_format = YMD_DASH | DMY_SLASH | MDY_SLASH

definition scan_format :: "date_format \<Rightarrow> string \<Rightarrow> date matches" where
  "scan_format f s = (case f of
       YMD_DASH \<Rightarrow> map (\<lambda>((y, m, d), r). (\<lparr>dt_year = y, dt_month = m, dt_day = d\<rparr>, r))
                     (match_three match_year match_month match_day (CHR ''-'') s)
     | DMY_SLASH \<Rightarrow> map (\<lambda>((d, m, y), r). (\<lparr>dt_year = y, dt_month = m, dt_day = d\<rparr>, r))
                      (match_three match_day match_month match_year (CHR ''/'') s)
     | MDY_SLASH \<Rightarrow> map (\<lambda>((m, d, y), r). (\<lparr>dt_year = y, dt_month = m, dt_day = d\<rparr>, r))
                      (match_three match_month match_day match_year (CHR ''/'') s))"

text \<open>The first match must use the whole input and be a date; \<open>None\<close> is \<open>ValueError\<close>.\<close>

definition strptime :: "date_format \<Rightarrow> string \<Rightarrow> date option" where
  "strptime f s = (case scan_format f s of
       (d, []) # _ \<Rightarrow> if valid_date d then Some d else None
     | _ \<Rightarrow> None)"

lemma strptime_valid: "strptime f s = Some d \<Longrightarrow> valid_date d"
  by (auto simp: strptime_def split: list.splits prod.splits if_splits)

end
