(* ===== verification/Env.thy ===== *)
theory Env
  imports LlmTypes Calendar
begin

text \<open>
  What the program reads from outside: random identifiers, the wall clock, the performance counter
  and the replies of the model endpoints. Each is a stream with a position, so that a theorem holds
  for whatever they yield. The requests posted to endpoints are recorded in order. The records of
  other parts extend this one.
\<close>

section \<open>Streams\<close>

datatype http_outcome =
    HttpReply int "string + json"
  | HttpTransport string
  | HttpOther string

text \<open>
  A reply carries its status and its body, decoded or with the name of the exception decoding
  raises. \<open>HttpTransport\<close> is a connectivity error or a timeout with its class name, \<open>HttpOther\<close> any
  other exception of the client.
\<close>

record http_post =
  hp_url :: string
  hp_headers :: "(string, string) dict"
  hp_json :: json

record env =
  en_uuid :: "nat \<Rightarrow> uuid"
  en_uuid_pos :: nat
  en_clock :: "nat \<Rightarrow> int"
  en_clock_pos :: nat
  en_today :: "nat \<Rightarrow> date"
  en_today_pos :: nat
  en_perf :: "nat \<Rightarrow> 64 word"
  en_perf_pos :: nat
  en_salt :: "nat \<Rightarrow> nat"
  en_salt_pos :: nat
  en_net :: "nat \<Rightarrow> http_outcome"
  en_net_pos :: nat
  en_sent :: "http_post list"

definition uuid4 :: "(exn, 'a env_scheme, uuid) comp" where
  "uuid4 s = (Inr (en_uuid s (en_uuid_pos s)), s\<lparr>en_uuid_pos := Suc (en_uuid_pos s)\<rparr>)"

text \<open>\<open>datetime.now(UTC)\<close> in microseconds since the epoch.\<close>

definition utc_now :: "(exn, 'a env_scheme, int) comp" where
  "utc_now s = (Inr (en_clock s (en_clock_pos s)), s\<lparr>en_clock_pos := Suc (en_clock_pos s)\<rparr>)"

text \<open>The salt the password library draws for a hash.\<close>

definition draw_salt :: "(exn, 'a env_scheme, nat) comp" where
  "draw_salt s = (Inr (en_salt s (en_salt_pos s)), s\<lparr>en_salt_pos := Suc (en_salt_pos s)\<rparr>)"

text \<open>\<open>date.today()\<close>, the server's local calendar date.\<close>

definition date_today :: "(exn, 'a env_scheme, date) comp" where
  "date_today s = (Inr (en_today s (en_today_pos s)), s\<lparr>en_today_pos := Suc (en_today_pos s)\<rparr>)"

text \<open>
  \<open>time.perf_counter()\<close>: the interpreter reads a signed 64-bit count of nanoseconds and converts it
  to seconds, exactly when it is a whole number of them.
\<close>

definition ns_to_seconds :: "64 word \<Rightarrow> pyfloat" where
  "ns_to_seconds w =
     (let t = sint w
      in if t mod 1000000000 = 0 then fl (of_int (t div 1000000000))
         else (case fl (of_int t) of Fin q \<Rightarrow> fl (q / 1000000000) | x \<Rightarrow> x))"

definition perf_counter :: "(exn, 'a env_scheme, pyfloat) comp" where
  "perf_counter s =
     (Inr (ns_to_seconds (en_perf s (en_perf_pos s))), s\<lparr>en_perf_pos := Suc (en_perf_pos s)\<rparr>)"

definition http_send :: "http_post \<Rightarrow> (exn, 'a env_scheme, http_outcome) comp" where
  "http_send rq s = (Inr (en_net s (en_net_pos s)),
     s\<lparr>en_net_pos := Suc (en_net_pos s), en_sent := en_sent s @ [rq]\<rparr>)"

section \<open>int() and len()\<close>

definition trunc :: "rat \<Rightarrow> int" where
  "trunc q = (if 0 \<le> q then \<lfloor>q\<rfloor> else - \<lfloor>- q\<rfloor>)"

fun int_of_float :: "pyfloat \<Rightarrow> int res" where
  "int_of_float (Fin q) = Inr (trunc q)"
| "int_of_float NaN = Inl (Py ''ValueError'' ''cannot convert float NaN to integer'')"
| "int_of_float x = Inl (Py ''OverflowError'' ''cannot convert float infinity to integer'')"

text \<open>Decimal digits with single underscores between them.\<close>

fun dec_digits :: "nat \<Rightarrow> string \<Rightarrow> nat option" where
  "dec_digits acc [] = Some acc"
| "dec_digits acc (c # cs) =
     (if c = CHR ''_'' then
        (case cs of [] \<Rightarrow> None
         | d # ds \<Rightarrow> if is_digit d then dec_digits (10 * acc + digit_val d) ds else None)
      else if is_digit c then dec_digits (10 * acc + digit_val c) cs else None)"

definition int_base10 :: "string \<Rightarrow> int option" where
  "int_base10 s =
     (let t = strip s;
          neg = starts_with ''-'' t;
          u = (if neg \<or> starts_with ''+'' t then drop 1 t else t)
      in case u of [] \<Rightarrow> None
         | c # cs \<Rightarrow> if is_digit c
             then map_option (\<lambda>n. if neg then - int n else int n) (dec_digits (digit_val c) cs)
             else None)"

definition int_of_str :: "string \<Rightarrow> int res" where
  "int_of_str s = (case int_base10 s of
       Some n \<Rightarrow> Inr n
     | None \<Rightarrow> Inl (Py ''ValueError'' (''invalid literal for int() with base 10: '' @ s)))"

fun py_int :: "json \<Rightarrow> int res" where
  "py_int (JInt i) = Inr i"
| "py_int (JBool b) = Inr (if b then 1 else 0)"
| "py_int (JFloat x) = int_of_float x"
| "py_int (JStr s) = int_of_str s"
| "py_int v = Inl (Py ''TypeError'' ''int() argument must be a string or a number'')"

fun py_len :: "json \<Rightarrow> int res" where
  "py_len (JStr s) = Inr (int (length s))"
| "py_len (JArr xs) = Inr (int (length xs))"
| "py_len (JObj d) = Inr (int (length d))"
| "py_len v = Inl (Py ''TypeError'' ''object has no len()'')"

section \<open>Elapsed time\<close>

text \<open>\<open>int((time.perf_counter() - started) * 1000)\<close>\<close>

definition elapsed_ms :: "pyfloat \<Rightarrow> (exn, 'a env_scheme, int) comp" where
  "elapsed_ms started =
     bindE perf_counter (\<lambda>now. liftE (int_of_float (fmul (fsub now started) (Fin 1000))))"

definition is_perf_time :: "pyfloat \<Rightarrow> bool" where
  "is_perf_time x \<longleftrightarrow> (\<exists>q. x = Fin q \<and> \<bar>q\<bar> \<le> 2 ^ 67)"

lemma sint64_bounds: "\<bar>sint (w :: 64 word)\<bar> \<le> 2 ^ 63"
  using sint_ge [of w] sint_lt [of w] by (simp add: abs_le_iff)

lemma fl_bounded:
  assumes "\<bar>q\<bar> \<le> b" "b \<le> 2 ^ 1000" "2 * b + 1 \<le> c"
  shows "\<exists>r. fl q = Fin r \<and> \<bar>r\<bar> \<le> c"
proof -
  have "\<bar>q\<bar> \<le> 2 ^ 1000" using assms(1,2) by (rule order_trans)
  then obtain r where "fl q = Fin r" "\<bar>r\<bar> \<le> 2 * \<bar>q\<bar> + 1" using fl_finite by blast
  with assms show ?thesis by (intro exI [where x = r]) auto
qed

lemma small_power: "b \<le> 2 ^ 100 \<Longrightarrow> b \<le> (2 :: rat) ^ 1000"
  by (erule order_trans) (rule power_increasing, simp_all)

lemma of_int_bounded: "\<bar>i\<bar> \<le> 2 ^ 63 \<Longrightarrow> \<bar>of_int i :: rat\<bar> \<le> 2 ^ 63"
  using of_int_le_iff [of "\<bar>i\<bar>" "2 ^ 63", where 'a = rat] by simp

lemma ns_to_seconds_bounded: "is_perf_time (ns_to_seconds w)"
proof (cases "sint w mod 1000000000 = 0")
  case True
  have "\<bar>of_int (sint w div 1000000000) :: rat\<bar> \<le> 2 ^ 63"
    using sint64_bounds [of w] by (intro of_int_bounded) linarith
  then have "\<exists>r. fl (of_int (sint w div 1000000000)) = Fin r \<and> \<bar>r\<bar> \<le> 2 ^ 67"
    by (rule fl_bounded) (auto intro: small_power)
  with True show ?thesis by (auto simp: ns_to_seconds_def is_perf_time_def)
next
  case False
  have "\<bar>of_int (sint w) :: rat\<bar> \<le> 2 ^ 63"
    by (rule of_int_bounded) (rule sint64_bounds)
  then have "\<exists>r. fl (of_int (sint w)) = Fin r \<and> \<bar>r\<bar> \<le> 2 ^ 65"
    by (rule fl_bounded) (auto intro: small_power)
  then obtain q where q: "fl (of_int (sint w)) = Fin q" "\<bar>q\<bar> \<le> 2 ^ 65" by blast
  then have "\<bar>q / 1000000000\<bar> \<le> 2 ^ 65" by (simp add: abs_divide)
  then have "\<exists>r. fl (q / 1000000000) = Fin r \<and> \<bar>r\<bar> \<le> 2 ^ 67"
    by (rule fl_bounded) (auto intro: small_power)
  with False q show ?thesis by (auto simp: ns_to_seconds_def is_perf_time_def)
qed

lemma perf_counter_time: "\<exists>x t. perf_counter s = (Inr x, t) \<and> is_perf_time x"
  by (simp add: perf_counter_def ns_to_seconds_bounded)

lemma elapsed_ms_total:
  assumes "is_perf_time started"
  shows "\<exists>n t. elapsed_ms started s = (Inr n, t)"
proof -
  obtain x t where x: "perf_counter s = (Inr x, t)" "is_perf_time x"
    using perf_counter_time by blast
  obtain a b where ab: "x = Fin a" "started = Fin b" "\<bar>a\<bar> \<le> 2 ^ 67" "\<bar>b\<bar> \<le> 2 ^ 67"
    using x assms by (auto simp: is_perf_time_def)
  then have "\<bar>a - b\<bar> \<le> 2 ^ 68" by simp
  then have "\<exists>r. fl (a - b) = Fin r \<and> \<bar>r\<bar> \<le> 2 ^ 70"
    by (rule fl_bounded) (auto intro: small_power)
  then obtain d where d: "fl (a - b) = Fin d" "\<bar>d\<bar> \<le> 2 ^ 70" by blast
  then have "\<bar>d * 1000\<bar> \<le> 2 ^ 80" by (simp add: abs_mult)
  then have "\<exists>r. fl (d * 1000) = Fin r \<and> \<bar>r\<bar> \<le> 2 ^ 90"
    by (rule fl_bounded) (auto intro: small_power)
  then show ?thesis
    using x ab d by (auto simp: elapsed_ms_def bindE_def liftE_def fsub_def)
qed

end
