(* ===== verification/Enums.thy ===== *)
theory Enums
  imports StrEnum
begin

text \<open>
  The enumerations of db/models/enums.py. They are stored in the database as their string values,
  which the interpretations of \<open>str_enum\<close> show to be faithful. Members whose names occur in
  several classes carry a prefix (\<open>WS\<close> WorkflowStatus, \<open>AD\<close> ApprovalDecision and so on).
\<close>

datatype workflow_type =
    DOCUMENT_INTELLIGENCE
  | KYC
  | FRAUD_REVIEW
  | COMPLIANCE
  | AUDIT_EVIDENCE
  | LOAN

fun workflow_type_value :: "workflow_type \<Rightarrow> string" where
  "workflow_type_value DOCUMENT_INTELLIGENCE = ''document_intelligence''"
| "workflow_type_value KYC = ''kyc''"
| "workflow_type_value FRAUD_REVIEW = ''fraud_review''"
| "workflow_type_value COMPLIANCE = ''compliance''"
| "workflow_type_value AUDIT_EVIDENCE = ''audit_evidence''"
| "workflow_type_value LOAN = ''loan''"

instantiation workflow_type :: enum
begin

definition "enum_workflow_type = [DOCUMENT_INTELLIGENCE, KYC, FRAUD_REVIEW, COMPLIANCE, AUDIT_EVIDENCE, LOAN]"
definition "enum_all_workflow_type P \<longleftrightarrow> (\<forall>x \<in> set [DOCUMENT_INTELLIGENCE, KYC, FRAUD_REVIEW, COMPLIANCE, AUDIT_EVIDENCE, LOAN]. P x)"
definition "enum_ex_workflow_type P \<longleftrightarrow> (\<exists>x \<in> set [DOCUMENT_INTELLIGENCE, KYC, FRAUD_REVIEW, COMPLIANCE, AUDIT_EVIDENCE, LOAN]. P x)"

lemma UNIV_workflow_type: "(UNIV :: workflow_type set) = set [DOCUMENT_INTELLIGENCE, KYC, FRAUD_REVIEW, COMPLIANCE, AUDIT_EVIDENCE, LOAN]"
proof (intro equalityI subsetI)
  fix x :: workflow_type
  show "x \<in> set [DOCUMENT_INTELLIGENCE, KYC, FRAUD_REVIEW, COMPLIANCE, AUDIT_EVIDENCE, LOAN]" by (cases x) simp_all
qed simp

instance
  by intro_classes
    (simp_all add: enum_workflow_type_def enum_all_workflow_type_def enum_ex_workflow_type_def UNIV_workflow_type)

end

interpretation workflow_type: str_enum workflow_type_value
proof
  fix x y
  show "workflow_type_value x = workflow_type_value y \<Longrightarrow> x = y" by (cases x; cases y) simp_all
qed

datatype workflow_status =
    WS_PENDING
  | WS_RUNNING
  | WS_AWAITING_APPROVAL
  | WS_APPROVED
  | WS_REJECTED
  | WS_ESCALATED
  | WS_COMPLETED
  | WS_FAILED
  | WS_CANCELLED

fun workflow_status_value :: "workflow_status \<Rightarrow> string" where
  "workflow_status_value WS_PENDING = ''pending''"
| "workflow_status_value WS_RUNNING = ''running''"
| "workflow_status_value WS_AWAITING_APPROVAL = ''awaiting_approval''"
| "workflow_status_value WS_APPROVED = ''approved''"
| "workflow_status_value WS_REJECTED = ''rejected''"
| "workflow_status_value WS_ESCALATED = ''escalated''"
| "workflow_status_value WS_COMPLETED = ''completed''"
| "workflow_status_value WS_FAILED = ''failed''"
| "workflow_status_value WS_CANCELLED = ''cancelled''"

instantiation workflow_status :: enum
begin

definition "enum_workflow_status = [WS_PENDING, WS_RUNNING, WS_AWAITING_APPROVAL, WS_APPROVED, WS_REJECTED, WS_ESCALATED, WS_COMPLETED, WS_FAILED, WS_CANCELLED]"
definition "enum_all_workflow_status P \<longleftrightarrow> (\<forall>x \<in> set [WS_PENDING, WS_RUNNING, WS_AWAITING_APPROVAL, WS_APPROVED, WS_REJECTED, WS_ESCALATED, WS_COMPLETED, WS_FAILED, WS_CANCELLED]. P x)"
definition "enum_ex_workflow_status P \<longleftrightarrow> (\<exists>x \<in> set [WS_PENDING, WS_RUNNING, WS_AWAITING_APPROVAL, WS_APPROVED, WS_REJECTED, WS_ESCALATED, WS_COMPLETED, WS_FAILED, WS_CANCELLED]. P x)"

lemma UNIV_workflow_status: "(UNIV :: workflow_status set) = set [WS_PENDING, WS_RUNNING, WS_AWAITING_APPROVAL, WS_APPROVED, WS_REJECTED, WS_ESCALATED, WS_COMPLETED, WS_FAILED, WS_CANCELLED]"
proof (intro equalityI subsetI)
  fix x :: workflow_status
  show "x \<in> set [WS_PENDING, WS_RUNNING, WS_AWAITING_APPROVAL, WS_APPROVED, WS_REJECTED, WS_ESCALATED, WS_COMPLETED, WS_FAILED, WS_CANCELLED]" by (cases x) simp_all
qed simp

instance
  by intro_classes
    (simp_all add: enum_workflow_status_def enum_all_workflow_status_def enum_ex_workflow_status_def UNIV_workflow_status)

end

interpretation workflow_status: str_enum workflow_status_value
proof
  fix x y
  show "workflow_status_value x = workflow_status_value y \<Longrightarrow> x = y" by (cases x; cases y) simp_all
qed

datatype task_state =
    TS_QUEUED
  | TS_IN_PROGRESS
  | TS_BLOCKED
  | TS_DONE
  | TS_FAILED

fun task_state_value :: "task_state \<Rightarrow> string" where
  "task_state_value TS_QUEUED = ''queued''"
| "task_state_value TS_IN_PROGRESS = ''in_progress''"
| "task_state_value TS_BLOCKED = ''blocked''"
| "task_state_value TS_DONE = ''done''"
| "task_state_value TS_FAILED = ''failed''"

instantiation task_state :: enum
begin

definition "enum_task_state = [TS_QUEUED, TS_IN_PROGRESS, TS_BLOCKED, TS_DONE, TS_FAILED]"
definition "enum_all_task_state P \<longleftrightarrow> (\<forall>x \<in> set [TS_QUEUED, TS_IN_PROGRESS, TS_BLOCKED, TS_DONE, TS_FAILED]. P x)"
definition "enum_ex_task_state P \<longleftrightarrow> (\<exists>x \<in> set [TS_QUEUED, TS_IN_PROGRESS, TS_BLOCKED, TS_DONE, TS_FAILED]. P x)"

lemma UNIV_task_state: "(UNIV :: task_state set) = set [TS_QUEUED, TS_IN_PROGRESS, TS_BLOCKED, TS_DONE, TS_FAILED]"
proof (intro equalityI subsetI)
  fix x :: task_state
  show "x \<in> set [TS_QUEUED, TS_IN_PROGRESS, TS_BLOCKED, TS_DONE, TS_FAILED]" by (cases x) simp_all
qed simp

instance
  by intro_classes
    (simp_all add: enum_task_state_def enum_all_task_state_def enum_ex_task_state_def UNIV_task_state)

end

interpretation task_state: str_enum task_state_value
proof
  fix x y
  show "task_state_value x = task_state_value y \<Longrightarrow> x = y" by (cases x; cases y) simp_all
qed

datatype approval_kind =
    AK_APPROVAL
  | AK_REJECTION
  | AK_ESCALATION
  | AK_MANUAL_REVIEW

fun approval_kind_value :: "approval_kind \<Rightarrow> string" where
  "approval_kind_value AK_APPROVAL = ''approval''"
| "approval_kind_value AK_REJECTION = ''rejection''"
| "approval_kind_value AK_ESCALATION = ''escalation''"
| "approval_kind_value AK_MANUAL_REVIEW = ''manual_review''"

instantiation approval_kind :: enum
begin

definition "enum_approval_kind = [AK_APPROVAL, AK_REJECTION, AK_ESCALATION, AK_MANUAL_REVIEW]"
definition "enum_all_approval_kind P \<longleftrightarrow> (\<forall>x \<in> set [AK_APPROVAL, AK_REJECTION, AK_ESCALATION, AK_MANUAL_REVIEW]. P x)"
definition "enum_ex_approval_kind P \<longleftrightarrow> (\<exists>x \<in> set [AK_APPROVAL, AK_REJECTION, AK_ESCALATION, AK_MANUAL_REVIEW]. P x)"

lemma UNIV_approval_kind: "(UNIV :: approval_kind set) = set [AK_APPROVAL, AK_REJECTION, AK_ESCALATION, AK_MANUAL_REVIEW]"
proof (intro equalityI subsetI)
  fix x :: approval_kind
  show "x \<in> set [AK_APPROVAL, AK_REJECTION, AK_ESCALATION, AK_MANUAL_REVIEW]" by (cases x) simp_all
qed simp

instance
  by intro_classes
    (simp_all add: enum_approval_kind_def enum_all_approval_kind_def enum_ex_approval_kind_def UNIV_approval_kind)

end

interpretation approval_kind: str_enum approval_kind_value
proof
  fix x y
  show "approval_kind_value x = approval_kind_value y \<Longrightarrow> x = y" by (cases x; cases y) simp_all
qed

datatype approval_decision =
    AD_PENDING
  | AD_APPROVED
  | AD_REJECTED
  | AD_ESCALATED

fun approval_decision_value :: "approval_decision \<Rightarrow> string" where
  "approval_decision_value AD_PENDING = ''pending''"
| "approval_decision_value AD_APPROVED = ''approved''"
| "approval_decision_value AD_REJECTED = ''rejected''"
| "approval_decision_value AD_ESCALATED = ''escalated''"

instantiation approval_decision :: enum
begin

definition "enum_approval_decision = [AD_PENDING, AD_APPROVED, AD_REJECTED, AD_ESCALATED]"
definition "enum_all_approval_decision P \<longleftrightarrow> (\<forall>x \<in> set [AD_PENDING, AD_APPROVED, AD_REJECTED, AD_ESCALATED]. P x)"
definition "enum_ex_approval_decision P \<longleftrightarrow> (\<exists>x \<in> set [AD_PENDING, AD_APPROVED, AD_REJECTED, AD_ESCALATED]. P x)"

lemma UNIV_approval_decision: "(UNIV :: approval_decision set) = set [AD_PENDING, AD_APPROVED, AD_REJECTED, AD_ESCALATED]"
proof (intro equalityI subsetI)
  fix x :: approval_decision
  show "x \<in> set [AD_PENDING, AD_APPROVED, AD_REJECTED, AD_ESCALATED]" by (cases x) simp_all
qed simp

instance
  by intro_classes
    (simp_all add: enum_approval_decision_def enum_all_approval_decision_def enum_ex_approval_decision_def UNIV_approval_decision)

end

interpretation approval_decision: str_enum approval_decision_value
proof
  fix x y
  show "approval_decision_value x = approval_decision_value y \<Longrightarrow> x = y" by (cases x; cases y) simp_all
qed

datatype agent_run_status =
    AR_STARTED
  | AR_SUCCEEDED
  | AR_FAILED

fun agent_run_status_value :: "agent_run_status \<Rightarrow> string" where
  "agent_run_status_value AR_STARTED = ''started''"
| "agent_run_status_value AR_SUCCEEDED = ''succeeded''"
| "agent_run_status_value AR_FAILED = ''failed''"

instantiation agent_run_status :: enum
begin

definition "enum_agent_run_status = [AR_STARTED, AR_SUCCEEDED, AR_FAILED]"
definition "enum_all_agent_run_status P \<longleftrightarrow> (\<forall>x \<in> set [AR_STARTED, AR_SUCCEEDED, AR_FAILED]. P x)"
definition "enum_ex_agent_run_status P \<longleftrightarrow> (\<exists>x \<in> set [AR_STARTED, AR_SUCCEEDED, AR_FAILED]. P x)"

lemma UNIV_agent_run_status: "(UNIV :: agent_run_status set) = set [AR_STARTED, AR_SUCCEEDED, AR_FAILED]"
proof (intro equalityI subsetI)
  fix x :: agent_run_status
  show "x \<in> set [AR_STARTED, AR_SUCCEEDED, AR_FAILED]" by (cases x) simp_all
qed simp

instance
  by intro_classes
    (simp_all add: enum_agent_run_status_def enum_all_agent_run_status_def enum_ex_agent_run_status_def UNIV_agent_run_status)

end

interpretation agent_run_status: str_enum agent_run_status_value
proof
  fix x y
  show "agent_run_status_value x = agent_run_status_value y \<Longrightarrow> x = y" by (cases x; cases y) simp_all
qed

datatype document_status =
    DS_UPLOADED
  | DS_PROCESSING
  | DS_PROCESSED
  | DS_NEEDS_REVIEW
  | DS_FAILED

fun document_status_value :: "document_status \<Rightarrow> string" where
  "document_status_value DS_UPLOADED = ''uploaded''"
| "document_status_value DS_PROCESSING = ''processing''"
| "document_status_value DS_PROCESSED = ''processed''"
| "document_status_value DS_NEEDS_REVIEW = ''needs_review''"
| "document_status_value DS_FAILED = ''failed''"

instantiation document_status :: enum
begin

definition "enum_document_status = [DS_UPLOADED, DS_PROCESSING, DS_PROCESSED, DS_NEEDS_REVIEW, DS_FAILED]"
definition "enum_all_document_status P \<longleftrightarrow> (\<forall>x \<in> set [DS_UPLOADED, DS_PROCESSING, DS_PROCESSED, DS_NEEDS_REVIEW, DS_FAILED]. P x)"
definition "enum_ex_document_status P \<longleftrightarrow> (\<exists>x \<in> set [DS_UPLOADED, DS_PROCESSING, DS_PROCESSED, DS_NEEDS_REVIEW, DS_FAILED]. P x)"

lemma UNIV_document_status: "(UNIV :: document_status set) = set [DS_UPLOADED, DS_PROCESSING, DS_PROCESSED, DS_NEEDS_REVIEW, DS_FAILED]"
proof (intro equalityI subsetI)
  fix x :: document_status
  show "x \<in> set [DS_UPLOADED, DS_PROCESSING, DS_PROCESSED, DS_NEEDS_REVIEW, DS_FAILED]" by (cases x) simp_all
qed simp

instance
  by intro_classes
    (simp_all add: enum_document_status_def enum_all_document_status_def enum_ex_document_status_def UNIV_document_status)

end

interpretation document_status: str_enum document_status_value
proof
  fix x y
  show "document_status_value x = document_status_value y \<Longrightarrow> x = y" by (cases x; cases y) simp_all
qed

datatype risk_level =
    LOW
  | MEDIUM
  | HIGH
  | CRITICAL

fun risk_level_value :: "risk_level \<Rightarrow> string" where
  "risk_level_value LOW = ''low''"
| "risk_level_value MEDIUM = ''medium''"
| "risk_level_value HIGH = ''high''"
| "risk_level_value CRITICAL = ''critical''"

instantiation risk_level :: enum
begin

definition "enum_risk_level = [LOW, MEDIUM, HIGH, CRITICAL]"
definition "enum_all_risk_level P \<longleftrightarrow> (\<forall>x \<in> set [LOW, MEDIUM, HIGH, CRITICAL]. P x)"
definition "enum_ex_risk_level P \<longleftrightarrow> (\<exists>x \<in> set [LOW, MEDIUM, HIGH, CRITICAL]. P x)"

lemma UNIV_risk_level: "(UNIV :: risk_level set) = set [LOW, MEDIUM, HIGH, CRITICAL]"
proof (intro equalityI subsetI)
  fix x :: risk_level
  show "x \<in> set [LOW, MEDIUM, HIGH, CRITICAL]" by (cases x) simp_all
qed simp

instance
  by intro_classes
    (simp_all add: enum_risk_level_def enum_all_risk_level_def enum_ex_risk_level_def UNIV_risk_level)

end

interpretation risk_level: str_enum risk_level_value
proof
  fix x y
  show "risk_level_value x = risk_level_value y \<Longrightarrow> x = y" by (cases x; cases y) simp_all
qed

datatype incident_severity =
    SEV1
  | SEV2
  | SEV3
  | SEV4

fun incident_severity_value :: "incident_severity \<Rightarrow> string" where
  "incident_severity_value SEV1 = ''sev1''"
| "incident_severity_value SEV2 = ''sev2''"
| "incident_severity_value SEV3 = ''sev3''"
| "incident_severity_value SEV4 = ''sev4''"

instantiation incident_severity :: enum
begin

definition "enum_incident_severity = [SEV1, SEV2, SEV3, SEV4]"
definition "enum_all_incident_severity P \<longleftrightarrow> (\<forall>x \<in> set [SEV1, SEV2, SEV3, SEV4]. P x)"
definition "enum_ex_incident_severity P \<longleftrightarrow> (\<exists>x \<in> set [SEV1, SEV2, SEV3, SEV4]. P x)"

lemma UNIV_incident_severity: "(UNIV :: incident_severity set) = set [SEV1, SEV2, SEV3, SEV4]"
proof (intro equalityI subsetI)
  fix x :: incident_severity
  show "x \<in> set [SEV1, SEV2, SEV3, SEV4]" by (cases x) simp_all
qed simp

instance
  by intro_classes
    (simp_all add: enum_incident_severity_def enum_all_incident_severity_def enum_ex_incident_severity_def UNIV_incident_severity)

end

interpretation incident_severity: str_enum incident_severity_value
proof
  fix x y
  show "incident_severity_value x = incident_severity_value y \<Longrightarrow> x = y" by (cases x; cases y) simp_all
qed

datatype incident_status =
    IS_OPEN
  | IS_INVESTIGATING
  | IS_RESOLVED

fun incident_status_value :: "incident_status \<Rightarrow> string" where
  "incident_status_value IS_OPEN = ''open''"
| "incident_status_value IS_INVESTIGATING = ''investigating''"
| "incident_status_value IS_RESOLVED = ''resolved''"

instantiation incident_status :: enum
begin

definition "enum_incident_status = [IS_OPEN, IS_INVESTIGATING, IS_RESOLVED]"
definition "enum_all_incident_status P \<longleftrightarrow> (\<forall>x \<in> set [IS_OPEN, IS_INVESTIGATING, IS_RESOLVED]. P x)"
definition "enum_ex_incident_status P \<longleftrightarrow> (\<exists>x \<in> set [IS_OPEN, IS_INVESTIGATING, IS_RESOLVED]. P x)"

lemma UNIV_incident_status: "(UNIV :: incident_status set) = set [IS_OPEN, IS_INVESTIGATING, IS_RESOLVED]"
proof (intro equalityI subsetI)
  fix x :: incident_status
  show "x \<in> set [IS_OPEN, IS_INVESTIGATING, IS_RESOLVED]" by (cases x) simp_all
qed simp

instance
  by intro_classes
    (simp_all add: enum_incident_status_def enum_all_incident_status_def enum_ex_incident_status_def UNIV_incident_status)

end

interpretation incident_status: str_enum incident_status_value
proof
  fix x y
  show "incident_status_value x = incident_status_value y \<Longrightarrow> x = y" by (cases x; cases y) simp_all
qed

text \<open>
  The order of the risk levels is the one of \<open>_RISK_ORDER\<close> in agents/kyc.py: the position in the
  declaration.
\<close>

fun risk_rank :: "risk_level \<Rightarrow> nat" where
  "risk_rank LOW = 0" | "risk_rank MEDIUM = 1" | "risk_rank HIGH = 2" | "risk_rank CRITICAL = 3"

lemma risk_rank_inj: "risk_rank x = risk_rank y \<Longrightarrow> x = y"
  by (cases x; cases y) simp_all

instantiation risk_level :: linorder
begin

definition less_eq_risk_level :: "risk_level \<Rightarrow> risk_level \<Rightarrow> bool" where
  "less_eq_risk_level x y \<longleftrightarrow> risk_rank x \<le> risk_rank y"

definition less_risk_level :: "risk_level \<Rightarrow> risk_level \<Rightarrow> bool" where
  "less_risk_level x y \<longleftrightarrow> risk_rank x < risk_rank y"

instance
  by intro_classes (auto simp: less_eq_risk_level_def less_risk_level_def intro: risk_rank_inj)

end

lemmas risk_order = less_eq_risk_level_def less_risk_level_def

end
