(* ===== verification/Sha256.thy ===== *)
theory Sha256
  imports PyString Uuid
begin

text \<open>
  \<open>hashlib.sha256\<close> (FIPS 180-4) on byte strings, over 32-bit words with their wrap-around. The
  program hashes tokens, uploaded bytes and canonical JSON with it.
\<close>

unbundle bit_operations_syntax

type_synonym w32 = "32 word"

text \<open>The round constants and the initial state, in decimal.\<close>

definition sha_k :: "w32 list" where
  "sha_k = [1116352408, 1899447441, 3049323471, 3921009573, 961987163, 1508970993, 2453635748,
      2870763221, 3624381080, 310598401, 607225278, 1426881987, 1925078388, 2162078206,
      2614888103, 3248222580, 3835390401, 4022224774, 264347078, 604807628, 770255983,
      1249150122, 1555081692, 1996064986, 2554220882, 2821834349, 2952996808, 3210313671,
      3336571891, 3584528711, 113926993, 338241895, 666307205, 773529912, 1294757372,
      1396182291, 1695183700, 1986661051, 2177026350, 2456956037, 2730485921, 2820302411,
      3259730800, 3345764771, 3516065817, 3600352804, 4094571909, 275423344, 430227734,
      506948616, 659060556, 883997877, 958139571, 1322822218, 1537002063, 1747873779,
      1955562222, 2024104815, 2227730452, 2361852424, 2428436474, 2756734187, 3204031479,
      3329325298]"

definition sha_init :: "w32 list" where
  "sha_init = [1779033703, 3144134277, 1013904242, 2773480762,
      1359893119, 2600822924, 528734635, 1541459225]"

definition rotr :: "nat \<Rightarrow> w32 \<Rightarrow> w32" where
  "rotr n w = drop_bit n w OR push_bit (32 - n) w"

definition big_sigma0 :: "w32 \<Rightarrow> w32" where
  "big_sigma0 x = rotr 2 x XOR rotr 13 x XOR rotr 22 x"

definition big_sigma1 :: "w32 \<Rightarrow> w32" where
  "big_sigma1 x = rotr 6 x XOR rotr 11 x XOR rotr 25 x"

definition small_sigma0 :: "w32 \<Rightarrow> w32" where
  "small_sigma0 x = rotr 7 x XOR rotr 18 x XOR drop_bit 3 x"

definition small_sigma1 :: "w32 \<Rightarrow> w32" where
  "small_sigma1 x = rotr 17 x XOR rotr 19 x XOR drop_bit 10 x"

definition sha_ch :: "w32 \<Rightarrow> w32 \<Rightarrow> w32 \<Rightarrow> w32" where
  "sha_ch x y z = (x AND y) XOR ((NOT x) AND z)"

definition sha_maj :: "w32 \<Rightarrow> w32 \<Rightarrow> w32 \<Rightarrow> w32" where
  "sha_maj x y z = (x AND y) XOR (x AND z) XOR (y AND z)"

section \<open>Padding and the message schedule\<close>

fun be_bytes :: "nat \<Rightarrow> nat \<Rightarrow> nat list" where
  "be_bytes 0 n = []"
| "be_bytes (Suc k) n = be_bytes k (n div 256) @ [n mod 256]"

definition sha_pad :: "nat list \<Rightarrow> nat list" where
  "sha_pad bs = (let n = length bs; z = (119 - n mod 64) mod 64
                 in bs @ [128] @ replicate z 0 @ be_bytes 8 (8 * n))"

definition word_of_bytes :: "nat list \<Rightarrow> w32" where
  "word_of_bytes bs = of_nat (fold (\<lambda>b acc. 256 * acc + b) bs 0)"

fun chunks_of :: "nat \<Rightarrow> 'a list \<Rightarrow> nat \<Rightarrow> 'a list list" where
  "chunks_of k xs 0 = []"
| "chunks_of k xs (Suc n) = take k xs # chunks_of k (drop k xs) n"

definition blocks :: "nat list \<Rightarrow> w32 list list" where
  "blocks bs = map (\<lambda>b. map word_of_bytes (chunks_of 4 b 16)) (chunks_of 64 bs (length bs div 64))"

text \<open>The schedule, newest word first.\<close>

fun extend_schedule :: "nat \<Rightarrow> w32 list \<Rightarrow> w32 list" where
  "extend_schedule 0 ws = ws"
| "extend_schedule (Suc n) ws =
     extend_schedule n
       ((small_sigma1 (ws ! 1) + ws ! 6 + small_sigma0 (ws ! 14) + ws ! 15) # ws)"

definition schedule :: "w32 list \<Rightarrow> w32 list" where
  "schedule block = rev (extend_schedule 48 (rev block))"

section \<open>Compression\<close>

fun sha_round :: "w32 \<times> w32 \<Rightarrow> w32 list \<Rightarrow> w32 list" where
  "sha_round (k, w) [a, b, c, d, e, f, g, h] =
     (let t1 = h + big_sigma1 e + sha_ch e f g + k + w;
          t2 = big_sigma0 a + sha_maj a b c
      in [t1 + t2, a, b, c, d + t1, e, f, g])"
| "sha_round kw st = st"

definition compress :: "w32 list \<Rightarrow> w32 list \<Rightarrow> w32 list" where
  "compress block st = map2 (+) st (fold sha_round (zip sha_k (schedule block)) st)"

definition sha_words :: "nat list \<Rightarrow> w32 list" where
  "sha_words bs = fold compress (blocks (sha_pad bs)) sha_init"

text \<open>\<open>digest()\<close> as byte values and \<open>hexdigest()\<close>.\<close>

definition sha256_digest :: "string \<Rightarrow> nat list" where
  "sha256_digest s = concat (map (\<lambda>w. be_bytes 4 (unat w)) (sha_words (map code s)))"

definition sha256_hex :: "string \<Rightarrow> string" where
  "sha256_hex s = concat (map (\<lambda>b. [hex_char (b div 16), hex_char (b mod 16)]) (sha256_digest s))"

section \<open>Facts\<close>

lemma length_be_bytes [simp]: "length (be_bytes k n) = k"
  by (induction k arbitrary: n) auto

lemma be_bytes_less: "b \<in> set (be_bytes k n) \<Longrightarrow> b < 256"
  by (induction k arbitrary: n) auto

lemma sha_pad_multiple: "64 dvd length (sha_pad bs)"
proof -
  let ?m = "length bs mod 64"
  have "(length bs + 9 + (119 - ?m) mod 64) mod 64 = (?m + 9 + (119 - ?m) mod 64) mod 64"
    by (metis (no_types, opaque_lifting) add.assoc mod_add_left_eq)
  also have "\<dots> = (?m + 9 + (119 - ?m)) mod 64" by (rule mod_add_right_eq)
  also have "?m + 9 + (119 - ?m) = 128"
  proof -
    have "?m < 64" by simp
    then show ?thesis by linarith
  qed
  finally have "(length bs + 9 + (119 - ?m) mod 64) mod 64 = 0" by simp
  moreover have "length (sha_pad bs) = length bs + 9 + (119 - ?m) mod 64"
    by (simp add: sha_pad_def Let_def)
  ultimately show ?thesis by (simp only: mod_0_imp_dvd)
qed

lemma length_sha_round [simp]: "length (sha_round kw st) = length st"
  by (cases "(kw, st)" rule: sha_round.cases) (simp_all add: Let_def)

lemma length_sha_fold [simp]: "length (fold sha_round ks st) = length st"
  by (induction ks arbitrary: st) auto

lemma length_compress [simp]: "length (compress b st) = length st"
  by (simp add: compress_def)

lemma length_compress_fold [simp]: "length (fold compress bs st) = length st"
  by (induction bs arbitrary: st) auto

lemma length_sha_words [simp]: "length (sha_words bs) = 8"
  by (simp add: sha_words_def sha_init_def)

lemma length_sha256_digest [simp]: "length (sha256_digest s) = 32"
proof -
  have "length (concat (map (\<lambda>w. be_bytes 4 (unat (w :: w32))) ws)) = 4 * length ws" for ws
    by (induction ws) auto
  then show ?thesis by (simp add: sha256_digest_def)
qed

lemma length_concat_pairs: "length (concat (map (\<lambda>b. [f b, g b]) bs)) = 2 * length bs"
  by (induction bs) auto

lemma length_sha256_hex [simp]: "length (sha256_hex s) = 64"
  by (simp add: sha256_hex_def length_concat_pairs)

lemma sha256_digest_bytes: "b \<in> set (sha256_digest s) \<Longrightarrow> b < 256"
  by (auto simp: sha256_digest_def dest: be_bytes_less)

lemma sha256_hex_chars: "c \<in> set (sha256_hex s) \<Longrightarrow> is_hex c"
  using sha256_digest_bytes by (fastforce simp: sha256_hex_def intro: is_hex_char)

end
