(* ===== verification/VectorStore.thy ===== *)
theory VectorStore
  imports Sha256 Errors
begin

text \<open>
  ai/vector_store.py: the hashing embedder, cosine similarity and the in-memory store. The contracts
  of an embedder and of a store, on which the retrieval agent and the document service rest, are
  locales interpreted on these definitions.
\<close>

section \<open>Floats in order\<close>

text \<open>The order of the finite and infinite values, with NaN below them, as a linear order.\<close>

instantiation pyfloat :: linorder
begin

definition less_eq_pyfloat :: "pyfloat \<Rightarrow> pyfloat \<Rightarrow> bool" where
  "less_eq_pyfloat x y \<longleftrightarrow> x = NaN \<or> fle x y"

definition less_pyfloat :: "pyfloat \<Rightarrow> pyfloat \<Rightarrow> bool" where
  "less_pyfloat x y \<longleftrightarrow> (x = NaN \<and> y \<noteq> NaN) \<or> flt x y"

instance
proof
  fix x y z :: pyfloat
  show "x < y \<longleftrightarrow> x \<le> y \<and> \<not> y \<le> x"
    by (cases x; cases y) (auto simp: less_eq_pyfloat_def less_pyfloat_def)
  show "x \<le> x" by (cases x) (auto simp: less_eq_pyfloat_def)
  show "x \<le> y \<Longrightarrow> y \<le> z \<Longrightarrow> x \<le> z"
    by (cases x; cases y; cases z) (auto simp: less_eq_pyfloat_def)
  show "x \<le> y \<Longrightarrow> y \<le> x \<Longrightarrow> x = y"
    by (cases x; cases y) (auto simp: less_eq_pyfloat_def)
  show "x \<le> y \<or> y \<le> x"
    by (cases x; cases y) (auto simp: less_eq_pyfloat_def)
qed

end

lemma le_pyfloat_fle: "x \<noteq> NaN \<Longrightarrow> x \<le> y \<longleftrightarrow> fle x y"
  by (simp add: less_eq_pyfloat_def)

section \<open>The hashing embedder\<close>

text \<open>\<open>_TOKEN.findall\<close>: the maximal runs of lower-case letters and digits.\<close>

definition is_token_char :: "char \<Rightarrow> bool" where
  "is_token_char c \<longleftrightarrow> is_lower c \<or> is_digit c"

fun tokens_from :: "string \<Rightarrow> string \<Rightarrow> string list" where
  "tokens_from w [] = (if w = [] then [] else [w])"
| "tokens_from w (c # cs) =
     (if is_token_char c then tokens_from (w @ [c]) cs
      else (if w = [] then [] else [w]) @ tokens_from [] cs)"

definition tokens :: "string \<Rightarrow> string list" where
  "tokens s = tokens_from [] s"

definition digest_index :: "nat list \<Rightarrow> int" where
  "digest_index digest = fold (\<lambda>b acc. 256 * acc + int b) (take 4 digest) 0"

text \<open>
  One step of the loop. A dimension of zero makes the remainder fail, a negative one leaves an empty
  vector whose index is out of range.
\<close>

definition add_token :: "int \<Rightarrow> string \<Rightarrow> pyfloat list \<Rightarrow> pyfloat list res" where
  "add_token dims token vec =
     (let digest = sha256_digest token;
          sign = (if odd (digest ! 4) then Fin 1 else Fin (- 1))
      in if dims = 0 then Inl (Py ''ZeroDivisionError'' ''integer modulo by zero'')
         else let index = digest_index digest mod dims
              in if 0 \<le> index \<and> nat index < length vec
                 then Inr (vec[nat index := fadd (vec ! nat index) sign])
                 else Inl (Py ''IndexError'' ''list index out of range''))"

fun add_tokens :: "int \<Rightarrow> string list \<Rightarrow> pyfloat list \<Rightarrow> pyfloat list res" where
  "add_tokens dims [] vec = Inr vec"
| "add_tokens dims (t # ts) vec = (case add_token dims t vec of
       Inl e \<Rightarrow> Inl e | Inr vec' \<Rightarrow> add_tokens dims ts vec')"

fun divide_all :: "pyfloat \<Rightarrow> pyfloat list \<Rightarrow> pyfloat list res" where
  "divide_all nrm [] = Inr []"
| "divide_all nrm (v # vs) = (case fdiv v nrm of
       None \<Rightarrow> Inl (Py ''ZeroDivisionError'' ''float division by zero'')
     | Some q \<Rightarrow> (case divide_all nrm vs of Inl e \<Rightarrow> Inl e | Inr qs \<Rightarrow> Inr (q # qs)))"

definition l2_normalise :: "pyfloat list \<Rightarrow> pyfloat list res" where
  "l2_normalise vec = (case fsqrt (py_sum (map (\<lambda>v. fmul v v) vec)) of
       None \<Rightarrow> Inl (Py ''ValueError'' ''math domain error'')
     | Some nrm \<Rightarrow> if feq nrm (Fin 0) then Inr vec else divide_all nrm vec)"

definition embed :: "int \<Rightarrow> string \<Rightarrow> pyfloat list res" where
  "embed dims s = (case add_tokens dims (tokens (lower s)) (replicate (nat dims) (Fin 0)) of
       Inl e \<Rightarrow> Inl e | Inr vec \<Rightarrow> l2_normalise vec)"

definition cosine_similarity :: "pyfloat list \<Rightarrow> pyfloat list \<Rightarrow> pyfloat" where
  "cosine_similarity a b = py_sum (map2 fmul a b)"

section \<open>The in-memory store\<close>

record vector_record =
  vr_chunk_id :: string
  vr_document_id :: string
  vr_text :: string
  vr_embedding :: "pyfloat list"
  vr_filename :: "string option"

record scored_record =
  sr_record :: vector_record
  sr_score :: pyfloat

type_synonym memory_store = "(string, vector_record) dict"

definition upsert :: "vector_record list \<Rightarrow> memory_store \<Rightarrow> memory_store" where
  "upsert records store = fold (\<lambda>r st. dict_set (vr_chunk_id r) r st) records store"

text \<open>Descending and stable: the reversed list, sorted ascending, reversed again.\<close>

definition sort_desc :: "('a \<Rightarrow> 'b :: linorder) \<Rightarrow> 'a list \<Rightarrow> 'a list" where
  "sort_desc key xs = rev (sort_key key (rev xs))"

definition query :: "pyfloat list \<Rightarrow> int \<Rightarrow> memory_store \<Rightarrow> scored_record list" where
  "query embedding top_k store =
     (let scored = map (\<lambda>r. \<lparr> sr_record = r, sr_score = cosine_similarity embedding (vr_embedding r) \<rparr>)
                     (map snd store)
      in take (nat (max 0 top_k)) (sort_desc sr_score scored))"

definition count_records :: "memory_store \<Rightarrow> int" where
  "count_records store = int (length store)"

section \<open>Facts on the sort\<close>

lemma set_sort_desc [simp]: "set (sort_desc k xs) = set xs"
  by (simp add: sort_desc_def)

lemma mset_sort_desc [simp]: "mset (sort_desc k xs) = mset xs"
  by (simp add: sort_desc_def)

lemma length_sort_desc [simp]: "length (sort_desc k xs) = length xs"
  by (simp add: sort_desc_def)

lemma sorted_sort_desc: "sorted_wrt (\<lambda>x y. k y \<le> k x) (sort_desc k xs)"
proof -
  have "sorted (map k (sort_key k (rev xs)))" by simp
  then have "sorted_wrt (\<lambda>x y. k x \<le> k y) (sort_key k (rev xs))" by (simp add: sorted_map)
  then show ?thesis by (simp add: sort_desc_def sorted_wrt_rev)
qed

text \<open>Entries with the same key keep their order.\<close>

lemma sort_desc_stable: "filter (\<lambda>x. k x = v) (sort_desc k xs) = filter (\<lambda>x. k x = v) xs"
proof -
  have "filter (\<lambda>x. k x = v) (sort_key k (rev xs)) = filter (\<lambda>x. k x = v) (rev xs)"
    by (rule sort_key_stable)
  then show ?thesis by (simp add: sort_desc_def rev_filter [symmetric])
qed

text \<open>What is left out of the first \<open>n\<close> does not score above what is in.\<close>

lemma take_sort_desc_best:
  assumes "x \<in> set (take n (sort_desc k xs))" "y \<in> set (drop n (sort_desc k xs))"
  shows "k y \<le> k x"
proof -
  have "sorted_wrt (\<lambda>x y. k y \<le> k x) (take n (sort_desc k xs) @ drop n (sort_desc k xs))"
    by (simp add: sorted_sort_desc)
  with assms show ?thesis unfolding sorted_wrt_append by blast
qed

section \<open>The contract of an embedder\<close>

locale text_embedder =
  fixes emb :: "string \<Rightarrow> pyfloat list res"
    and dims :: int
  assumes embed_length: "emb s = Inr v \<Longrightarrow> length v = nat dims"
begin

lemma same_dimensions: "emb s = Inr v \<Longrightarrow> emb t = Inr w \<Longrightarrow> length v = length w"
  using embed_length by simp

end

lemma length_add_tokens: "add_tokens dims ts vec = Inr v \<Longrightarrow> length v = length vec"
  by (induction ts arbitrary: vec) (auto simp: add_token_def Let_def split: sum.splits if_splits)

lemma length_divide_all: "divide_all n vs = Inr ws \<Longrightarrow> length ws = length vs"
  by (induction vs arbitrary: ws) (auto split: option.splits sum.splits)

lemma length_l2_normalise: "l2_normalise v = Inr w \<Longrightarrow> length w = length v"
  by (auto simp: l2_normalise_def dest: length_divide_all split: option.splits if_splits)

interpretation hashing: text_embedder "embed dims" dims
  by unfold_locales
    (auto simp: embed_def dest!: length_add_tokens length_l2_normalise split: sum.splits)

section \<open>The contract of a store\<close>

text \<open>
  A store is a map from chunk ids to records: an upsert overrides it in the order of the list, and a
  query returns entries of the map with their scores, best first.
\<close>

locale vector_store =
  fixes contents :: "'s \<Rightarrow> string \<Rightarrow> vector_record option"
    and put :: "vector_record list \<Rightarrow> 's \<Rightarrow> 's"
    and ask :: "pyfloat list \<Rightarrow> int \<Rightarrow> 's \<Rightarrow> scored_record list"
    and ok :: "'s \<Rightarrow> bool"
  assumes put_ok: "ok s \<Longrightarrow> ok (put rs s)"
    and contents_put: "contents (put rs s) = contents s ++ map_of (map (\<lambda>r. (vr_chunk_id r, r)) (rev rs))"
    and ask_sound: "ok s \<Longrightarrow> h \<in> set (ask e k s) \<Longrightarrow>
      contents s (vr_chunk_id (sr_record h)) = Some (sr_record h)
      \<and> sr_score h = cosine_similarity e (vr_embedding (sr_record h))"
    and ask_sorted: "sorted_wrt (\<lambda>x y. sr_score y \<le> sr_score x) (ask e k s)"
    and ask_bound: "length (ask e k s) \<le> nat k"
    and ask_best: "ok s \<Longrightarrow> contents s c = Some r \<Longrightarrow> h \<in> set (ask e k s) \<Longrightarrow>
      (\<exists>h' \<in> set (ask e k s). sr_record h' = r)
      \<or> cosine_similarity e (vr_embedding r) \<le> sr_score h"
begin

lemma put_latest: "contents (put [r] s) (vr_chunk_id r) = Some r"
  by (simp add: contents_put)

lemma put_other: "vr_chunk_id r \<noteq> c \<Longrightarrow> contents (put [r] s) c = contents s c"
  by (simp add: contents_put map_add_def)

lemma put_twice: "contents (put rs (put rs s)) = contents (put rs s)"
  by (simp add: contents_put map_add_def fun_eq_iff split: option.splits)

text \<open>A record that scores strictly above some result is itself a result.\<close>

lemma never_misses:
  "ok s \<Longrightarrow> contents s c = Some r \<Longrightarrow> h \<in> set (ask e k s)
    \<Longrightarrow> sr_score h < cosine_similarity e (vr_embedding r) \<Longrightarrow> \<exists>h' \<in> set (ask e k s). sr_record h' = r"
  using ask_best [of s c r h e k] by auto

end

definition store_ok :: "memory_store \<Rightarrow> bool" where
  "store_ok store \<longleftrightarrow> distinct (dict_keys store) \<and> (\<forall>(k, r) \<in> set store. vr_chunk_id r = k)"

lemma store_ok_set: "store_ok st \<Longrightarrow> store_ok (dict_set (vr_chunk_id r) r st)"
proof -
  have "(k, r') \<in> set (dict_set (vr_chunk_id r) r st) \<Longrightarrow>
      (k, r') \<in> set st \<or> (k = vr_chunk_id r \<and> r' = r)" for k r'
    by (induction st) (auto split: if_splits)
  then show "store_ok st \<Longrightarrow> store_ok (dict_set (vr_chunk_id r) r st)"
    unfolding store_ok_def by (metis (mono_tags, lifting) case_prodD case_prodI2 distinct_dict_set)
qed

lemma store_ok_upsert: "store_ok st \<Longrightarrow> store_ok (upsert rs st)"
  unfolding upsert_def by (induction rs arbitrary: st) (auto intro: store_ok_set)

lemma upsert_contents:
  "map_of (upsert rs st) = map_of st ++ map_of (map (\<lambda>r. (vr_chunk_id r, r)) (rev rs))"
proof (induction rs arbitrary: st)
  case (Cons r rs)
  then show ?case
    by (auto simp: upsert_def map_add_def fun_eq_iff split: option.splits)
qed (simp add: upsert_def)

lemma query_element:
  "h \<in> set (query e k st) \<Longrightarrow> sr_record h \<in> snd ` set st
     \<and> sr_score h = cosine_similarity e (vr_embedding (sr_record h))"
  by (force simp: query_def Let_def dest!: in_set_takeD)

lemma store_ok_lookup: "store_ok st \<Longrightarrow> r \<in> snd ` set st \<Longrightarrow> map_of st (vr_chunk_id r) = Some r"
  by (auto simp: store_ok_def)

interpretation mem: vector_store map_of upsert query store_ok
proof
  fix st :: memory_store and rs e k h c r
  show "store_ok st \<Longrightarrow> store_ok (upsert rs st)" by (rule store_ok_upsert)
  show "map_of (upsert rs st) = map_of st ++ map_of (map (\<lambda>r. (vr_chunk_id r, r)) (rev rs))"
    by (rule upsert_contents)
  show "store_ok st \<Longrightarrow> h \<in> set (query e k st) \<Longrightarrow> map_of st (vr_chunk_id (sr_record h)) = Some (sr_record h)
      \<and> sr_score h = cosine_similarity e (vr_embedding (sr_record h))"
    using query_element store_ok_lookup by blast
  show "sorted_wrt (\<lambda>x y. sr_score y \<le> sr_score x) (query e k st)"
    by (simp add: query_def Let_def sorted_wrt_take sorted_sort_desc)
  show "length (query e k st) \<le> nat k" by (simp add: query_def Let_def)
  assume c: "map_of st c = Some r" and h: "h \<in> set (query e k st)"
  let ?h = "\<lparr> sr_record = r, sr_score = cosine_similarity e (vr_embedding r) \<rparr>"
  let ?all = "sort_desc sr_score (map (\<lambda>r. \<lparr> sr_record = r,
      sr_score = cosine_similarity e (vr_embedding r) \<rparr>) (map snd st))"
  have "r \<in> snd ` set st" using map_of_SomeD [OF c] by force
  then have "?h \<in> set ?all" by auto
  then have "?h \<in> set (take (nat (max 0 k)) ?all) \<or> ?h \<in> set (drop (nat (max 0 k)) ?all)"
    by (metis Un_iff append_take_drop_id set_append)
  then show "(\<exists>h' \<in> set (query e k st). sr_record h' = r)
      \<or> cosine_similarity e (vr_embedding r) \<le> sr_score h"
  proof
    assume "?h \<in> set (take (nat (max 0 k)) ?all)"
    then show ?thesis by (intro disjI1 bexI [where x = ?h]) (simp_all add: query_def Let_def)
  next
    assume "?h \<in> set (drop (nat (max 0 k)) ?all)"
    then have "sr_score ?h \<le> sr_score h"
      using h by (intro take_sort_desc_best) (simp_all add: query_def Let_def)
    then show ?thesis by simp
  qed
qed

end
