(* ===== verification/Storage.thy ===== *)
theory Storage
  imports Sha256 Errors
begin

text \<open>
  services/storage_service.py: content-addressed keys and the local file storage with its guard
  against keys that leave the root. Paths are lists of components of absolute POSIX paths, and a
  file system maps them to directories and files. It has no symbolic links, so \<open>resolve()\<close> only
  removes the \<open>..\<close> components.
\<close>

section \<open>Paths\<close>

type_synonym path = "string list"

text \<open>The components of a path string: empty ones and \<open>.\<close> are dropped.\<close>

definition path_parts :: "string \<Rightarrow> path" where
  "path_parts s = filter (\<lambda>p. p \<noteq> [] \<and> p \<noteq> ''.'') (split_on (CHR ''/'') s)"

definition is_absolute :: "string \<Rightarrow> bool" where
  "is_absolute s \<longleftrightarrow> starts_with ''/'' s"

text \<open>\<open>Path(filename).name\<close>\<close>

definition path_name :: "string \<Rightarrow> string" where
  "path_name s = (case path_parts s of [] \<Rightarrow> '''' | p # ps \<Rightarrow> last (p # ps))"

definition content_key :: "string \<Rightarrow> string \<Rightarrow> string" where
  "content_key filename data =
     sha256_hex data @ ''/'' @ (if path_name filename = [] then ''file'' else path_name filename)"

text \<open>\<open>root / key\<close>: an absolute key replaces the root.\<close>

definition join_key :: "path \<Rightarrow> string \<Rightarrow> path" where
  "join_key base key = (if is_absolute key then path_parts key else base @ path_parts key)"

definition resolve :: "path \<Rightarrow> path" where
  "resolve p = fold (\<lambda>c acc. if c = ''..'' then butlast acc else acc @ [c]) p []"

section \<open>The file system\<close>

datatype node = Dir | File string

type_synonym fsys = "path \<Rightarrow> node option"

definition os_error :: "string \<Rightarrow> exn" where
  "os_error kind = Py kind ''''"

text \<open>\<open>mkdir(parents=True, exist_ok=True)\<close>\<close>

definition mkdirs :: "path \<Rightarrow> fsys \<Rightarrow> fsys res" where
  "mkdirs p fs =
     (if list_ex (\<lambda>n. case fs (take n p) of Some (File _) \<Rightarrow> True | _ \<Rightarrow> False) [0..<length p]
      then Inl (os_error ''NotADirectoryError'')
      else (case fs p of
          Some (File _) \<Rightarrow> Inl (os_error ''FileExistsError'')
        | _ \<Rightarrow> Inr (\<lambda>q. if prefix q p then Some Dir else fs q)))"

definition write_bytes :: "path \<Rightarrow> string \<Rightarrow> fsys \<Rightarrow> fsys res" where
  "write_bytes p data fs = (case fs p of
       Some Dir \<Rightarrow> Inl (os_error ''IsADirectoryError'')
     | _ \<Rightarrow> Inr (fs(p \<mapsto> File data)))"

definition read_bytes :: "path \<Rightarrow> fsys \<Rightarrow> string res" where
  "read_bytes p fs = (case fs p of
       None \<Rightarrow> Inl (os_error ''FileNotFoundError'')
     | Some Dir \<Rightarrow> Inl (os_error ''IsADirectoryError'')
     | Some (File data) \<Rightarrow> Inr data)"

section \<open>Local file storage\<close>

definition illegal_key :: exn where
  "illegal_key = Py ''ValueError'' ''Illegal storage key.''"

text \<open>\<open>_path\<close>, for a root that is itself resolved. A NUL makes \<open>resolve\<close> raise.\<close>

definition storage_path :: "path \<Rightarrow> string \<Rightarrow> path res" where
  "storage_path base key =
     (if CHR 0x00 \<in> set key then Inl (Py ''ValueError'' ''embedded null byte'')
      else (let p = resolve (join_key base key)
            in if \<not> strict_prefix base p \<and> p \<noteq> base then Inl illegal_key else Inr p))"

definition storage_put :: "path \<Rightarrow> string \<Rightarrow> string \<Rightarrow> (exn, fsys, string) comp" where
  "storage_put base key data fs =
     (case storage_path base key of
        Inl e \<Rightarrow> (Inl e, fs)
      | Inr p \<Rightarrow> (case mkdirs (butlast p) fs of
          Inl e \<Rightarrow> (Inl e, fs)
        | Inr fs1 \<Rightarrow> (case write_bytes p data fs1 of
            Inl e \<Rightarrow> (Inl e, fs1) | Inr fs2 \<Rightarrow> (Inr key, fs2))))"

definition storage_get :: "path \<Rightarrow> string \<Rightarrow> fsys \<Rightarrow> string res" where
  "storage_get base key fs = (case storage_path base key of Inl e \<Rightarrow> Inl e | Inr p \<Rightarrow> read_bytes p fs)"

definition storage_exists :: "path \<Rightarrow> string \<Rightarrow> fsys \<Rightarrow> bool res" where
  "storage_exists base key fs =
     (case storage_path base key of Inl e \<Rightarrow> Inl e | Inr p \<Rightarrow> Inr (fs p \<noteq> None))"

section \<open>The guard\<close>

lemma storage_path_inside: "storage_path base key = Inr p \<Longrightarrow> prefix base p"
  by (auto simp: storage_path_def Let_def split: if_splits)

lemma storage_path_Inl: "storage_path base key = Inl e \<Longrightarrow> exn_name e = ''ValueError''"
  by (auto simp: storage_path_def Let_def illegal_key_def split: if_splits)

lemma resolve_append_plain: "\<forall>c \<in> set cs. c \<noteq> ''..'' \<Longrightarrow> resolve (p @ cs) = resolve p @ cs"
proof -
  have "\<forall>c \<in> set cs. c \<noteq> ''..'' \<Longrightarrow>
      fold (\<lambda>c acc. if c = ''..'' then butlast acc else acc @ [c]) cs acc = acc @ cs" for acc
    by (induction cs arbitrary: acc) auto
  then show "\<forall>c \<in> set cs. c \<noteq> ''..'' \<Longrightarrow> resolve (p @ cs) = resolve p @ cs"
    by (simp add: resolve_def)
qed

definition is_resolved :: "path \<Rightarrow> bool" where
  "is_resolved p \<longleftrightarrow> resolve p = p"

lemma resolved_plain: "\<forall>c \<in> set p. c \<noteq> ''..'' \<Longrightarrow> is_resolved p"
  using resolve_append_plain [of p "[]"] by (simp add: is_resolved_def resolve_def)

lemma split_on_nonempty [simp]: "split_on d s \<noteq> []"
  by (induction s) (auto split: list.splits)

lemma split_on_absent: "d \<notin> set s \<Longrightarrow> split_on d s = [s]"
  by (induction s) auto

lemma split_on_parts: "w \<in> set (split_on d s) \<Longrightarrow> d \<notin> set w"
proof (induction s arbitrary: w)
  case (Cons c s)
  then show ?case by (cases "split_on d s") (auto split: if_splits)
qed simp

lemma split_on_append: "d \<notin> set s \<Longrightarrow> split_on d (s @ d # t) = s # split_on d t"
  by (induction s) auto

lemma path_name_part: "CHR ''/'' \<notin> set (path_name s) \<and> path_name s \<noteq> ''.''"
proof (cases "path_parts s")
  case (Cons p ps)
  then have "path_name s = last (path_parts s)" by (simp add: path_name_def)
  moreover have "last (path_parts s) \<in> set (path_parts s)" using Cons by (metis last_in_set list.discI)
  ultimately show ?thesis by (auto simp: path_parts_def split_on_parts)
qed (simp add: path_name_def)

text \<open>The name stored under: the last component of the file name, or \<open>file\<close>.\<close>

definition stored_name :: "string \<Rightarrow> string" where
  "stored_name filename = (if path_name filename = [] then ''file'' else path_name filename)"

lemma stored_name_plain:
  "CHR ''/'' \<notin> set (stored_name f) \<and> stored_name f \<noteq> ''.'' \<and> stored_name f \<noteq> []"
  using path_name_part [of f] by (simp add: stored_name_def)

lemma slash_not_hex: "CHR ''/'' \<notin> set (sha256_hex d)" "CHR ''.'' \<notin> set (sha256_hex d)"
  "CHR 0x00 \<notin> set (sha256_hex d)"
  by (auto simp: is_hex_def code_def dest!: sha256_hex_chars)

lemma content_key_parts: "path_parts (content_key f d) = [sha256_hex d, stored_name f]"
proof -
  have "split_on (CHR ''/'') (content_key f d) = [sha256_hex d, stored_name f]"
    using stored_name_plain [of f]
    by (simp add: content_key_def stored_name_def [symmetric] split_on_append slash_not_hex split_on_absent)
  moreover have "sha256_hex d \<noteq> []" "sha256_hex d \<noteq> ''.''"
    using length_sha256_hex [of d] by (auto simp del: length_sha256_hex)
  ultimately show ?thesis using stored_name_plain [of f] by (simp add: path_parts_def)
qed

lemma content_key_relative: "\<not> is_absolute (content_key f d)"
proof -
  have "sha256_hex d \<noteq> []" using length_sha256_hex [of d] by (auto simp del: length_sha256_hex)
  then obtain c cs where "sha256_hex d = c # cs" by (cases "sha256_hex d") auto
  with slash_not_hex(1) [of d] show ?thesis
    by (auto simp: is_absolute_def starts_with_def content_key_def)
qed

text \<open>
  A content key is stored at \<open>root/digest/name\<close>, whatever the file name, with one exception: the
  name \<open>..\<close> leads back to the root directory itself.
\<close>

lemma content_key_path:
  assumes "is_resolved base" "CHR 0x00 \<notin> set (stored_name f)"
  shows "storage_path base (content_key f d) =
    Inr (if stored_name f = ''..'' then base else base @ [sha256_hex d, stored_name f])"
proof -
  have nul: "CHR 0x00 \<notin> set (content_key f d)"
    using assms(2) slash_not_hex(3) [of d] by (auto simp: content_key_def stored_name_def)
  have hex: "sha256_hex d \<noteq> ''..''"
    using length_sha256_hex [of d] by (auto simp del: length_sha256_hex)
  have "resolve (base @ [sha256_hex d, stored_name f]) =
      (if stored_name f = ''..'' then base else base @ [sha256_hex d, stored_name f])"
    using assms(1) hex by (simp add: resolve_def is_resolved_def)
  then show ?thesis
    using nul by (auto simp: storage_path_def Let_def join_key_def content_key_relative
        content_key_parts strict_prefix_def)
qed

section \<open>The contract of object storage\<close>

text \<open>
  What a client relies on: bytes put under a key are got back, other keys keep theirs. Two keys may
  name the same object; \<open>same\<close> says when.
\<close>

locale object_storage =
  fixes put :: "string \<Rightarrow> string \<Rightarrow> (exn, 's, string) comp"
    and get :: "string \<Rightarrow> 's \<Rightarrow> string res"
    and exists :: "string \<Rightarrow> 's \<Rightarrow> bool res"
    and same :: "string \<Rightarrow> string \<Rightarrow> bool"
  assumes put_get: "put k d s = (Inr k', t) \<Longrightarrow> k' = k \<and> get k t = Inr d"
    and put_other: "put k d s = (Inr k', t) \<Longrightarrow> get j s = Inr x \<Longrightarrow> \<not> same j k \<Longrightarrow> get j t = Inr x"
    and get_exists: "get k s = Inr x \<Longrightarrow> exists k s = Inr True"
begin

lemma put_exists: "put k d s = (Inr k', t) \<Longrightarrow> exists k t = Inr True"
  using put_get get_exists by blast

lemma put_twice: "put k d s = (Inr a, t) \<Longrightarrow> put k e t = (Inr b, u) \<Longrightarrow> get k u = Inr e"
  using put_get by blast

lemma two_objects:
  "put k d s = (Inr a, t) \<Longrightarrow> put j e t = (Inr b, u) \<Longrightarrow> \<not> same k j \<Longrightarrow>
     get k u = Inr d \<and> get j u = Inr e"
  using put_get put_other by blast

end

lemma mkdirs_Inr:
  "mkdirs p fs = Inr fs' \<Longrightarrow> fs' = (\<lambda>q. if prefix q p then Some Dir else fs q)
     \<and> (\<forall>q d. prefix q p \<longrightarrow> fs q \<noteq> Some (File d))"
proof -
  assume a: "mkdirs p fs = Inr fs'"
  then have *: "\<not> list_ex (\<lambda>n. case fs (take n p) of Some (File _) \<Rightarrow> True | _ \<Rightarrow> False) [0..<length p]"
    and p: "\<forall>d. fs p \<noteq> Some (File d)" and "fs' = (\<lambda>q. if prefix q p then Some Dir else fs q)"
    by (auto simp: mkdirs_def split: if_splits option.splits node.splits)
  moreover have "fs q \<noteq> Some (File d)" if q: "prefix q p" for q d
  proof (cases "q = p")
    case False
    then have "q = take (length q) p" "length q < length p"
      using q by (auto simp: prefix_def)
    moreover have "\<forall>n \<in> {0..<length p}. \<not> (case fs (take n p) of Some (File _) \<Rightarrow> True | _ \<Rightarrow> False)"
      using * by (simp add: list_ex_iff)
    ultimately have "\<not> (case fs q of Some (File _) \<Rightarrow> True | _ \<Rightarrow> False)"
      by (metis atLeastLessThan_iff zero_le)
    then show ?thesis by auto
  qed (use p in simp)
  ultimately show ?thesis by blast
qed

definition same_object :: "path \<Rightarrow> string \<Rightarrow> string \<Rightarrow> bool" where
  "same_object base j k \<longleftrightarrow> storage_path base j = storage_path base k"

lemma storage_put_Inr:
  assumes "storage_put base k d fs = (Inr k', fs')"
  obtains p where "storage_path base k = Inr p" "k' = k" "fs' p = Some (File d)"
    "\<And>q x. q \<noteq> p \<Longrightarrow> fs q = Some (File x) \<Longrightarrow> fs' q = Some (File x)"
proof -
  obtain p fs1 where p: "storage_path base k = Inr p" "mkdirs (butlast p) fs = Inr fs1"
    "write_bytes p d fs1 = Inr fs'" "k' = k"
    using assms by (auto simp: storage_put_def split: sum.splits)
  then have "fs' = fs1(p \<mapsto> File d)" by (auto simp: write_bytes_def split: option.splits node.splits)
  with p mkdirs_Inr [OF p(2)] show thesis by (intro that) auto
qed

interpretation local_fs: object_storage "storage_put base" "storage_get base" "storage_exists base"
  "same_object base"
proof
  fix k d k' j x and s t :: fsys
  show "storage_put base k d s = (Inr k', t) \<Longrightarrow> k' = k \<and> storage_get base k t = Inr d"
    by (erule storage_put_Inr) (simp add: storage_get_def read_bytes_def)
  show "storage_get base k s = Inr x \<Longrightarrow> storage_exists base k s = Inr True"
    by (auto simp: storage_get_def storage_exists_def read_bytes_def split: sum.splits option.splits)
  show "storage_put base k d s = (Inr k', t) \<Longrightarrow> storage_get base j s = Inr x \<Longrightarrow>
      \<not> same_object base j k \<Longrightarrow> storage_get base j t = Inr x"
    by (erule storage_put_Inr)
      (auto simp: storage_get_def read_bytes_def same_object_def split: sum.splits option.splits node.splits)
qed

end
