(* ===== verification/Database.thy ===== *)
theory Database
  imports Env Enums VectorStore Storage
begin

text \<open>
  The state of the platform: the tables of db/models as lists of rows in insertion order, the
  telemetry tables the router's observer writes in sessions of its own, the in-process vector store
  and the object storage, beside the streams of the environment. Primary keys and unique columns
  are enforced on insert with \<open>IntegrityError\<close>; column lengths and foreign keys are not modelled.
  Columns that hold enumeration members hold their string values, as in the source.
\<close>

section \<open>Rows\<close>

record workflow_row =
  wf_id :: uuid
  wf_created_at :: int
  wf_updated_at :: int
  wf_type :: string
  wf_status :: string
  wf_application_id :: "uuid option"
  wf_input :: json_dict
  wf_result :: "json_dict option"
  wf_error :: "string option"
  wf_external_run_id :: "string option"
  wf_requires_human_approval :: bool
  wf_created_by :: "uuid option"

record agent_run_row =
  ag_id :: uuid
  ag_created_at :: int
  ag_updated_at :: int
  ag_workflow_id :: "uuid option"
  ag_agent_name :: string
  ag_status :: string
  ag_input :: json_dict
  ag_output :: "json option"
  ag_error :: "string option"
  ag_latency_ms :: "int option"
  ag_prompt_version :: "string option"
  ag_model_used :: "string option"

record approval_row =
  ap_id :: uuid
  ap_created_at :: int
  ap_updated_at :: int
  ap_workflow_id :: uuid
  ap_kind :: string
  ap_decision :: string
  ap_required_permission :: string
  ap_summary :: "string option"
  ap_decided_by :: "uuid option"
  ap_decision_reason :: "string option"

record task_row =
  tk_id :: uuid
  tk_workflow_id :: uuid
  tk_name :: string
  tk_state :: string
  tk_detail :: "string option"
  tk_progress :: pyfloat

record audit_row =
  al_id :: uuid
  al_created_at :: int
  al_updated_at :: int
  al_actor_id :: "uuid option"
  al_actor_email :: "string option"
  al_action :: string
  al_resource_type :: string
  al_resource_id :: "string option"
  al_outcome :: string
  al_request_id :: "string option"
  al_context :: json_dict

record document_row =
  do_id :: uuid
  do_created_at :: int
  do_updated_at :: int
  do_filename :: string
  do_content_type :: string
  do_size_bytes :: int
  do_storage_key :: string
  do_sha256 :: "string option"
  do_status :: string
  do_metadata :: json_dict
  do_uploaded_by :: "uuid option"

record chunk_row =
  ch_id :: uuid
  ch_created_at :: int
  ch_updated_at :: int
  ch_document_id :: uuid
  ch_index :: int
  ch_content :: string
  ch_token_count :: int

record embedding_row =
  em_id :: uuid
  em_created_at :: int
  em_updated_at :: int
  em_chunk_id :: uuid
  em_model :: string
  em_dimensions :: int
  em_vector :: "pyfloat list"

record user_row =
  us_id :: uuid
  us_created_at :: int
  us_updated_at :: int
  us_email :: string
  us_full_name :: "string option"
  us_hashed_password :: "string option"
  us_is_active :: bool
  us_external_subject :: "string option"

record role_row =
  rl_id :: uuid
  rl_created_at :: int
  rl_updated_at :: int
  rl_name :: string
  rl_description :: "string option"

record permission_row =
  pm_id :: uuid
  pm_created_at :: int
  pm_updated_at :: int
  pm_code :: string
  pm_description :: "string option"

record model_call_row =
  ml_id :: uuid
  ml_created_at :: int
  ml_updated_at :: int
  ml_agent_run_id :: "uuid option"
  ml_provider :: string
  ml_model :: string
  ml_routing_policy :: string
  ml_used_fallback :: bool
  ml_fallback_reason :: "string option"
  ml_prompt_tokens :: int
  ml_completion_tokens :: int
  ml_latency_ms :: "int option"
  ml_success :: bool
  ml_error :: "string option"
  ml_prompt_version :: "string option"

record cost_row =
  cs_id :: uuid
  cs_created_at :: int
  cs_updated_at :: int
  cs_model_call_id :: "uuid option"
  cs_provider :: string
  cs_model :: string
  cs_total_tokens :: int
  cs_estimated_cost_usd :: pyfloat

section \<open>The database and the world\<close>

record db =
  db_workflows :: "workflow_row list"
  db_agent_runs :: "agent_run_row list"
  db_approvals :: "approval_row list"
  db_tasks :: "task_row list"
  db_audit_logs :: "audit_row list"
  db_documents :: "document_row list"
  db_chunks :: "chunk_row list"
  db_embeddings :: "embedding_row list"
  db_users :: "user_row list"
  db_roles :: "role_row list"
  db_permissions :: "permission_row list"
  db_user_roles :: "(uuid \<times> uuid) list"
  db_role_permissions :: "(uuid \<times> uuid) list"

record telemetry =
  tl_model_calls :: "model_call_row list"
  tl_costs :: "cost_row list"

record world = env +
  w_db :: db
  w_tele :: telemetry
  w_vectors :: memory_store
  w_files :: fsys

type_synonym 'a action = "(exn, world, 'a) comp"

definition empty_db :: db where
  "empty_db = \<lparr> db_workflows = [], db_agent_runs = [], db_approvals = [], db_tasks = [],
     db_audit_logs = [], db_documents = [], db_chunks = [], db_embeddings = [], db_users = [],
     db_roles = [], db_permissions = [], db_user_roles = [], db_role_permissions = [] \<rparr>"

section \<open>Sessions\<close>

definition integrity_error :: exn where
  "integrity_error = Py ''IntegrityError'' ''UNIQUE constraint failed''"

text \<open>
  \<open>session.add(row); await session.flush()\<close>: the defaults of the mixins are drawn, and the row is
  refused when it clashes with one of the table.
\<close>

definition insert_row ::
  "('r \<Rightarrow> 'r \<Rightarrow> bool) \<Rightarrow> (db \<Rightarrow> 'r list) \<Rightarrow> (('r list \<Rightarrow> 'r list) \<Rightarrow> db \<Rightarrow> db)
     \<Rightarrow> (uuid \<Rightarrow> int \<Rightarrow> int \<Rightarrow> 'r) \<Rightarrow> 'r action" where
  "insert_row clash rows upd mk =
     bindE uuid4 (\<lambda>i. bindE utc_now (\<lambda>c. bindE utc_now (\<lambda>u s.
       if list_ex (clash (mk i c u)) (rows (w_db s)) then (Inl integrity_error, s)
       else (Inr (mk i c u), s\<lparr>w_db := upd (\<lambda>rs. rs @ [mk i c u]) (w_db s)\<rparr>))))"

text \<open>
  A flush of a changed object: an UPDATE is sent only when a column differs from what is stored, and
  it sets \<open>updated_at\<close>. The result is the row as stored.
\<close>

definition update_row ::
  "('r \<Rightarrow> uuid) \<Rightarrow> (db \<Rightarrow> 'r list) \<Rightarrow> (('r list \<Rightarrow> 'r list) \<Rightarrow> db \<Rightarrow> db) \<Rightarrow> (int \<Rightarrow> 'r \<Rightarrow> 'r)
     \<Rightarrow> 'r \<Rightarrow> 'r action" where
  "update_row key rows upd touch r = (\<lambda>s.
     if r \<in> set (rows (w_db s)) then (Inr r, s)
     else bindE utc_now (\<lambda>n s'. (Inr (touch n r),
            s'\<lparr>w_db := upd (map (\<lambda>x. if key x = key r then touch n r else x)) (w_db s')\<rparr>)) s)"

definition select_one :: "('r \<Rightarrow> bool) \<Rightarrow> (db \<Rightarrow> 'r list) \<Rightarrow> 'r option action" where
  "select_one P rows = getE (\<lambda>s. List.find P (rows (w_db s)))"

text \<open>
  The transactional session of a request: its writes are kept when it returns and undone when it
  raises. What was written elsewhere (telemetry, files, vectors) stays.
\<close>

definition in_transaction :: "('e, world, 'a) comp \<Rightarrow> ('e, world, 'a) comp" where
  "in_transaction m s = (case m s of
       (Inr x, t) \<Rightarrow> (Inr x, t)
     | (Inl e, t) \<Rightarrow> (Inl e, t\<lparr>w_db := w_db s\<rparr>))"

section \<open>Table operations\<close>

definition same_key :: "('r \<Rightarrow> uuid) \<Rightarrow> 'r \<Rightarrow> 'r \<Rightarrow> bool" where
  "same_key key r x \<longleftrightarrow> key r = key x"

definition insert_workflow where
  "insert_workflow = insert_row (same_key wf_id) db_workflows db_workflows_update"

definition insert_agent_run where
  "insert_agent_run = insert_row (same_key ag_id) db_agent_runs db_agent_runs_update"

definition insert_approval where
  "insert_approval = insert_row (same_key ap_id) db_approvals db_approvals_update"

definition insert_audit_log where
  "insert_audit_log = insert_row (same_key al_id) db_audit_logs db_audit_logs_update"

definition insert_document where
  "insert_document = insert_row (same_key do_id) db_documents db_documents_update"

definition insert_chunk where
  "insert_chunk = insert_row (same_key ch_id) db_chunks db_chunks_update"

definition insert_embedding where
  "insert_embedding = insert_row (same_key em_id) db_embeddings db_embeddings_update"

definition insert_user where
  "insert_user = insert_row (\<lambda>r x. us_id r = us_id x \<or> us_email r = us_email x) db_users db_users_update"

definition insert_role where
  "insert_role = insert_row (\<lambda>r x. rl_id r = rl_id x \<or> rl_name r = rl_name x) db_roles db_roles_update"

definition insert_permission where
  "insert_permission =
     insert_row (\<lambda>r x. pm_id r = pm_id x \<or> pm_code r = pm_code x) db_permissions db_permissions_update"

definition update_workflow where
  "update_workflow = update_row wf_id db_workflows db_workflows_update
     (\<lambda>n r. r\<lparr>wf_updated_at := n\<rparr>)"

definition update_agent_run where
  "update_agent_run = update_row ag_id db_agent_runs db_agent_runs_update
     (\<lambda>n r. r\<lparr>ag_updated_at := n\<rparr>)"

definition update_approval where
  "update_approval = update_row ap_id db_approvals db_approvals_update
     (\<lambda>n r. r\<lparr>ap_updated_at := n\<rparr>)"

definition update_document where
  "update_document = update_row do_id db_documents db_documents_update
     (\<lambda>n r. r\<lparr>do_updated_at := n\<rparr>)"

section \<open>What the operations do to the database\<close>

text \<open>The part of the state other than the streams of identifiers and times.\<close>

lemma insert_row_Inr:
  assumes "insert_row clash rows upd mk s = (Inr r, t)"
  shows "\<exists>i c u. r = mk i c u \<and> \<not> list_ex (clash r) (rows (w_db s))
    \<and> w_db t = upd (\<lambda>rs. rs @ [r]) (w_db s) \<and> w_tele t = w_tele s \<and> w_vectors t = w_vectors s
    \<and> w_files t = w_files s"
  using assms
  by (auto simp: insert_row_def bindE_def uuid4_def utc_now_def split: if_splits)

lemma insert_row_Inl:
  assumes "insert_row clash rows upd mk s = (Inl e, t)"
  shows "e = integrity_error \<and> w_db t = w_db s \<and> w_tele t = w_tele s \<and> w_vectors t = w_vectors s
    \<and> w_files t = w_files s"
  using assms
  by (auto simp: insert_row_def bindE_def uuid4_def utc_now_def split: if_splits)

lemma update_row_run:
  "\<exists>n t. update_row key rows upd touch r s =
     (Inr (if r \<in> set (rows (w_db s)) then r else touch n r), t)
    \<and> w_db t = (if r \<in> set (rows (w_db s)) then w_db s
                else upd (map (\<lambda>x. if key x = key r then touch n r else x)) (w_db s))
    \<and> w_tele t = w_tele s \<and> w_vectors t = w_vectors s \<and> w_files t = w_files s"
  by (auto simp: update_row_def bindE_def utc_now_def)

lemma in_transaction_Inl: "in_transaction m s = (Inl e, t) \<Longrightarrow> w_db t = w_db s"
  by (auto simp: in_transaction_def split: prod.splits sum.splits)

lemma in_transaction_Inr: "in_transaction m s = (Inr x, t) \<longleftrightarrow> m s = (Inr x, t)"
  by (auto simp: in_transaction_def split: prod.splits sum.splits)

section \<open>Computations that leave the database alone\<close>

abbreviation quiet :: "'a action \<Rightarrow> bool" where
  "quiet m \<equiv> keeps (\<lambda>s t. w_db s = w_db t) m"

lemma quiet_env [intro, simp]:
  "quiet uuid4" "quiet utc_now" "quiet date_today" "quiet perf_counter" "quiet draw_salt"
  "quiet (http_send rq)"
  by (simp_all add: keeps_def uuid4_def utc_now_def date_today_def perf_counter_def draw_salt_def
      http_send_def)

lemma quiet_combinators [intro, simp]:
  "quiet (ret x)" "quiet (throw e)" "quiet (liftE r)" "quiet (getE f)"
  by (simp_all add: keeps_ret keeps_throw keeps_liftE keeps_getE)

lemma quiet_bindE [intro]: "quiet m \<Longrightarrow> (\<And>x. quiet (f x)) \<Longrightarrow> quiet (bindE m f)"
  by (rule keeps_bindE) simp_all

lemma quiet_thenE [intro]: "quiet m \<Longrightarrow> quiet k \<Longrightarrow> quiet (thenE m k)"
  by (rule keeps_thenE) simp_all

lemma quiet_catchE [intro]: "quiet m \<Longrightarrow> (\<And>e. quiet (h e)) \<Longrightarrow> quiet (catchE m h)"
  by (rule keeps_catchE) simp_all

lemma quiet_select [intro, simp]: "quiet (select_one P rows)"
  by (simp add: select_one_def)

lemma quiet_cases:
  "(b \<Longrightarrow> quiet m) \<Longrightarrow> (\<not> b \<Longrightarrow> quiet k) \<Longrightarrow> quiet (if b then m else k)"
  "quiet n \<Longrightarrow> (\<And>x. quiet (f x)) \<Longrightarrow> quiet (case v of None \<Rightarrow> n | Some x \<Rightarrow> f x)"
  by (cases b, simp_all, cases v, simp_all)

lemmas quiet_rules = quiet_bindE quiet_thenE quiet_catchE quiet_combinators quiet_env quiet_select
  quiet_cases

end
