(* ===== verification/Router.thy ===== *)
theory Router
  imports LlmTypes
begin

text \<open>
  ai/router.py: the provider chain, failover, and the telemetry record of every attempt. Providers
  and observers are computations over an arbitrary state \<open>'s\<close>, which stands for everything their
  answers may depend on (network, clocks, databases), so the theorems hold whatever they answer.
\<close>

section \<open>Providers, records, observers\<close>

record 's provider =
  pv_name :: string
  pv_model :: string
  pv_available :: "(exn, 's, bool) comp"
  pv_complete :: "completion_request \<Rightarrow> (exn, 's, completion_result) comp"

record model_call_record =
  mc_provider :: string
  mc_model :: string
  mc_routing_policy :: string
  mc_used_fallback :: bool
  mc_fallback_reason :: "string option"
  mc_prompt_tokens :: int
  mc_completion_tokens :: int
  mc_latency_ms :: int
  mc_success :: bool
  mc_error :: "string option"
  mc_prompt_version :: "string option"
  mc_estimated_cost_usd :: pyfloat
  mc_agent_run_id :: "uuid option"

type_synonym 's observer = "model_call_record \<Rightarrow> (exn, 's, unit) comp"

definition null_observer :: "'s observer" where
  "null_observer rec = ret ()"

text \<open>The in-memory observer keeps its list beside the rest of the state.\<close>

definition in_memory_observer :: "('w \<times> model_call_record list) observer" where
  "in_memory_observer rec = (\<lambda>(w, recs). (Inr (), (w, recs @ [rec])))"

record 's router =
  rt_providers :: "'s provider list"
  rt_policy :: string
  rt_observer :: "'s observer"

definition make_router :: "'s provider list \<Rightarrow> string \<Rightarrow> 's observer option \<Rightarrow> 's router res" where
  "make_router providers policy obs =
     (if providers = [] then
        Inl (Py ''ValueError'' ''ModelRouter requires at least one provider.'')
      else Inr \<lparr> rt_providers = providers, rt_policy = policy,
                 rt_observer = (case obs of None \<Rightarrow> null_observer | Some ob \<Rightarrow> ob) \<rparr>)"

definition provider_names :: "'s router \<Rightarrow> string list" where
  "provider_names rt = map pv_name (rt_providers rt)"

section \<open>Telemetry\<close>

definition safe_record :: "'s router \<Rightarrow> model_call_record \<Rightarrow> (exn, 's, unit) comp" where
  "safe_record rt rec = catchE (rt_observer rt rec) (\<lambda>_. ret ())"

definition success_record ::
  "'s router \<Rightarrow> completion_request \<Rightarrow> completion_result \<Rightarrow> uuid option \<Rightarrow> model_call_record" where
  "success_record rt rq res run = \<lparr>
     mc_provider = cr_provider res, mc_model = cr_model res, mc_routing_policy = rt_policy rt,
     mc_used_fallback = cr_used_fallback res, mc_fallback_reason = cr_fallback_reason res,
     mc_prompt_tokens = cr_prompt_tokens res, mc_completion_tokens = cr_completion_tokens res,
     mc_latency_ms = cr_latency_ms res, mc_success = True, mc_error = None,
     mc_prompt_version = cq_prompt_version rq,
     mc_estimated_cost_usd = estimate_cost_usd (cr_provider res) (cr_model res)
       (cr_prompt_tokens res) (cr_completion_tokens res),
     mc_agent_run_id = run \<rparr>"

definition failure_record ::
  "'s router \<Rightarrow> completion_request \<Rightarrow> 's provider \<Rightarrow> bool \<Rightarrow> string \<Rightarrow> uuid option
     \<Rightarrow> model_call_record" where
  "failure_record rt rq p used err run = \<lparr>
     mc_provider = pv_name p, mc_model = pv_model p, mc_routing_policy = rt_policy rt,
     mc_used_fallback = used, mc_fallback_reason = None,
     mc_prompt_tokens = estimated_prompt_tokens rq, mc_completion_tokens = 0,
     mc_latency_ms = 0, mc_success = False, mc_error = Some err,
     mc_prompt_version = cq_prompt_version rq, mc_estimated_cost_usd = Fin 0,
     mc_agent_run_id = run \<rparr>"

definition emit_success where
  "emit_success rt rq res run = safe_record rt (success_record rt rq res run)"

definition emit_failure where
  "emit_failure rt rq p used err run = safe_record rt (failure_record rt rq p used err run)"

section \<open>The routing loop\<close>

text \<open>\<open>is_available()\<close>, with any exception read as unavailable.\<close>

definition probe :: "'s provider \<Rightarrow> (exn, 's, bool) comp" where
  "probe p = catchE (pv_available p) (\<lambda>_. ret False)"

definition unavailable_reason :: "'s provider \<Rightarrow> string" where
  "unavailable_reason p = pv_name p @ '' reported unavailable''"

definition annotate :: "bool \<Rightarrow> string option \<Rightarrow> completion_result \<Rightarrow> completion_result" where
  "annotate used previous res =
     res\<lparr>cr_used_fallback := used, cr_fallback_reason := (if used then previous else None)\<rparr>"

definition exhausted :: "'s router \<Rightarrow> string list \<Rightarrow> exn" where
  "exhausted rt attempts = app_err_details ModelRouterError ''All configured LLM providers failed.''
     [(''policy'', JStr (rt_policy rt)), (''attempts'', JArr (map JStr attempts))]"

fun route_from ::
  "'s router \<Rightarrow> completion_request \<Rightarrow> uuid option \<Rightarrow> nat \<Rightarrow> 's provider list \<Rightarrow> string list
     \<Rightarrow> string option \<Rightarrow> (exn, 's, completion_result) comp" where
  "route_from rt rq run index [] attempts previous = throw (exhausted rt attempts)"
| "route_from rt rq run index (p # ps) attempts previous =
     bindE (probe p) (\<lambda>available.
       if \<not> available then
         (let reason = unavailable_reason p
          in thenE (emit_failure rt rq p (0 < index) reason run)
               (route_from rt rq run (Suc index) ps (attempts @ [reason]) (Some reason)))
       else (\<lambda>s. case pv_complete p rq s of
           (Inl e, s') \<Rightarrow>
             (if exn_is LLMProviderError e then
                thenE (emit_failure rt rq p (0 < index) (exn_str e) run)
                  (route_from rt rq run (Suc index) ps
                     (attempts @ [pv_name p @ '': '' @ exn_str e]) (Some (exn_str e))) s'
              else (Inl e, s'))
         | (Inr res, s') \<Rightarrow>
             (let res' = annotate (0 < index) previous res
              in thenE (emit_success rt rq res' run) (ret res') s')))"

definition router_complete ::
  "'s router \<Rightarrow> completion_request \<Rightarrow> uuid option \<Rightarrow> (exn, 's, completion_result) comp" where
  "router_complete rt rq run = route_from rt rq run 0 (rt_providers rt) [] None"

section \<open>The contract of an observer\<close>

text \<open>
  What the router's audit trail rests on: an observer appends the record to a log it keeps, and the
  providers leave that log alone. \<open>safe_record\<close> swallows whatever the observer raises.
\<close>

locale observed =
  fixes rt :: "'s router"
    and log :: "'s \<Rightarrow> model_call_record list"
  assumes observer_appends: "log (snd (rt_observer rt rec s)) = log s @ [rec]"
    and available_keeps: "p \<in> set (rt_providers rt) \<Longrightarrow> log (snd (pv_available p s)) = log s"
    and complete_keeps: "p \<in> set (rt_providers rt) \<Longrightarrow> log (snd (pv_complete p rq s)) = log s"
begin

lemma safe_record_log: "safe_record rt rec s = (Inr (), t) \<Longrightarrow> log t = log s @ [rec]"
  using observer_appends [of rec s]
  by (auto simp: safe_record_def exec_simps split: prod.splits sum.splits)

lemma safe_record_total: "\<exists>t. safe_record rt rec s = (Inr (), t)"
  by (auto simp: safe_record_def exec_simps split: prod.splits sum.splits)

lemma probe_log: "p \<in> set (rt_providers rt) \<Longrightarrow> probe p s = (r, t) \<Longrightarrow> log t = log s"
  using available_keeps [of p s] by (auto simp: probe_def exec_simps split: prod.splits sum.splits)

lemma probe_total: "\<exists>b t. probe p s = (Inr b, t)"
  by (auto simp: probe_def exec_simps split: prod.splits sum.splits)

end

text \<open>
  The records of a run of failed attempts: the providers in chain order from position \<open>k\<close>, each
  with the error that made it fail.
\<close>

fun fail_records ::
  "'s router \<Rightarrow> completion_request \<Rightarrow> uuid option \<Rightarrow> nat \<Rightarrow> ('s provider \<times> string) list
     \<Rightarrow> model_call_record list" where
  "fail_records rt rq run k [] = []"
| "fail_records rt rq run k ((p, err) # rest) =
     failure_record rt rq p (0 < k) err run # fail_records rt rq run (Suc k) rest"

text \<open>
  How a chain \<open>ps\<close> entered at position \<open>k\<close> can end: at a provider that answered after the failures
  \<open>fs\<close>, exhausted, or with an exception of a kind the router does not catch.
\<close>

inductive chain_outcome ::
  "'s router \<Rightarrow> completion_request \<Rightarrow> uuid option \<Rightarrow> nat \<Rightarrow> 's provider list \<Rightarrow> string option
     \<Rightarrow> model_call_record list \<Rightarrow> completion_result res \<Rightarrow> bool"
  for rt rq run where
  answered: "ps = map fst fs @ p # rest \<Longrightarrow>
     res = annotate (0 < k + length fs) (if fs = [] then previous else Some (snd (last fs))) res0 \<Longrightarrow>
     recs = fail_records rt rq run k fs @ [success_record rt rq res run] \<Longrightarrow>
     chain_outcome rt rq run k ps previous recs (Inr res)"
| exhausted: "ps = map fst fs \<Longrightarrow> recs = fail_records rt rq run k fs \<Longrightarrow>
     exn_is ModelRouterError e \<Longrightarrow> chain_outcome rt rq run k ps previous recs (Inl e)"
| escaped: "ps = map fst fs @ p # rest \<Longrightarrow> recs = fail_records rt rq run k fs \<Longrightarrow>
     \<not> exn_is LLMProviderError e \<Longrightarrow> chain_outcome rt rq run k ps previous recs (Inl e)"

inductive_cases answeredE: "chain_outcome rt rq run k ps previous recs (Inr res)"
inductive_cases failedE: "chain_outcome rt rq run k ps previous recs (Inl e)"

lemma chain_outcome_fail:
  assumes "chain_outcome rt rq run (Suc k) ps (Some err) recs r"
  shows "chain_outcome rt rq run k (p # ps) previous (failure_record rt rq p (0 < k) err run # recs) r"
  using assms
proof cases
  case (answered fs q rest res res0)
  then show ?thesis
    by (intro chain_outcome.answered [where fs = "(p, err) # fs" and p = q and rest = rest
          and ?res0.0 = res0 and res = res, THEN back_subst [where P = "chain_outcome rt rq run k (p # ps) previous _"]]) auto
next
  case (exhausted fs e)
  then show ?thesis
    by (auto intro!: chain_outcome.exhausted [where fs = "(p, err) # fs"])
next
  case (escaped fs q rest e)
  then show ?thesis
    by (auto intro!: chain_outcome.escaped [where fs = "(p, err) # fs" and p = q and rest = rest])
qed

text \<open>The trail of a run, from any state of the world: what the observer's log gains.\<close>

context observed
begin

lemma emit_failure_run:
  "\<exists>t. emit_failure rt rq p used err run s = (Inr (), t)
     \<and> log t = log s @ [failure_record rt rq p used err run]"
  using safe_record_total safe_record_log unfolding emit_failure_def by meson

lemma emit_success_run:
  "\<exists>t. emit_success rt rq res run s = (Inr (), t)
     \<and> log t = log s @ [success_record rt rq res run]"
  using safe_record_total safe_record_log unfolding emit_success_def by meson

lemma route_from_trail:
  assumes "set ps \<subseteq> set (rt_providers rt)"
    and "route_from rt rq run k ps attempts previous s = (r, t)"
  shows "\<exists>recs. log t = log s @ recs \<and> chain_outcome rt rq run k ps previous recs r"
  using assms
proof (induction ps arbitrary: k attempts previous s)
  case Nil
  then have "t = s" "r = Inl (exhausted rt attempts)" by (auto simp: throw_def)
  then show ?case
    by (intro exI [where x = "[]"]) (auto simp: exhausted_def intro!: chain_outcome.exhausted [where fs = "[]"])
next
  case (Cons p ps)
  let ?thesis' = "\<exists>recs. log t = log s @ recs \<and> chain_outcome rt rq run k (p # ps) previous recs r"
  have go_on: ?thesis'
    if fail: "log v = log s" "thenE (emit_failure rt rq p (0 < k) err run)
        (route_from rt rq run (Suc k) ps attempts' (Some err)) v = (r, t)" for v err attempts'
  proof -
    obtain w where w: "emit_failure rt rq p (0 < k) err run v = (Inr (), w)"
      "log w = log v @ [failure_record rt rq p (0 < k) err run]"
      using emit_failure_run by blast
    with fail have "route_from rt rq run (Suc k) ps attempts' (Some err) w = (r, t)"
      by (simp add: thenE_def bindE_def)
    from Cons.IH [OF _ this] Cons.prems(1) obtain recs where
      "log t = log w @ recs" "chain_outcome rt rq run (Suc k) ps (Some err) recs r" by auto
    with w fail show ?thesis
      by (intro exI [where x = "failure_record rt rq p (0 < k) err run # recs"])
        (simp add: chain_outcome_fail)
  qed
  have p: "p \<in> set (rt_providers rt)" using Cons.prems(1) by simp
  obtain b u where b: "probe p s = (Inr b, u)" using probe_total [of p s] by blast
  have u: "log u = log s" by (rule probe_log [OF p b])
  show ?case
  proof (cases b)
    case False
    with b Cons.prems(2) show ?thesis
      using go_on [OF u, of "unavailable_reason p" "attempts @ [unavailable_reason p]"]
      by (simp add: bindE_def Let_def)
  next
    case True
    obtain x v where x: "pv_complete p rq u = (x, v)" by fastforce
    have v: "log v = log s" using complete_keeps [OF p, of rq u] x u by simp
    show ?thesis
    proof (cases x)
      case (Inl e)
      show ?thesis
      proof (cases "exn_is LLMProviderError e")
        case caught: True
        then show ?thesis
          using go_on [OF v] True b x Inl Cons.prems(2) by (fastforce simp: bindE_def)
      next
        case False
        then have "r = Inl e" "t = v" using True b x Inl Cons.prems(2) by (auto simp: bindE_def)
        with False v show ?thesis
          by (intro exI [where x = "[]"]) (auto intro!: chain_outcome.escaped [where fs = "[]"])
      qed
    next
      case (Inr res)
      let ?res = "annotate (0 < k) previous res"
      obtain w where w: "emit_success rt rq ?res run v = (Inr (), w)"
        "log w = log v @ [success_record rt rq ?res run]" using emit_success_run by blast
      then have "r = Inr ?res" "t = w"
        using True b x Inr Cons.prems(2) by (auto simp: bindE_def thenE_def ret_def Let_def)
      with w v show ?thesis
        by (intro exI [where x = "[success_record rt rq ?res run]"])
          (auto intro!: chain_outcome.answered [where fs = "[]" and ?res0.0 = res])
    qed
  qed
qed

lemma complete_trail:
  "router_complete rt rq run s = (r, t)
     \<Longrightarrow> \<exists>recs. log t = log s @ recs \<and> chain_outcome rt rq run 0 (rt_providers rt) None recs r"
  unfolding router_complete_def by (rule route_from_trail [OF subset_refl])

end

section \<open>The in-memory observer meets the contract\<close>

text \<open>
  A provider over a world \<open>'w\<close>, seen as one over the world and the list the observer keeps.
\<close>

definition lift_comp :: "('e, 'w, 'a) comp \<Rightarrow> ('e, 'w \<times> 'l, 'a) comp" where
  "lift_comp m = (\<lambda>(w, l). case m w of (r, w') \<Rightarrow> (r, (w', l)))"

definition lift_provider :: "'w provider \<Rightarrow> ('w \<times> 'l) provider" where
  "lift_provider p = \<lparr> pv_name = pv_name p, pv_model = pv_model p,
     pv_available = lift_comp (pv_available p), pv_complete = (\<lambda>rq. lift_comp (pv_complete p rq)) \<rparr>"

definition audited_router :: "'w provider list \<Rightarrow> string \<Rightarrow> ('w \<times> model_call_record list) router" where
  "audited_router ps policy = \<lparr> rt_providers = map lift_provider ps, rt_policy = policy,
     rt_observer = in_memory_observer \<rparr>"

lemma snd_lift_comp [simp]: "snd (snd (lift_comp m s)) = snd s"
  by (auto simp: lift_comp_def split: prod.splits)

interpretation audited: observed "audited_router ps policy" snd
  by unfold_locales
    (auto simp: audited_router_def in_memory_observer_def lift_provider_def split: prod.splits)

section \<open>Failover\<close>

text \<open>A provider that cannot serve, and one that serves, whatever the state of the world.\<close>

definition fails_always :: "'s provider \<Rightarrow> completion_request \<Rightarrow> bool" where
  "fails_always p rq \<longleftrightarrow> (\<forall>s. (\<exists>t. probe p s = (Inr False, t))
     \<or> (\<exists>t e u. probe p s = (Inr True, t) \<and> pv_complete p rq t = (Inl e, u)
          \<and> exn_is LLMProviderError e))"

definition answers_always :: "'s provider \<Rightarrow> completion_request \<Rightarrow> bool" where
  "answers_always p rq \<longleftrightarrow>
     (\<forall>s. \<exists>t res u. probe p s = (Inr True, t) \<and> pv_complete p rq t = (Inr res, u))"

lemma emit_total:
  "\<exists>t. emit_failure rt rq p used err run s = (Inr (), t)"
  "\<exists>t. emit_success rt rq res run s = (Inr (), t)"
  by (auto simp: emit_failure_def emit_success_def safe_record_def exec_simps
      split: prod.splits sum.splits)

lemma thenE_emit_failure:
  "\<exists>t. thenE (emit_failure rt rq p used err run) m s = m t"
  using emit_total(1) [of rt rq p used err run s] by (auto simp: thenE_def bindE_def)

lemma route_step_fail:
  assumes "fails_always p rq"
  shows "\<exists>attempt err t. route_from rt rq run k (p # ps) attempts previous s =
           route_from rt rq run (Suc k) ps (attempts @ [attempt]) (Some err) t"
proof -
  consider t where "probe p s = (Inr False, t)"
    | t e u where "probe p s = (Inr True, t)" "pv_complete p rq t = (Inl e, u)"
        "exn_is LLMProviderError e"
    using assms unfolding fails_always_def by blast
  then show ?thesis
  proof cases
    case 1
    let ?r = "unavailable_reason p"
    from 1 show ?thesis
      using thenE_emit_failure [of rt rq p "0 < k" ?r run
          "route_from rt rq run (Suc k) ps (attempts @ [?r]) (Some ?r)" t]
      by (auto simp: bindE_def Let_def)
  next
    case 2
    then show ?thesis
      using thenE_emit_failure [of rt rq p "0 < k" "exn_str e" run
          "route_from rt rq run (Suc k) ps (attempts @ [pv_name p @ '': '' @ exn_str e])
             (Some (exn_str e))" u]
      by (auto simp: bindE_def)
  qed
qed

lemma route_skips_failed:
  assumes "\<forall>p \<in> set ps. fails_always p rq" "ps \<noteq> []"
  shows "\<exists>attempts' err t. route_from rt rq run k (ps @ qs) attempts previous s =
           route_from rt rq run (k + length ps) qs (attempts @ attempts') (Some err) t
           \<and> length attempts' = length ps"
  using assms
proof (induction ps arbitrary: k attempts previous s)
  case (Cons p ps)
  obtain a err t where step: "route_from rt rq run k (p # ps @ qs) attempts previous s =
      route_from rt rq run (Suc k) (ps @ qs) (attempts @ [a]) (Some err) t"
    using route_step_fail [of p rq] Cons.prems by fastforce
  show ?case
  proof (cases "ps = []")
    case True
    with step show ?thesis by (intro exI [where x = "[a]"]) auto
  next
    case False
    with Cons.IH [of "Suc k" "attempts @ [a]" "Some err" t] Cons.prems
    obtain attempts' err' t' where "route_from rt rq run (Suc k) (ps @ qs) (attempts @ [a]) (Some err) t =
        route_from rt rq run (Suc k + length ps) qs ((attempts @ [a]) @ attempts') (Some err') t'"
      "length attempts' = length ps" by auto
    with step show ?thesis by (intro exI [where x = "a # attempts'"]) auto
  qed
qed simp

lemma route_answers:
  assumes "answers_always p rq"
  shows "\<exists>res t. route_from rt rq run k (p # ps) attempts previous s =
           (Inr (annotate (0 < k) previous res), t)"
proof -
  obtain t res u where *: "probe p s = (Inr True, t)" "pv_complete p rq t = (Inr res, u)"
    using assms unfolding answers_always_def by blast
  then show ?thesis
    using emit_total(2) [of rt rq "annotate (0 < k) previous res" run u]
    by (auto simp: bindE_def thenE_def ret_def Let_def)
qed

text \<open>The first provider that serves answers the request, and the fallback is marked.\<close>

lemma failover:
  assumes "rt_providers rt = ps @ p # qs" "\<forall>q \<in> set ps. fails_always q rq" "answers_always p rq"
  shows "\<exists>res t. router_complete rt rq run s = (Inr res, t)
    \<and> cr_used_fallback res = (ps \<noteq> []) \<and> (cr_fallback_reason res = None \<longleftrightarrow> ps = [])"
proof (cases "ps = []")
  case True
  with route_answers [OF assms(3), of rt run 0 qs "[]" None s] assms(1) show ?thesis
    by (auto simp: router_complete_def annotate_def)
next
  case False
  from route_skips_failed [OF assms(2) this, of rt run 0 "p # qs" "[]" None s]
  obtain attempts err t where "router_complete rt rq run s =
      route_from rt rq run (length ps) (p # qs) attempts (Some err) t"
    by (auto simp: router_complete_def assms(1) simp del: route_from.simps)
  with route_answers [OF assms(3), of rt run "length ps" qs attempts "Some err" t] False
  show ?thesis by (auto simp: annotate_def)
qed

text \<open>When none serves, the error lists one entry per provider.\<close>

lemma exhausted_run:
  assumes "rt_providers rt \<noteq> []" "\<forall>p \<in> set (rt_providers rt). fails_always p rq"
  shows "\<exists>attempts t. router_complete rt rq run s = (Inl (exhausted rt attempts), t)
    \<and> length attempts = length (rt_providers rt)"
  using route_skips_failed [OF assms(2,1), of rt run 0 "[]" "[]" None s]
  by (auto simp: router_complete_def throw_def)

end
