(* ===== verification/AuditService.thy ===== *)
theory AuditService
  imports Database Router
begin

text \<open>
  services/audit_service.py, the append-only audit trail with its redaction, and
  services/observer.py, the sink of the router's telemetry. The first writes in the request's
  session, the second in a session of its own.
\<close>

section \<open>Redaction\<close>

definition SENSITIVE_KEYS :: "string list" where
  "SENSITIVE_KEYS = [''password'', ''secret'', ''token'', ''authorization'', ''api_key'', ''ssn'',
     ''card_number'']"

definition is_sensitive :: "string \<Rightarrow> bool" where
  "is_sensitive k \<longleftrightarrow> lower k \<in> set SENSITIVE_KEYS"

definition redacted_value :: json where
  "redacted_value = JStr ''***redacted***''"

definition redact :: "json_dict \<Rightarrow> json_dict" where
  "redact context = map (\<lambda>(k, v). (k, if is_sensitive k then redacted_value else v)) context"

section \<open>record\<close>

record audit_event =
  ae_action :: string
  ae_resource_type :: string
  ae_outcome :: string
  ae_actor_id :: "uuid option"
  ae_actor_email :: "string option"
  ae_resource_id :: "string option"
  ae_request_id :: "string option"
  ae_context :: json_dict

definition audit_row_of :: "audit_event \<Rightarrow> uuid \<Rightarrow> int \<Rightarrow> int \<Rightarrow> audit_row" where
  "audit_row_of ev i c u = \<lparr> al_id = i, al_created_at = c, al_updated_at = u,
     al_actor_id = ae_actor_id ev, al_actor_email = ae_actor_email ev, al_action = ae_action ev,
     al_resource_type = ae_resource_type ev, al_resource_id = ae_resource_id ev,
     al_outcome = ae_outcome ev, al_request_id = ae_request_id ev,
     al_context = redact (ae_context ev) \<rparr>"

definition record_audit :: "audit_event \<Rightarrow> audit_row action" where
  "record_audit ev = insert_audit_log (audit_row_of ev)"

section \<open>The contract of the audit trail\<close>

text \<open>What a row must say of the event it records.\<close>

definition records_event :: "audit_event \<Rightarrow> audit_row \<Rightarrow> bool" where
  "records_event ev r \<longleftrightarrow> al_action r = ae_action ev \<and> al_resource_type r = ae_resource_type ev
     \<and> al_resource_id r = ae_resource_id ev \<and> al_outcome r = ae_outcome ev
     \<and> al_actor_id r = ae_actor_id ev \<and> al_actor_email r = ae_actor_email ev
     \<and> al_request_id r = ae_request_id ev \<and> dict_keys (al_context r) = dict_keys (ae_context ev)
     \<and> (\<forall>(k, v) \<in> set (al_context r). is_sensitive k \<longrightarrow> v = redacted_value)"

locale audit_trail =
  fixes note_event :: "audit_event \<Rightarrow> 'r action"
    and trail :: "db \<Rightarrow> audit_row list"
    and rest :: "db \<Rightarrow> 'o"
  assumes note_ok: "note_event ev s = (Inr x, t) \<Longrightarrow>
      \<exists>r. trail (w_db t) = trail (w_db s) @ [r] \<and> records_event ev r"
    and note_fails: "note_event ev s = (Inl e, t) \<Longrightarrow> w_db t = w_db s"
    and note_rest: "rest (w_db (snd (note_event ev s))) = rest (w_db s)"
begin

lemma note_extends: "prefix (trail (w_db s)) (trail (w_db (snd (note_event ev s))))"
proof -
  obtain x t where *: "note_event ev s = (x, t)" by fastforce
  then show ?thesis using note_ok note_fails by (cases x) fastforce+
qed

lemma note_grows_by_one:
  "note_event ev s = (Inr x, t) \<Longrightarrow> length (trail (w_db t)) = Suc (length (trail (w_db s)))"
  using note_ok by fastforce

end

lemma dict_keys_redact [simp]: "dict_keys (redact c) = dict_keys c"
  by (simp add: redact_def comp_def case_prod_unfold)

lemma redact_masks: "(k, v) \<in> set (redact c) \<Longrightarrow> is_sensitive k \<Longrightarrow> v = redacted_value"
  by (auto simp: redact_def)

lemma redact_other:
  "\<not> is_sensitive k \<Longrightarrow> dict_get k (redact c) = dict_get k c"
  by (induction c) (auto simp: redact_def)

lemma redact_idem [simp]: "redact (redact c) = redact c"
  by (simp add: redact_def comp_def case_prod_unfold)

text \<open>The database without its audit table.\<close>

definition without_audit :: "db \<Rightarrow> db" where
  "without_audit d = d\<lparr>db_audit_logs := []\<rparr>"

lemma record_audit_Inr:
  assumes "record_audit ev s = (Inr r, t)"
  shows "w_db t = (w_db s)\<lparr>db_audit_logs := db_audit_logs (w_db s) @ [r]\<rparr>" "records_event ev r"
proof -
  from insert_row_Inr [OF assms [unfolded record_audit_def insert_audit_log_def]]
  obtain i c u where r: "r = audit_row_of ev i c u"
    "w_db t = db_audit_logs_update (\<lambda>rs. rs @ [r]) (w_db s)" by blast
  then show "w_db t = (w_db s)\<lparr>db_audit_logs := db_audit_logs (w_db s) @ [r]\<rparr>" by simp
  show "records_event ev r"
    using redact_masks by (auto simp: records_event_def r audit_row_of_def)
qed

lemma record_audit_Inl: "record_audit ev s = (Inl e, t) \<Longrightarrow> w_db t = w_db s \<and> e = integrity_error"
  by (auto simp: record_audit_def insert_audit_log_def dest: insert_row_Inl)

interpretation audit_db: audit_trail record_audit db_audit_logs without_audit
proof
  fix ev s x t e
  show "record_audit ev s = (Inr x, t) \<Longrightarrow>
      \<exists>r. db_audit_logs (w_db t) = db_audit_logs (w_db s) @ [r] \<and> records_event ev r"
    using record_audit_Inr [of ev s x t] by auto
  show "record_audit ev s = (Inl e, t) \<Longrightarrow> w_db t = w_db s" by (simp add: record_audit_Inl)
  obtain r u where *: "record_audit ev s = (r, u)" by fastforce
  show "without_audit (w_db (snd (record_audit ev s))) = without_audit (w_db s)"
    using record_audit_Inr(1) [of ev s _ u] record_audit_Inl [of ev s _ u]
    by (cases r) (auto simp: * without_audit_def)
qed

section \<open>The telemetry sink\<close>

definition model_call_of :: "model_call_record \<Rightarrow> uuid \<Rightarrow> int \<Rightarrow> int \<Rightarrow> model_call_row" where
  "model_call_of rec i c u = \<lparr> ml_id = i, ml_created_at = c, ml_updated_at = u,
     ml_agent_run_id = mc_agent_run_id rec, ml_provider = mc_provider rec, ml_model = mc_model rec,
     ml_routing_policy = mc_routing_policy rec, ml_used_fallback = mc_used_fallback rec,
     ml_fallback_reason = mc_fallback_reason rec, ml_prompt_tokens = mc_prompt_tokens rec,
     ml_completion_tokens = mc_completion_tokens rec, ml_latency_ms = Some (mc_latency_ms rec),
     ml_success = mc_success rec, ml_error = mc_error rec, ml_prompt_version = mc_prompt_version rec \<rparr>"

definition cost_of :: "model_call_record \<Rightarrow> uuid \<Rightarrow> uuid \<Rightarrow> int \<Rightarrow> int \<Rightarrow> cost_row" where
  "cost_of rec call i c u = \<lparr> cs_id = i, cs_created_at = c, cs_updated_at = u,
     cs_model_call_id = Some call, cs_provider = mc_provider rec, cs_model = mc_model rec,
     cs_total_tokens = mc_prompt_tokens rec + mc_completion_tokens rec,
     cs_estimated_cost_usd = mc_estimated_cost_usd rec \<rparr>"

definition is_priced :: "model_call_record \<Rightarrow> bool" where
  "is_priced rec \<longleftrightarrow> mc_success rec \<and> flt (Fin 0) (mc_estimated_cost_usd rec)"

definition tele_insert ::
  "('r \<Rightarrow> uuid) \<Rightarrow> (telemetry \<Rightarrow> 'r list) \<Rightarrow> (('r list \<Rightarrow> 'r list) \<Rightarrow> telemetry \<Rightarrow> telemetry)
     \<Rightarrow> (uuid \<Rightarrow> int \<Rightarrow> int \<Rightarrow> 'r) \<Rightarrow> 'r action" where
  "tele_insert key rows upd mk =
     bindE uuid4 (\<lambda>i. bindE utc_now (\<lambda>c. bindE utc_now (\<lambda>u s.
       if key (mk i c u) \<in> key ` set (rows (w_tele s)) then (Inl integrity_error, s)
       else (Inr (mk i c u), s\<lparr>w_tele := upd (\<lambda>rs. rs @ [mk i c u]) (w_tele s)\<rparr>))))"

definition persist_record :: "model_call_record \<Rightarrow> unit action" where
  "persist_record rec =
     bindE (tele_insert ml_id tl_model_calls tl_model_calls_update (model_call_of rec)) (\<lambda>call.
       if is_priced rec then
         bindE (tele_insert cs_id tl_costs tl_costs_update (cost_of rec (ml_id call))) (\<lambda>_. ret ())
       else ret ())"

text \<open>A failed write leaves nothing behind, and the exception goes no further.\<close>

definition db_observer :: "world observer" where
  "db_observer rec s = (case persist_record rec s of
       (Inr _, t) \<Rightarrow> (Inr (), t)
     | (Inl _, t) \<Rightarrow> (Inr (), t\<lparr>w_tele := w_tele s\<rparr>))"

lemma tele_insert_Inr:
  "tele_insert key rows upd mk s = (Inr r, t) \<Longrightarrow>
     (\<exists>i c u. r = mk i c u) \<and> key r \<notin> key ` set (rows (w_tele s))
     \<and> w_tele t = upd (\<lambda>rs. rs @ [r]) (w_tele s) \<and> w_db t = w_db s \<and> w_vectors t = w_vectors s
     \<and> w_files t = w_files s"
  by (auto simp: tele_insert_def bindE_def uuid4_def utc_now_def split: if_splits)

lemma tele_insert_Inl:
  "tele_insert key rows upd mk s = (Inl e, t) \<Longrightarrow>
     w_tele t = w_tele s \<and> w_db t = w_db s \<and> w_vectors t = w_vectors s \<and> w_files t = w_files s"
  by (auto simp: tele_insert_def bindE_def uuid4_def utc_now_def split: if_splits)

lemma persist_record_Inr:
  assumes "persist_record rec s = (Inr (), t)"
  shows "\<exists>i c u. tl_model_calls (w_tele t) = tl_model_calls (w_tele s) @ [model_call_of rec i c u]
    \<and> (if is_priced rec then \<exists>j d v. tl_costs (w_tele t) = tl_costs (w_tele s) @ [cost_of rec i j d v]
       else tl_costs (w_tele t) = tl_costs (w_tele s))"
    and "w_db t = w_db s"
proof -
  from assms obtain r v where r: "tele_insert ml_id tl_model_calls tl_model_calls_update
      (model_call_of rec) s = (Inr r, v)"
    and rest: "(if is_priced rec then
         bindE (tele_insert cs_id tl_costs tl_costs_update (cost_of rec (ml_id r))) (\<lambda>_. ret ())
       else ret ()) v = (Inr (), t)"
    by (auto simp: persist_record_def bindE_Inr)
  note call = tele_insert_Inr [OF r]
  then obtain i c u where i: "r = model_call_of rec i c u" by blast
  then have id: "ml_id r = i" by (simp add: model_call_of_def)
  have "(\<exists>i c u. tl_model_calls (w_tele t) = tl_model_calls (w_tele s) @ [model_call_of rec i c u]
    \<and> (if is_priced rec then \<exists>j d v. tl_costs (w_tele t) = tl_costs (w_tele s) @ [cost_of rec i j d v]
       else tl_costs (w_tele t) = tl_costs (w_tele s))) \<and> w_db t = w_db s"
  proof (cases "is_priced rec")
    case True
    with rest obtain k where
      "tele_insert cs_id tl_costs tl_costs_update (cost_of rec i) v = (Inr k, t)"
      by (auto simp: bindE_Inr ret_def id)
    from tele_insert_Inr [OF this] call show ?thesis by (auto simp: True i)
  next
    case False
    with rest call show ?thesis by (auto simp: ret_def i)
  qed
  then show "\<exists>i c u. tl_model_calls (w_tele t) = tl_model_calls (w_tele s) @ [model_call_of rec i c u]
    \<and> (if is_priced rec then \<exists>j d v. tl_costs (w_tele t) = tl_costs (w_tele s) @ [cost_of rec i j d v]
       else tl_costs (w_tele t) = tl_costs (w_tele s))" "w_db t = w_db s" by simp_all
qed

lemma persist_record_Inl: "persist_record rec s = (Inl e, t) \<Longrightarrow> w_db t = w_db s"
  by (auto simp: persist_record_def bindE_Inl ret_def dest!: tele_insert_Inr tele_insert_Inl
      split: if_splits)

text \<open>
  The observer never raises and leaves the request's database alone; the record is persisted with
  its cost row, or not at all.
\<close>

definition persisted :: "model_call_record \<Rightarrow> telemetry \<Rightarrow> telemetry \<Rightarrow> bool" where
  "persisted rec before after \<longleftrightarrow>
     (\<exists>i c u. tl_model_calls after = tl_model_calls before @ [model_call_of rec i c u]
        \<and> (if is_priced rec then \<exists>j d v. tl_costs after = tl_costs before @ [cost_of rec i j d v]
           else tl_costs after = tl_costs before))"

lemma db_observer_run:
  "\<exists>t. db_observer rec s = (Inr (), t) \<and> w_db t = w_db s
     \<and> (persisted rec (w_tele s) (w_tele t) \<or> w_tele t = w_tele s)"
proof -
  obtain r t where r: "persist_record rec s = (r, t)" by fastforce
  show ?thesis
  proof (cases r)
    case (Inl e)
    with r show ?thesis using persist_record_Inl by (auto simp: db_observer_def)
  next
    case (Inr x)
    with r show ?thesis using persist_record_Inr [of rec s t]
      by (auto simp: db_observer_def persisted_def)
  qed
qed

end
