(* ===== verification/AgentBase.thy ===== *)
theory AgentBase
  imports Env
begin

text \<open>
  agents/base.py: the outcome of an agent and \<open>execute\<close>, which times \<open>run\<close> and turns every exception
  into a failed outcome. The agents whose \<open>run\<close> is a function of its input share the contract of
  the locale \<open>pure_agent\<close>.
\<close>

record 'o agent_outcome =
  ao_agent_name :: string
  ao_status :: string
  ao_output :: "'o option"
  ao_error :: "string option"
  ao_latency_ms :: int
  ao_model_used :: "string option"
  ao_prompt_version :: "string option"

definition succeeded_outcome :: "string \<Rightarrow> string option \<Rightarrow> 'o \<Rightarrow> int \<Rightarrow> 'o agent_outcome" where
  "succeeded_outcome name pv out ms = \<lparr> ao_agent_name = name, ao_status = ''succeeded'',
     ao_output = Some out, ao_error = None, ao_latency_ms = ms, ao_model_used = None,
     ao_prompt_version = pv \<rparr>"

definition failed_outcome :: "string \<Rightarrow> string option \<Rightarrow> string \<Rightarrow> int \<Rightarrow> 'o agent_outcome" where
  "failed_outcome name pv err ms = \<lparr> ao_agent_name = name, ao_status = ''failed'',
     ao_output = None, ao_error = Some err, ao_latency_ms = ms, ao_model_used = None,
     ao_prompt_version = pv \<rparr>"

text \<open>The message of an \<open>AgentError\<close>, the class name and text of anything else.\<close>

definition failure_text :: "exn \<Rightarrow> string" where
  "failure_text e = (if exn_is AgentError e then exn_str e else describe_exn e)"

definition execute ::
  "string \<Rightarrow> string option \<Rightarrow> (exn, 'a env_scheme, 'o) comp
     \<Rightarrow> (exn, 'a env_scheme, 'o agent_outcome) comp" where
  "execute name pv run =
     bindE perf_counter (\<lambda>started s. case run s of
         (Inl e, s') \<Rightarrow> bindE (elapsed_ms started) (\<lambda>ms. ret (failed_outcome name pv (failure_text e) ms)) s'
       | (Inr out, s') \<Rightarrow> bindE (elapsed_ms started) (\<lambda>ms. ret (succeeded_outcome name pv out ms)) s')"

section \<open>execute never raises\<close>

lemma execute_run:
  "\<exists>ms t. execute name pv run s =
     ((case fst (run (snd (perf_counter s))) of
         Inl e \<Rightarrow> Inr (failed_outcome name pv (failure_text e) ms)
       | Inr out \<Rightarrow> Inr (succeeded_outcome name pv out ms)), t)"
proof -
  obtain x u where x: "perf_counter s = (Inr x, u)" "is_perf_time x" using perf_counter_time by blast
  obtain r v where r: "run u = (r, v)" by fastforce
  obtain ms w where "elapsed_ms x v = (Inr ms, w)" using elapsed_ms_total [OF x(2)] by blast
  with x r show ?thesis
    by (cases r) (auto simp: execute_def bindE_def ret_def intro!: exI [where x = ms])
qed

lemma execute_total: "\<exists>out t. execute name pv run s = (Inr out, t)
    \<and> ao_agent_name out = name \<and> ao_prompt_version out = pv \<and> ao_model_used out = None
    \<and> (ao_status out = ''succeeded'' \<longleftrightarrow> ao_output out \<noteq> None)
    \<and> (ao_status out = ''failed'' \<longleftrightarrow> ao_output out = None)
    \<and> (ao_error out = None \<longleftrightarrow> ao_output out \<noteq> None)"
proof -
  obtain ms t where run: "execute name pv run s =
     ((case fst (run (snd (perf_counter s))) of
         Inl e \<Rightarrow> Inr (failed_outcome name pv (failure_text e) ms)
       | Inr out \<Rightarrow> Inr (succeeded_outcome name pv out ms)), t)" using execute_run by blast
  show ?thesis
    by (cases "fst (run (snd (perf_counter s)))")
      (simp_all add: run failed_outcome_def succeeded_outcome_def)
qed

text \<open>A run that is a function of its input, as a computation that touches nothing.\<close>

definition pure_run :: "'o res \<Rightarrow> (exn, 'a env_scheme, 'o) comp" where
  "pure_run r = liftE r"

lemma execute_pure:
  "\<exists>ms t. execute name pv (pure_run r) s =
     ((case r of Inl e \<Rightarrow> Inr (failed_outcome name pv (failure_text e) ms)
       | Inr out \<Rightarrow> Inr (succeeded_outcome name pv out ms)), t)"
  using execute_run [of name pv "pure_run r" s] by (simp add: pure_run_def liftE_def)

section \<open>The contract of a deterministic agent\<close>

text \<open>
  The agent accepts the inputs its model validates and then produces an output; the services only
  use such an agent through \<open>execute\<close>.
\<close>

locale pure_agent =
  fixes name :: string
    and run :: "'i \<Rightarrow> 'o res"
    and accepts :: "'i \<Rightarrow> bool"
  assumes run_total: "accepts i \<Longrightarrow> \<exists>out. run i = Inr out"
begin

definition perform :: "'i \<Rightarrow> (exn, 'a env_scheme, 'o agent_outcome) comp" where
  "perform i = execute name None (pure_run (run i))"

lemma perform_succeeds:
  assumes "accepts i"
  shows "\<exists>out ms t. run i = Inr out \<and> perform i s = (Inr (succeeded_outcome name None out ms), t)"
proof -
  obtain out where "run i = Inr out" using run_total [OF assms] by blast
  then show ?thesis using execute_pure [of name None "run i" s] by (auto simp: perform_def)
qed

lemma perform_status:
  "accepts i \<Longrightarrow> perform i s = (Inr oc, t) \<Longrightarrow> ao_status oc = ''succeeded'' \<and> ao_error oc = None"
  using perform_succeeds [of i s] by (auto simp: succeeded_outcome_def)

end

end
