(* ===== verification/Regex.thy ===== *)
theory Regex
  imports PyString
begin

text \<open>
  The regular expressions the agents use: a sequence of repeated character classes, greedy or lazy,
  some captured in groups, matched to the end of the input. The matcher tries the repetition counts
  in the order Python's backtracking matcher does and returns the first success. Also the
  substitution of every maximal run of a class.
\<close>

record rx_item =
  rx_class :: "char \<Rightarrow> bool"
  rx_min :: nat
  rx_max :: "nat option"
  rx_lazy :: bool
  rx_group :: "nat option"

definition rx_counts :: "rx_item \<Rightarrow> string \<Rightarrow> nat list" where
  "rx_counts it s =
     (let top = (case rx_max it of None \<Rightarrow> length s | Some m \<Rightarrow> min m (length s));
          ns = [rx_min it ..< Suc top]
      in if rx_lazy it then ns else rev ns)"

fun first_some :: "'a option list \<Rightarrow> 'a option" where
  "first_some [] = None"
| "first_some (None # xs) = first_some xs"
| "first_some (Some x # xs) = Some x"

text \<open>The pieces matched by captured items, in order; the input must be used up.\<close>

fun rx_match :: "rx_item list \<Rightarrow> string \<Rightarrow> (nat \<times> string) list option" where
  "rx_match [] s = (if s = [] then Some [] else None)"
| "rx_match (it # its) s =
     first_some (map (\<lambda>k.
       if list_all (rx_class it) (take k s) then
         map_option (\<lambda>caps. case rx_group it of None \<Rightarrow> caps | Some g \<Rightarrow> (g, take k s) # caps)
           (rx_match its (drop k s))
       else None) (rx_counts it s))"

definition rx_text :: "nat \<Rightarrow> (nat \<times> string) list \<Rightarrow> string" where
  "rx_text g caps = concat (map snd (filter (\<lambda>(h, _). h = g) caps))"

text \<open>\<open>re.sub(r"[class]+", repl, s)\<close>\<close>

fun sub_runs_from :: "bool \<Rightarrow> (char \<Rightarrow> bool) \<Rightarrow> string \<Rightarrow> string \<Rightarrow> string" where
  "sub_runs_from inrun P repl [] = []"
| "sub_runs_from inrun P repl (c # cs) =
     (if P c then (if inrun then [] else repl) @ sub_runs_from True P repl cs
      else c # sub_runs_from False P repl cs)"

definition sub_runs :: "(char \<Rightarrow> bool) \<Rightarrow> string \<Rightarrow> string \<Rightarrow> string" where
  "sub_runs P repl s = sub_runs_from False P repl s"

lemma first_some_SomeD: "first_some xs = Some x \<Longrightarrow> Some x \<in> set xs"
  by (induction xs rule: first_some.induct) auto

lemma sub_runs_clean:
  "list_all (\<lambda>c. \<not> P c) repl \<Longrightarrow> list_all (\<lambda>c. \<not> P c) (sub_runs P repl s)"
proof -
  have "list_all (\<lambda>c. \<not> P c) repl \<Longrightarrow> list_all (\<lambda>c. \<not> P c) (sub_runs_from b P repl s)" for b
    by (induction b P repl s rule: sub_runs_from.induct) auto
  then show "list_all (\<lambda>c. \<not> P c) repl \<Longrightarrow> list_all (\<lambda>c. \<not> P c) (sub_runs P repl s)"
    by (simp add: sub_runs_def)
qed

text \<open>What a successful match consumed: the items' texts make up the input.\<close>

lemma rx_match_Cons:
  assumes "rx_match (it # its) s = Some caps"
  obtains k caps' where "k \<le> length s" "rx_min it \<le> k" "list_all (rx_class it) (take k s)"
    "rx_match its (drop k s) = Some caps'"
    "caps = (case rx_group it of None \<Rightarrow> caps' | Some g \<Rightarrow> (g, take k s) # caps')"
proof -
  from first_some_SomeD [OF assms [unfolded rx_match.simps]]
  obtain k where "k \<in> set (rx_counts it s)" and *: "Some caps = (if list_all (rx_class it) (take k s) then
         map_option (\<lambda>caps. case rx_group it of None \<Rightarrow> caps | Some g \<Rightarrow> (g, take k s) # caps)
           (rx_match its (drop k s)) else None)" by auto
  then have "k \<le> length s" "rx_min it \<le> k"
    by (auto simp: rx_counts_def Let_def split: if_splits option.splits)
  moreover from * have "list_all (rx_class it) (take k s)" by (auto split: if_splits)
  moreover from this * obtain caps' where "rx_match its (drop k s) = Some caps'"
    "caps = (case rx_group it of None \<Rightarrow> caps' | Some g \<Rightarrow> (g, take k s) # caps')"
    by (cases "rx_match its (drop k s)") auto
  ultimately show thesis by (rule that)
qed

end
