(* ===== verification/DocumentAgent.thy ===== *)
theory DocumentAgent
  imports AgentBase Regex
begin

text \<open>
  agents/document.py: parsing of \<open>label: value\<close> lines, comparison with the fields expected of the
  document kind, and the review that results.
\<close>

section \<open>Data\<close>

record extracted_field =
  ef_name :: string
  ef_value :: "string option"
  ef_present :: bool

record document_review =
  dr_document_id :: uuid
  dr_summary :: string
  dr_extracted_fields :: "extracted_field list"
  dr_missing_fields :: "string list"
  dr_review_notes :: "string list"
  dr_requires_human_review :: bool

record document_input =
  di_document_id :: uuid
  di_kind :: string
  di_text :: string
  di_extra_expected_fields :: "string list"

definition EXPECTED_FIELDS :: "(string, string list) dict" where
  "EXPECTED_FIELDS =
     [(''identity'', [''full_name'', ''date_of_birth'', ''document_number'', ''expiry_date'']),
      (''proof_of_address'', [''full_name'', ''address'', ''issue_date'']),
      (''bank_statement'', [''account_number'', ''statement_period'', ''closing_balance'']),
      (''generic'', [])]"

section \<open>Parsing\<close>

definition is_letter :: "char \<Rightarrow> bool" where
  "is_letter c \<longleftrightarrow> is_upper c \<or> is_lower c"

definition is_label_char :: "char \<Rightarrow> bool" where
  "is_label_char c \<longleftrightarrow> is_letter c \<or> is_digit c \<or> c \<in> {CHR 0x20, CHR ''_'', CHR ''/'', CHR ''-''}"

text \<open>The items of \<open>^\s*([A-Za-z][A-Za-z0-9 _/-]{1,48}?)\s*[:=]\s*(.+?)\s*$\<close>.\<close>

definition spaces :: rx_item where
  "spaces = \<lparr> rx_class = is_space, rx_min = 0, rx_max = None, rx_lazy = False, rx_group = None \<rparr>"

definition FIELD_LINE :: "rx_item list" where
  "FIELD_LINE =
     [spaces,
      \<lparr> rx_class = is_letter, rx_min = 1, rx_max = Some 1, rx_lazy = False, rx_group = Some 1 \<rparr>,
      \<lparr> rx_class = is_label_char, rx_min = 1, rx_max = Some 48, rx_lazy = True, rx_group = Some 1 \<rparr>,
      spaces,
      \<lparr> rx_class = (\<lambda>c. c = CHR '':'' \<or> c = CHR ''=''), rx_min = 1, rx_max = Some 1, rx_lazy = False,
        rx_group = None \<rparr>,
      spaces,
      \<lparr> rx_class = (\<lambda>c. c \<noteq> CHR 0x0A), rx_min = 1, rx_max = None, rx_lazy = True, rx_group = Some 2 \<rparr>,
      spaces]"

definition normalise_key :: "string \<Rightarrow> string" where
  "normalise_key raw =
     sub_runs (\<lambda>c. is_space c \<or> c = CHR ''/'' \<or> c = CHR ''-'') ''_'' (lower (strip raw))"

definition parse_line :: "string \<Rightarrow> (string \<times> string) option" where
  "parse_line line = (case rx_match FIELD_LINE line of
       None \<Rightarrow> None
     | Some caps \<Rightarrow> (let key = normalise_key (rx_text 1 caps); value = strip (rx_text 2 caps)
                    in if value \<noteq> [] then Some (key, value) else None))"

definition parse_fields :: "string \<Rightarrow> (string, string) dict" where
  "parse_fields text =
     fold (\<lambda>line fields. case parse_line line of None \<Rightarrow> fields | Some (k, v) \<Rightarrow> dict_set k v fields)
       (splitlines text) []"

section \<open>Review\<close>

text \<open>\<open>list(dict.fromkeys(xs))\<close>: the first occurrence of every entry.\<close>

definition dedupe :: "'a list \<Rightarrow> 'a list" where
  "dedupe xs = rev (remdups (rev xs))"

definition expected_fields :: "document_input \<Rightarrow> string list" where
  "expected_fields p = dedupe ((case dict_get (di_kind p) EXPECTED_FIELDS of None \<Rightarrow> [] | Some fs \<Rightarrow> fs)
     @ di_extra_expected_fields p)"

text \<open>One entry per expected field, then the fields found that were not expected.\<close>

definition extracted_fields ::
  "string list \<Rightarrow> (string, string) dict \<Rightarrow> extracted_field list" where
  "extracted_fields expected parsed =
     map (\<lambda>n. \<lparr> ef_name = n, ef_value = dict_get n parsed,
                ef_present = (n \<in> set (dict_keys parsed)) \<rparr>) expected
     @ map (\<lambda>p. \<lparr> ef_name = fst p, ef_value = Some (snd p), ef_present = True \<rparr>)
         (filter (\<lambda>p. fst p \<notin> set expected) parsed)"

definition missing_fields :: "string list \<Rightarrow> (string, string) dict \<Rightarrow> string list" where
  "missing_fields expected parsed = filter (\<lambda>n. n \<notin> set (dict_keys parsed)) expected"

definition review_notes ::
  "document_input \<Rightarrow> string list \<Rightarrow> (string, string) dict \<Rightarrow> string list \<Rightarrow> string list" where
  "review_notes p expected parsed missing =
     (if parsed = [] then [''No structured fields could be parsed from the document text.''] else [])
     @ (if missing \<noteq> [] then [''Missing expected field(s): '' @ join '', '' missing @ ''.''] else [])
     @ (if di_kind p = ''generic'' \<and> expected = []
        then [''No expected-field schema for '' @ [CHR 0x27] @ ''generic'' @ [CHR 0x27]
                @ ''; extracted values only.''] else [])"

definition document_summary ::
  "document_input \<Rightarrow> (string, string) dict \<Rightarrow> string list \<Rightarrow> string" where
  "document_summary p parsed missing =
     ''Document '' @ uuid_str (di_document_id p) @ '' ('' @ di_kind p @ ''): parsed ''
     @ nat_str (length parsed) @ '' field(s) from ~'' @ nat_str (length (split_ws (di_text p)))
     @ '' words; '' @ nat_str (length missing) @ '' expected field(s) missing.''"

definition run_document :: "document_input \<Rightarrow> document_review res" where
  "run_document p =
     (let parsed = parse_fields (di_text p);
          expected = expected_fields p;
          missing = missing_fields expected parsed
      in Inr \<lparr> dr_document_id = di_document_id p, dr_summary = document_summary p parsed missing,
               dr_extracted_fields = extracted_fields expected parsed,
               dr_missing_fields = missing,
               dr_review_notes = review_notes p expected parsed missing,
               dr_requires_human_review = (missing \<noteq> [] \<or> parsed = []) \<rparr>)"

section \<open>Facts\<close>

lemma set_dedupe [simp]: "set (dedupe xs) = set xs"
  by (simp add: dedupe_def)

lemma distinct_dedupe [simp]: "distinct (dedupe xs)"
  by (simp add: dedupe_def)

lemma parse_line_clean:
  "parse_line line = Some (k, v) \<Longrightarrow> v \<noteq> [] \<and> strip v = v
     \<and> list_all (\<lambda>c. \<not> is_space c \<and> c \<noteq> CHR ''/'' \<and> c \<noteq> CHR ''-'') k"
  using sub_runs_clean [of "\<lambda>c. is_space c \<or> c = CHR ''/'' \<or> c = CHR ''-''" "''_''"]
  by (auto simp: parse_line_def normalise_key_def Let_def is_space_def code_def
      split: option.splits if_splits)

text \<open>A dictionary of fields built from a list of lines.\<close>

definition clean_fields :: "(string, string) dict \<Rightarrow> bool" where
  "clean_fields d \<longleftrightarrow> distinct (dict_keys d) \<and> (\<forall>(k, v) \<in> set d. v \<noteq> [] \<and> strip v = v)"

lemma in_dict_set: "(k, v) \<in> set (dict_set a b d) \<Longrightarrow> (k, v) \<in> set d \<or> (k = a \<and> v = b)"
  by (induction d) (auto split: if_splits)

lemma clean_fields_set: "clean_fields d \<Longrightarrow> v \<noteq> [] \<Longrightarrow> strip v = v \<Longrightarrow> clean_fields (dict_set k v d)"
  unfolding clean_fields_def by (auto dest!: in_dict_set)

lemma parse_fields_clean: "clean_fields (parse_fields text)"
proof -
  have "clean_fields d \<Longrightarrow> clean_fields (fold (\<lambda>line fields. case parse_line line of
      None \<Rightarrow> fields | Some (k, v) \<Rightarrow> dict_set k v fields) ls d)" for ls d
    by (induction ls arbitrary: d)
      (auto intro!: clean_fields_set dest: parse_line_clean split: option.splits)
  moreover have "clean_fields []" by (simp add: clean_fields_def)
  ultimately show ?thesis by (simp add: parse_fields_def)
qed

text \<open>The value of a field is that of the last line that sets it.\<close>

lemma parse_fields_last:
  "dict_get k (parse_fields text) =
     map_of (rev (List.map_filter parse_line (splitlines text))) k"
proof -
  have "map_of (fold (\<lambda>line fields. case parse_line line of
      None \<Rightarrow> fields | Some (k, v) \<Rightarrow> dict_set k v fields) ls d) =
      map_of d ++ map_of (rev (List.map_filter parse_line ls))" for ls d
    by (induction ls arbitrary: d)
      (auto simp: List.map_filter_simps map_add_def fun_eq_iff split: option.splits)
  then show ?thesis by (simp add: parse_fields_def)
qed

interpretation document: pure_agent "''document_agent''" run_document "\<lambda>_. True"
  by unfold_locales (simp add: run_document_def Let_def)

text \<open>What the review reports, against the fields parsed.\<close>

lemma set_missing_fields: "set (missing_fields e d) = set e - set (dict_keys d)"
  by (auto simp: missing_fields_def)

lemma extracted_fields_names:
  "map ef_name (extracted_fields e d) = e @ filter (\<lambda>n. n \<notin> set e) (dict_keys d)"
  by (simp add: extracted_fields_def comp_def filter_map)

lemma extracted_fields_values:
  assumes "distinct (dict_keys d)" "f \<in> set (extracted_fields e d)"
  shows "ef_value f = dict_get (ef_name f) d \<and> (ef_present f \<longleftrightarrow> ef_value f \<noteq> None)"
proof -
  have mem: "n \<in> set (dict_keys d) \<longleftrightarrow> dict_get n d \<noteq> None" for n
    by (simp add: map_of_eq_None_iff)
  from assms show ?thesis
    unfolding extracted_fields_def mem by auto
qed

lemma run_document_spec:
  assumes "run_document p = Inr r"
  shows "set (dr_missing_fields r) = set (expected_fields p) - set (dict_keys (parse_fields (di_text p)))"
    and "dr_requires_human_review r \<longleftrightarrow> dr_missing_fields r \<noteq> [] \<or> parse_fields (di_text p) = []"
    and "dr_document_id r = di_document_id p"
    and "distinct (map ef_name (dr_extracted_fields r))
      \<and> set (map ef_name (dr_extracted_fields r)) =
        set (expected_fields p) \<union> set (dict_keys (parse_fields (di_text p)))"
    and "\<forall>f \<in> set (dr_extracted_fields r). ef_value f = dict_get (ef_name f) (parse_fields (di_text p))
      \<and> (ef_present f \<longleftrightarrow> ef_value f \<noteq> None)"
proof -
  let ?d = "parse_fields (di_text p)"
  have d: "distinct (dict_keys ?d)" using parse_fields_clean by (simp add: clean_fields_def)
  have r: "r = \<lparr> dr_document_id = di_document_id p,
      dr_summary = document_summary p ?d (missing_fields (expected_fields p) ?d),
      dr_extracted_fields = extracted_fields (expected_fields p) ?d,
      dr_missing_fields = missing_fields (expected_fields p) ?d,
      dr_review_notes = review_notes p (expected_fields p) ?d (missing_fields (expected_fields p) ?d),
      dr_requires_human_review = (missing_fields (expected_fields p) ?d \<noteq> [] \<or> ?d = []) \<rparr>"
    using assms by (simp add: run_document_def Let_def)
  show "set (dr_missing_fields r) = set (expected_fields p) - set (dict_keys ?d)"
    by (simp add: r set_missing_fields)
  show "dr_requires_human_review r \<longleftrightarrow> dr_missing_fields r \<noteq> [] \<or> ?d = []"
    "dr_document_id r = di_document_id p" by (simp_all add: r)
  have "distinct (expected_fields p)" by (simp add: expected_fields_def)
  with d show "distinct (map ef_name (dr_extracted_fields r)) \<and> set (map ef_name (dr_extracted_fields r)) =
        set (expected_fields p) \<union> set (dict_keys ?d)"
    by (auto simp: r extracted_fields_names simp del: map_map)
  show "\<forall>f \<in> set (dr_extracted_fields r). ef_value f = dict_get (ef_name f) ?d
      \<and> (ef_present f \<longleftrightarrow> ef_value f \<noteq> None)"
    using extracted_fields_values [OF d] by (simp add: r)
qed

end
