(* ===== verification/KycAgent.thy ===== *)
theory KycAgent
  imports AgentBase Regex Enums
begin

text \<open>
  agents/kyc.py: completeness of the profile, consistency with the document, age and jurisdiction,
  and the routing to a human reviewer.
\<close>

section \<open>Data\<close>

record kyc_input =
  ki_profile :: "(string, string) dict"
  ki_document_fields :: "(string, string) dict"
  ki_today :: "date option"

record kyc_result =
  kr_complete :: bool
  kr_missing_fields :: "string list"
  kr_inconsistencies :: "string list"
  kr_risk_level :: risk_level
  kr_requires_human_review :: bool
  kr_rationale :: "string list"

definition REQUIRED_PROFILE_FIELDS :: "string list" where
  "REQUIRED_PROFILE_FIELDS = [''full_name'', ''date_of_birth'', ''country'', ''document_number'']"

definition HIGH_RISK_COUNTRIES :: "string list" where
  "HIGH_RISK_COUNTRIES = [''XX'', ''ZZ'']"

section \<open>Helpers\<close>

definition parse_date :: "string \<Rightarrow> date option" where
  "parse_date value =
     first_some (map (\<lambda>f. strptime f (strip value)) [YMD_DASH, DMY_SLASH, MDY_SLASH])"

definition age_on :: "date \<Rightarrow> date \<Rightarrow> int" where
  "age_on ref dob =
     (let years = dt_year ref - dt_year dob
      in if dt_month ref < dt_month dob \<or> (dt_month ref = dt_month dob \<and> dt_day ref < dt_day dob)
         then years - 1 else years)"

definition norm_name :: "string \<Rightarrow> string" where
  "norm_name value = sub_runs is_space '' '' (lower (strip value))"

text \<open>\<open>_escalate\<close>; \<open>risk_rank\<close> is the position in \<open>_RISK_ORDER\<close>.\<close>

definition escalate_risk :: "risk_level \<Rightarrow> risk_level \<Rightarrow> risk_level" where
  "escalate_risk current least = (if risk_rank least \<le> risk_rank current then current else least)"

text \<open>\<open>{k.lower(): v for k, v in d.items()}\<close> and \<open>d.get(k)\<close> in a condition.\<close>

definition lower_keys :: "(string, string) dict \<Rightarrow> (string, string) dict" where
  "lower_keys d = fold (\<lambda>(k, v) acc. dict_set (lower k) v acc) d []"

definition has_field :: "string \<Rightarrow> (string, string) dict \<Rightarrow> bool" where
  "has_field k d = (case dict_get k d of None \<Rightarrow> False | Some v \<Rightarrow> v \<noteq> [])"

definition field :: "string \<Rightarrow> (string, string) dict \<Rightarrow> string" where
  "field k d = (case dict_get k d of None \<Rightarrow> '''' | Some v \<Rightarrow> v)"

text \<open>\<open>repr\<close> of a string: single quotes unless only the other kind avoids an escape.\<close>

definition printable :: "char \<Rightarrow> bool" where
  "printable c \<longleftrightarrow> (32 \<le> code c \<and> code c \<le> 126) \<or> (161 \<le> code c \<and> code c \<noteq> 173)"

definition repr_char :: "char \<Rightarrow> char \<Rightarrow> string" where
  "repr_char q c =
     (let bs = CHR 0x5C
      in if c = q \<or> c = bs then [bs, c]
         else if code c = 10 then [bs, CHR ''n''] else if code c = 13 then [bs, CHR ''r'']
         else if code c = 9 then [bs, CHR ''t'']
         else if printable c then [c]
         else [bs, CHR ''x'', hex_char (code c div 16), hex_char (code c mod 16)])"

definition py_repr :: "string \<Rightarrow> string" where
  "py_repr s = (let q = (if CHR 0x27 \<in> set s \<and> CHR 0x22 \<notin> set s then CHR 0x22 else CHR 0x27)
                in q # concat (map (repr_char q) s) @ [q])"

section \<open>run\<close>

definition name_mismatch :: "(string, string) dict \<Rightarrow> (string, string) dict \<Rightarrow> bool" where
  "name_mismatch profile doc \<longleftrightarrow> has_field ''full_name'' profile \<and> has_field ''full_name'' doc
     \<and> norm_name (field ''full_name'' profile) \<noteq> norm_name (field ''full_name'' doc)"

definition number_mismatch :: "(string, string) dict \<Rightarrow> (string, string) dict \<Rightarrow> bool" where
  "number_mismatch profile doc \<longleftrightarrow> has_field ''document_number'' profile
     \<and> has_field ''document_number'' doc
     \<and> strip (field ''document_number'' profile) \<noteq> strip (field ''document_number'' doc)"

text \<open>The check of the date of birth: risk, inconsistencies and rationale it contributes.\<close>

definition check_birth :: "date \<Rightarrow> (string, string) dict \<Rightarrow> risk_level \<times> string list \<times> string list" where
  "check_birth today profile =
     (if \<not> has_field ''date_of_birth'' profile then (LOW, [], [])
      else (case parse_date (field ''date_of_birth'' profile) of
          None \<Rightarrow> (LOW, [''Unparseable date_of_birth: ''
                          @ py_repr (field ''date_of_birth'' profile) @ ''.''], [])
        | Some dob \<Rightarrow>
            (let age = age_on today dob; why = [''Derived age: '' @ int_str age @ ''.'']
             in if age < 18 then (HIGH, [''Applicant is under 18.''], why)
                else if 120 < age
                then (LOW, [''Implausible age (>120); check date_of_birth.''], why)
                else (LOW, [], why))))"

definition kyc_check :: "date \<Rightarrow> kyc_input \<Rightarrow> kyc_result" where
  "kyc_check today p =
     (let profile = lower_keys (ki_profile p);
          doc = lower_keys (ki_document_fields p);
          missing = filter (\<lambda>f. \<not> has_field f profile) REQUIRED_PROFILE_FIELDS;
          birth = check_birth today profile;
          inconsistencies =
            (if name_mismatch profile doc
             then [''Name on document does not match application profile.''] else [])
            @ (if number_mismatch profile doc
               then [''Document number mismatch between profile and document.''] else [])
            @ fst (snd birth);
          country = upper (field ''country'' profile);
          risky = country \<in> set HIGH_RISK_COUNTRIES;
          risk1 = (if risky then escalate_risk (fst birth) HIGH else fst birth);
          risk = (if inconsistencies \<noteq> [] then escalate_risk risk1 MEDIUM else risk1);
          complete = (missing = []);
          review = (\<not> complete \<or> inconsistencies \<noteq> [] \<or> risk = HIGH \<or> risk = CRITICAL);
          rationale = snd (snd birth)
            @ (if risky then [''Country '' @ country @ '' is on the higher-risk list.''] else [])
            @ (if complete then [] else [''Profile incomplete; missing '' @ join '', '' missing @ ''.''])
            @ [if review then ''Routed to human review (HITL).''
               else ''Automated KYC checks passed; no human review required.'']
      in \<lparr> kr_complete = complete, kr_missing_fields = missing, kr_inconsistencies = inconsistencies,
           kr_risk_level = risk, kr_requires_human_review = review, kr_rationale = rationale \<rparr>)"

text \<open>\<open>payload.today or date.today()\<close>\<close>

definition run_kyc :: "kyc_input \<Rightarrow> (exn, 'a env_scheme, kyc_result) comp" where
  "run_kyc p = (case ki_today p of
       Some d \<Rightarrow> ret (kyc_check d p)
     | None \<Rightarrow> bindE date_today (\<lambda>d. ret (kyc_check d p)))"

section \<open>Facts\<close>

lemma has_field_lookup: "has_field k d \<longleftrightarrow> (\<exists>v. dict_get k d = Some v \<and> v \<noteq> [])"
  by (auto simp: has_field_def split: option.splits)

lemma escalate_risk_max: "risk_rank (escalate_risk a b) = max (risk_rank a) (risk_rank b)"
  by (simp add: escalate_risk_def)

lemma parse_date_valid: "parse_date v = Some d \<Longrightarrow> valid_date d"
  by (auto simp: parse_date_def dest!: first_some_SomeD dest: strptime_valid [OF sym])

lemma age_on_bounds:
  "dt_year ref - dt_year dob - 1 \<le> age_on ref dob \<and> age_on ref dob \<le> dt_year ref - dt_year dob"
  by (simp add: age_on_def Let_def)

text \<open>The age counts the birthdays that have passed.\<close>

lemma age_on_at_least:
  "n \<le> age_on ref dob \<longleftrightarrow> dt_year dob + n < dt_year ref
     \<or> (dt_year dob + n = dt_year ref \<and> (dt_month dob < dt_month ref
          \<or> (dt_month dob = dt_month ref \<and> dt_day dob \<le> dt_day ref)))"
  by (auto simp: age_on_def Let_def)

lemma kyc_review_iff:
  "kr_requires_human_review (kyc_check today p) \<longleftrightarrow>
     \<not> kr_complete (kyc_check today p) \<or> kr_inconsistencies (kyc_check today p) \<noteq> []
     \<or> kr_risk_level (kyc_check today p) \<in> {HIGH, CRITICAL}"
  unfolding kyc_check_def Let_def kyc_result.simps by blast

lemma kyc_missing: "set (kr_missing_fields (kyc_check today p)) =
    {f \<in> set REQUIRED_PROFILE_FIELDS. \<not> has_field f (lower_keys (ki_profile p))}"
  unfolding kyc_check_def Let_def kyc_result.simps by auto

lemma kyc_complete_iff:
  "kr_complete (kyc_check today p) \<longleftrightarrow> kr_missing_fields (kyc_check today p) = []"
  unfolding kyc_check_def Let_def kyc_result.simps by (rule refl)

lemma kyc_inconsistencies:
  "kr_inconsistencies (kyc_check today p) =
     (let profile = lower_keys (ki_profile p); doc = lower_keys (ki_document_fields p)
      in (if name_mismatch profile doc
             then [''Name on document does not match application profile.''] else [])
            @ (if number_mismatch profile doc
               then [''Document number mismatch between profile and document.''] else [])
            @ fst (snd (check_birth today profile)))"
  unfolding kyc_check_def Let_def kyc_result.simps by (rule refl)

lemma kyc_risk:
  "kr_risk_level (kyc_check today p) =
     (let profile = lower_keys (ki_profile p);
          base = (if upper (field ''country'' profile) \<in> set HIGH_RISK_COUNTRIES
                  then escalate_risk (fst (check_birth today profile)) HIGH
                  else fst (check_birth today profile))
      in if kr_inconsistencies (kyc_check today p) \<noteq> [] then escalate_risk base MEDIUM else base)"
  unfolding kyc_check_def Let_def kyc_result.simps by (rule refl)

text \<open>A birth date that parses to a minor, or a listed country, is high risk.\<close>

definition is_minor :: "date \<Rightarrow> (string, string) dict \<Rightarrow> bool" where
  "is_minor today profile \<longleftrightarrow> has_field ''date_of_birth'' profile
     \<and> (case parse_date (field ''date_of_birth'' profile) of
          None \<Rightarrow> False | Some dob \<Rightarrow> age_on today dob < 18)"

lemma check_birth_risk: "fst (check_birth today profile) = (if is_minor today profile then HIGH else LOW)"
  by (simp add: check_birth_def is_minor_def Let_def split: option.splits)

lemma kyc_risk_high_iff:
  "kr_risk_level (kyc_check today p) = HIGH \<longleftrightarrow>
     is_minor today (lower_keys (ki_profile p))
     \<or> upper (field ''country'' (lower_keys (ki_profile p))) \<in> set HIGH_RISK_COUNTRIES"
  unfolding kyc_risk Let_def check_birth_risk by (simp add: escalate_risk_def)

lemma kyc_risk_never_critical: "kr_risk_level (kyc_check today p) \<noteq> CRITICAL"
  unfolding kyc_risk Let_def check_birth_risk by (simp add: escalate_risk_def)

lemma kyc_risk_low_iff:
  "kr_risk_level (kyc_check today p) = LOW \<longleftrightarrow> kr_inconsistencies (kyc_check today p) = []
     \<and> \<not> is_minor today (lower_keys (ki_profile p))
     \<and> upper (field ''country'' (lower_keys (ki_profile p))) \<notin> set HIGH_RISK_COUNTRIES"
  unfolding kyc_risk Let_def check_birth_risk by (simp add: escalate_risk_def)

text \<open>
  Automated clearance: exactly the complete, consistent profiles of adults outside the listed
  countries whose birth date parses to a plausible age.
\<close>

definition plausible_adult :: "date \<Rightarrow> (string, string) dict \<Rightarrow> bool" where
  "plausible_adult today profile \<longleftrightarrow>
     (case parse_date (field ''date_of_birth'' profile) of
        None \<Rightarrow> False | Some dob \<Rightarrow> 18 \<le> age_on today dob \<and> age_on today dob \<le> 120)"

lemma check_birth_clear:
  "has_field ''date_of_birth'' profile \<Longrightarrow>
     fst (snd (check_birth today profile)) = [] \<longleftrightarrow> plausible_adult today profile"
  by (auto simp: check_birth_def plausible_adult_def Let_def split: option.splits)

lemma kyc_clear_iff:
  "\<not> kr_requires_human_review (kyc_check today p) \<longleftrightarrow>
     (let profile = lower_keys (ki_profile p); doc = lower_keys (ki_document_fields p)
      in (\<forall>f \<in> set REQUIRED_PROFILE_FIELDS. has_field f profile)
         \<and> \<not> name_mismatch profile doc \<and> \<not> number_mismatch profile doc
         \<and> plausible_adult today profile
         \<and> upper (field ''country'' profile) \<notin> set HIGH_RISK_COUNTRIES)"
proof -
  let ?p = "lower_keys (ki_profile p)" and ?r = "kyc_check today p"
  have complete: "kr_complete ?r \<longleftrightarrow> (\<forall>f \<in> set REQUIRED_PROFILE_FIELDS. has_field f ?p)"
    unfolding kyc_complete_iff using kyc_missing [of today p] by (auto simp flip: set_empty)
  have high: "kr_risk_level ?r \<in> {HIGH, CRITICAL} \<longleftrightarrow> is_minor today ?p
      \<or> upper (field ''country'' ?p) \<in> set HIGH_RISK_COUNTRIES"
    using kyc_risk_high_iff kyc_risk_never_critical by simp
  have dob: "\<forall>f \<in> set REQUIRED_PROFILE_FIELDS. has_field f ?p \<Longrightarrow> has_field ''date_of_birth'' ?p"
    by (simp add: REQUIRED_PROFILE_FIELDS_def)
  have minor: "plausible_adult today ?p \<Longrightarrow> \<not> is_minor today ?p"
    by (auto simp: plausible_adult_def is_minor_def split: option.splits)
  show ?thesis
    unfolding kyc_review_iff high complete kyc_inconsistencies Let_def
    using check_birth_clear [OF dob, of today] minor by auto
qed

end
