(* ===== verification/FraudAgent.thy ===== *)
theory FraudAgent
  imports AgentBase Enums
begin

text \<open>
  agents/fraud.py: the weighted rules, the score clamped to 100, and the risk level and routing that
  follow from it.
\<close>

section \<open>Data\<close>

record fraud_txn =
  tx_amount :: pyfloat
  tx_currency :: string
  tx_country :: "string option"
  tx_account_age_days :: int
  tx_is_new_beneficiary :: bool
  tx_beneficiary_country :: "string option"
  tx_channel :: string
  tx_hour_of_day :: int
  tx_recent_failed_logins :: int

record fraud_input =
  fi_transaction :: fraud_txn
  fi_customer_avg_amount :: pyfloat

record fraud_signal =
  fs_rule :: string
  fs_weight :: int
  fs_reason :: string

record fraud_result =
  fr_score :: int
  fr_risk_level :: risk_level
  fr_signals :: "fraud_signal list"
  fr_requires_human_review :: bool
  fr_recommendation :: string

text \<open>The bounds the input models declare.\<close>

definition fraud_input_valid :: "fraud_input \<Rightarrow> bool" where
  "fraud_input_valid i \<longleftrightarrow> fle (Fin 0) (tx_amount (fi_transaction i))
     \<and> 0 \<le> tx_account_age_days (fi_transaction i)
     \<and> 0 \<le> tx_hour_of_day (fi_transaction i) \<and> tx_hour_of_day (fi_transaction i) \<le> 23
     \<and> 0 \<le> tx_recent_failed_logins (fi_transaction i) \<and> fle (Fin 0) (fi_customer_avg_amount i)"

definition LARGE_AMOUNT_ABS :: pyfloat where "LARGE_AMOUNT_ABS = Fin 10000"
definition ANOMALY_MULTIPLIER :: pyfloat where "ANOMALY_MULTIPLIER = Fin 5"

definition fraud_countries :: "string list" where
  "fraud_countries = [''XX'', ''ZZ'']"

section \<open>The rules\<close>

definition beneficiary_country :: "fraud_txn \<Rightarrow> string" where
  "beneficiary_country t = upper (case tx_beneficiary_country t of None \<Rightarrow> '''' | Some c \<Rightarrow> c)"

definition large_absolute_amount :: "fraud_input \<Rightarrow> bool" where
  "large_absolute_amount i \<longleftrightarrow> fle LARGE_AMOUNT_ABS (tx_amount (fi_transaction i))"

definition amount_anomaly :: "fraud_input \<Rightarrow> bool" where
  "amount_anomaly i \<longleftrightarrow> flt (Fin 0) (fi_customer_avg_amount i)
     \<and> flt (fmul ANOMALY_MULTIPLIER (fi_customer_avg_amount i)) (tx_amount (fi_transaction i))"

definition new_account :: "fraud_input \<Rightarrow> bool" where
  "new_account i \<longleftrightarrow> tx_account_age_days (fi_transaction i) < 30"

definition at_least_1000 :: "fraud_input \<Rightarrow> bool" where
  "at_least_1000 i \<longleftrightarrow> fle (Fin 1000) (tx_amount (fi_transaction i))"

definition new_beneficiary_large :: "fraud_input \<Rightarrow> bool" where
  "new_beneficiary_large i \<longleftrightarrow> tx_is_new_beneficiary (fi_transaction i) \<and> at_least_1000 i"

definition high_risk_destination :: "fraud_input \<Rightarrow> bool" where
  "high_risk_destination i \<longleftrightarrow> beneficiary_country (fi_transaction i) \<in> set fraud_countries"

definition failed_login_burst :: "fraud_input \<Rightarrow> bool" where
  "failed_login_burst i \<longleftrightarrow> 3 \<le> tx_recent_failed_logins (fi_transaction i)"

definition odd_hour_large :: "fraud_input \<Rightarrow> bool" where
  "odd_hour_large i \<longleftrightarrow> 1 \<le> tx_hour_of_day (fi_transaction i)
     \<and> tx_hour_of_day (fi_transaction i) < 5 \<and> at_least_1000 i"

definition signal :: "bool \<Rightarrow> string \<Rightarrow> int \<Rightarrow> string \<Rightarrow> fraud_signal list" where
  "signal fires rule weight reason =
     (if fires then [\<lparr> fs_rule = rule, fs_weight = weight, fs_reason = reason \<rparr>] else [])"

definition fraud_signals :: "fraud_input \<Rightarrow> fraud_signal list" where
  "fraud_signals i =
     (let t = fi_transaction i
      in signal (large_absolute_amount i) ''large_absolute_amount'' 30
           (''Amount '' @ fmt_fixed 2 (tx_amount t) @ '' '' @ tx_currency t @ '' exceeds ''
              @ fmt_fixed 0 LARGE_AMOUNT_ABS @ ''.'')
         @ signal (amount_anomaly i) ''amount_anomaly'' 25
           (''Amount is >'' @ fmt_fixed 0 ANOMALY_MULTIPLIER @ ''x the customer average (''
              @ fmt_fixed 2 (fi_customer_avg_amount i) @ '').'')
         @ signal (new_account i) ''new_account'' 15
           (''Account is only '' @ int_str (tx_account_age_days t) @ '' day(s) old.'')
         @ signal (new_beneficiary_large i) ''new_beneficiary_large'' 15
           ''Large transfer to a newly added beneficiary.''
         @ signal (high_risk_destination i) ''high_risk_destination'' 20
           (''Beneficiary country '' @ beneficiary_country t @ '' is on the higher-risk list.'')
         @ signal (failed_login_burst i) ''failed_login_burst'' 20
           (int_str (tx_recent_failed_logins t) @ '' recent failed logins before transaction.'')
         @ signal (odd_hour_large i) ''odd_hour_large'' 10
           ''Large transaction during unusual hours (01:00-04:59).'')"

definition score_to_risk :: "int \<Rightarrow> risk_level" where
  "score_to_risk score = (if 70 \<le> score then CRITICAL else if 45 \<le> score then HIGH
                          else if 20 \<le> score then MEDIUM else LOW)"

definition fraud_recommendation :: "risk_level \<Rightarrow> string" where
  "fraud_recommendation r = (case r of
       LOW \<Rightarrow> ''Auto-approve; no action required.''
     | MEDIUM \<Rightarrow> ''Allow with monitoring; no human review required.''
     | HIGH \<Rightarrow> ''Hold and route to a human reviewer before settlement.''
     | CRITICAL \<Rightarrow> ''Block pending mandatory human investigation.'')"

definition run_fraud :: "fraud_input \<Rightarrow> fraud_result res" where
  "run_fraud i =
     (let signals = fraud_signals i;
          score = min 100 (sum_list (map fs_weight signals));
          risk = score_to_risk score
      in Inr \<lparr> fr_score = score, fr_risk_level = risk, fr_signals = signals,
               fr_requires_human_review = (risk = HIGH \<or> risk = CRITICAL),
               fr_recommendation = fraud_recommendation risk \<rparr>)"

interpretation fraud: pure_agent "''fraud_agent''" run_fraud fraud_input_valid
  by unfold_locales (simp add: run_fraud_def Let_def)

section \<open>Facts\<close>

lemma signal_weight [simp]: "sum_list (map fs_weight (signal b r w why)) = (if b then w else 0)"
  by (simp add: signal_def)

text \<open>The score as the clamped sum of the weights of the rules that fire.\<close>

definition rule_points :: "fraud_input \<Rightarrow> int" where
  "rule_points i = (if large_absolute_amount i then 30 else 0) + (if amount_anomaly i then 25 else 0)
     + (if new_account i then 15 else 0) + (if new_beneficiary_large i then 15 else 0)
     + (if high_risk_destination i then 20 else 0) + (if failed_login_burst i then 20 else 0)
     + (if odd_hour_large i then 10 else 0)"

lemma fraud_signals_points: "sum_list (map fs_weight (fraud_signals i)) = rule_points i"
  unfolding fraud_signals_def Let_def rule_points_def map_append sum_list_append signal_weight
  by simp

lemma rule_points_bounds: "0 \<le> rule_points i \<and> rule_points i \<le> 135"
  by (simp add: rule_points_def)

lemma run_fraud_spec:
  assumes "run_fraud i = Inr r"
  shows "fr_score r = min 100 (rule_points i)"
    and "0 \<le> fr_score r \<and> fr_score r \<le> 100"
    and "fr_risk_level r = score_to_risk (fr_score r)"
    and "fr_requires_human_review r \<longleftrightarrow> 45 \<le> fr_score r"
    and "fr_signals r = fraud_signals i"
proof -
  have r: "r = \<lparr> fr_score = min 100 (rule_points i), fr_risk_level = score_to_risk (min 100 (rule_points i)),
      fr_signals = fraud_signals i,
      fr_requires_human_review = (score_to_risk (min 100 (rule_points i)) = HIGH
        \<or> score_to_risk (min 100 (rule_points i)) = CRITICAL),
      fr_recommendation = fraud_recommendation (score_to_risk (min 100 (rule_points i))) \<rparr>"
    using assms by (simp add: run_fraud_def Let_def fraud_signals_points)
  show "fr_score r = min 100 (rule_points i)" "fr_risk_level r = score_to_risk (fr_score r)"
    "fr_signals r = fraud_signals i" by (simp_all add: r)
  show "0 \<le> fr_score r \<and> fr_score r \<le> 100"
    using rule_points_bounds [of i] by (auto simp: r)
  show "fr_requires_human_review r \<longleftrightarrow> 45 \<le> fr_score r"
    by (auto simp: r score_to_risk_def)
qed

text \<open>More rules firing never lowers the score or the risk.\<close>

lemma score_to_risk_mono: "m \<le> n \<Longrightarrow> score_to_risk m \<le> score_to_risk n"
  by (auto simp: score_to_risk_def risk_order)

lemma rule_points_mono:
  assumes "large_absolute_amount i \<longrightarrow> large_absolute_amount j" "amount_anomaly i \<longrightarrow> amount_anomaly j"
    "new_account i \<longrightarrow> new_account j" "new_beneficiary_large i \<longrightarrow> new_beneficiary_large j"
    "high_risk_destination i \<longrightarrow> high_risk_destination j"
    "failed_login_burst i \<longrightarrow> failed_login_burst j" "odd_hour_large i \<longrightarrow> odd_hour_large j"
  shows "rule_points i \<le> rule_points j"
  unfolding rule_points_def using assms by (intro add_mono) auto

lemma amount_rules_mono:
  assumes "fle a b"
  shows "fle (Fin c) a \<Longrightarrow> fle (Fin c) b" "flt x a \<Longrightarrow> flt x b"
  using assms by (auto intro: fle_trans) (cases x; cases a; cases b; auto)+

text \<open>Raising the amount alone raises the risk or leaves it.\<close>

lemma fraud_amount_mono:
  assumes "fle (tx_amount (fi_transaction i)) a"
  shows "rule_points i \<le> rule_points (i\<lparr>fi_transaction := (fi_transaction i)\<lparr>tx_amount := a\<rparr>\<rparr>)"
  using amount_rules_mono [OF assms]
  by (intro rule_points_mono)
    (auto simp: large_absolute_amount_def LARGE_AMOUNT_ABS_def amount_anomaly_def new_account_def
      new_beneficiary_large_def at_least_1000_def high_risk_destination_def beneficiary_country_def
      failed_login_burst_def odd_hour_large_def)

end
