(* ===== verification/LoanAgent.thy ===== *)
theory LoanAgent
  imports AgentBase Enums
begin

text \<open>
  agents/loan.py: the monthly payment, the debt-to-income ratio and the recommendation, in floating
  point. The power \<open>(1 + r) ** n\<close> is the C library's \<open>pow\<close>, which is not correctly rounded on every
  platform, so it is an argument; \<open>None\<close> is its \<open>OverflowError\<close>. The non-ASCII sign of the rationale
  is written as its UTF-8 bytes.
\<close>

record loan_input =
  li_monthly_income :: pyfloat
  li_monthly_debt :: pyfloat
  li_monthly_expenses :: pyfloat
  li_loan_amount :: pyfloat
  li_term_months :: int
  li_annual_interest_rate :: pyfloat

record loan_result =
  lr_estimated_monthly_payment :: pyfloat
  lr_dti_ratio :: pyfloat
  lr_disposable_after_payment :: pyfloat
  lr_risk_level :: risk_level
  lr_recommendation :: string
  lr_requires_human_review :: bool
  lr_rationale :: "string list"

definition loan_input_valid :: "loan_input \<Rightarrow> bool" where
  "loan_input_valid i \<longleftrightarrow> flt (Fin 0) (li_monthly_income i) \<and> fle (Fin 0) (li_monthly_debt i)
     \<and> fle (Fin 0) (li_monthly_expenses i) \<and> flt (Fin 0) (li_loan_amount i)
     \<and> 0 < li_term_months i \<and> li_term_months i \<le> 480
     \<and> fle (Fin 0) (li_annual_interest_rate i) \<and> fle (li_annual_interest_rate i) (Fin 1)"

definition DTI_WARN :: pyfloat where "DTI_WARN = fl (36 / 100)"
definition DTI_MAX :: pyfloat where "DTI_MAX = fl (43 / 100)"

definition zero_division :: exn where
  "zero_division = Py ''ZeroDivisionError'' ''float division by zero''"

definition div_res :: "pyfloat \<Rightarrow> pyfloat \<Rightarrow> pyfloat res" where
  "div_res x y = (case fdiv x y of None \<Rightarrow> Inl zero_division | Some q \<Rightarrow> Inr q)"

type_synonym c_pow = "pyfloat \<Rightarrow> int \<Rightarrow> pyfloat option"

definition monthly_payment :: "c_pow \<Rightarrow> pyfloat \<Rightarrow> pyfloat \<Rightarrow> int \<Rightarrow> pyfloat res" where
  "monthly_payment pow amount annual_rate term_months =
     (if feq annual_rate (Fin 0) then div_res amount (fl (of_int term_months))
      else (case div_res annual_rate (Fin 12) of Inl e \<Rightarrow> Inl e
        | Inr r \<Rightarrow> (case pow (fadd (Fin 1) r) term_months of
              None \<Rightarrow> Inl (Py ''OverflowError'' ''(34, Numerical result out of range)'')
            | Some factor \<Rightarrow>
                div_res (fmul amount (fmul r factor)) (fsub factor (Fin 1)))))"

definition loan_rationale :: "pyfloat \<Rightarrow> pyfloat \<Rightarrow> pyfloat \<Rightarrow> string list" where
  "loan_rationale payment dti disposable =
     (let ge = [CHR 0xE2, CHR 0x89, CHR 0xA5]
      in [''Estimated monthly payment: '' @ fmt_fixed 2 payment @ ''.'',
          ''DTI ratio: '' @ fmt_percent 2 dti @ '' (warn '' @ ge @ '' '' @ fmt_percent 0 DTI_WARN
            @ '', max '' @ ge @ '' '' @ fmt_percent 0 DTI_MAX @ '').'',
          ''Disposable income after payment: '' @ fmt_fixed 2 disposable @ ''.''])"

definition loan_decision :: "pyfloat \<Rightarrow> pyfloat \<Rightarrow> risk_level \<times> string" where
  "loan_decision dti disposable =
     (if fle DTI_MAX dti \<or> flt disposable (Fin 0)
      then (HIGH, ''Decline or restructure: affordability thresholds exceeded.'')
      else if fle DTI_WARN dti
      then (MEDIUM, ''Refer for manual underwriting: elevated DTI.'')
      else (LOW, ''Within affordability policy: recommend approval subject to sign-off.''))"

definition run_loan :: "c_pow \<Rightarrow> loan_input \<Rightarrow> loan_result res" where
  "run_loan pow i =
     (case monthly_payment pow (li_loan_amount i) (li_annual_interest_rate i) (li_term_months i) of
        Inl e \<Rightarrow> Inl e
      | Inr payment \<Rightarrow>
          (let total_debt = fadd (li_monthly_debt i) payment
           in case div_res total_debt (li_monthly_income i) of
               Inl e \<Rightarrow> Inl e
             | Inr dti \<Rightarrow>
                 (let disposable = fsub (fsub (li_monthly_income i) (li_monthly_expenses i)) total_debt
                  in Inr \<lparr> lr_estimated_monthly_payment = py_round 2 payment,
                           lr_dti_ratio = py_round 4 dti,
                           lr_disposable_after_payment = py_round 2 disposable,
                           lr_risk_level = fst (loan_decision dti disposable),
                           lr_recommendation = snd (loan_decision dti disposable),
                           lr_requires_human_review = True,
                           lr_rationale = loan_rationale payment dti disposable \<rparr>)))"

section \<open>Facts\<close>

lemma loan_always_reviewed: "run_loan pow i = Inr r \<Longrightarrow> lr_requires_human_review r"
  by (auto simp: run_loan_def Let_def split: sum.splits)

lemma loan_decision_risk:
  "fst (loan_decision dti disposable) = HIGH \<longleftrightarrow> fle DTI_MAX dti \<or> flt disposable (Fin 0)"
  "fst (loan_decision dti disposable) = LOW \<longleftrightarrow> \<not> fle DTI_MAX dti \<and> \<not> fle DTI_WARN dti
     \<and> \<not> flt disposable (Fin 0)"
  "fst (loan_decision dti disposable) \<noteq> CRITICAL"
  by (auto simp: loan_decision_def)

lemma loan_result_decision:
  assumes "run_loan pow i = Inr r"
  obtains payment dti disposable where
    "monthly_payment pow (li_loan_amount i) (li_annual_interest_rate i) (li_term_months i) = Inr payment"
    "fdiv (fadd (li_monthly_debt i) payment) (li_monthly_income i) = Some dti"
    "disposable = fsub (fsub (li_monthly_income i) (li_monthly_expenses i)) (fadd (li_monthly_debt i) payment)"
    "lr_risk_level r = fst (loan_decision dti disposable)"
    "lr_recommendation r = snd (loan_decision dti disposable)"
    "lr_estimated_monthly_payment r = py_round 2 payment" "lr_dti_ratio r = py_round 4 dti"
  using assms by (auto simp: run_loan_def div_res_def Let_def split: sum.splits option.splits)

lemma feq_zero_iff: "feq x (Fin 0) \<longleftrightarrow> x = Fin 0"
  by (cases x) auto

lemma fl_nonzero_int:
  assumes "0 < n" "n \<le> 2 ^ 20"
  shows "fl (of_int n) \<noteq> Fin 0"
proof
  assume "fl (of_int n) = Fin 0"
  have n: "(1 :: rat) \<le> of_int n" using assms(1) by simp
  define e where "e = max (expo (of_int n) - 52) (- 1074)"
  have "pow2 (expo (of_int n)) \<le> (of_int n :: rat)" using n by (intro expo_le) simp
  moreover have "pow2 e \<le> pow2 (expo (of_int n)) / 2 \<or> pow2 e \<le> 1 / 2"
  proof (cases "expo (of_int n) - 52 \<ge> - 1074")
    case True
    then have "e = expo (of_int n) - 52" by (simp add: e_def)
    then have "pow2 e = pow2 (expo (of_int n)) / pow2 52" by (simp add: pow2_diff)
    moreover have "(2 :: rat) \<le> pow2 52" by (simp add: pow2_def)
    moreover have "pow2 (expo (of_int n)) / pow2 52 \<le> pow2 (expo (of_int n)) / 2"
      using calculation(2) by (intro divide_left_mono) (auto intro: less_imp_le)
    ultimately show ?thesis by simp
  next
    case False
    then have "pow2 e \<le> pow2 (- 1)" by (intro pow2_le) (simp add: e_def)
    then show ?thesis by (intro disjI2) (simp add: pow2_def)
  qed
  ultimately have "pow2 e \<le> of_int n / 2" using n by linarith
  then have "\<bar>of_int (round_half_even (of_int n / pow2 e)) * pow2 e - of_int n\<bar> \<le> of_int n / 4"
    using rounded_near [of "of_int n" e] by linarith
  then have "of_int (round_half_even (of_int n / pow2 e)) * pow2 e \<noteq> 0"
    using n by (auto simp: abs_le_iff)
  moreover have "fl (of_int n) = Fin 0 \<Longrightarrow> of_int (round_half_even (of_int n / pow2 e)) * pow2 e = 0"
    using n by (auto simp: fl_def Let_def e_def split: if_splits)
  ultimately show False using \<open>fl (of_int n) = Fin 0\<close> by simp
qed

text \<open>Without interest the payment is the rounded quotient, and the agent always answers.\<close>

lemma div_res_nonzero: "y \<noteq> Fin 0 \<Longrightarrow> \<exists>q. div_res x y = Inr q"
  by (cases x; cases y) (auto simp: div_res_def)

lemma monthly_payment_no_interest:
  assumes "0 < n" "n \<le> 480"
  shows "\<exists>q. monthly_payment pow p (Fin 0) n = Inr q \<and> fdiv p (fl (of_int n)) = Some q"
proof -
  have "fl (of_int n) \<noteq> Fin 0" using assms by (intro fl_nonzero_int) auto
  from div_res_nonzero [OF this, of p] show ?thesis
    by (auto simp: monthly_payment_def div_res_def split: option.splits)
qed

text \<open>With interest it fails only where the power overflows or is 1 after rounding.\<close>

definition rate_factor :: "c_pow \<Rightarrow> loan_input \<Rightarrow> pyfloat option" where
  "rate_factor pow i = (case fdiv (li_annual_interest_rate i) (Fin 12) of None \<Rightarrow> None
     | Some r \<Rightarrow> pow (fadd (Fin 1) r) (li_term_months i))"

lemma run_loan_total:
  assumes "loan_input_valid i"
    and "li_annual_interest_rate i \<noteq> Fin 0 \<Longrightarrow>
      (case rate_factor pow i of None \<Rightarrow> False | Some f \<Rightarrow> fsub f (Fin 1) \<noteq> Fin 0)"
  shows "\<exists>r. run_loan pow i = Inr r"
proof -
  have income: "li_monthly_income i \<noteq> Fin 0" using assms(1) by (auto simp: loan_input_valid_def)
  have "\<exists>p. monthly_payment pow (li_loan_amount i) (li_annual_interest_rate i) (li_term_months i) = Inr p"
  proof (cases "li_annual_interest_rate i = Fin 0")
    case True
    with monthly_payment_no_interest [of "li_term_months i" pow "li_loan_amount i"] assms(1)
    show ?thesis by (auto simp: loan_input_valid_def)
  next
    case False
    with assms(2) obtain r f where "fdiv (li_annual_interest_rate i) (Fin 12) = Some r"
      "pow (fadd (Fin 1) r) (li_term_months i) = Some f" "fsub f (Fin 1) \<noteq> Fin 0"
      by (auto simp: rate_factor_def split: option.splits)
    then show ?thesis
      using False div_res_nonzero
      by (auto simp: monthly_payment_def div_res_def feq_zero_iff split: option.splits)
  qed
  then obtain p where p: "monthly_payment pow (li_loan_amount i) (li_annual_interest_rate i)
      (li_term_months i) = Inr p" by blast
  obtain d where "div_res (fadd (li_monthly_debt i) p) (li_monthly_income i) = Inr d"
    using div_res_nonzero [OF income] by blast
  with p show ?thesis by (simp add: run_loan_def Let_def)
qed

interpretation loan: pure_agent "''loan_agent''" "run_loan pow"
  "\<lambda>i. loan_input_valid i \<and> (li_annual_interest_rate i \<noteq> Fin 0 \<longrightarrow>
      (case rate_factor pow i of None \<Rightarrow> False | Some f \<Rightarrow> fsub f (Fin 1) \<noteq> Fin 0))"
  by unfold_locales (auto intro!: run_loan_total)

text \<open>A positive rate so small that the factor rounds to 1 makes the agent fail.\<close>

lemma tiny_rate_fails:
  assumes "li_annual_interest_rate i \<noteq> Fin 0" "rate_factor pow i = Some (Fin 1)"
  shows "run_loan pow i = Inl zero_division"
  using assms
  by (auto simp: run_loan_def monthly_payment_def rate_factor_def div_res_def feq_zero_iff fsub_def
      split: option.splits sum.splits)

end
