(* ===== verification/TextAgents.thy ===== *)
theory TextAgents
  imports AgentBase VectorStore Router
begin

text \<open>
  prompts/__init__.py and the agents that retrieve text or call the model router:
  agents/retrieval.py, agents/summarization.py and agents/compliance.py. The embedder is an argument
  (the application passes \<open>embed dims\<close>), the vector store a value read when the agent runs.
\<close>

section \<open>Prompts\<close>

text \<open>The template files, stripped.\<close>

definition prompt_files :: "(string, string) dict" where
  "prompt_files =
     [(''compliance.v1'', ''You are a banking compliance assistant. Answer ONLY using the provided policy excerpts. Cite excerpts by their [n] marker. If the excerpts do not contain the answer, say that the policy does not address it. Never invent rules or citations.''),
      (''summarize.v1'', ''You are a banking operations assistant. Summarize the provided content factually and concisely for an internal reviewer. Do not invent facts. If information is missing, say so explicitly.'')]"

definition get_prompt :: "string \<Rightarrow> string res" where
  "get_prompt version = (case dict_get version prompt_files of
       None \<Rightarrow> Inl (Py ''PromptNotFoundError'' version) | Some t \<Rightarrow> Inr t)"

definition available_versions :: "string list" where
  "available_versions = sort (dict_keys prompt_files)"

definition system_prompt :: "string \<Rightarrow> string" where
  "system_prompt version = (case get_prompt version of Inr t \<Rightarrow> t | Inl _ \<Rightarrow> '''')"

definition NL :: string where "NL = [CHR 0x0A]"

section \<open>Retrieval\<close>

record retrieval_input =
  ri_query :: string
  ri_top_k :: int

record search_hit =
  sh_document_id :: uuid
  sh_chunk_id :: uuid
  sh_score :: pyfloat
  sh_text :: string
  sh_filename :: "string option"

text \<open>The identifiers of a record are parsed back; a malformed one raises \<open>ValueError\<close>.\<close>

definition to_hit :: "scored_record \<Rightarrow> search_hit res" where
  "to_hit h =
     (case uuid_parse (vr_document_id (sr_record h)) of
        None \<Rightarrow> Inl (Py ''ValueError'' ''badly formed hexadecimal UUID string'')
      | Some d \<Rightarrow> (case uuid_parse (vr_chunk_id (sr_record h)) of
          None \<Rightarrow> Inl (Py ''ValueError'' ''badly formed hexadecimal UUID string'')
        | Some c \<Rightarrow> Inr \<lparr> sh_document_id = d, sh_chunk_id = c, sh_score = py_round 6 (sr_score h),
                          sh_text = vr_text (sr_record h), sh_filename = vr_filename (sr_record h) \<rparr>))"

fun map_res :: "('a \<Rightarrow> 'b res) \<Rightarrow> 'a list \<Rightarrow> 'b list res" where
  "map_res f [] = Inr []"
| "map_res f (x # xs) = (case f x of Inl e \<Rightarrow> Inl e
     | Inr y \<Rightarrow> (case map_res f xs of Inl e \<Rightarrow> Inl e | Inr ys \<Rightarrow> Inr (y # ys)))"

type_synonym embedder = "string \<Rightarrow> pyfloat list res"

definition run_retrieval :: "embedder \<Rightarrow> memory_store \<Rightarrow> retrieval_input \<Rightarrow> search_hit list res" where
  "run_retrieval emb store p = (case emb (ri_query p) of
       Inl e \<Rightarrow> Inl e
     | Inr v \<Rightarrow> map_res to_hit (query v (ri_top_k p) store))"

section \<open>Summarization\<close>

record summarization_input =
  si_content :: string
  si_max_sentences :: int

record summarization_output =
  so_summary :: string
  so_model_used :: string
  so_used_fallback :: bool

definition agent_request :: "string \<Rightarrow> string \<Rightarrow> pyfloat \<Rightarrow> completion_request" where
  "agent_request version content temperature = \<lparr>
     cq_messages = [\<lparr> cm_role = MSG_SYSTEM, cm_content = system_prompt version \<rparr>,
                    \<lparr> cm_role = MSG_USER, cm_content = content \<rparr>],
     cq_max_tokens = 512, cq_temperature = temperature, cq_json_mode = False,
     cq_prompt_version = Some version \<rparr>"

text \<open>The \<open>router\<close> property: an agent without one raises \<open>AgentError\<close>.\<close>

definition agent_router :: "string \<Rightarrow> 's router option \<Rightarrow> 's router res" where
  "agent_router name rt = (case rt of Some r \<Rightarrow> Inr r
     | None \<Rightarrow> Inl (app_err AgentError (''Agent '' @ [CHR 0x27] @ name @ [CHR 0x27]
                 @ '' requires a model router but none was provided.'')))"

definition model_label :: "completion_result \<Rightarrow> string" where
  "model_label r = cr_provider r @ '':'' @ cr_model r"

definition run_summarization ::
  "'s router option \<Rightarrow> summarization_input \<Rightarrow> (exn, 's, summarization_output) comp" where
  "run_summarization rt p =
     (let rq = agent_request ''summarize.v1''
            (''Summarize the following in at most '' @ int_str (si_max_sentences p) @ '' sentences:''
               @ NL @ NL @ si_content p) (fl (1 / 10))
      in bindE (liftE (agent_router ''summarization_agent'' rt)) (\<lambda>r.
         bindE (router_complete r rq None) (\<lambda>res.
           ret \<lparr> so_summary = strip (cr_text res), so_model_used = model_label res,
                 so_used_fallback = cr_used_fallback res \<rparr>)))"

section \<open>Compliance\<close>

record citation =
  ct_marker :: int
  ct_document_id :: string
  ct_chunk_id :: string
  ct_filename :: "string option"
  ct_text :: string

record compliance_input =
  co_question :: string
  co_top_k :: int

record compliance_output =
  cp_question :: string
  cp_answer :: string
  cp_citations :: "citation list"
  cp_grounded :: bool
  cp_model_used :: "string option"

definition to_citation :: "nat \<Rightarrow> search_hit \<Rightarrow> citation" where
  "to_citation i h = \<lparr> ct_marker = int i + 1, ct_document_id = uuid_str (sh_document_id h),
     ct_chunk_id = uuid_str (sh_chunk_id h), ct_filename = sh_filename h, ct_text = sh_text h \<rparr>"

definition citations_of :: "search_hit list \<Rightarrow> citation list" where
  "citations_of hits = map2 to_citation [0..<length hits] hits"

definition cited :: "citation \<Rightarrow> string" where
  "cited c = ''['' @ int_str (ct_marker c) @ ''] '' @ ct_text c"

definition compliance_answer ::
  "compliance_input \<Rightarrow> citation list \<Rightarrow> string \<Rightarrow> bool \<Rightarrow> string option \<Rightarrow> compliance_output" where
  "compliance_answer p cs answer grounded model = \<lparr> cp_question = co_question p, cp_answer = answer,
     cp_citations = cs, cp_grounded = grounded, cp_model_used = model \<rparr>"

definition compose_answer ::
  "'s router option \<Rightarrow> compliance_input \<Rightarrow> citation list \<Rightarrow> (exn, 's, compliance_output) comp" where
  "compose_answer rt p cs =
     (if cs = [] then
        ret (compliance_answer p [] ''No relevant policy was found for this question.'' False None)
      else (case rt of
          None \<Rightarrow> ret (compliance_answer p cs
            (''Based on the retrieved policy excerpts: '' @ take 1500 (join '' '' (map cited cs))) True None)
        | Some r \<Rightarrow>
            bindE (router_complete r
              (agent_request ''compliance.v1''
                (''Question: '' @ co_question p @ NL @ NL @ ''Policy excerpts:'' @ NL
                   @ join NL (map cited cs)) (Fin 0)) None) (\<lambda>res.
              ret (compliance_answer p cs (strip (cr_text res)) True (Some (model_label res))))))"

definition run_compliance ::
  "embedder \<Rightarrow> memory_store \<Rightarrow> 's router option \<Rightarrow> compliance_input
     \<Rightarrow> (exn, 's, compliance_output) comp" where
  "run_compliance emb store rt p =
     bindE (liftE (run_retrieval emb store \<lparr> ri_query = co_question p, ri_top_k = co_top_k p \<rparr>))
       (\<lambda>hits. compose_answer rt p (citations_of hits))"

section \<open>Facts\<close>

lemma map_res_Inr: "map_res f xs = Inr ys \<longleftrightarrow> list_all2 (\<lambda>x y. f x = Inr y) xs ys"
proof (induction xs arbitrary: ys)
  case (Cons x xs)
  show ?case
    by (auto simp: list_all2_Cons1 Cons.IH [symmetric] split: sum.splits)
qed auto

text \<open>A hit comes from a record of the store: same text, and identifiers that print as the record's.\<close>

definition hit_of :: "memory_store \<Rightarrow> search_hit \<Rightarrow> bool" where
  "hit_of store h \<longleftrightarrow> (\<exists>r \<in> snd ` set store. uuid_parse (vr_chunk_id r) = Some (sh_chunk_id h)
     \<and> uuid_parse (vr_document_id r) = Some (sh_document_id h)
     \<and> sh_text h = vr_text r \<and> sh_filename h = vr_filename r)"

lemma to_hit_fields:
  "to_hit s = Inr h \<Longrightarrow> uuid_parse (vr_chunk_id (sr_record s)) = Some (sh_chunk_id h)
     \<and> uuid_parse (vr_document_id (sr_record s)) = Some (sh_document_id h)
     \<and> sh_text h = vr_text (sr_record s) \<and> sh_filename h = vr_filename (sr_record s)
     \<and> sh_score h = py_round 6 (sr_score s)"
  by (auto simp: to_hit_def split: option.splits)

lemma run_retrieval_sound:
  assumes "run_retrieval emb store p = Inr hits"
  shows "\<forall>h \<in> set hits. hit_of store h" and "length hits \<le> nat (ri_top_k p)"
proof -
  obtain v where v: "list_all2 (\<lambda>x y. to_hit x = Inr y) (query v (ri_top_k p) store) hits"
    using assms by (auto simp: run_retrieval_def map_res_Inr split: sum.splits)
  show "\<forall>h \<in> set hits. hit_of store h"
  proof
    fix h assume "h \<in> set hits"
    then obtain i where "i < length hits" "h = hits ! i" by (auto simp: in_set_conv_nth)
    with v have s: "query v (ri_top_k p) store ! i \<in> set (query v (ri_top_k p) store)"
      "to_hit (query v (ri_top_k p) store ! i) = Inr h"
      by (auto simp: list_all2_conv_all_nth)
    show "hit_of store h"
      unfolding hit_of_def
      using query_element [OF s(1)] to_hit_fields [OF s(2)] by (intro bexI) auto
  qed
  show "length hits \<le> nat (ri_top_k p)"
    using list_all2_lengthD [OF v] mem.ask_bound [of v "ri_top_k p" store] by simp
qed

lemma compose_answer_citations:
  "compose_answer rt p cs s = (Inr out, t) \<Longrightarrow> cp_citations out = cs
     \<and> (cp_grounded out \<longleftrightarrow> cs \<noteq> []) \<and> cp_question out = co_question p"
  by (auto simp: compose_answer_def compliance_answer_def ret_def bindE_def
      split: if_splits option.splits prod.splits sum.splits)

lemma citations_of_nth:
  "i < length hits \<Longrightarrow> citations_of hits ! i = to_citation i (hits ! i)"
  "length (citations_of hits) = length hits"
  by (simp_all add: citations_of_def)

text \<open>The answer cites nothing that was not retrieved, with markers 1, 2, 3 and so on.\<close>

lemma run_compliance_cites:
  assumes "run_compliance emb store rt p s = (Inr out, t)"
  shows "length (cp_citations out) \<le> nat (co_top_k p)"
    and "cp_grounded out \<longleftrightarrow> cp_citations out \<noteq> []"
    and "\<forall>i < length (cp_citations out). ct_marker (cp_citations out ! i) = int i + 1
      \<and> (\<exists>r \<in> snd ` set store. ct_text (cp_citations out ! i) = vr_text r
           \<and> Option.bind (uuid_parse (vr_chunk_id r)) (\<lambda>u. Some (uuid_str u))
               = Some (ct_chunk_id (cp_citations out ! i)))"
proof -
  obtain hits where hits: "run_retrieval emb store \<lparr> ri_query = co_question p, ri_top_k = co_top_k p \<rparr> = Inr hits"
    "compose_answer rt p (citations_of hits) s = (Inr out, t)"
    using assms by (auto simp: run_compliance_def bindE_Inr liftE_def)
  note out = compose_answer_citations [OF hits(2)]
  show "length (cp_citations out) \<le> nat (co_top_k p)"
    using run_retrieval_sound(2) [OF hits(1)] by (simp add: out citations_of_nth)
  show "cp_grounded out \<longleftrightarrow> cp_citations out \<noteq> []" by (simp add: out)
  show "\<forall>i < length (cp_citations out). ct_marker (cp_citations out ! i) = int i + 1
      \<and> (\<exists>r \<in> snd ` set store. ct_text (cp_citations out ! i) = vr_text r
           \<and> Option.bind (uuid_parse (vr_chunk_id r)) (\<lambda>u. Some (uuid_str u))
               = Some (ct_chunk_id (cp_citations out ! i)))"
  proof (intro allI impI)
    fix i assume "i < length (cp_citations out)"
    then have i: "i < length hits" by (simp add: out citations_of_nth)
    then have "hit_of store (hits ! i)" using run_retrieval_sound(1) [OF hits(1)] by simp
    then show "ct_marker (cp_citations out ! i) = int i + 1
      \<and> (\<exists>r \<in> snd ` set store. ct_text (cp_citations out ! i) = vr_text r
           \<and> Option.bind (uuid_parse (vr_chunk_id r)) (\<lambda>u. Some (uuid_str u))
               = Some (ct_chunk_id (cp_citations out ! i)))"
      by (auto simp: out citations_of_nth(1) [OF i] to_citation_def hit_of_def)
  qed
qed

lemma prompts_found: "get_prompt ''summarize.v1'' = Inr (system_prompt ''summarize.v1'')"
  "get_prompt ''compliance.v1'' = Inr (system_prompt ''compliance.v1'')"
  by (simp_all add: system_prompt_def get_prompt_def prompt_files_def)

end
