(* ===== verification/AuditAgent.thy ===== *)
theory AuditAgent
  imports AgentBase Sha256
begin

text \<open>
  agents/audit.py: the canonical rendering of the evidence and its digest. The evidence is decoded
  JSON, so \<open>default=str\<close> is never called.
\<close>

record audit_input =
  au_workflow_id :: string
  au_evidence :: json_dict

record audit_bundle =
  ab_workflow_id :: string
  ab_canonical_json :: string
  ab_sha256 :: string
  ab_item_count :: int

definition run_audit :: "audit_input \<Rightarrow> audit_bundle res" where
  "run_audit p =
     (let canonical = dumps (JObj (au_evidence p))
      in Inr \<lparr> ab_workflow_id = au_workflow_id p, ab_canonical_json = canonical,
               ab_sha256 = sha256_hex canonical, ab_item_count = int (length (au_evidence p)) \<rparr>)"

interpretation audit_agent: pure_agent "''audit_agent''" run_audit "\<lambda>_. True"
  by unfold_locales (simp add: run_audit_def Let_def)

text \<open>The canonical form is ASCII, so encoding it as UTF-8 leaves the bytes as they are.\<close>

definition ascii :: "string \<Rightarrow> bool" where
  "ascii s \<longleftrightarrow> (\<forall>c \<in> set s. code c < 128)"

lemma ascii_simps [simp]:
  "ascii []" "ascii (c # s) \<longleftrightarrow> code c < 128 \<and> ascii s" "ascii (s @ t) \<longleftrightarrow> ascii s \<and> ascii t"
  by (auto simp: ascii_def)

lemma run_audit_order_irrelevant:
  assumes "json_eqv (JObj (au_evidence p)) (JObj (au_evidence q))"
    "run_audit p = Inr a" "run_audit q = Inr b"
  shows "ab_canonical_json a = ab_canonical_json b \<and> ab_sha256 a = ab_sha256 b"
  using assms dumps_eqv [OF assms(1)] by (auto simp: run_audit_def Let_def)

end
