(* ===== verification/Rbac.thy ===== *)
theory Rbac
  imports Enums
begin

text \<open>
  core/rbac.py: roles, permissions, the role catalogue and the resolution of a token's role strings
  to permission strings.
\<close>

section \<open>Roles and permissions\<close>

datatype role =
    CUSTOMER_SUPPORT
  | OPS_EXECUTIVE
  | COMPLIANCE_OFFICER
  | RISK_ANALYST
  | LOAN_OFFICER
  | AUDITOR
  | MANAGER
  | SYSTEM_ADMIN

fun role_value :: "role \<Rightarrow> string" where
  "role_value CUSTOMER_SUPPORT = ''customer_support_agent''"
| "role_value OPS_EXECUTIVE = ''banking_operations_executive''"
| "role_value COMPLIANCE_OFFICER = ''compliance_officer''"
| "role_value RISK_ANALYST = ''risk_analyst''"
| "role_value LOAN_OFFICER = ''loan_officer''"
| "role_value AUDITOR = ''auditor''"
| "role_value MANAGER = ''manager''"
| "role_value SYSTEM_ADMIN = ''system_admin''"

instantiation role :: enum
begin

definition "enum_role = [CUSTOMER_SUPPORT, OPS_EXECUTIVE, COMPLIANCE_OFFICER, RISK_ANALYST, LOAN_OFFICER, AUDITOR, MANAGER, SYSTEM_ADMIN]"
definition "enum_all_role P \<longleftrightarrow> (\<forall>x \<in> set [CUSTOMER_SUPPORT, OPS_EXECUTIVE, COMPLIANCE_OFFICER, RISK_ANALYST, LOAN_OFFICER, AUDITOR, MANAGER, SYSTEM_ADMIN]. P x)"
definition "enum_ex_role P \<longleftrightarrow> (\<exists>x \<in> set [CUSTOMER_SUPPORT, OPS_EXECUTIVE, COMPLIANCE_OFFICER, RISK_ANALYST, LOAN_OFFICER, AUDITOR, MANAGER, SYSTEM_ADMIN]. P x)"

lemma UNIV_role: "(UNIV :: role set) = set [CUSTOMER_SUPPORT, OPS_EXECUTIVE, COMPLIANCE_OFFICER, RISK_ANALYST, LOAN_OFFICER, AUDITOR, MANAGER, SYSTEM_ADMIN]"
proof (intro equalityI subsetI)
  fix x :: role
  show "x \<in> set [CUSTOMER_SUPPORT, OPS_EXECUTIVE, COMPLIANCE_OFFICER, RISK_ANALYST, LOAN_OFFICER, AUDITOR, MANAGER, SYSTEM_ADMIN]" by (cases x) simp_all
qed simp

instance
  by intro_classes
    (simp_all add: enum_role_def enum_all_role_def enum_ex_role_def UNIV_role)

end

interpretation role: str_enum role_value
proof
  fix x y
  show "role_value x = role_value y \<Longrightarrow> x = y" by (cases x; cases y) simp_all
qed

datatype permission =
    DOCUMENT_READ
  | DOCUMENT_UPLOAD
  | WORKFLOW_READ
  | WORKFLOW_START
  | WORKFLOW_APPROVE
  | WORKFLOW_REJECT
  | WORKFLOW_ESCALATE
  | KYC_REVIEW
  | FRAUD_REVIEW_PERM
  | COMPLIANCE_READ
  | LOAN_PROCESS
  | AUDIT_READ
  | AGENT_READ
  | AGENT_RUN
  | SEARCH_READ
  | ADMIN_READ
  | ADMIN_MANAGE

fun permission_value :: "permission \<Rightarrow> string" where
  "permission_value DOCUMENT_READ = ''document:read''"
| "permission_value DOCUMENT_UPLOAD = ''document:upload''"
| "permission_value WORKFLOW_READ = ''workflow:read''"
| "permission_value WORKFLOW_START = ''workflow:start''"
| "permission_value WORKFLOW_APPROVE = ''workflow:approve''"
| "permission_value WORKFLOW_REJECT = ''workflow:reject''"
| "permission_value WORKFLOW_ESCALATE = ''workflow:escalate''"
| "permission_value KYC_REVIEW = ''kyc:review''"
| "permission_value FRAUD_REVIEW_PERM = ''fraud:review''"
| "permission_value COMPLIANCE_READ = ''compliance:read''"
| "permission_value LOAN_PROCESS = ''loan:process''"
| "permission_value AUDIT_READ = ''audit:read''"
| "permission_value AGENT_READ = ''agent:read''"
| "permission_value AGENT_RUN = ''agent:run''"
| "permission_value SEARCH_READ = ''search:read''"
| "permission_value ADMIN_READ = ''admin:read''"
| "permission_value ADMIN_MANAGE = ''admin:manage''"

instantiation permission :: enum
begin

definition "enum_permission = [DOCUMENT_READ, DOCUMENT_UPLOAD, WORKFLOW_READ, WORKFLOW_START, WORKFLOW_APPROVE, WORKFLOW_REJECT, WORKFLOW_ESCALATE, KYC_REVIEW, FRAUD_REVIEW_PERM, COMPLIANCE_READ, LOAN_PROCESS, AUDIT_READ, AGENT_READ, AGENT_RUN, SEARCH_READ, ADMIN_READ, ADMIN_MANAGE]"
definition "enum_all_permission P \<longleftrightarrow> (\<forall>x \<in> set [DOCUMENT_READ, DOCUMENT_UPLOAD, WORKFLOW_READ, WORKFLOW_START, WORKFLOW_APPROVE, WORKFLOW_REJECT, WORKFLOW_ESCALATE, KYC_REVIEW, FRAUD_REVIEW_PERM, COMPLIANCE_READ, LOAN_PROCESS, AUDIT_READ, AGENT_READ, AGENT_RUN, SEARCH_READ, ADMIN_READ, ADMIN_MANAGE]. P x)"
definition "enum_ex_permission P \<longleftrightarrow> (\<exists>x \<in> set [DOCUMENT_READ, DOCUMENT_UPLOAD, WORKFLOW_READ, WORKFLOW_START, WORKFLOW_APPROVE, WORKFLOW_REJECT, WORKFLOW_ESCALATE, KYC_REVIEW, FRAUD_REVIEW_PERM, COMPLIANCE_READ, LOAN_PROCESS, AUDIT_READ, AGENT_READ, AGENT_RUN, SEARCH_READ, ADMIN_READ, ADMIN_MANAGE]. P x)"

lemma UNIV_permission: "(UNIV :: permission set) = set [DOCUMENT_READ, DOCUMENT_UPLOAD, WORKFLOW_READ, WORKFLOW_START, WORKFLOW_APPROVE, WORKFLOW_REJECT, WORKFLOW_ESCALATE, KYC_REVIEW, FRAUD_REVIEW_PERM, COMPLIANCE_READ, LOAN_PROCESS, AUDIT_READ, AGENT_READ, AGENT_RUN, SEARCH_READ, ADMIN_READ, ADMIN_MANAGE]"
proof (intro equalityI subsetI)
  fix x :: permission
  show "x \<in> set [DOCUMENT_READ, DOCUMENT_UPLOAD, WORKFLOW_READ, WORKFLOW_START, WORKFLOW_APPROVE, WORKFLOW_REJECT, WORKFLOW_ESCALATE, KYC_REVIEW, FRAUD_REVIEW_PERM, COMPLIANCE_READ, LOAN_PROCESS, AUDIT_READ, AGENT_READ, AGENT_RUN, SEARCH_READ, ADMIN_READ, ADMIN_MANAGE]" by (cases x) simp_all
qed simp

instance
  by intro_classes
    (simp_all add: enum_permission_def enum_all_permission_def enum_ex_permission_def UNIV_permission)

end

interpretation permission: str_enum permission_value
proof
  fix x y
  show "permission_value x = permission_value y \<Longrightarrow> x = y" by (cases x; cases y) simp_all
qed

section \<open>The catalogue\<close>

definition read_only :: "permission set" where
  "read_only = {DOCUMENT_READ, WORKFLOW_READ, AGENT_READ, SEARCH_READ, COMPLIANCE_READ}"

fun permissions_of :: "role \<Rightarrow> permission set" where
  "permissions_of SYSTEM_ADMIN = set Enum.enum"
| "permissions_of MANAGER = read_only \<union>
     {DOCUMENT_UPLOAD, WORKFLOW_START, WORKFLOW_APPROVE, WORKFLOW_REJECT, WORKFLOW_ESCALATE,
      AGENT_RUN, AUDIT_READ}"
| "permissions_of OPS_EXECUTIVE = read_only \<union> {DOCUMENT_UPLOAD, WORKFLOW_START, AGENT_RUN}"
| "permissions_of CUSTOMER_SUPPORT =
     {DOCUMENT_READ, DOCUMENT_UPLOAD, WORKFLOW_READ, WORKFLOW_START, SEARCH_READ, AGENT_RUN}"
| "permissions_of COMPLIANCE_OFFICER = read_only \<union>
     {COMPLIANCE_READ, WORKFLOW_APPROVE, WORKFLOW_REJECT, WORKFLOW_ESCALATE, AUDIT_READ, AGENT_RUN}"
| "permissions_of RISK_ANALYST = read_only \<union>
     {FRAUD_REVIEW_PERM, WORKFLOW_APPROVE, WORKFLOW_REJECT, AGENT_RUN}"
| "permissions_of LOAN_OFFICER = read_only \<union>
     {DOCUMENT_UPLOAD, LOAN_PROCESS, WORKFLOW_START, AGENT_RUN}"
| "permissions_of AUDITOR = read_only \<union> {AUDIT_READ}"

text \<open>The dictionary in the order the source writes it, which the seeding follows.\<close>

definition ROLE_PERMISSIONS :: "(role, permission set) dict" where
  "ROLE_PERMISSIONS = map (\<lambda>r. (r, permissions_of r))
     [SYSTEM_ADMIN, MANAGER, OPS_EXECUTIVE, CUSTOMER_SUPPORT, COMPLIANCE_OFFICER, RISK_ANALYST,
      LOAN_OFFICER, AUDITOR]"

section \<open>Resolution\<close>

definition role_grants :: "string \<Rightarrow> string set" where
  "role_grants raw = (case enum_parse role_value raw of
       None \<Rightarrow> {}
     | Some r \<Rightarrow> (case dict_get r ROLE_PERMISSIONS of
           None \<Rightarrow> {} | Some ps \<Rightarrow> permission_value ` ps))"

fun permissions_for_roles_from :: "string set \<Rightarrow> string list \<Rightarrow> string set" where
  "permissions_for_roles_from resolved [] = resolved"
| "permissions_for_roles_from resolved (raw # roles) =
     permissions_for_roles_from (resolved \<union> role_grants raw) roles"

definition permissions_for_roles :: "string list \<Rightarrow> string set" where
  "permissions_for_roles roles = permissions_for_roles_from {} roles"

section \<open>Facts\<close>

lemma role_permissions_get: "dict_get r ROLE_PERMISSIONS = Some (permissions_of r)"
  by (cases r) (simp_all add: ROLE_PERMISSIONS_def)

lemma role_grants_iff:
  "p \<in> role_grants raw \<longleftrightarrow> (\<exists>r q. raw = role_value r \<and> q \<in> permissions_of r \<and> p = permission_value q)"
  by (auto simp: role_grants_def role_permissions_get role.parse_Some_iff role.parse_None_iff role.val_eq_iff
      split: option.splits)

lemma permissions_for_roles_from_eq:
  "permissions_for_roles_from acc roles = acc \<union> (\<Union>raw \<in> set roles. role_grants raw)"
  by (induction roles arbitrary: acc) auto

lemma permissions_for_roles_eq: "permissions_for_roles roles = (\<Union>raw \<in> set roles. role_grants raw)"
  by (simp add: permissions_for_roles_def permissions_for_roles_from_eq)

lemma permissions_for_roles_iff:
  "permission_value p \<in> permissions_for_roles roles \<longleftrightarrow>
     (\<exists>r. role_value r \<in> set roles \<and> p \<in> permissions_of r)"
  by (auto simp: permissions_for_roles_eq role_grants_iff permission.val_eq_iff)

lemma permissions_for_roles_mono:
  "set roles \<subseteq> set roles' \<Longrightarrow> permissions_for_roles roles \<subseteq> permissions_for_roles roles'"
  by (auto simp: permissions_for_roles_eq)

end
