(* ===== verification/Orchestrator.thy ===== *)
theory Orchestrator
  imports AgentBase Enums Rbac
begin

text \<open>
  agents/orchestrator.py: the static plan of every workflow type, with its human-approval gate and
  the permission a reviewer must hold.
\<close>

record plan_step =
  ps_agent :: string
  ps_description :: string

record workflow_plan =
  wp_workflow_type :: workflow_type
  wp_steps :: "plan_step list"
  wp_requires_human_approval :: bool
  wp_approval_permission :: "string option"
  wp_rationale :: string

record plan_spec =
  sp_steps :: "(string \<times> string) list"
  sp_requires_human_approval :: bool
  sp_approval_permission :: "string option"

definition automated :: "(string \<times> string) list \<Rightarrow> plan_spec" where
  "automated steps = \<lparr> sp_steps = steps, sp_requires_human_approval = False,
     sp_approval_permission = None \<rparr>"

definition gated :: "(string \<times> string) list \<Rightarrow> permission \<Rightarrow> plan_spec" where
  "gated steps perm = \<lparr> sp_steps = steps, sp_requires_human_approval = True,
     sp_approval_permission = Some (permission_value perm) \<rparr>"

fun PLANS :: "workflow_type \<Rightarrow> plan_spec" where
  "PLANS DOCUMENT_INTELLIGENCE = automated
     [(''document_agent'', ''Extract and validate document fields.''),
      (''summarization_agent'', ''Summarize the document for a reviewer.'')]"
| "PLANS KYC = gated
     [(''document_agent'', ''Extract identity document fields.''),
      (''kyc_agent'', ''Run completeness, consistency and risk checks.'')] KYC_REVIEW"
| "PLANS FRAUD_REVIEW = gated
     [(''fraud_agent'', ''Score transaction risk with explainable signals.'')] FRAUD_REVIEW_PERM"
| "PLANS COMPLIANCE = automated
     [(''retrieval_agent'', ''Retrieve relevant policy excerpts.''),
      (''compliance_agent'', ''Compose a grounded, cited answer.'')]"
| "PLANS AUDIT_EVIDENCE = automated
     [(''audit_agent'', ''Assemble an immutable evidence bundle.'')]"
| "PLANS LOAN = gated
     [(''document_agent'', ''Validate submitted loan documents.''),
      (''loan_agent'', ''Compute affordability and a recommendation.'')] LOAN_PROCESS"

definition run_orchestrator :: "workflow_type \<Rightarrow> workflow_plan res" where
  "run_orchestrator ty =
     (let spec = PLANS ty
      in Inr \<lparr> wp_workflow_type = ty,
               wp_steps = map (\<lambda>(a, d). \<lparr> ps_agent = a, ps_description = d \<rparr>) (sp_steps spec),
               wp_requires_human_approval = sp_requires_human_approval spec,
               wp_approval_permission = sp_approval_permission spec,
               wp_rationale =
                 (if sp_requires_human_approval spec
                  then ''High-risk workflow: routed through a human approval gate.''
                  else ''Low-risk workflow: fully automated with full audit logging.'') \<rparr>)"

interpretation orchestrator: pure_agent "''orchestrator_agent''" run_orchestrator "\<lambda>_. True"
  by unfold_locales (simp add: run_orchestrator_def Let_def)

definition plan_of :: "workflow_type \<Rightarrow> workflow_plan" where
  "plan_of ty = (case run_orchestrator ty of Inr plan \<Rightarrow> plan | Inl _ \<Rightarrow> undefined)"

lemma run_orchestrator_plan: "run_orchestrator ty = Inr (plan_of ty)"
  by (simp add: plan_of_def run_orchestrator_def Let_def)

lemma plan_of_fields:
  "wp_requires_human_approval (plan_of ty) = sp_requires_human_approval (PLANS ty)"
  "wp_approval_permission (plan_of ty) = sp_approval_permission (PLANS ty)"
  "map ps_agent (wp_steps (plan_of ty)) = map fst (sp_steps (PLANS ty))"
  "wp_workflow_type (plan_of ty) = ty"
  by (simp_all add: plan_of_def run_orchestrator_def Let_def comp_def case_prod_unfold)

text \<open>The gate is on exactly the high-risk types, each with a permission of the RBAC model.\<close>

lemma plan_gate_iff: "wp_requires_human_approval (plan_of ty) \<longleftrightarrow> ty \<in> {KYC, FRAUD_REVIEW, LOAN}"
  by (cases ty) (simp_all add: plan_of_fields gated_def automated_def)

lemma plan_permission_iff:
  "wp_approval_permission (plan_of ty) \<noteq> None \<longleftrightarrow> wp_requires_human_approval (plan_of ty)"
  by (cases ty) (simp_all add: plan_of_fields gated_def automated_def)

lemma plan_permission_values:
  "wp_approval_permission (plan_of KYC) = Some ''kyc:review''"
  "wp_approval_permission (plan_of FRAUD_REVIEW) = Some ''fraud:review''"
  "wp_approval_permission (plan_of LOAN) = Some ''loan:process''"
  by (simp_all add: plan_of_fields gated_def)

lemma plan_steps_nonempty [simp]: "wp_steps (plan_of ty) \<noteq> []"
proof -
  have "map ps_agent (wp_steps (plan_of ty)) \<noteq> []"
    by (cases ty) (simp_all add: plan_of_fields(3) gated_def automated_def del: map_is_Nil_conv)
  then show ?thesis by simp
qed

text \<open>The agents the plans name; the executor has an adapter for each of them.\<close>

definition executor_agents :: "string list" where
  "executor_agents = [''document_agent'', ''kyc_agent'', ''fraud_agent'', ''loan_agent'',
     ''summarization_agent'', ''retrieval_agent'', ''compliance_agent'', ''audit_agent'']"

lemma plan_agents: "set (map ps_agent (wp_steps (plan_of ty))) \<subseteq> set executor_agents"
  unfolding plan_of_fields(3)
  by (cases ty) (simp_all add: gated_def automated_def executor_agents_def)

end
