(* ===== verification/Providers.thy ===== *)
theory Providers
  imports Router Env Config
begin

text \<open>
  ai/providers: the contract of a provider (base.py) as a locale, the OpenAI-compatible HTTP
  provider with its retries and response parsing, its Groq and Gemma configurations, and the
  deterministic echo provider. The HTTP client is third-party: its outcomes are the stream of the
  environment.
\<close>

section \<open>The contract\<close>

text \<open>
  base.py asks of a provider that results carry its own identity and that \<open>complete\<close> raises
  \<open>LLMProviderError\<close> on any failure. The first part is a locale of its own because the HTTP provider
  gives it without reservation and the second only for well-formed usage counts.
\<close>

locale provider_identity =
  fixes p :: "'s provider"
  assumes result_identity:
    "pv_complete p rq s = (Inr res, t) \<Longrightarrow> cr_provider res = pv_name p \<and> cr_model res = pv_model p"
begin

lemma success_record_identity:
  "pv_complete p rq s = (Inr res, t) \<Longrightarrow>
     mc_provider (success_record rt rq (annotate used previous res) run) = pv_name p"
  by (simp add: success_record_def annotate_def result_identity)

end

locale llm_provider = provider_identity p for p :: "'s provider" +
  assumes availability_total: "\<exists>b t. pv_available p s = (Inr b, t)"
    and failure_kind: "pv_complete p rq s = (Inl e, t) \<Longrightarrow> exn_is LLMProviderError e"
begin

lemma no_escape: "probe p s = (Inr True, u) \<Longrightarrow> pv_complete p rq u = (Inl e, t)
    \<Longrightarrow> exn_is LLMProviderError e"
  by (rule failure_kind)

lemma fails_or_answers: "(\<exists>res t. pv_complete p rq s = (Inr res, t))
    \<or> (\<exists>e t. pv_complete p rq s = (Inl e, t) \<and> exn_is LLMProviderError e)"
  using failure_kind by (metis surj_pair sum.exhaust)

end

section \<open>The OpenAI-compatible provider\<close>

record openai_provider =
  oc_name :: string
  oc_requires_network :: bool
  oc_base_url :: string
  oc_model :: string
  oc_api_key :: "string option"
  oc_timeout :: pyfloat
  oc_max_retries :: int

definition make_openai ::
  "string \<Rightarrow> string \<Rightarrow> string \<Rightarrow> string option \<Rightarrow> pyfloat \<Rightarrow> int \<Rightarrow> bool \<Rightarrow> openai_provider" where
  "make_openai name url model key timeout retries network =
     \<lparr> oc_name = name, oc_requires_network = network,
       oc_base_url = rev (dropWhile (\<lambda>c. c = CHR ''/'') (rev url)),
       oc_model = model, oc_api_key = key, oc_timeout = timeout, oc_max_retries = max 0 retries \<rparr>"

definition openai_available :: "openai_provider \<Rightarrow> bool" where
  "openai_available oc = (case oc_api_key oc of
       Some key \<Rightarrow> if oc_requires_network oc then key \<noteq> [] else True
     | None \<Rightarrow> True)"

definition openai_headers :: "openai_provider \<Rightarrow> (string, string) dict" where
  "openai_headers oc = (case oc_api_key oc of
       Some (k # ks) \<Rightarrow> [(''Content-Type'', ''application/json''),
                        (''Authorization'', ''Bearer '' @ (k # ks))]
     | _ \<Rightarrow> [(''Content-Type'', ''application/json'')])"

definition message_json :: "chat_message \<Rightarrow> json" where
  "message_json m = JObj [(''role'', JStr (msg_role_value (cm_role m))), (''content'', JStr (cm_content m))]"

definition openai_payload :: "openai_provider \<Rightarrow> completion_request \<Rightarrow> json" where
  "openai_payload oc rq = JObj
     ([(''model'', JStr (oc_model oc)), (''messages'', JArr (map message_json (cq_messages rq))),
       (''max_tokens'', JInt (cq_max_tokens rq)), (''temperature'', JFloat (cq_temperature rq))]
      @ (if cq_json_mode rq
         then [(''response_format'', JObj [(''type'', JStr ''json_object'')])] else []))"

definition openai_post :: "openai_provider \<Rightarrow> completion_request \<Rightarrow> http_post" where
  "openai_post oc rq = \<lparr> hp_url = oc_base_url oc @ ''/chat/completions'',
     hp_headers = openai_headers oc, hp_json = openai_payload oc rq \<rparr>"

text \<open>
  The retry decorator: a connectivity error is retried while attempts are left, the last one is
  raised again. Any other outcome ends the loop. The waits between attempts are not modelled.
\<close>

fun post_with_retry :: "nat \<Rightarrow> http_post \<Rightarrow> (exn, 'a env_scheme, http_outcome) comp" where
  "post_with_retry 0 rq = http_send rq"
| "post_with_retry (Suc n) rq = bindE (http_send rq) (\<lambda>out.
     case out of HttpTransport _ \<Rightarrow> post_with_retry n rq | _ \<Rightarrow> ret out)"

text \<open>The first \<open>try\<close> block: from the outcome to the decoded body, or \<open>LLMProviderError\<close>.\<close>

definition provider_error :: "string \<Rightarrow> json_dict \<Rightarrow> exn" where
  "provider_error msg det = app_err_details LLMProviderError msg det"

definition call_failed :: "openai_provider \<Rightarrow> string \<Rightarrow> exn" where
  "call_failed oc kind = provider_error (oc_name oc @ '' call failed: '' @ kind @ ''.'')
     [(''provider'', JStr (oc_name oc))]"

definition bad_shape :: "openai_provider \<Rightarrow> exn" where
  "bad_shape oc = provider_error (oc_name oc @ '' returned an unexpected response shape.'')
     [(''provider'', JStr (oc_name oc))]"

fun decode_outcome :: "openai_provider \<Rightarrow> http_outcome \<Rightarrow> json res" where
  "decode_outcome oc (HttpReply status body) =
     (if 200 \<le> status \<and> status \<le> 299 then
        (case body of Inl kind \<Rightarrow> Inl (call_failed oc kind) | Inr data \<Rightarrow> Inr data)
      else Inl (provider_error (oc_name oc @ '' returned HTTP '' @ int_str status @ ''.'')
             [(''provider'', JStr (oc_name oc)), (''status'', JInt status)]))"
| "decode_outcome oc (HttpTransport kind) =
     Inl (provider_error (oc_name oc @ '' is unreachable: '' @ kind @ ''.'')
       [(''provider'', JStr (oc_name oc)), (''connectivity'', JBool True)])"
| "decode_outcome oc (HttpOther kind) = Inl (call_failed oc kind)"

text \<open>
  \<open>d[key]\<close> for a string key and \<open>xs[0]\<close> on decoded JSON; \<open>None\<close> is a \<open>KeyError\<close>, \<open>IndexError\<close> or
  \<open>TypeError\<close>, which the second \<open>try\<close> block treats alike.
\<close>

fun item_key :: "string \<Rightarrow> json \<Rightarrow> json option" where
  "item_key k (JObj d) = dict_get k d"
| "item_key k v = None"

fun item_first :: "json \<Rightarrow> json option" where
  "item_first (JArr (x # xs)) = Some x"
| "item_first (JStr (c # cs)) = Some (JStr [c])"
| "item_first v = None"

definition response_text :: "json \<Rightarrow> json option" where
  "response_text data =
     Option.bind (item_key ''choices'' data) (\<lambda>choices.
     Option.bind (item_first choices) (\<lambda>choice.
     Option.bind (item_key ''message'' choice) (\<lambda>message.
     Option.bind (item_key ''content'' message) (\<lambda>content.
       Some (if truthy content then content else JStr '''')))))"

text \<open>\<open>data.get("usage", {})\<close>; once \<open>data["choices"]\<close> has succeeded, \<open>data\<close> is an object.\<close>

definition response_usage :: "json \<Rightarrow> json" where
  "response_usage data = (case item_key ''usage'' data of None \<Rightarrow> JObj [] | Some u \<Rightarrow> u)"

fun usage_get :: "string \<Rightarrow> json \<Rightarrow> json \<Rightarrow> json res" where
  "usage_get k dflt (JObj d) = Inr (jget k dflt d)"
| "usage_get k dflt v = Inl (Py ''AttributeError'' ''object has no attribute get'')"

text \<open>The token counts, computed outside both \<open>try\<close> blocks, in the order of the arguments.\<close>

definition token_counts :: "completion_request \<Rightarrow> json \<Rightarrow> json \<Rightarrow> (int \<times> int) res" where
  "token_counts rq text usage =
     (case usage_get ''prompt_tokens'' (JInt (estimated_prompt_tokens rq)) usage of
        Inl e \<Rightarrow> Inl e
      | Inr v \<Rightarrow> (case py_int v of Inl e \<Rightarrow> Inl e
          | Inr prompt \<Rightarrow> (case py_len text of Inl e \<Rightarrow> Inl e
              | Inr n \<Rightarrow> (case usage_get ''completion_tokens'' (JInt (max 1 (n div 4))) usage of
                  Inl e \<Rightarrow> Inl e
                | Inr w \<Rightarrow> (case py_int w of Inl e \<Rightarrow> Inl e
                    | Inr completion \<Rightarrow> Inr (prompt, completion))))))"

text \<open>The result model accepts only a string as its text.\<close>

definition make_result ::
  "openai_provider \<Rightarrow> completion_request \<Rightarrow> json \<Rightarrow> json \<Rightarrow> int \<Rightarrow> completion_result res" where
  "make_result oc rq text usage latency = (case token_counts rq text usage of
       Inl e \<Rightarrow> Inl e
     | Inr (prompt, completion) \<Rightarrow> (case text of
         JStr s \<Rightarrow> Inr \<lparr> cr_text = s, cr_provider = oc_name oc, cr_model = oc_model oc,
           cr_used_fallback = False, cr_fallback_reason = None, cr_prompt_tokens = prompt,
           cr_completion_tokens = completion, cr_latency_ms = latency \<rparr>
       | _ \<Rightarrow> Inl (Py ''ValidationError'' ''Input should be a valid string'')))"

definition openai_complete ::
  "openai_provider \<Rightarrow> completion_request \<Rightarrow> (exn, 'a env_scheme, completion_result) comp" where
  "openai_complete oc rq =
     bindE perf_counter (\<lambda>started.
     bindE (post_with_retry (nat (oc_max_retries oc)) (openai_post oc rq)) (\<lambda>out.
     bindE (liftE (decode_outcome oc out)) (\<lambda>data.
       case response_text data of
         None \<Rightarrow> throw (bad_shape oc)
       | Some text \<Rightarrow>
           bindE (elapsed_ms started) (\<lambda>latency.
             liftE (make_result oc rq text (response_usage data) latency)))))"

definition as_provider :: "openai_provider \<Rightarrow> 'a env_scheme provider" where
  "as_provider oc = \<lparr> pv_name = oc_name oc, pv_model = oc_model oc,
     pv_available = ret (openai_available oc), pv_complete = openai_complete oc \<rparr>"

section \<open>Groq, Gemma, echo\<close>

definition groq_provider :: "settings \<Rightarrow> openai_provider" where
  "groq_provider s = make_openai ''groq'' (groq_base_url s) (groq_model s)
     (if groq_api_key s = [] then None else Some (groq_api_key s))
     (llm_request_timeout_seconds s) (llm_max_retries s) True"

definition local_gemma_provider :: "settings \<Rightarrow> openai_provider" where
  "local_gemma_provider s = make_openai ''local_gemma'' (local_gemma_base_url s) (local_gemma_model s)
     None (llm_request_timeout_seconds s) (llm_max_retries s) False"

definition last_user_content :: "completion_request \<Rightarrow> string" where
  "last_user_content rq =
     (case List.find (\<lambda>m. msg_role_value (cm_role m) = ''user'') (rev (cq_messages rq)) of
        None \<Rightarrow> '''' | Some m \<Rightarrow> cm_content m)"

definition echo_text :: "completion_request \<Rightarrow> string" where
  "echo_text rq =
     (if cq_json_mode rq then
        dumps_default (JObj [(''note'', JStr ''echo provider (no live model configured)''),
                             (''echo'', JStr (take 500 (last_user_content rq)))])
      else ''[echo provider - no live model configured] Received ''
        @ nat_str (length (cq_messages rq)) @ '' message(s). Last user message: ''
        @ take 300 (last_user_content rq))"

definition echo_complete ::
  "completion_request \<Rightarrow> (exn, 'a env_scheme, completion_result) comp" where
  "echo_complete rq =
     bindE perf_counter (\<lambda>started.
     bindE (elapsed_ms started) (\<lambda>latency.
       ret \<lparr> cr_text = echo_text rq, cr_provider = ''echo'', cr_model = ''echo-stub-1'',
         cr_used_fallback = False, cr_fallback_reason = None,
         cr_prompt_tokens = estimated_prompt_tokens rq,
         cr_completion_tokens = max 1 (int (length (echo_text rq)) div 4),
         cr_latency_ms = latency \<rparr>))"

definition echo_provider :: "'a env_scheme provider" where
  "echo_provider = \<lparr> pv_name = ''echo'', pv_model = ''echo-stub-1'',
     pv_available = ret True, pv_complete = echo_complete \<rparr>"

section \<open>Facts\<close>

lemma post_with_retry_ok: "\<exists>out t. post_with_retry n rq s = (Inr out, t)"
  by (induction n arbitrary: s)
    (auto simp: http_send_def bindE_def ret_def split: http_outcome.splits)

text \<open>The loop posts the same request at most once more than the retries allowed.\<close>

lemma post_with_retry_sent:
  "post_with_retry n rq s = (r, t) \<Longrightarrow>
     \<exists>k. 1 \<le> k \<and> k \<le> Suc n \<and> en_sent t = en_sent s @ replicate k rq"
proof (induction n arbitrary: s)
  case 0
  then show ?case by (auto simp: http_send_def intro!: exI [where x = "Suc 0"])
next
  case (Suc n)
  show ?case
  proof (cases "\<exists>kind. en_net s (en_net_pos s) = HttpTransport kind")
    case True
    then obtain k where "1 \<le> k" "k \<le> Suc n" "en_sent t = (en_sent s @ [rq]) @ replicate k rq"
      using Suc by (force simp: http_send_def bindE_def)
    then show ?thesis by (intro exI [where x = "Suc k"]) simp
  next
    case False
    then show ?thesis using Suc.prems
      by (intro exI [where x = 1])
        (auto simp: http_send_def bindE_def ret_def split: http_outcome.splits)
  qed
qed

lemma decode_outcome_error: "decode_outcome oc out = Inl e \<Longrightarrow> exn_is LLMProviderError e"
  by (cases out) (auto simp: provider_error_def call_failed_def split: if_splits sum.splits)

text \<open>
  The outcome of a completion as a function of the endpoint's outcome and the latency: a result,
  \<open>LLMProviderError\<close>, or the exception of a malformed usage block or text.
\<close>

definition openai_outcome ::
  "openai_provider \<Rightarrow> completion_request \<Rightarrow> http_outcome \<Rightarrow> int \<Rightarrow> completion_result res" where
  "openai_outcome oc rq out latency = (case decode_outcome oc out of
       Inl e \<Rightarrow> Inl e
     | Inr data \<Rightarrow> (case response_text data of
         None \<Rightarrow> Inl (bad_shape oc)
       | Some text \<Rightarrow> make_result oc rq text (response_usage data) latency))"

lemma post_with_retry_reply:
  "post_with_retry n rq s = (Inr out, t) \<Longrightarrow> \<exists>k. out = en_net s k"
  by (induction n arbitrary: s) (force simp: http_send_def bindE_def ret_def split: http_outcome.splits)+

lemma openai_run:
  "\<exists>k latency. fst (openai_complete oc rq s) = openai_outcome oc rq (en_net s k) latency"
proof -
  obtain out u where out:
    "post_with_retry (nat (oc_max_retries oc)) (openai_post oc rq) (snd (perf_counter s)) = (Inr out, u)"
    using post_with_retry_ok by blast
  obtain n v where "elapsed_ms (ns_to_seconds (en_perf s (en_perf_pos s))) u = (Inr n, v)"
    using elapsed_ms_total ns_to_seconds_bounded by blast
  with out have "fst (openai_complete oc rq s) = openai_outcome oc rq out n"
    by (auto simp: openai_complete_def openai_outcome_def bindE_def perf_counter_def liftE_def
        throw_def split: sum.splits option.splits)
  moreover obtain k where "out = en_net s k"
    using post_with_retry_reply [OF out] by (auto simp: perf_counter_def)
  ultimately show ?thesis by blast
qed

lemma make_result_identity:
  "make_result oc rq text usage latency = Inr res \<Longrightarrow>
     cr_provider res = oc_name oc \<and> cr_model res = oc_model oc \<and> cr_latency_ms res = latency
     \<and> text = JStr (cr_text res)"
  by (auto simp: make_result_def split: sum.splits json.splits)

interpretation openai: provider_identity "as_provider oc"
proof
  fix rq s res t
  assume "pv_complete (as_provider oc) rq s = (Inr res, t)"
  then have "fst (openai_complete oc rq s) = Inr res" by (simp add: as_provider_def)
  moreover obtain k n where "fst (openai_complete oc rq s) = openai_outcome oc rq (en_net s k) n"
    using openai_run by blast
  ultimately show "cr_provider res = pv_name (as_provider oc) \<and> cr_model res = pv_model (as_provider oc)"
    by (auto simp: as_provider_def openai_outcome_def dest: make_result_identity
        split: sum.splits option.splits)
qed

text \<open>Usage counts that do not raise: a usage object whose counts are integers, or absent.\<close>

definition count_ok :: "string \<Rightarrow> json_dict \<Rightarrow> bool" where
  "count_ok k d = (case dict_get k d of None \<Rightarrow> True | Some (JInt _) \<Rightarrow> True | _ \<Rightarrow> False)"

definition usage_ok :: "json \<Rightarrow> bool" where
  "usage_ok u = (case u of JObj d \<Rightarrow> count_ok ''prompt_tokens'' d \<and> count_ok ''completion_tokens'' d
                 | _ \<Rightarrow> False)"

definition reply_ok :: "http_outcome \<Rightarrow> bool" where
  "reply_ok out = (case out of HttpReply st (Inr data) \<Rightarrow>
       (case response_text data of Some (JStr _) \<Rightarrow> usage_ok (response_usage data)
        | Some _ \<Rightarrow> False | None \<Rightarrow> True)
     | _ \<Rightarrow> True)"

lemma py_int_count: "count_ok k d \<Longrightarrow> \<exists>n. py_int (jget k (JInt m) d) = Inr n"
  by (auto simp: count_ok_def jget_def split: option.splits json.splits)

lemma make_result_ok:
  assumes "usage_ok usage"
  shows "\<exists>res. make_result oc rq (JStr s) usage latency = Inr res"
proof -
  obtain d where d: "usage = JObj d" "count_ok ''prompt_tokens'' d" "count_ok ''completion_tokens'' d"
    using assms by (auto simp: usage_ok_def split: json.splits)
  then obtain m n where "py_int (jget ''prompt_tokens'' (JInt (estimated_prompt_tokens rq)) d) = Inr m"
    "py_int (jget ''completion_tokens'' (JInt (max 1 (int (length s) div 4))) d) = Inr n"
    using py_int_count by meson
  then show ?thesis by (simp add: make_result_def token_counts_def d)
qed

lemma openai_outcome_error:
  assumes "openai_outcome oc rq out latency = Inl e" "reply_ok out"
  shows "exn_is LLMProviderError e"
proof (cases "decode_outcome oc out")
  case (Inl e')
  with assms(1) show ?thesis by (auto simp: openai_outcome_def dest: decode_outcome_error)
next
  case (Inr data)
  then obtain status where st: "out = HttpReply status (Inr data)"
    by (cases out) (auto split: if_splits sum.splits)
  show ?thesis
  proof (cases "response_text data")
    case None
    with Inr assms(1) show ?thesis by (auto simp: openai_outcome_def bad_shape_def provider_error_def)
  next
    case (Some v)
    with st assms(2) obtain s' where "v = JStr s'" "usage_ok (response_usage data)"
      by (auto simp: reply_ok_def split: json.splits)
    with Inr Some assms(1) make_result_ok [of "response_usage data" oc rq "s'" latency] show ?thesis
      by (auto simp: openai_outcome_def)
  qed
qed

lemma openai_failure_kind:
  assumes "openai_complete oc rq s = (Inl e, t)" "\<forall>k. reply_ok (en_net s k)"
  shows "exn_is LLMProviderError e"
proof -
  obtain k n where "fst (openai_complete oc rq s) = openai_outcome oc rq (en_net s k) n"
    using openai_run by blast
  with assms show ?thesis using openai_outcome_error by (metis fst_conv)
qed

lemma echo_run: "\<exists>res t. echo_complete rq s = (Inr res, t) \<and> cr_provider res = ''echo''
    \<and> cr_model res = ''echo-stub-1'' \<and> cr_text res = echo_text rq"
proof -
  obtain x u where x: "perf_counter s = (Inr x, u)" "is_perf_time x" using perf_counter_time by blast
  then obtain n v where "elapsed_ms x u = (Inr n, v)" using elapsed_ms_total by blast
  with x show ?thesis by (simp add: echo_complete_def bindE_def ret_def)
qed

interpretation echo: llm_provider echo_provider
proof
  fix rq s res t e
  show "pv_complete echo_provider rq s = (Inr res, t) \<Longrightarrow>
      cr_provider res = pv_name echo_provider \<and> cr_model res = pv_model echo_provider"
    using echo_run [of rq s] by (auto simp: echo_provider_def)
  show "\<exists>b t. pv_available echo_provider s = (Inr b, t)"
    by (auto simp: echo_provider_def ret_def)
  show "pv_complete echo_provider rq s = (Inl e, t) \<Longrightarrow> exn_is LLMProviderError e"
    using echo_run [of rq s] by (auto simp: echo_provider_def)
qed

lemma echo_answers_always: "answers_always echo_provider rq"
  using echo_run [of rq]
  by (fastforce simp: answers_always_def echo_provider_def probe_def catchE_def ret_def)

text \<open>A chain of providers that meet the contract fails only by being exhausted.\<close>

lemma route_from_contract:
  assumes "\<forall>p \<in> set ps. llm_provider p"
    and "route_from rt rq run k ps attempts previous s = (Inl e, t)"
  shows "exn_is ModelRouterError e"
  using assms
proof (induction ps arbitrary: k attempts previous s)
  case Nil
  then show ?case by (auto simp: throw_def exhausted_def)
next
  case (Cons p ps)
  have p: "llm_provider p" and ps: "\<forall>q \<in> set ps. llm_provider q" using Cons.prems(1) by simp_all
  have next_one: ?case if "thenE (emit_failure rt rq p used err run)
      (route_from rt rq run (Suc k) ps attempts' previous') u = (Inl e, t)"
    for used err attempts' previous' u
    using that Cons.IH [OF ps]
      thenE_emit_failure [of rt rq p used err run "route_from rt rq run (Suc k) ps attempts' previous'" u]
    by metis
  obtain b u where b: "probe p s = (Inr b, u)"
    using llm_provider.availability_total [OF p, of s] by (force simp: probe_def catchE_def)
  show ?case
  proof (cases b)
    case False
    with b Cons.prems(2) show ?thesis by (intro next_one) (simp add: bindE_def Let_def)
  next
    case True
    obtain x v where x: "pv_complete p rq u = (x, v)" by fastforce
    show ?thesis
    proof (cases x)
      case (Inl e')
      with x have "exn_is LLMProviderError e'" using llm_provider.failure_kind [OF p] by blast
      with b True x Inl Cons.prems(2) show ?thesis by (intro next_one) (simp add: bindE_def)
    next
      case (Inr res)
      obtain w where "emit_success rt rq (annotate (0 < k) previous res) run v = (Inr (), w)"
        using emit_total(2) [of rt rq "annotate (0 < k) previous res" run v] by blast
      with b True x Inr Cons.prems(2) show ?thesis
        by (simp add: bindE_def thenE_def ret_def Let_def)
    qed
  qed
qed

end
