(* ===== verification/Factory.thy ===== *)
theory Factory
  imports Providers
begin

text \<open>
  ai/factory.py: from the settings to the ordered chain of providers and the router. Building a
  provider reads the settings only.
\<close>

definition known_providers :: "string list" where
  "known_providers = [''echo'', ''groq'', ''local_gemma'']"

definition build_provider :: "string \<Rightarrow> settings \<Rightarrow> 'a env_scheme provider res" where
  "build_provider name s =
     (if name = ''echo'' then Inr echo_provider
      else if name = ''groq'' then Inr (as_provider (groq_provider s))
      else if name = ''local_gemma'' then Inr (as_provider (local_gemma_provider s))
      else Inl (app_err_details ModelRouterError (''Unknown LLM provider '' @ [CHR 0x27] @ name @ [CHR 0x27] @ ''.'')
             [(''known'', JArr (map JStr known_providers))]))"

definition chain_names :: "settings \<Rightarrow> string list" where
  "chain_names s =
     (let names = (case llm_router_policy s of
            ONLINE_ONLY \<Rightarrow> [llm_primary_provider s]
          | OFFLINE_ONLY \<Rightarrow> [llm_fallback_provider s]
          | PREFER_ONLINE \<Rightarrow> [llm_primary_provider s, llm_fallback_provider s])
      in if app_env s = ENV_LOCAL \<and> ''echo'' \<notin> set names then names @ [''echo''] else names)"

fun build_all :: "settings \<Rightarrow> string list \<Rightarrow> 'a env_scheme provider list res" where
  "build_all s [] = Inr []"
| "build_all s (n # ns) = (case build_provider n s of
       Inl e \<Rightarrow> Inl e
     | Inr p \<Rightarrow> (case build_all s ns of Inl e \<Rightarrow> Inl e | Inr ps \<Rightarrow> Inr (p # ps)))"

definition build_router ::
  "settings \<Rightarrow> 'a env_scheme observer option \<Rightarrow> 'a env_scheme router res" where
  "build_router s obs = (case build_all s (chain_names s) of
       Inl e \<Rightarrow> Inl e
     | Inr ps \<Rightarrow> make_router ps (router_policy_value (llm_router_policy s)) obs)"

lemma build_provider_name: "build_provider n s = Inr p \<Longrightarrow> pv_name p = n"
  by (auto simp: build_provider_def echo_provider_def as_provider_def groq_provider_def
      local_gemma_provider_def make_openai_def split: if_splits)

lemma build_provider_known: "(\<exists>p. build_provider n s = Inr p) \<longleftrightarrow> n \<in> set known_providers"
  by (auto simp: build_provider_def known_providers_def)

lemma build_all_names: "build_all s ns = Inr ps \<Longrightarrow> map pv_name ps = ns"
  by (induction ns arbitrary: ps) (auto dest: build_provider_name split: sum.splits)

lemma build_all_ok: "(\<exists>ps. build_all s ns = Inr ps) \<longleftrightarrow> set ns \<subseteq> set known_providers"
proof (induction ns)
  case (Cons n ns)
  then show ?case
    using build_provider_known [of n s] by (auto split: sum.splits)
qed simp

lemma chain_names_nonempty [simp]: "chain_names s \<noteq> []"
  by (auto simp: chain_names_def Let_def split: router_policy.splits)

lemma chain_names_distinct_echo:
  "''echo'' \<in> set (chain_names s) \<longleftrightarrow> app_env s = ENV_LOCAL
     \<or> (llm_router_policy s \<noteq> OFFLINE_ONLY \<and> llm_primary_provider s = ''echo'')
     \<or> (llm_router_policy s \<noteq> ONLINE_ONLY \<and> llm_fallback_provider s = ''echo'')"
  by (auto simp: chain_names_def Let_def split: router_policy.splits)

lemma make_router_Inr: "make_router ps pol obs = Inr rt \<Longrightarrow>
    rt_providers rt = ps \<and> rt_policy rt = pol \<and> ps \<noteq> []"
  by (auto simp: make_router_def split: if_splits)

lemma build_router_names:
  "build_router s obs = Inr rt \<Longrightarrow>
     provider_names rt = chain_names s \<and> rt_policy rt = router_policy_value (llm_router_policy s)"
  by (auto simp: build_router_def provider_names_def dest!: make_router_Inr build_all_names
      split: sum.splits)

lemma build_router_total:
  "(\<exists>rt. build_router s obs = Inr rt) \<longleftrightarrow> set (chain_names s) \<subseteq> set known_providers"
proof -
  have "build_all s (chain_names s) = Inr ps \<Longrightarrow> \<exists>rt. make_router ps pol obs = Inr rt" for ps pol
    using build_all_names [of s "chain_names s" ps] chain_names_nonempty [of s]
    by (cases "ps = []") (auto simp: make_router_def simp del: chain_names_nonempty)
  then show ?thesis
    using build_all_ok [of s "chain_names s"] by (fastforce simp: build_router_def split: sum.splits)
qed

text \<open>In the local environment the last provider of a configured chain always answers.\<close>

lemma local_chain_ends_with_echo:
  assumes "build_router s obs = Inr rt" "app_env s = ENV_LOCAL"
  shows "\<exists>p \<in> set (rt_providers rt). p = echo_provider"
proof -
  obtain ps where ps: "build_all s (chain_names s) = Inr ps" "rt_providers rt = ps"
    using assms(1) by (auto simp: build_router_def dest!: make_router_Inr split: sum.splits)
  have "''echo'' \<in> set (chain_names s)" using assms(2) by (simp add: chain_names_distinct_echo)
  moreover have "build_all s ns = Inr ps \<Longrightarrow> ''echo'' \<in> set ns \<Longrightarrow> echo_provider \<in> set ps" for ns
    and ps :: "'a env_scheme provider list"
    by (induction ns arbitrary: ps) (auto simp: build_provider_def split: sum.splits if_splits)
  ultimately show ?thesis using ps by blast
qed

end
