(* ===== verification/Executor.thy ===== *)
theory Executor
  imports AuditService DocumentAgent KycAgent FraudAgent LoanAgent TextAgents AuditAgent Orchestrator Factory
begin

text \<open>
  services/agent_executor.py: from the JSON payload of a workflow to the typed input of an agent, and
  its outcome. Validation and coercion of the inputs is Pydantic's: it is the record \<open>coercers\<close>, with
  what the code relies on as \<open>pydantic_spec\<close>.
\<close>

section \<open>Pydantic\<close>

record coercers =
  cx_document :: "json \<Rightarrow> json \<Rightarrow> json \<Rightarrow> json \<Rightarrow> document_input res"
  cx_kyc :: "json \<Rightarrow> json \<Rightarrow> kyc_input res"
  cx_fraud :: "json_dict \<Rightarrow> json \<Rightarrow> fraud_input res"
  cx_loan :: "json_dict \<Rightarrow> loan_input res"
  cx_summarization :: "json \<Rightarrow> json \<Rightarrow> summarization_input res"
  cx_retrieval :: "json \<Rightarrow> json \<Rightarrow> retrieval_input res"
  cx_compliance :: "json \<Rightarrow> json \<Rightarrow> compliance_input res"
  cx_audit :: "string \<Rightarrow> json \<Rightarrow> audit_input res"

text \<open>
  Documented behaviour: a model that is built satisfies the bounds its fields declare, a field that
  is not given has its default, and strings are taken as they are.
\<close>

definition pydantic_spec :: "coercers \<Rightarrow> bool" where
  "pydantic_spec co \<longleftrightarrow>
     (\<forall>t a i. cx_fraud co t a = Inr i \<longrightarrow> fraud_input_valid i)
     \<and> (\<forall>d i. cx_loan co d = Inr i \<longrightarrow> loan_input_valid i)
     \<and> (\<forall>p d i. cx_kyc co p d = Inr i \<longrightarrow> ki_today i = None)
     \<and> (\<forall>q k i. cx_retrieval co q k = Inr i \<longrightarrow> 1 \<le> ri_top_k i \<and> ri_top_k i \<le> 50)
     \<and> (\<forall>q k i. cx_compliance co q k = Inr i \<longrightarrow> 1 \<le> co_top_k i \<and> co_top_k i \<le> 20)
     \<and> (\<forall>c n i. cx_summarization co c n = Inr i \<longrightarrow> 1 \<le> si_max_sentences i \<and> si_max_sentences i \<le> 20)
     \<and> (\<forall>u k t. cx_document co (JStr (uuid_str u)) (JStr k) (JStr t) (JArr []) =
          Inr \<lparr> di_document_id = u, di_kind = k, di_text = t, di_extra_expected_fields = [] \<rparr>)
     \<and> (\<forall>w d. cx_audit co w (JObj d) = Inr \<lparr> au_workflow_id = w, au_evidence = d \<rparr>)"

section \<open>Outputs\<close>

datatype agent_output =
    OutDocument document_review
  | OutKyc kyc_result
  | OutFraud fraud_result
  | OutLoan loan_result
  | OutSummary summarization_output
  | OutRetrieval string "search_hit list"
  | OutCompliance compliance_output
  | OutAudit audit_bundle

definition jstrs :: "string list \<Rightarrow> json" where
  "jstrs xs = JArr (map JStr xs)"

definition hit_json :: "search_hit \<Rightarrow> json" where
  "hit_json h = JObj [(''document_id'', JStr (uuid_str (sh_document_id h))),
     (''chunk_id'', JStr (uuid_str (sh_chunk_id h))), (''score'', JFloat (sh_score h)),
     (''text'', JStr (sh_text h)), (''filename'', jopt JStr (sh_filename h))]"

definition extracted_json :: "extracted_field \<Rightarrow> json" where
  "extracted_json f = JObj [(''name'', JStr (ef_name f)), (''value'', jopt JStr (ef_value f)),
     (''present'', JBool (ef_present f))]"

definition signal_json :: "fraud_signal \<Rightarrow> json" where
  "signal_json f = JObj [(''rule'', JStr (fs_rule f)), (''weight'', JInt (fs_weight f)),
     (''reason'', JStr (fs_reason f))]"

definition citation_json :: "citation \<Rightarrow> json" where
  "citation_json c = JObj [(''marker'', JInt (ct_marker c)), (''document_id'', JStr (ct_document_id c)),
     (''chunk_id'', JStr (ct_chunk_id c)), (''filename'', jopt JStr (ct_filename c)),
     (''text'', JStr (ct_text c))]"

text \<open>\<open>output.model_dump(mode="json")\<close>\<close>

fun output_json :: "agent_output \<Rightarrow> json" where
  "output_json (OutDocument r) = JObj [(''document_id'', JStr (uuid_str (dr_document_id r))),
     (''summary'', JStr (dr_summary r)), (''extracted_fields'', JArr (map extracted_json (dr_extracted_fields r))),
     (''missing_fields'', jstrs (dr_missing_fields r)), (''review_notes'', jstrs (dr_review_notes r)),
     (''requires_human_review'', JBool (dr_requires_human_review r))]"
| "output_json (OutKyc r) = JObj [(''complete'', JBool (kr_complete r)),
     (''missing_fields'', jstrs (kr_missing_fields r)), (''inconsistencies'', jstrs (kr_inconsistencies r)),
     (''risk_level'', JStr (risk_level_value (kr_risk_level r))),
     (''requires_human_review'', JBool (kr_requires_human_review r)), (''rationale'', jstrs (kr_rationale r))]"
| "output_json (OutFraud r) = JObj [(''score'', JInt (fr_score r)),
     (''risk_level'', JStr (risk_level_value (fr_risk_level r))),
     (''signals'', JArr (map signal_json (fr_signals r))),
     (''requires_human_review'', JBool (fr_requires_human_review r)),
     (''recommendation'', JStr (fr_recommendation r))]"
| "output_json (OutLoan r) = JObj [(''estimated_monthly_payment'', JFloat (lr_estimated_monthly_payment r)),
     (''dti_ratio'', JFloat (lr_dti_ratio r)),
     (''disposable_after_payment'', JFloat (lr_disposable_after_payment r)),
     (''risk_level'', JStr (risk_level_value (lr_risk_level r))),
     (''recommendation'', JStr (lr_recommendation r)),
     (''requires_human_review'', JBool (lr_requires_human_review r)), (''rationale'', jstrs (lr_rationale r))]"
| "output_json (OutSummary r) = JObj [(''summary'', JStr (so_summary r)),
     (''model_used'', JStr (so_model_used r)), (''used_fallback'', JBool (so_used_fallback r))]"
| "output_json (OutRetrieval q hits) = JObj [(''query'', JStr q), (''hits'', JArr (map hit_json hits))]"
| "output_json (OutCompliance r) = JObj [(''question'', JStr (cp_question r)),
     (''answer'', JStr (cp_answer r)), (''citations'', JArr (map citation_json (cp_citations r))),
     (''grounded'', JBool (cp_grounded r)), (''model_used'', jopt JStr (cp_model_used r))]"
| "output_json (OutAudit r) = JObj [(''workflow_id'', JStr (ab_workflow_id r)),
     (''canonical_json'', JStr (ab_canonical_json r)), (''sha256'', JStr (ab_sha256 r)),
     (''item_count'', JInt (ab_item_count r))]"

text \<open>\<open>bool(getattr(output, "requires_human_review", False))\<close>\<close>

fun output_review :: "agent_output \<Rightarrow> bool" where
  "output_review (OutDocument r) = dr_requires_human_review r"
| "output_review (OutKyc r) = kr_requires_human_review r"
| "output_review (OutFraud r) = fr_requires_human_review r"
| "output_review (OutLoan r) = lr_requires_human_review r"
| "output_review out = False"

type_synonym step_outcome = "agent_output agent_outcome"

definition wrap_outcome :: "('o \<Rightarrow> agent_output) \<Rightarrow> 'o agent_outcome \<Rightarrow> step_outcome" where
  "wrap_outcome f oc = \<lparr> ao_agent_name = ao_agent_name oc, ao_status = ao_status oc,
     ao_output = map_option f (ao_output oc), ao_error = ao_error oc,
     ao_latency_ms = ao_latency_ms oc, ao_model_used = ao_model_used oc,
     ao_prompt_version = ao_prompt_version oc \<rparr>"

section \<open>The executor\<close>

record executor =
  ex_router :: "world router option"
  ex_embedder :: "embedder option"
  ex_has_store :: bool

record libs =
  lb_co :: coercers
  lb_pow :: c_pow

text \<open>\<open>str(v)\<close> of decoded JSON; strings inside containers are shown with \<open>repr\<close>.\<close>

fun json_repr :: "json \<Rightarrow> string" where
  "json_repr JNull = ''None''"
| "json_repr (JBool b) = (if b then ''True'' else ''False'')"
| "json_repr (JInt i) = int_str i"
| "json_repr (JFloat x) = float_repr x"
| "json_repr (JStr s) = py_repr s"
| "json_repr (JArr xs) = ''['' @ join '', '' (map json_repr xs) @ '']''"
| "json_repr (JObj d) = ''{'' @ join '', '' (map (\<lambda>(k, v). py_repr k @ '': '' @ json_repr v) d) @ ''}''"

definition json_str :: "json \<Rightarrow> string" where
  "json_str v = (case v of JStr s \<Rightarrow> s | _ \<Rightarrow> json_repr v)"

text \<open>\<open>f(**v)\<close>: only a mapping can be unpacked.\<close>

definition as_kwargs :: "json \<Rightarrow> json_dict res" where
  "as_kwargs v = (case v of JObj d \<Rightarrow> Inr d
     | _ \<Rightarrow> Inl (Py ''TypeError'' ''argument after ** must be a mapping''))"

definition run_agent ::
  "string \<Rightarrow> string option \<Rightarrow> ('o \<Rightarrow> agent_output) \<Rightarrow> 'o action \<Rightarrow> step_outcome action" where
  "run_agent name pv wrap run = bindE (execute name pv run) (\<lambda>oc. ret (wrap_outcome wrap oc))"

definition document_id_of :: "json_dict \<Rightarrow> json action" where
  "document_id_of p =
     (if truthy (jget ''document_id'' JNull p) then ret (jget ''document_id'' JNull p)
      else if truthy (jget ''workflow_id'' JNull p) then ret (jget ''workflow_id'' JNull p)
      else bindE uuid4 (\<lambda>u. ret (JStr (uuid_str u))))"

definition run_document_agent :: "libs \<Rightarrow> json_dict \<Rightarrow> step_outcome action" where
  "run_document_agent lb p = bindE (document_id_of p) (\<lambda>doc_id.
     bindE (liftE (cx_document (lb_co lb) doc_id (jget ''kind'' (JStr ''generic'') p)
              (jget ''text'' (JStr '''') p) (jget ''extra_expected_fields'' (JArr []) p)))
       (\<lambda>i. run_agent ''document_agent'' None OutDocument (pure_run (run_document i))))"

definition run_kyc_agent :: "libs \<Rightarrow> json_dict \<Rightarrow> step_outcome action" where
  "run_kyc_agent lb p =
     bindE (liftE (cx_kyc (lb_co lb) (jget ''profile'' (JObj []) p) (jget ''document_fields'' (JObj []) p)))
       (\<lambda>i. run_agent ''kyc_agent'' None OutKyc (run_kyc i))"

definition run_fraud_agent :: "libs \<Rightarrow> json_dict \<Rightarrow> step_outcome action" where
  "run_fraud_agent lb p =
     bindE (liftE (as_kwargs (jget ''transaction'' (JObj p) p))) (\<lambda>txn.
     bindE (liftE (cx_fraud (lb_co lb) txn (jget ''customer_avg_amount'' (JFloat (Fin 0)) p)))
       (\<lambda>i. run_agent ''fraud_agent'' None OutFraud (pure_run (run_fraud i))))"

definition run_loan_agent :: "libs \<Rightarrow> json_dict \<Rightarrow> step_outcome action" where
  "run_loan_agent lb p =
     bindE (liftE (as_kwargs (jget ''loan'' (JObj p) p))) (\<lambda>args.
     bindE (liftE (cx_loan (lb_co lb) args))
       (\<lambda>i. run_agent ''loan_agent'' None OutLoan (pure_run (run_loan (lb_pow lb) i))))"

definition run_summarization_agent :: "libs \<Rightarrow> executor \<Rightarrow> json_dict \<Rightarrow> step_outcome action" where
  "run_summarization_agent lb ex p =
     bindE (liftE (cx_summarization (lb_co lb) (jget ''text'' (jget ''content'' (JStr '''') p) p)
              (jget ''max_sentences'' (JInt 5) p)))
       (\<lambda>i. run_agent ''summarization_agent'' (Some ''summarize.v1'') OutSummary
              (run_summarization (ex_router ex) i))"

definition require_retrieval :: "executor \<Rightarrow> embedder res" where
  "require_retrieval ex = (case ex_embedder ex of
       Some emb \<Rightarrow> if ex_has_store ex then Inr emb
         else Inl (app_err AgentError ''Retrieval agents require an embedder and a vector store.'')
     | None \<Rightarrow> Inl (app_err AgentError ''Retrieval agents require an embedder and a vector store.''))"

definition run_retrieval_agent :: "libs \<Rightarrow> executor \<Rightarrow> json_dict \<Rightarrow> step_outcome action" where
  "run_retrieval_agent lb ex p =
     bindE (liftE (require_retrieval ex)) (\<lambda>emb.
     bindE (liftE (cx_retrieval (lb_co lb) (jget ''query'' (jget ''question'' (JStr '''') p) p)
              (jget ''top_k'' (JInt 5) p)))
       (\<lambda>i. run_agent ''retrieval_agent'' None (OutRetrieval (ri_query i))
              (\<lambda>s. pure_run (run_retrieval emb (w_vectors s) i) s)))"

definition run_compliance_agent :: "libs \<Rightarrow> executor \<Rightarrow> json_dict \<Rightarrow> step_outcome action" where
  "run_compliance_agent lb ex p =
     bindE (liftE (require_retrieval ex)) (\<lambda>emb.
     bindE (liftE (cx_compliance (lb_co lb) (jget ''question'' (jget ''query'' (JStr '''') p) p)
              (jget ''top_k'' (JInt 4) p)))
       (\<lambda>i. run_agent ''compliance_agent'' (Some ''compliance.v1'') OutCompliance
              (\<lambda>s. run_compliance emb (w_vectors s) (ex_router ex) i s)))"

definition run_audit_agent :: "libs \<Rightarrow> json_dict \<Rightarrow> step_outcome action" where
  "run_audit_agent lb p =
     bindE (liftE (cx_audit (lb_co lb) (json_str (jget ''workflow_id'' (JStr '''') p))
              (jget ''evidence'' (JObj []) p)))
       (\<lambda>i. run_agent ''audit_agent'' None OutAudit (pure_run (run_audit i)))"

text \<open>The method \<open>_run_<agent>\<close> is looked up by name.\<close>

definition run_step :: "libs \<Rightarrow> executor \<Rightarrow> string \<Rightarrow> json_dict \<Rightarrow> step_outcome action" where
  "run_step lb ex agent p =
     (if agent = ''document_agent'' then run_document_agent lb p
      else if agent = ''kyc_agent'' then run_kyc_agent lb p
      else if agent = ''fraud_agent'' then run_fraud_agent lb p
      else if agent = ''loan_agent'' then run_loan_agent lb p
      else if agent = ''summarization_agent'' then run_summarization_agent lb ex p
      else if agent = ''retrieval_agent'' then run_retrieval_agent lb ex p
      else if agent = ''compliance_agent'' then run_compliance_agent lb ex p
      else if agent = ''audit_agent'' then run_audit_agent lb p
      else throw (app_err AgentError (''No executor mapping for agent '' @ [CHR 0x27] @ agent
                    @ [CHR 0x27] @ ''.'')))"

section \<open>The agents leave the database alone\<close>

lemma quiet_elapsed [intro, simp]: "quiet (elapsed_ms started)"
  unfolding elapsed_ms_def by auto

lemma quiet_execute [intro]:
  assumes "quiet run"
  shows "quiet (execute name pv run)"
  unfolding execute_def
proof (intro quiet_bindE)
  fix started
  show "quiet (\<lambda>s. case run s of
         (Inl e, s') \<Rightarrow> bindE (elapsed_ms started) (\<lambda>ms. ret (failed_outcome name pv (failure_text e) ms)) s'
       | (Inr out, s') \<Rightarrow> bindE (elapsed_ms started) (\<lambda>ms. ret (succeeded_outcome name pv out ms)) s')"
  proof (rule keepsI)
    fix s
    obtain r t where r: "run s = (r, t)" by fastforce
    have "quiet (bindE (elapsed_ms started) (\<lambda>ms. ret (k ms)))" for k :: "int \<Rightarrow> 'c agent_outcome"
      by auto
    then have "w_db t = w_db (snd (bindE (elapsed_ms started) (\<lambda>ms. ret (k ms)) t))"
      for k :: "int \<Rightarrow> 'c agent_outcome" unfolding keeps_def by blast
    moreover have "w_db s = w_db t" using keepsD [OF assms r] .
    ultimately show "w_db s = w_db (snd (case run s of
         (Inl e, s') \<Rightarrow> bindE (elapsed_ms started) (\<lambda>ms. ret (failed_outcome name pv (failure_text e) ms)) s'
       | (Inr out, s') \<Rightarrow> bindE (elapsed_ms started) (\<lambda>ms. ret (succeeded_outcome name pv out ms)) s'))"
      by (cases r) (simp_all add: r)
  qed
qed simp

lemma quiet_run_agent [intro]: "quiet run \<Longrightarrow> quiet (run_agent name pv wrap run)"
  unfolding run_agent_def by auto

lemma quiet_pure_run [intro, simp]: "quiet (pure_run r)"
  by (simp add: pure_run_def)

text \<open>A router whose calls leave the request's database alone.\<close>

definition quiet_router :: "world router \<Rightarrow> bool" where
  "quiet_router rt \<longleftrightarrow> (\<forall>rq run. quiet (router_complete rt rq run))"

definition quiet_executor :: "executor \<Rightarrow> bool" where
  "quiet_executor ex \<longleftrightarrow> (case ex_router ex of None \<Rightarrow> True | Some rt \<Rightarrow> quiet_router rt)"

lemma quiet_summarization:
  assumes "case rt of None \<Rightarrow> True | Some r \<Rightarrow> quiet_router r"
  shows "quiet (run_summarization rt i)"
proof -
  have call: "quiet (router_complete r rq run)" if "rt = Some r" for r rq run
    using assms that by (simp add: quiet_router_def)
  show ?thesis
  proof (cases rt)
    case None
    then show ?thesis
      by (simp add: run_summarization_def Let_def agent_router_def liftE_def bindE_def keeps_def)
  next
    case (Some r)
    have "bindE (liftE (agent_router n rt)) f = f r" for n
      and f :: "world router \<Rightarrow> summarization_output action"
      by (simp add: agent_router_def Some liftE_def bindE_def fun_eq_iff)
    then show ?thesis
      unfolding run_summarization_def Let_def by (simp only:) (intro quiet_bindE call Some quiet_combinators)
  qed
qed

lemma quiet_compliance:
  assumes "case rt of None \<Rightarrow> True | Some r \<Rightarrow> quiet_router r"
  shows "quiet (run_compliance emb store rt i)"
proof -
  have "quiet (compose_answer rt i cs)" for cs
    using assms unfolding compose_answer_def quiet_router_def
    by (cases rt) (auto intro!: quiet_bindE)
  then show ?thesis unfolding run_compliance_def by auto
qed

lemma quiet_document_id: "quiet (document_id_of p)"
  unfolding document_id_of_def by (simp, intro impI quiet_bindE quiet_env quiet_combinators)

lemma quiet_run_kyc: "quiet (run_kyc i)"
  unfolding run_kyc_def
  by (split option.split) (intro conjI impI allI quiet_bindE quiet_env quiet_combinators)

lemmas quiet_intros = quiet_bindE quiet_run_agent quiet_pure_run quiet_combinators

lemma quiet_pure_agents:
  "quiet (run_document_agent lb p)" "quiet (run_kyc_agent lb p)" "quiet (run_fraud_agent lb p)"
  "quiet (run_loan_agent lb p)" "quiet (run_audit_agent lb p)"
  unfolding run_document_agent_def run_kyc_agent_def run_fraud_agent_def run_loan_agent_def
    run_audit_agent_def
  by (intro quiet_intros quiet_document_id quiet_run_kyc)+

lemma quiet_store_agents:
  assumes "quiet_executor ex"
  shows "quiet (run_summarization_agent lb ex p)" "quiet (run_retrieval_agent lb ex p)"
    "quiet (run_compliance_agent lb ex p)"
proof -
  have rt: "case ex_router ex of None \<Rightarrow> True | Some r \<Rightarrow> quiet_router r"
    using assms by (simp only: quiet_executor_def)
  have store: "quiet (\<lambda>s. run_compliance emb (w_vectors s) (ex_router ex) i s)" for emb i
    using quiet_compliance [OF rt] unfolding keeps_def by blast
  have hits: "quiet (\<lambda>s. pure_run (run_retrieval emb (w_vectors s) i) s)" for emb i
    by (simp add: keeps_def pure_run_def liftE_def)
  show "quiet (run_summarization_agent lb ex p)"
    unfolding run_summarization_agent_def by (intro quiet_intros quiet_summarization [OF rt])
  show "quiet (run_retrieval_agent lb ex p)"
    unfolding run_retrieval_agent_def by (intro quiet_intros hits)
  show "quiet (run_compliance_agent lb ex p)"
    unfolding run_compliance_agent_def by (intro quiet_intros store)
qed

lemma quiet_run_step: "quiet_executor ex \<Longrightarrow> quiet (run_step lb ex agent p)"
  unfolding run_step_def by (simp add: quiet_pure_agents quiet_store_agents)

text \<open>A router built from the settings with the telemetry sink is quiet.\<close>

lemma quiet_observer: "quiet (db_observer rec)"
proof (rule keepsI)
  fix s
  obtain t where "db_observer rec s = (Inr (), t)" "w_db t = w_db s" using db_observer_run by blast
  then show "w_db s = w_db (snd (db_observer rec s))" by simp
qed

lemma quiet_post: "quiet (post_with_retry n rq :: http_outcome action)"
proof (induction n)
  case (Suc n)
  then show ?case by (auto intro!: quiet_bindE split: http_outcome.splits)
qed simp

lemma quiet_openai: "quiet (openai_complete oc rq)"
  unfolding openai_complete_def
  by (intro quiet_bindE quiet_post quiet_env quiet_combinators)
    (auto intro!: quiet_bindE split: option.splits)

lemma quiet_echo: "quiet (echo_complete rq)"
  unfolding echo_complete_def by (intro quiet_bindE quiet_env quiet_combinators quiet_elapsed)

definition quiet_provider :: "world provider \<Rightarrow> bool" where
  "quiet_provider p \<longleftrightarrow> quiet (pv_available p) \<and> (\<forall>rq. quiet (pv_complete p rq))"

lemma quiet_built: "build_provider n s = Inr p \<Longrightarrow> quiet_provider p"
  by (auto simp: build_provider_def quiet_provider_def as_provider_def echo_provider_def quiet_openai
      quiet_echo split: if_splits)

lemma quiet_built_all: "build_all s ns = Inr ps \<Longrightarrow> \<forall>p \<in> set ps. quiet_provider p"
  by (induction ns arbitrary: ps) (auto dest: quiet_built split: sum.splits)

lemma quiet_probe: "quiet_provider p \<Longrightarrow> quiet (probe p)"
  unfolding probe_def quiet_provider_def by (intro quiet_catchE quiet_combinators) simp

lemma quiet_safe_record: "(\<And>rec. quiet (rt_observer rt rec)) \<Longrightarrow> quiet (safe_record rt rec)"
  unfolding safe_record_def by (intro quiet_catchE quiet_combinators)

lemma quiet_route_from:
  assumes "\<And>rec. quiet (rt_observer rt rec)" "\<forall>p \<in> set ps. quiet_provider p"
  shows "quiet (route_from rt rq run k ps attempts previous)"
  using assms(2)
proof (induction ps arbitrary: k attempts previous)
  case (Cons p ps)
  have emit: "quiet (emit_failure rt rq q used err run)" "quiet (emit_success rt rq res run)"
    for q used err res
    unfolding emit_failure_def emit_success_def by (intro quiet_safe_record assms(1))+
  have p: "quiet_provider p" and IH: "\<And>k a pr. quiet (route_from rt rq run k ps a pr)"
    using Cons by auto
  show ?case
  proof (simp only: route_from.simps, intro quiet_bindE quiet_probe p)
    fix available
    show "quiet (if \<not> available then
         (let reason = unavailable_reason p
          in thenE (emit_failure rt rq p (0 < k) reason run)
               (route_from rt rq run (Suc k) ps (attempts @ [reason]) (Some reason)))
       else (\<lambda>s. case pv_complete p rq s of
           (Inl e, s') \<Rightarrow>
             (if exn_is LLMProviderError e then
                thenE (emit_failure rt rq p (0 < k) (exn_str e) run)
                  (route_from rt rq run (Suc k) ps
                     (attempts @ [pv_name p @ '': '' @ exn_str e]) (Some (exn_str e))) s'
              else (Inl e, s'))
         | (Inr res, s') \<Rightarrow>
             (let res' = annotate (0 < k) previous res
              in thenE (emit_success rt rq res' run) (ret res') s')))"
    proof (cases available)
      case False
      then show ?thesis by (simp add: Let_def) (intro quiet_thenE emit IH)
    next
      case True
      have "w_db s = w_db (snd (case pv_complete p rq s of
           (Inl e, s') \<Rightarrow>
             (if exn_is LLMProviderError e then
                thenE (emit_failure rt rq p (0 < k) (exn_str e) run)
                  (route_from rt rq run (Suc k) ps
                     (attempts @ [pv_name p @ '': '' @ exn_str e]) (Some (exn_str e))) s'
              else (Inl e, s'))
         | (Inr res, s') \<Rightarrow>
             (let res' = annotate (0 < k) previous res
              in thenE (emit_success rt rq res' run) (ret res') s')))" for s
      proof -
        obtain x t where x: "pv_complete p rq s = (x, t)" by fastforce
        have "quiet (pv_complete p rq)" using p by (simp add: quiet_provider_def)
        from keepsD [OF this x] have st: "w_db s = w_db t" .
        have go: "quiet m \<Longrightarrow> w_db t = w_db (snd (m t))" for m :: "completion_result action"
          unfolding keeps_def by blast
        show ?thesis
          by (cases x) (simp_all add: x Let_def st go [OF quiet_thenE [OF emit(1) IH]]
              go [OF quiet_thenE [OF emit(2) quiet_combinators(1)]])
      qed
      with True show ?thesis by (simp add: keepsI)
    qed
  qed
qed simp

lemma built_router_quiet:
  assumes "build_router s (Some db_observer) = Inr rt"
  shows "quiet_router rt"
proof -
  obtain ps where ps: "build_all s (chain_names s) = Inr ps" "rt_providers rt = ps"
    "rt_observer rt = db_observer"
    using assms by (auto simp: build_router_def make_router_def split: sum.splits if_splits)
  show ?thesis
    unfolding quiet_router_def router_complete_def
    using quiet_built_all [OF ps(1)] by (intro allI quiet_route_from) (simp_all only: ps quiet_observer)
qed

end
