(* ===== verification/NotificationAgent.thy ===== *)
theory NotificationAgent
  imports AgentBase
begin

text \<open>
  agents/notification.py: rendering of the fixed templates. The templates contain only plain
  replacement fields \<open>{name}\<close>, for which \<open>str.format\<close> substitutes the value of the name; a name
  without a value raises \<open>KeyError\<close>.
\<close>

record notification_input =
  ni_template :: string
  ni_recipient :: string
  ni_context :: "(string, string) dict"

record rendered_notification =
  rn_channel :: string
  rn_recipient :: string
  rn_subject :: string
  rn_body :: string

definition TEMPLATES :: "(string, string \<times> string) dict" where
  "TEMPLATES =
     [(''decision'', (''Update on your case {reference}'',
        ''A decision has been recorded for case {reference}: {decision}.'')),
      (''needs_info'', (''Action needed on case {reference}'',
        ''We need additional information for case {reference}: {detail}.'')),
      (''received'', (''We received your submission {reference}'',
        ''Your submission {reference} is being processed. No action is needed yet.''))]"

definition OPEN_B :: char where "OPEN_B = CHR ''{''"
definition CLOSE_B :: char where "CLOSE_B = CHR ''}''"

text \<open>The template read left to right, with the name of an open field if one is being read.\<close>

fun format_from :: "string option \<Rightarrow> string \<Rightarrow> (string, string) dict \<Rightarrow> string option" where
  "format_from None [] ctx = Some []"
| "format_from (Some field) [] ctx = None"
| "format_from None (c # cs) ctx =
     (if c = OPEN_B then format_from (Some []) cs ctx
      else map_option (\<lambda>r. c # r) (format_from None cs ctx))"
| "format_from (Some field) (c # cs) ctx =
     (if c = CLOSE_B then
        (case dict_get field ctx of None \<Rightarrow> None
         | Some v \<Rightarrow> map_option (\<lambda>r. v @ r) (format_from None cs ctx))
      else format_from (Some (field @ [c])) cs ctx)"

definition safe_format :: "string \<Rightarrow> (string, string) dict \<Rightarrow> string" where
  "safe_format template ctx = (case format_from None template ctx of None \<Rightarrow> template | Some r \<Rightarrow> r)"

definition default_context :: "(string, string) dict" where
  "default_context = [(''reference'', ''-''), (''decision'', ''-''), (''detail'', ''-'')]"

definition run_notification :: "notification_input \<Rightarrow> rendered_notification list res" where
  "run_notification p =
     (let (subject_tpl, body_tpl) = (case dict_get (ni_template p) TEMPLATES of
             None \<Rightarrow> (''Notification'', ''{detail}'') | Some t \<Rightarrow> t);
          ctx = dict_union default_context (ni_context p)
      in Inr [\<lparr> rn_channel = ''email'', rn_recipient = ni_recipient p,
                rn_subject = safe_format subject_tpl ctx, rn_body = safe_format body_tpl ctx \<rparr>])"

interpretation notification: pure_agent "''notification_agent''" run_notification "\<lambda>_. True"
  by unfold_locales (simp add: run_notification_def Let_def split: prod.split)

section \<open>Facts\<close>

text \<open>The fields a template names, and that a context with all of them fills it.\<close>

fun template_fields :: "string option \<Rightarrow> string \<Rightarrow> string list option" where
  "template_fields None [] = Some []"
| "template_fields (Some field) [] = None"
| "template_fields None (c # cs) =
     (if c = OPEN_B then template_fields (Some []) cs else template_fields None cs)"
| "template_fields (Some field) (c # cs) =
     (if c = CLOSE_B then map_option (\<lambda>fs. field # fs) (template_fields None cs)
      else template_fields (Some (field @ [c])) cs)"

lemma format_from_total:
  "template_fields st tpl = Some fs \<Longrightarrow> \<forall>f \<in> set fs. dict_get f ctx \<noteq> None
     \<Longrightarrow> \<exists>r. format_from st tpl ctx = Some r"
  by (induction st tpl ctx arbitrary: fs rule: format_from.induct) (auto split: if_splits option.splits)

lemma default_context_total:
  "f \<in> {''reference'', ''decision'', ''detail''} \<Longrightarrow>
     \<exists>v. dict_get f (dict_union default_context ctx) = Some v"
  by (auto simp: dict_union_lookup default_context_def map_add_def split: option.splits)

text \<open>Every template names only fields of the default context.\<close>

definition fields_known :: "string \<Rightarrow> bool" where
  "fields_known tpl \<longleftrightarrow> (case template_fields None tpl of None \<Rightarrow> False
     | Some fs \<Rightarrow> list_all (\<lambda>f. f \<in> set (dict_keys default_context)) fs)"

lemma templates_known: "list_all (\<lambda>(_, s, b). fields_known s \<and> fields_known b) TEMPLATES"
  "fields_known ''Notification''" "fields_known ''{detail}''"
  by code_simp+

lemma fields_known_format:
  assumes "fields_known tpl"
  shows "\<exists>x. format_from None tpl (dict_union default_context ctx) = Some x"
proof -
  obtain fs where "template_fields None tpl = Some fs"
    "\<forall>f \<in> set fs. f \<in> set (dict_keys default_context)"
    using assms by (auto simp: fields_known_def list_all_iff split: option.splits)
  then show ?thesis
    using default_context_total [of _ ctx]
    by (intro format_from_total [of None tpl fs]) (auto simp: default_context_def)
qed

lemma template_used_known:
  "(s, b) = (case dict_get t TEMPLATES of None \<Rightarrow> (''Notification'', ''{detail}'') | Some p \<Rightarrow> p)
     \<Longrightarrow> fields_known s \<and> fields_known b"
  using templates_known by (fastforce simp: list_all_iff dest: map_of_SomeD split: option.splits)

lemma run_notification_spec:
  assumes "run_notification p = Inr ms"
  shows "\<exists>m. ms = [m] \<and> rn_channel m = ''email'' \<and> rn_recipient m = ni_recipient p"
  using assms by (auto simp: run_notification_def Let_def split: prod.splits)

end
