(* ===== verification/AgentProperties.thy ===== *)
theory AgentProperties
  imports Executor NotificationAgent
begin

text \<open>
  Properties of the agents of agents/ and of the wrapper that runs them: what each decides, that a
  human is asked where the rules say so, and that a run never raises.
\<close>

section \<open>The wrapper\<close>

text \<open>
  Running an agent never raises. Whatever its body does, the outcome carries the agent's name,
  and it is either a success with the output of the body and no error, or a failure without output
  whose error is the message of an AgentError and otherwise the class and text of the exception.
\<close>
lemma agent_execution_never_raises:
  "\<exists>oc t. execute name pv run s = (Inr oc, t)
     \<and> ao_agent_name oc = name \<and> ao_prompt_version oc = pv
     \<and> (case fst (run (snd (perf_counter s))) of
          Inr out \<Rightarrow> ao_status oc = ''succeeded'' \<and> ao_output oc = Some out \<and> ao_error oc = None
        | Inl e \<Rightarrow> ao_status oc = ''failed'' \<and> ao_output oc = None
            \<and> ao_error oc = Some (if exn_is AgentError e then exn_str e else describe_exn e))"
proof -
  obtain ms t where run: "execute name pv run s =
     ((case fst (run (snd (perf_counter s))) of
         Inl e \<Rightarrow> Inr (failed_outcome name pv (failure_text e) ms)
       | Inr out \<Rightarrow> Inr (succeeded_outcome name pv out ms)), t)" using execute_run by blast
  show ?thesis
    by (cases "fst (run (snd (perf_counter s)))")
      (simp_all add: run failed_outcome_def succeeded_outcome_def failure_text_def)
qed

section \<open>Fraud\<close>


text \<open>
  C22: raising the amount of a transaction, everything else equal, never lowers its fraud score nor
  its risk level, and never takes it out of human review.
\<close>
theorem fraud_monotone_in_amount:
  assumes "fle (tx_amount (fi_transaction i)) a"
    and "run_fraud i = Inr r"
    and "run_fraud (i\<lparr>fi_transaction := (fi_transaction i)\<lparr>tx_amount := a\<rparr>\<rparr>) = Inr r'"
  shows "fr_score r \<le> fr_score r' \<and> fr_risk_level r \<le> fr_risk_level r'
    \<and> (fr_requires_human_review r \<longrightarrow> fr_requires_human_review r')"
  using fraud_amount_mono [OF assms(1)] run_fraud_spec [OF assms(2)] run_fraud_spec [OF assms(3)]
  by (auto intro!: score_to_risk_mono)

definition sample_txn :: fraud_txn where
  "sample_txn = \<lparr> tx_amount = Fin 1200, tx_currency = ''USD'', tx_country = Some ''US'',
     tx_account_age_days = 12, tx_is_new_beneficiary = True, tx_beneficiary_country = Some ''xx'',
     tx_channel = ''web'', tx_hour_of_day = 3, tx_recent_failed_logins = 0 \<rparr>"

definition sample_fraud :: fraud_input where
  "sample_fraud = \<lparr> fi_transaction = sample_txn, fi_customer_avg_amount = Fin 100 \<rparr>"

lemma fraud_monotone_witness:
  "\<exists>r r'. run_fraud sample_fraud = Inr r
     \<and> run_fraud (sample_fraud\<lparr>fi_transaction := (fi_transaction sample_fraud)\<lparr>tx_amount := Fin 20000\<rparr>\<rparr>)
         = Inr r' \<and> fr_score r \<le> fr_score r'"
proof -
  obtain r where r: "run_fraud sample_fraud = Inr r" by (simp add: run_fraud_def Let_def)
  obtain r' where r': "run_fraud (sample_fraud\<lparr>fi_transaction :=
      (fi_transaction sample_fraud)\<lparr>tx_amount := Fin 20000\<rparr>\<rparr>) = Inr r'"
    by (simp add: run_fraud_def Let_def)
  have "fle (tx_amount (fi_transaction sample_fraud)) (Fin 20000)"
    by (simp add: sample_fraud_def sample_txn_def)
  from fraud_monotone_in_amount [OF this r r'] r r' show ?thesis by blast
qed

section \<open>KYC\<close>

text \<open>
  C23: a KYC check is cleared without a human exactly when every required field is filled in, name
  and document number do not contradict the document, the date of birth parses to an age from 18 to
  120, and the country is not on the high-risk list.
\<close>
theorem kyc_automatic_clearance:
  "\<not> kr_requires_human_review (kyc_check today p) \<longleftrightarrow>
     (let profile = lower_keys (ki_profile p); doc = lower_keys (ki_document_fields p)
      in list_all (\<lambda>f. has_field f profile) REQUIRED_PROFILE_FIELDS
         \<and> \<not> name_mismatch profile doc \<and> \<not> number_mismatch profile doc
         \<and> plausible_adult today profile
         \<and> upper (field ''country'' profile) \<notin> set HIGH_RISK_COUNTRIES)"
  unfolding kyc_clear_iff Let_def list_all_iff by (rule refl)

section \<open>Loans\<close>


text \<open>The correctly rounded power, as a concrete \<open>pow\<close>.\<close>

definition exact_pow :: c_pow where
  "exact_pow x n = (case x of Fin q \<Rightarrow> Some (fl (q ^ nat n)) | _ \<Rightarrow> None)"

definition sample_loan :: loan_input where
  "sample_loan = \<lparr> li_monthly_income = Fin 5000, li_monthly_debt = Fin 400,
     li_monthly_expenses = Fin 1500, li_loan_amount = Fin 12000, li_term_months = 1,
     li_annual_interest_rate = Fin (3 / 4) \<rparr>"


section \<open>Documents\<close>

text \<open>
  The review of a document lists every expected and every parsed field once, with the value the
  text gives it last; the missing ones are the expected fields that were not parsed, and a human
  is asked exactly when one is missing or nothing could be parsed.
\<close>
lemma document_review_exact:
  "\<exists>r. run_document p = Inr r
     \<and> (let parsed = parse_fields (di_text p); expected = expected_fields p
        in set (dr_missing_fields r) = set expected - set (dict_keys parsed)
           \<and> distinct (map ef_name (dr_extracted_fields r))
           \<and> set (map ef_name (dr_extracted_fields r)) = set expected \<union> set (dict_keys parsed)
           \<and> list_all (\<lambda>f. ef_value f =
                 map_of (rev (List.map_filter parse_line (splitlines (di_text p)))) (ef_name f)
               \<and> (ef_present f \<longleftrightarrow> ef_value f \<noteq> None)) (dr_extracted_fields r)
           \<and> (\<not> dr_requires_human_review r \<longleftrightarrow> dr_missing_fields r = [] \<and> parsed \<noteq> []))"
proof -
  obtain r where r: "run_document p = Inr r" by (simp add: run_document_def Let_def)
  with run_document_spec [OF r] show ?thesis
    unfolding Let_def list_all_iff parse_fields_last [symmetric] by blast
qed

section \<open>Compliance\<close>

text \<open>
  C25: a compliance answer cites at most as many passages as asked for, numbered 1, 2, 3 and so on,
  each with the text and identifier of a record of the vector store, and it claims to be grounded
  exactly when it cites something.
\<close>
theorem compliance_citations_grounded:
  assumes "run_compliance emb store rt p s = (Inr out, t)"
  shows "length (cp_citations out) \<le> nat (co_top_k p)
    \<and> (cp_grounded out \<longleftrightarrow> cp_citations out \<noteq> [])
    \<and> (\<forall>i < length (cp_citations out). ct_marker (cp_citations out ! i) = int i + 1
      \<and> (\<exists>r \<in> snd ` set store. ct_text (cp_citations out ! i) = vr_text r
           \<and> Option.bind (uuid_parse (vr_chunk_id r)) (\<lambda>u. Some (uuid_str u))
               = Some (ct_chunk_id (cp_citations out ! i))))"
  using run_compliance_cites [OF assms] by blast

definition sample_records :: "vector_record list" where
  "sample_records =
     [\<lparr> vr_chunk_id = uuid_str 7, vr_document_id = uuid_str 9, vr_text = ''Keep records five years.'',
        vr_embedding = [Fin 1, Fin 0], vr_filename = Some ''policy.txt'' \<rparr>,
      \<lparr> vr_chunk_id = uuid_str 8, vr_document_id = uuid_str 9, vr_text = ''Report large transfers.'',
        vr_embedding = [Fin 0, Fin 1], vr_filename = Some ''policy.txt'' \<rparr>]"

definition sample_question :: compliance_input where
  "sample_question = \<lparr> co_question = ''How long are records kept?'', co_top_k = 1 \<rparr>"

lemma compliance_citations_witness:
  "\<exists>out. run_compliance (\<lambda>_. Inr [Fin 0, Fin 0]) (upsert sample_records []) (None :: unit router option)
        sample_question () = (Inr out, ()) \<and> cp_citations out \<noteq> [] \<and> cp_grounded out"
proof -
  let ?run = "run_compliance (\<lambda>_. Inr [Fin 0, Fin 0]) (upsert sample_records [])
    (None :: unit router option) sample_question ()"
  have "(case fst ?run of Inl e \<Rightarrow> False | Inr out \<Rightarrow> cp_citations out \<noteq> [])" by code_simp
  then obtain out where out: "?run = (Inr out, ())" "cp_citations out \<noteq> []"
    by (cases ?run) (auto split: sum.splits)
  with compliance_citations_grounded [OF out(1)] show ?thesis by blast
qed

section \<open>Audit evidence\<close>

text \<open>
  C26: the digest of an evidence bundle does not depend on the order in which the entries of the
  evidence, at any depth, were recorded.
\<close>
theorem audit_digest_ignores_order:
  assumes "json_eqv (JObj (au_evidence p)) (JObj (au_evidence q))"
    and "run_audit p = Inr a" "run_audit q = Inr b"
  shows "ab_canonical_json a = ab_canonical_json b \<and> ab_sha256 a = ab_sha256 b
    \<and> ab_sha256 a = sha256_hex (dumps (JObj (au_evidence p)))"
  using run_audit_order_irrelevant [OF assms] assms(2) by (auto simp: run_audit_def Let_def)

definition evidence :: "json_dict \<Rightarrow> audit_input" where
  "evidence d = \<lparr> au_workflow_id = ''w'', au_evidence = d \<rparr>"

lemma audit_digest_witness:
  "\<exists>a b. run_audit (evidence [(''a'', JInt 1), (''b'', JNull)]) = Inr a
     \<and> run_audit (evidence [(''b'', JNull), (''a'', JInt 1)]) = Inr b \<and> ab_sha256 a = ab_sha256 b"
proof -
  let ?p = "evidence [(''a'', JInt 1), (''b'', JNull)]" and ?q = "evidence [(''b'', JNull), (''a'', JInt 1)]"
  obtain a b where ab: "run_audit ?p = Inr a" "run_audit ?q = Inr b" by (simp add: run_audit_def Let_def)
  have "json_eqv (JObj (au_evidence ?p)) (JObj (au_evidence ?q))"
    unfolding evidence_def audit_input.simps
    by (rule json_eqv.eqv_obj [where d' = "[(''b'', JNull), (''a'', JInt 1)]"])
      (auto intro: json_eqv.eqv_refl)
  from audit_digest_ignores_order [OF this ab] ab show ?thesis by blast
qed

section \<open>Notifications\<close>

text \<open>
  A notification is one e-mail to the given recipient whose subject and body are the chosen
  template with every field filled in: the fallback to the raw template is never taken.
\<close>
lemma notification_filled_in:
  "\<exists>m subject body. run_notification p = Inr [m]
     \<and> (subject, body) = (case dict_get (ni_template p) TEMPLATES of
           None \<Rightarrow> (''Notification'', ''{detail}'') | Some t \<Rightarrow> t)
     \<and> format_from None subject (dict_union default_context (ni_context p)) = Some (rn_subject m)
     \<and> format_from None body (dict_union default_context (ni_context p)) = Some (rn_body m)
     \<and> rn_channel m = ''email'' \<and> rn_recipient m = ni_recipient p"
proof -
  obtain subject body where sb: "(subject, body) = (case dict_get (ni_template p) TEMPLATES of
      None \<Rightarrow> (''Notification'', ''{detail}'') | Some t \<Rightarrow> t)" by (metis surj_pair)
  note known = template_used_known [OF sb]
  obtain x y where "format_from None subject (dict_union default_context (ni_context p)) = Some x"
    "format_from None body (dict_union default_context (ni_context p)) = Some y"
    using fields_known_format known by blast
  then show ?thesis
    unfolding run_notification_def sb [symmetric] by (auto simp: Let_def safe_format_def)
qed

section \<open>Plans\<close>

text \<open>
  Exactly the KYC, fraud and loan workflows are gated by a human, each with a permission of the
  RBAC model that its reviewers' role holds, and every agent a plan names has an adapter in the
  executor.
\<close>
lemma plans_gate_high_risk:
  "(wp_requires_human_approval (plan_of ty) \<longleftrightarrow> ty \<in> {KYC, FRAUD_REVIEW, LOAN})
   \<and> (wp_approval_permission (plan_of ty) =
        (case ty of KYC \<Rightarrow> Some (permission_value KYC_REVIEW)
         | FRAUD_REVIEW \<Rightarrow> Some (permission_value FRAUD_REVIEW_PERM)
         | LOAN \<Rightarrow> Some (permission_value LOAN_PROCESS) | _ \<Rightarrow> None))
   \<and> wp_steps (plan_of ty) \<noteq> []
   \<and> set (map ps_agent (wp_steps (plan_of ty))) \<subseteq> set executor_agents"
  using plan_gate_iff [of ty] plan_agents [of ty]
  by (intro conjI) (simp_all only: plan_steps_nonempty, cases ty,
      simp_all add: plan_of_fields(2) gated_def automated_def)

end
