(* ===== verification/Workflow.thy ===== *)
theory Workflow
  imports Executor
begin

text \<open>
  services/workflow_service.py: the workflow lifecycle and the human decision. A workflow as the
  service returns it is its row with the runs, approvals and tasks that refer to it.
\<close>

section \<open>Data\<close>

record wf_service =
  sv_libs :: libs
  sv_executor :: executor
  sv_audit :: bool

record workflow_view =
  wv_workflow :: workflow_row
  wv_agent_runs :: "agent_run_row list"
  wv_approvals :: "approval_row list"
  wv_tasks :: "task_row list"

definition DECIDABLE :: "workflow_status list" where
  "DECIDABLE = [WS_AWAITING_APPROVAL, WS_ESCALATED]"

definition view_of :: "db \<Rightarrow> workflow_row \<Rightarrow> workflow_view" where
  "view_of d w = \<lparr> wv_workflow = w,
     wv_agent_runs = filter (\<lambda>r. ag_workflow_id r = Some (wf_id w)) (db_agent_runs d),
     wv_approvals = filter (\<lambda>a. ap_workflow_id a = wf_id w) (db_approvals d),
     wv_tasks = filter (\<lambda>k. tk_workflow_id k = wf_id w) (db_tasks d) \<rparr>"

definition find_workflow :: "uuid \<Rightarrow> db \<Rightarrow> workflow_row option" where
  "find_workflow i d = List.find (\<lambda>w. wf_id w = i) (db_workflows d)"

definition workflow_not_found :: "uuid \<Rightarrow> exn" where
  "workflow_not_found i = app_err NotFoundError (''Workflow '' @ uuid_str i @ '' not found.'')"

definition reload :: "uuid \<Rightarrow> workflow_view action" where
  "reload i s = (case find_workflow i (w_db s) of
       None \<Rightarrow> (Inl (workflow_not_found i), s)
     | Some w \<Rightarrow> (Inr (view_of (w_db s) w), s))"

definition get_workflow :: "uuid \<Rightarrow> workflow_view action" where
  "get_workflow i = reload i"

section \<open>Audit\<close>

definition workflow_event ::
  "string \<Rightarrow> workflow_row \<Rightarrow> uuid option \<Rightarrow> string option \<Rightarrow> json_dict \<Rightarrow> audit_event" where
  "workflow_event act w actor request context = \<lparr> ae_action = act, ae_resource_type = ''workflow'',
     ae_outcome = ''success'', ae_actor_id = actor, ae_actor_email = None,
     ae_resource_id = Some (uuid_str (wf_id w)), ae_request_id = request, ae_context = context \<rparr>"

definition maybe_audit ::
  "wf_service \<Rightarrow> string \<Rightarrow> workflow_row \<Rightarrow> uuid option \<Rightarrow> string option \<Rightarrow> json_dict \<Rightarrow> unit action" where
  "maybe_audit sv act w actor request context =
     (if \<not> sv_audit sv then ret ()
      else bindE (record_audit (workflow_event act w actor request context)) (\<lambda>_. ret ()))"

section \<open>start\<close>

text \<open>\<open>_jsonable\<close>: every value of decoded JSON is of one of the accepted types.\<close>

fun is_jsonable :: "json \<Rightarrow> bool" where
  "is_jsonable JNull = True"
| "is_jsonable (JBool b) = True"
| "is_jsonable (JInt i) = True"
| "is_jsonable (JFloat x) = True"
| "is_jsonable (JStr s) = True"
| "is_jsonable (JArr xs) = True"
| "is_jsonable (JObj d) = True"

definition jsonable :: "json_dict \<Rightarrow> json_dict" where
  "jsonable p = map (\<lambda>(k, v). (k, if is_jsonable v then v else JStr (json_str v))) p"

definition new_workflow ::
  "workflow_type \<Rightarrow> json_dict \<Rightarrow> workflow_plan \<Rightarrow> uuid option \<Rightarrow> uuid \<Rightarrow> int \<Rightarrow> int \<Rightarrow> workflow_row" where
  "new_workflow ty input plan creator i c u = \<lparr> wf_id = i, wf_created_at = c, wf_updated_at = u,
     wf_type = workflow_type_value ty, wf_status = workflow_status_value WS_RUNNING,
     wf_application_id = None, wf_input = input, wf_result = None, wf_error = None,
     wf_external_run_id = None, wf_requires_human_approval = wp_requires_human_approval plan,
     wf_created_by = creator \<rparr>"

definition new_run :: "uuid \<Rightarrow> string \<Rightarrow> json_dict \<Rightarrow> uuid \<Rightarrow> int \<Rightarrow> int \<Rightarrow> agent_run_row" where
  "new_run w agent input i c u = \<lparr> ag_id = i, ag_created_at = c, ag_updated_at = u,
     ag_workflow_id = Some w, ag_agent_name = agent, ag_status = agent_run_status_value AR_STARTED,
     ag_input = input, ag_output = None, ag_error = None, ag_latency_ms = None,
     ag_prompt_version = None, ag_model_used = None \<rparr>"

definition crashed_outcome :: "string \<Rightarrow> exn \<Rightarrow> step_outcome" where
  "crashed_outcome agent e = \<lparr> ao_agent_name = agent, ao_status = ''failed'', ao_output = None,
     ao_error = Some (describe_exn e), ao_latency_ms = 0, ao_model_used = None,
     ao_prompt_version = None \<rparr>"

definition finished_run :: "step_outcome \<Rightarrow> agent_run_row \<Rightarrow> agent_run_row" where
  "finished_run oc r = r\<lparr>
     ag_status := (if ao_status oc = ''succeeded'' then agent_run_status_value AR_SUCCEEDED
                   else agent_run_status_value AR_FAILED),
     ag_output := map_option output_json (ao_output oc), ag_error := ao_error oc,
     ag_latency_ms := Some (ao_latency_ms oc), ag_prompt_version := ao_prompt_version oc,
     ag_model_used := ao_model_used oc\<rparr>"

text \<open>One planned step: the run row, the agent, the row again.\<close>

definition do_step :: "wf_service \<Rightarrow> uuid \<Rightarrow> json_dict \<Rightarrow> string \<Rightarrow> step_outcome action" where
  "do_step sv w payload agent =
     bindE (insert_agent_run (new_run w agent (jsonable payload))) (\<lambda>r.
     bindE (catchE (run_step (sv_libs sv) (sv_executor sv) agent payload)
              (\<lambda>e. ret (crashed_outcome agent e))) (\<lambda>oc.
     bindE (update_agent_run (finished_run oc r)) (\<lambda>_. ret oc)))"

text \<open>How the loop over the steps ends, with the results collected and the review flag.\<close>

datatype steps_end =
    AllDone json_dict bool
  | StepFailed string json_dict "string option"

fun run_steps ::
  "wf_service \<Rightarrow> uuid \<Rightarrow> json_dict \<Rightarrow> string list \<Rightarrow> json_dict \<Rightarrow> bool \<Rightarrow> steps_end action" where
  "run_steps sv w payload [] results flagged = ret (AllDone results flagged)"
| "run_steps sv w payload (agent # rest) results flagged =
     bindE (do_step sv w payload agent) (\<lambda>oc.
       let results' = (case ao_output oc of None \<Rightarrow> results
                       | Some out \<Rightarrow> dict_set agent (output_json out) results);
           flagged' = (flagged \<or> (case ao_output oc of None \<Rightarrow> False | Some out \<Rightarrow> output_review out))
       in if ao_status oc = ''failed'' then ret (StepFailed agent results' (ao_error oc))
          else run_steps sv w payload rest results' flagged')"

definition new_approval ::
  "uuid \<Rightarrow> string \<Rightarrow> string \<Rightarrow> uuid \<Rightarrow> int \<Rightarrow> int \<Rightarrow> approval_row" where
  "new_approval w perm summary i c u = \<lparr> ap_id = i, ap_created_at = c, ap_updated_at = u,
     ap_workflow_id = w, ap_kind = approval_kind_value AK_APPROVAL,
     ap_decision = approval_decision_value AD_PENDING, ap_required_permission = perm,
     ap_summary = Some summary, ap_decided_by = None, ap_decision_reason = None \<rparr>"

definition approval_permission :: "workflow_plan \<Rightarrow> string" where
  "approval_permission plan = (case wp_approval_permission plan of
       Some (c # cs) \<Rightarrow> c # cs | _ \<Rightarrow> ''workflow:approve'')"

definition finish_failed ::
  "wf_service \<Rightarrow> workflow_row \<Rightarrow> string \<Rightarrow> json_dict \<Rightarrow> string option \<Rightarrow> uuid option \<Rightarrow> string option
     \<Rightarrow> unit action" where
  "finish_failed sv w agent results err creator request =
     bindE (update_workflow (w\<lparr>wf_status := workflow_status_value WS_FAILED, wf_error := err,
              wf_result := Some results\<rparr>)) (\<lambda>w'.
       maybe_audit sv ''workflow.failed'' w' creator request [(''agent'', JStr agent)])"

definition finish_done ::
  "wf_service \<Rightarrow> workflow_plan \<Rightarrow> workflow_row \<Rightarrow> json_dict \<Rightarrow> bool \<Rightarrow> uuid option \<Rightarrow> string option
     \<Rightarrow> unit action" where
  "finish_done sv plan w results flagged creator request =
     (let needs_approval = (wp_requires_human_approval plan \<or> flagged);
          w1 = w\<lparr>wf_result := Some results, wf_status := (if needs_approval
                 then workflow_status_value WS_AWAITING_APPROVAL
                 else workflow_status_value WS_COMPLETED)\<rparr>
      in bindE (update_workflow w1) (\<lambda>w'.
         thenE (if needs_approval
                then bindE (insert_approval (new_approval (wf_id w) (approval_permission plan)
                       (wp_rationale plan))) (\<lambda>_. ret ())
                else ret ())
           (maybe_audit sv (if needs_approval then ''workflow.awaiting_approval''
                            else ''workflow.completed'') w' creator request
              [(''requires_approval'', JBool needs_approval)])))"

text \<open>The plan must be there: a missing one trips the assertion.\<close>

definition plan_workflow :: "workflow_type \<Rightarrow> workflow_plan action" where
  "plan_workflow ty =
     bindE (execute ''orchestrator_agent'' None (pure_run (run_orchestrator ty))) (\<lambda>oc.
       case ao_output oc of None \<Rightarrow> throw (Py ''AssertionError'' '''') | Some plan \<Rightarrow> ret plan)"

definition start_workflow ::
  "wf_service \<Rightarrow> workflow_type \<Rightarrow> json_dict \<Rightarrow> uuid option \<Rightarrow> string option \<Rightarrow> workflow_view action" where
  "start_workflow sv ty input creator request =
     bindE (plan_workflow ty) (\<lambda>plan.
     bindE (insert_workflow (new_workflow ty input plan creator)) (\<lambda>w.
     bindE (run_steps sv (wf_id w) (dict_set ''workflow_id'' (JStr (uuid_str (wf_id w))) input)
              (map ps_agent (wp_steps plan)) [] False) (\<lambda>result.
     thenE (case result of
         StepFailed agent results err \<Rightarrow> finish_failed sv w agent results err creator request
       | AllDone results flagged \<Rightarrow> finish_done sv plan w results flagged creator request)
       (reload (wf_id w)))))"

section \<open>Decisions\<close>

definition not_decidable :: "uuid \<Rightarrow> workflow_status \<Rightarrow> exn" where
  "not_decidable i current = app_err_details WorkflowStateError
     (''Workflow '' @ uuid_str i @ '' is '' @ [CHR 0x27] @ workflow_status_value current @ [CHR 0x27]
        @ '', not awaiting a decision.'')
     [(''current_status'', JStr (workflow_status_value current))]"

definition decided_approval ::
  "approval_decision \<Rightarrow> approval_kind \<Rightarrow> uuid \<Rightarrow> string option \<Rightarrow> approval_row \<Rightarrow> approval_row" where
  "decided_approval dec kind by reason a = a\<lparr>ap_decision := approval_decision_value dec,
     ap_kind := approval_kind_value kind, ap_decided_by := Some by, ap_decision_reason := reason\<rparr>"

definition fresh_approval :: "uuid \<Rightarrow> uuid \<Rightarrow> int \<Rightarrow> int \<Rightarrow> approval_row" where
  "fresh_approval w i c u = (new_approval w ''workflow:approve'' '''' i c u)\<lparr>ap_summary := None\<rparr>"

definition pending_approval :: "workflow_view \<Rightarrow> approval_row option" where
  "pending_approval v =
     List.find (\<lambda>a. ap_decision a = approval_decision_value AD_PENDING) (wv_approvals v)"

text \<open>The pending approval is decided, or a decided one added when none is pending.\<close>

definition settle_approval ::
  "workflow_view \<Rightarrow> approval_decision \<Rightarrow> approval_kind \<Rightarrow> uuid \<Rightarrow> string option \<Rightarrow> approval_row action" where
  "settle_approval v dec kind by reason = (case pending_approval v of
       Some a \<Rightarrow> update_approval (decided_approval dec kind by reason a)
     | None \<Rightarrow> insert_approval (\<lambda>i c u. decided_approval dec kind by reason
                 (fresh_approval (wf_id (wv_workflow v)) i c u)))"

definition final_status :: "workflow_status \<Rightarrow> workflow_status" where
  "final_status target = (if target = WS_APPROVED then WS_COMPLETED else target)"

definition decide ::
  "wf_service \<Rightarrow> uuid \<Rightarrow> workflow_status \<Rightarrow> approval_decision \<Rightarrow> approval_kind \<Rightarrow> uuid
     \<Rightarrow> string option \<Rightarrow> string option \<Rightarrow> workflow_view action" where
  "decide sv i target dec kind by reason request =
     bindE (get_workflow i) (\<lambda>v.
       case enum_parse workflow_status_value (wf_status (wv_workflow v)) of
         None \<Rightarrow> throw (Py ''ValueError'' (wf_status (wv_workflow v)))
       | Some current \<Rightarrow>
           if current \<notin> set DECIDABLE then throw (not_decidable i current)
           else
             bindE (update_workflow ((wv_workflow v)\<lparr>wf_status :=
                 workflow_status_value (final_status target)\<rparr>)) (\<lambda>w'.
             thenE (settle_approval v dec kind by reason)
             (thenE (maybe_audit sv (''workflow.'' @ approval_decision_value dec) w' (Some by) request
                [(''reason'', JStr (case reason of None \<Rightarrow> '''' | Some r \<Rightarrow> r))])
             (reload i))))"

definition approve_workflow where
  "approve_workflow sv i by reason request =
     decide sv i WS_APPROVED AD_APPROVED AK_APPROVAL by reason request"

definition reject_workflow where
  "reject_workflow sv i by reason request =
     decide sv i WS_REJECTED AD_REJECTED AK_REJECTION by reason request"

definition escalate_workflow where
  "escalate_workflow sv i by reason request =
     decide sv i WS_ESCALATED AD_ESCALATED AK_ESCALATION by reason request"

section \<open>The review queue\<close>

definition is_queued :: "workflow_row \<Rightarrow> bool" where
  "is_queued w \<longleftrightarrow> wf_status w \<in> workflow_status_value ` set DECIDABLE"

definition review_queue :: "int \<Rightarrow> int \<Rightarrow> (workflow_row list \<times> int) action" where
  "review_queue limit offset = getE (\<lambda>s.
     let base = filter is_queued (db_workflows (w_db s))
     in (take (nat limit) (drop (nat offset) (sort_key wf_created_at base)), int (length base)))"

end
