(* ===== verification/WorkflowFacts.thy ===== *)
theory WorkflowFacts
  imports Workflow
begin

text \<open>
  What the operations of the workflow service do to the tables: one run row per executed step, one
  workflow row and at most one pending approval per start, and the change of a decision.
\<close>

section \<open>Updates of a table with distinct keys\<close>

lemma update_row_keyed:
  assumes "distinct (map key (rows (w_db s)))"
    and law: "\<And>g d. g (rows d) = rows d \<Longrightarrow> upd g d = d"
  shows "\<exists>r' t. update_row key rows upd touch r s = (Inr r', t)
    \<and> w_db t = upd (map (\<lambda>x. if key x = key r then r' else x)) (w_db s)
    \<and> (r' = r \<or> (\<exists>n. r' = touch n r))"
proof -
  obtain n t where run: "update_row key rows upd touch r s =
     (Inr (if r \<in> set (rows (w_db s)) then r else touch n r), t)"
    "w_db t = (if r \<in> set (rows (w_db s)) then w_db s
                else upd (map (\<lambda>x. if key x = key r then touch n r else x)) (w_db s))"
    using update_row_run [of key rows upd touch r s] by blast
  show ?thesis
  proof (cases "r \<in> set (rows (w_db s))")
    case True
    have "x = r" if "x \<in> set (rows (w_db s))" "key x = key r" for x
      using distinct_map_fst_unique [OF assms(1) that(1) True that(2)] .
    then have "map (\<lambda>x. if key x = key r then r else x) (rows (w_db s)) = rows (w_db s)"
      by (intro map_idI) auto
    then have "upd (map (\<lambda>x. if key x = key r then r else x)) (w_db s) = w_db s" by (rule law)
    with run True show ?thesis by auto
  next
    case False
    with run show ?thesis by auto
  qed
qed

definition db_ok :: "db \<Rightarrow> bool" where
  "db_ok d \<longleftrightarrow> distinct (map wf_id (db_workflows d)) \<and> distinct (map ag_id (db_agent_runs d))
     \<and> distinct (map ap_id (db_approvals d))"

lemma update_workflow_run:
  assumes "distinct (map wf_id (db_workflows (w_db s)))"
  obtains w' t where "update_workflow w s = (Inr w', t)"
    "w_db t = (w_db s)\<lparr>db_workflows := map (\<lambda>x. if wf_id x = wf_id w then w' else x) (db_workflows (w_db s))\<rparr>"
    "w' = w \<or> (\<exists>n. w' = w\<lparr>wf_updated_at := n\<rparr>)"
proof -
  let ?touch = "\<lambda>n r. r\<lparr>wf_updated_at := n\<rparr>"
  have "\<exists>r' t. update_row wf_id db_workflows db_workflows_update ?touch w s = (Inr r', t)
    \<and> w_db t = db_workflows_update (map (\<lambda>x. if wf_id x = wf_id w then r' else x)) (w_db s)
    \<and> (r' = w \<or> (\<exists>n. r' = ?touch n w))"
    by (rule update_row_keyed) (simp_all add: assms)
  then show thesis using that unfolding update_workflow_def by fastforce
qed

lemma update_agent_run_run:
  assumes "distinct (map ag_id (db_agent_runs (w_db s)))"
  obtains r' t where "update_agent_run r s = (Inr r', t)"
    "w_db t = (w_db s)\<lparr>db_agent_runs := map (\<lambda>x. if ag_id x = ag_id r then r' else x) (db_agent_runs (w_db s))\<rparr>"
    "r' = r \<or> (\<exists>n. r' = r\<lparr>ag_updated_at := n\<rparr>)"
proof -
  let ?touch = "\<lambda>n r. r\<lparr>ag_updated_at := n\<rparr>"
  have "\<exists>r' t. update_row ag_id db_agent_runs db_agent_runs_update ?touch r s = (Inr r', t)
    \<and> w_db t = db_agent_runs_update (map (\<lambda>x. if ag_id x = ag_id r then r' else x)) (w_db s)
    \<and> (r' = r \<or> (\<exists>n. r' = ?touch n r))"
    by (rule update_row_keyed) (simp_all add: assms)
  then show thesis using that unfolding update_agent_run_def by fastforce
qed

lemma update_approval_run:
  assumes "distinct (map ap_id (db_approvals (w_db s)))"
  obtains r' t where "update_approval r s = (Inr r', t)"
    "w_db t = (w_db s)\<lparr>db_approvals := map (\<lambda>x. if ap_id x = ap_id r then r' else x) (db_approvals (w_db s))\<rparr>"
    "r' = r \<or> (\<exists>n. r' = r\<lparr>ap_updated_at := n\<rparr>)"
proof -
  let ?touch = "\<lambda>n r. r\<lparr>ap_updated_at := n\<rparr>"
  have "\<exists>r' t. update_row ap_id db_approvals db_approvals_update ?touch r s = (Inr r', t)
    \<and> w_db t = db_approvals_update (map (\<lambda>x. if ap_id x = ap_id r then r' else x)) (w_db s)
    \<and> (r' = r \<or> (\<exists>n. r' = ?touch n r))"
    by (rule update_row_keyed) (simp_all add: assms)
  then show thesis using that unfolding update_approval_def by fastforce
qed

section \<open>What a step yields\<close>

definition yields :: "('a \<Rightarrow> bool) \<Rightarrow> 'a action \<Rightarrow> bool" where
  "yields P m \<longleftrightarrow> (\<forall>s x t. m s = (Inr x, t) \<longrightarrow> P x)"

lemma yields_bindE: "(\<And>x. yields P (f x)) \<Longrightarrow> yields P (bindE m f)"
  unfolding yields_def bindE_Inr by blast

lemma yields_throw: "yields P (throw e)"
  by (simp add: yields_def throw_def)

text \<open>An outcome is a success with an output or a failure with an error; no model is recorded.\<close>

definition outcome_ok :: "string \<Rightarrow> step_outcome \<Rightarrow> bool" where
  "outcome_ok agent oc \<longleftrightarrow> ao_agent_name oc = agent \<and> ao_model_used oc = None
     \<and> (ao_status oc = ''succeeded'' \<and> ao_output oc \<noteq> None \<and> ao_error oc = None
        \<or> ao_status oc = ''failed'' \<and> ao_output oc = None \<and> ao_error oc \<noteq> None)"

lemma yields_run_agent: "yields (outcome_ok name) (run_agent name pv wrap run)"
proof -
  have "outcome_ok name (wrap_outcome wrap oc)" if "execute name pv run s = (Inr oc, t)" for oc s t
    using execute_total [of name pv run s] that
    by (auto simp: outcome_ok_def wrap_outcome_def)
  then show ?thesis
    unfolding yields_def run_agent_def bindE_Inr by (auto simp: ret_def)
qed

lemma yields_agents:
  "yields (outcome_ok ''document_agent'') (run_document_agent lb p)"
  "yields (outcome_ok ''kyc_agent'') (run_kyc_agent lb p)"
  "yields (outcome_ok ''fraud_agent'') (run_fraud_agent lb p)"
  "yields (outcome_ok ''loan_agent'') (run_loan_agent lb p)"
  "yields (outcome_ok ''summarization_agent'') (run_summarization_agent lb ex p)"
  "yields (outcome_ok ''retrieval_agent'') (run_retrieval_agent lb ex p)"
  "yields (outcome_ok ''compliance_agent'') (run_compliance_agent lb ex p)"
  "yields (outcome_ok ''audit_agent'') (run_audit_agent lb p)"
  unfolding run_document_agent_def run_kyc_agent_def run_fraud_agent_def run_loan_agent_def
    run_summarization_agent_def run_retrieval_agent_def run_compliance_agent_def run_audit_agent_def
  by (intro yields_bindE yields_run_agent)+

lemma yields_if: "(b \<Longrightarrow> yields P m) \<Longrightarrow> (\<not> b \<Longrightarrow> yields P k) \<Longrightarrow> yields P (if b then m else k)"
  by simp

lemma yields_run_step: "yields (outcome_ok agent) (run_step lb ex agent p)"
  unfolding run_step_def
  by (intro yields_if yields_throw) (hypsubst, rule yields_agents)+

lemma crashed_ok: "outcome_ok agent (crashed_outcome agent e)"
  by (simp add: outcome_ok_def crashed_outcome_def)

lemma caught_step:
  "\<exists>oc t. catchE (run_step lb ex agent p) (\<lambda>e. ret (crashed_outcome agent e)) s = (Inr oc, t)
     \<and> outcome_ok agent oc"
proof -
  obtain r t where r: "run_step lb ex agent p s = (r, t)" by fastforce
  show ?thesis
    using yields_run_step [of agent lb ex p, unfolded yields_def, rule_format, of s] crashed_ok [of agent]
    by (cases r) (auto simp: catchE_def ret_def r)
qed

section \<open>One step\<close>

text \<open>The row of an executed step.\<close>

definition run_records :: "uuid \<Rightarrow> string \<Rightarrow> step_outcome \<Rightarrow> agent_run_row \<Rightarrow> bool" where
  "run_records w agent oc r \<longleftrightarrow> ag_workflow_id r = Some w \<and> ag_agent_name r = agent
     \<and> ag_status r = (if ao_output oc \<noteq> None then agent_run_status_value AR_SUCCEEDED
                      else agent_run_status_value AR_FAILED)
     \<and> ag_output r = map_option output_json (ao_output oc) \<and> ag_error r = ao_error oc
     \<and> ag_model_used r = None"

lemma finished_run_records:
  "outcome_ok agent oc \<Longrightarrow> r = new_run w agent p i c u \<Longrightarrow>
     r' = finished_run oc r \<or> (\<exists>n. r' = (finished_run oc r)\<lparr>ag_updated_at := n\<rparr>) \<Longrightarrow>
     run_records w agent oc r' \<and> ag_id r' = i"
  by (auto simp: outcome_ok_def run_records_def finished_run_def new_run_def)

lemma do_step_effect:
  assumes "do_step sv w payload agent s = (x, t)"
    and quiet: "quiet_executor (sv_executor sv)"
    and "distinct (map ag_id (db_agent_runs (w_db s)))"
  shows "case x of
      Inr oc \<Rightarrow> outcome_ok agent oc \<and> (\<exists>r. run_records w agent oc r
        \<and> ag_id r \<notin> ag_id ` set (db_agent_runs (w_db s))
        \<and> w_db t = (w_db s)\<lparr>db_agent_runs := db_agent_runs (w_db s) @ [r]\<rparr>)
    | Inl e \<Rightarrow> e = integrity_error"
proof -
  obtain y u where y: "insert_agent_run (new_run w agent (jsonable payload)) s = (y, u)" by fastforce
  show ?thesis
  proof (cases y)
    case (Inl e)
    then have "x = Inl e" using assms(1) y by (simp add: do_step_def bindE_def)
    with Inl y show ?thesis by (auto simp: insert_agent_run_def dest: insert_row_Inl)
  next
    case (Inr r)
    obtain i c v where ins: "r = new_run w agent (jsonable payload) i c v"
      "\<not> list_ex (same_key ag_id r) (db_agent_runs (w_db s))"
      "w_db u = (w_db s)\<lparr>db_agent_runs := db_agent_runs (w_db s) @ [r]\<rparr>"
      using insert_row_Inr [OF y [unfolded insert_agent_run_def Inr]] by auto
    have fresh: "ag_id r \<notin> ag_id ` set (db_agent_runs (w_db s))"
      using ins(2) by (auto simp: list_ex_iff same_key_def)
    obtain oc z where oc: "catchE (run_step (sv_libs sv) (sv_executor sv) agent payload)
        (\<lambda>e. ret (crashed_outcome agent e)) u = (Inr oc, z)" "outcome_ok agent oc"
      using caught_step by meson
    have "quiet (catchE (run_step (sv_libs sv) (sv_executor sv) agent payload)
        (\<lambda>e. ret (crashed_outcome agent e)))"
      by (intro quiet_catchE quiet_run_step quiet quiet_combinators)
    from keepsD [OF this oc(1)] have z: "w_db z = w_db u" by simp
    have "distinct (map ag_id (db_agent_runs (w_db z)))" using assms(3) fresh by (simp add: z ins(3))
    then obtain r' q where upd: "update_agent_run (finished_run oc r) z = (Inr r', q)"
      "w_db q = (w_db z)\<lparr>db_agent_runs :=
         map (\<lambda>x. if ag_id x = ag_id (finished_run oc r) then r' else x) (db_agent_runs (w_db z))\<rparr>"
      "r' = finished_run oc r \<or> (\<exists>n. r' = (finished_run oc r)\<lparr>ag_updated_at := n\<rparr>)"
      by (rule update_agent_run_run)
    have xt: "x = Inr oc" "t = q"
      using assms(1) y Inr oc(1) upd(1) by (auto simp: do_step_def bindE_def ret_def)
    have rec: "run_records w agent oc r'" "ag_id r' = ag_id r"
      using finished_run_records [OF oc(2) ins(1) upd(3)] by (simp_all add: ins(1) new_run_def)
    have "ag_id (finished_run oc r) = ag_id r" by (simp add: finished_run_def)
    then have "w_db t = (w_db s)\<lparr>db_agent_runs := db_agent_runs (w_db s) @ [r']\<rparr>"
      using map_last_row [OF fresh, of "ag_id (finished_run oc r)" r'] by (simp add: xt upd(2) z ins(3))
    with rec oc(2) fresh show ?thesis unfolding xt(1) sum.case by metis
  qed
qed

section \<open>The loop over the steps\<close>

text \<open>
  The rows of the executed steps, in plan order: all steps with their outcomes, or those up to the
  first failure.
\<close>

inductive steps_trace ::
  "uuid \<Rightarrow> string list \<Rightarrow> json_dict \<Rightarrow> bool \<Rightarrow> agent_run_row list \<Rightarrow> steps_end \<Rightarrow> bool" for w where
  all_done: "steps_trace w [] results flagged [] (AllDone results flagged)"
| step_failed: "run_records w agent oc r \<Longrightarrow> outcome_ok agent oc \<Longrightarrow> ao_output oc = None \<Longrightarrow>
     steps_trace w (agent # rest) results flagged [r] (StepFailed agent results (ao_error oc))"
| step_done: "run_records w agent oc r \<Longrightarrow> outcome_ok agent oc \<Longrightarrow> ao_output oc = Some out \<Longrightarrow>
     steps_trace w rest (dict_set agent (output_json out) results) (flagged \<or> output_review out) rs en
     \<Longrightarrow> steps_trace w (agent # rest) results flagged (r # rs) en"

inductive_cases steps_doneE: "steps_trace w steps results flagged rs (AllDone res f)"
inductive_cases steps_failedE: "steps_trace w steps results flagged rs (StepFailed a res err)"

lemma run_steps_effect:
  assumes "run_steps sv w payload steps results flagged s = (x, t)"
    and "quiet_executor (sv_executor sv)" "distinct (map ag_id (db_agent_runs (w_db s)))"
  shows "(case x of
      Inr en \<Rightarrow> (\<exists>rs. steps_trace w steps results flagged rs en
        \<and> w_db t = (w_db s)\<lparr>db_agent_runs := db_agent_runs (w_db s) @ rs\<rparr>
        \<and> distinct (map ag_id (db_agent_runs (w_db t))))
    | Inl e \<Rightarrow> e = integrity_error)"
  using assms(1,3)
proof (induction steps arbitrary: results flagged s)
  case Nil
  then have "x = Inr (AllDone results flagged)" "t = s" by (auto simp: ret_def)
  with Nil show ?case by (auto intro!: exI [where x = "[]"] steps_trace.all_done)
next
  case (Cons agent rest)
  obtain y u where y: "do_step sv w payload agent s = (y, u)" by fastforce
  note step = do_step_effect [OF y assms(2) Cons.prems(2)]
  show ?case
  proof (cases y)
    case (Inl e)
    with y step Cons.prems(1) show ?thesis by (auto simp: bindE_def)
  next
    case (Inr oc)
    with step obtain r where oc: "outcome_ok agent oc" and r: "run_records w agent oc r"
      "ag_id r \<notin> ag_id ` set (db_agent_runs (w_db s))"
      "w_db u = (w_db s)\<lparr>db_agent_runs := db_agent_runs (w_db s) @ [r]\<rparr>" by auto
    have dist: "distinct (map ag_id (db_agent_runs (w_db u)))" using Cons.prems(2) r by simp
    show ?thesis
    proof (cases "ao_output oc")
      case None
      then have "ao_status oc = ''failed''" using oc by (auto simp: outcome_ok_def)
      with None have "x = Inr (StepFailed agent results (ao_error oc))" "t = u"
        using Cons.prems(1) y Inr by (auto simp: bindE_def Let_def ret_def)
      with r oc None dist show ?thesis
        by (auto intro!: exI [where x = "[r]"] steps_trace.step_failed)
    next
      case (Some out)
      then have "ao_status oc \<noteq> ''failed''" using oc by (auto simp: outcome_ok_def)
      with Some have "run_steps sv w payload rest (dict_set agent (output_json out) results)
          (flagged \<or> output_review out) u = (x, t)"
        using Cons.prems(1) y Inr by (auto simp: bindE_def Let_def)
      note IH = Cons.IH [OF this dist]
      show ?thesis
      proof (cases x)
        case (Inl e)
        with IH show ?thesis by simp
      next
        case (Inr en)
        with IH obtain rs where "steps_trace w rest (dict_set agent (output_json out) results)
            (flagged \<or> output_review out) rs en"
          "w_db t = (w_db u)\<lparr>db_agent_runs := db_agent_runs (w_db u) @ rs\<rparr>"
          "distinct (map ag_id (db_agent_runs (w_db t)))" by auto
        with r oc Some Inr show ?thesis
          by (auto intro!: exI [where x = "r # rs"] steps_trace.step_done)
      qed
    qed
  qed
qed

text \<open>Facts read off the trace.\<close>

lemma steps_trace_runs:
  "steps_trace w steps results flagged rs en \<Longrightarrow>
     map ag_agent_name rs = take (length rs) steps \<and> (\<forall>r \<in> set rs. ag_workflow_id r = Some w)
     \<and> (case en of
          AllDone _ _ \<Rightarrow> length rs = length steps
            \<and> (\<forall>r \<in> set rs. ag_status r = agent_run_status_value AR_SUCCEEDED)
        | StepFailed a _ err \<Rightarrow> rs \<noteq> [] \<and> ag_agent_name (last rs) = a \<and> ag_error (last rs) = err
            \<and> err \<noteq> None \<and> ag_status (last rs) = agent_run_status_value AR_FAILED
            \<and> (\<forall>r \<in> set (butlast rs). ag_status r = agent_run_status_value AR_SUCCEEDED))"
  by (induction rule: steps_trace.induct)
    (auto simp: run_records_def outcome_ok_def split: steps_end.splits)

section \<open>Finishing a start\<close>

lemma maybe_audit_Inr:
  assumes "maybe_audit sv act w actor req ctx s = (Inr (), t)"
  obtains rows where "w_db t = (w_db s)\<lparr>db_audit_logs := db_audit_logs (w_db s) @ rows\<rparr>"
    "if sv_audit sv then \<exists>r. rows = [r] \<and> records_event (workflow_event act w actor req ctx) r
     else rows = []"
proof (cases "sv_audit sv")
  case True
  then obtain r where "record_audit (workflow_event act w actor req ctx) s = (Inr r, t)"
    using assms by (auto simp: maybe_audit_def bindE_Inr ret_def)
  from record_audit_Inr [OF this] show thesis using True by (intro that [of "[r]"]) simp_all
next
  case False
  with assms have "t = s" by (simp add: maybe_audit_def ret_def)
  with False show thesis by (intro that [of "[]"]) simp_all
qed

lemma maybe_audit_Inl: "maybe_audit sv act w actor req ctx s = (Inl e, t) \<Longrightarrow> e = integrity_error"
  using record_audit_Inl [of "workflow_event act w actor req ctx" s e t]
  by (auto simp: maybe_audit_def bindE_Inl ret_def split: if_splits)

text \<open>The entry that the service writes for an event of a workflow.\<close>

definition audit_entries ::
  "wf_service \<Rightarrow> string \<Rightarrow> uuid \<Rightarrow> uuid option \<Rightarrow> audit_row list \<Rightarrow> bool" where
  "audit_entries sv act w actor rows \<longleftrightarrow>
     (if sv_audit sv then \<exists>r. rows = [r] \<and> al_action r = act \<and> al_actor_id r = actor
        \<and> al_resource_id r = Some (uuid_str w)
      else rows = [])"

lemma audit_entriesI:
  "(if sv_audit sv then \<exists>r. rows = [r] \<and> records_event (workflow_event act w actor req ctx) r
     else rows = []) \<Longrightarrow> audit_entries sv act (wf_id w) actor rows"
  by (auto simp: audit_entries_def records_event_def workflow_event_def)

text \<open>Replacing the last row of the table of workflows.\<close>

lemma update_last_workflow:
  assumes "db_workflows (w_db s) = ws @ [w0]" "distinct (map wf_id (ws @ [w0]))" "wf_id w = wf_id w0"
  obtains w' t where "update_workflow w s = (Inr w', t)"
    "w_db t = (w_db s)\<lparr>db_workflows := ws @ [w']\<rparr>"
    "w' = w \<or> (\<exists>n. w' = w\<lparr>wf_updated_at := n\<rparr>)"
proof -
  have "distinct (map wf_id (db_workflows (w_db s)))" using assms by simp
  then obtain w' t where *: "update_workflow w s = (Inr w', t)"
    "w_db t = (w_db s)\<lparr>db_workflows := map (\<lambda>x. if wf_id x = wf_id w then w' else x) (db_workflows (w_db s))\<rparr>"
    "w' = w \<or> (\<exists>n. w' = w\<lparr>wf_updated_at := n\<rparr>)" by (rule update_workflow_run)
  have "wf_id w0 \<notin> wf_id ` set ws" using assms(2) by auto
  from map_last_row [OF this assms(3)] have "w_db t = (w_db s)\<lparr>db_workflows := ws @ [w']\<rparr>"
    by (simp add: * assms(1))
  with * that show thesis by blast
qed

text \<open>The fields of a workflow row that a start fixes once and for all.\<close>

definition same_case :: "workflow_row \<Rightarrow> workflow_row \<Rightarrow> bool" where
  "same_case w w' \<longleftrightarrow> wf_id w' = wf_id w \<and> wf_created_at w' = wf_created_at w \<and> wf_type w' = wf_type w
     \<and> wf_application_id w' = wf_application_id w \<and> wf_input w' = wf_input w
     \<and> wf_requires_human_approval w' = wf_requires_human_approval w
     \<and> wf_created_by w' = wf_created_by w \<and> wf_external_run_id w' = wf_external_run_id w"

lemma finish_failed_effect:
  assumes "finish_failed sv w agent results err creator req s = (Inr (), t)"
    and "db_workflows (w_db s) = ws @ [w]" "distinct (map wf_id (ws @ [w]))"
  obtains w' rows where "w_db t = (w_db s)\<lparr>db_workflows := ws @ [w'],
      db_audit_logs := db_audit_logs (w_db s) @ rows\<rparr>" "same_case w w'"
    "wf_status w' = workflow_status_value WS_FAILED" "wf_error w' = err" "wf_result w' = Some results"
    "audit_entries sv ''workflow.failed'' (wf_id w) creator rows"
proof -
  let ?w = "w\<lparr>wf_status := workflow_status_value WS_FAILED, wf_error := err, wf_result := Some results\<rparr>"
  have "wf_id ?w = wf_id w" by simp
  from update_last_workflow [OF assms(2,3) this] obtain w' u where w': "update_workflow ?w s = (Inr w', u)"
    "w_db u = (w_db s)\<lparr>db_workflows := ws @ [w']\<rparr>" "w' = ?w \<or> (\<exists>n. w' = ?w\<lparr>wf_updated_at := n\<rparr>)" .
  then have "maybe_audit sv ''workflow.failed'' w' creator req [(''agent'', JStr agent)] u = (Inr (), t)"
    using assms(1) unfolding finish_failed_def bindE_def by simp
  then obtain rows where rows:
    "w_db t = (w_db u)\<lparr>db_audit_logs := db_audit_logs (w_db u) @ rows\<rparr>"
    "if sv_audit sv then \<exists>r. rows = [r] \<and> records_event (workflow_event ''workflow.failed'' w' creator req
       [(''agent'', JStr agent)]) r else rows = []" by (rule maybe_audit_Inr)
  have w: "same_case w w' \<and> wf_status w' = workflow_status_value WS_FAILED \<and> wf_error w' = err
      \<and> wf_result w' = Some results"
    using w'(3) by (auto simp: same_case_def)
  have "wf_id w' = wf_id w" using w by (simp add: same_case_def)
  with audit_entriesI [OF rows(2)] have "audit_entries sv ''workflow.failed'' (wf_id w) creator rows"
    by (simp only:)
  moreover have "w_db t = (w_db s)\<lparr>db_workflows := ws @ [w'],
      db_audit_logs := db_audit_logs (w_db s) @ rows\<rparr>" by (simp add: rows(1) w'(2))
  ultimately show thesis using that w by blast
qed

text \<open>What a start that ran all its steps leaves: a parked case with its approval, or a closed one.\<close>

definition is_pending :: "approval_row \<Rightarrow> bool" where
  "is_pending a \<longleftrightarrow> ap_decision a = approval_decision_value AD_PENDING"

lemma finish_done_effect:
  assumes "finish_done sv plan w results flagged creator req s = (Inr (), t)"
    and "db_workflows (w_db s) = ws @ [w]" "distinct (map wf_id (ws @ [w]))"
  obtains w' aps rows where "w_db t = (w_db s)\<lparr>db_workflows := ws @ [w'],
      db_approvals := db_approvals (w_db s) @ aps, db_audit_logs := db_audit_logs (w_db s) @ rows\<rparr>"
    "same_case w w'" "wf_error w' = wf_error w" "wf_result w' = Some results"
    "if wp_requires_human_approval plan \<or> flagged
     then wf_status w' = workflow_status_value WS_AWAITING_APPROVAL
       \<and> (\<exists>a. aps = [a] \<and> is_pending a \<and> ap_workflow_id a = wf_id w
            \<and> ap_required_permission a = approval_permission plan
            \<and> ap_kind a = approval_kind_value AK_APPROVAL
            \<and> ap_id a \<notin> ap_id ` set (db_approvals (w_db s)))
       \<and> audit_entries sv ''workflow.awaiting_approval'' (wf_id w) creator rows
     else wf_status w' = workflow_status_value WS_COMPLETED \<and> aps = []
       \<and> audit_entries sv ''workflow.completed'' (wf_id w) creator rows"
proof -
  define needs where "needs = (wp_requires_human_approval plan \<or> flagged)"
  define act where "act = (if needs then ''workflow.awaiting_approval'' else ''workflow.completed'')"
  define ctx where "ctx = [(''requires_approval'', JBool needs)]"
  let ?w = "w\<lparr>wf_result := Some results, wf_status := (if needs
                 then workflow_status_value WS_AWAITING_APPROVAL
                 else workflow_status_value WS_COMPLETED)\<rparr>"
  define ins where "ins = (if needs
                then bindE (insert_approval (new_approval (wf_id w) (approval_permission plan)
                       (wp_rationale plan))) (\<lambda>_. ret ())
                else ret () :: unit action)"
  have fin: "bindE (update_workflow ?w) (\<lambda>w'. thenE ins (maybe_audit sv act w' creator req ctx)) s = (Inr (), t)"
    using assms(1) unfolding finish_done_def Let_def needs_def act_def ctx_def ins_def by simp
  have "wf_id ?w = wf_id w" by simp
  from update_last_workflow [OF assms(2,3) this] obtain w' u where w': "update_workflow ?w s = (Inr w', u)"
    "w_db u = (w_db s)\<lparr>db_workflows := ws @ [w']\<rparr>" "w' = ?w \<or> (\<exists>n. w' = ?w\<lparr>wf_updated_at := n\<rparr>)" .
  with fin obtain v where v: "ins u = (Inr (), v)" "maybe_audit sv act w' creator req ctx v = (Inr (), t)"
    unfolding thenE_def bindE_Inr by auto
  obtain aps where aps: "w_db v = (w_db u)\<lparr>db_approvals := db_approvals (w_db u) @ aps\<rparr>"
    "if needs then \<exists>a. aps = [a] \<and> is_pending a \<and> ap_workflow_id a = wf_id w
            \<and> ap_required_permission a = approval_permission plan
            \<and> ap_kind a = approval_kind_value AK_APPROVAL
            \<and> ap_id a \<notin> ap_id ` set (db_approvals (w_db s)) else aps = []"
  proof (cases needs)
    case True
    then obtain a where a: "insert_approval (new_approval (wf_id w) (approval_permission plan)
        (wp_rationale plan)) u = (Inr a, v)"
      using v(1) by (auto simp: ins_def bindE_Inr ret_def)
    from insert_row_Inr [OF a [unfolded insert_approval_def]]
    obtain i c x where row: "a = new_approval (wf_id w) (approval_permission plan) (wp_rationale plan) i c x"
      "\<not> list_ex (same_key ap_id a) (db_approvals (w_db u))"
      "w_db v = (w_db u)\<lparr>db_approvals := db_approvals (w_db u) @ [a]\<rparr>" by auto
    have "ap_id a \<notin> ap_id ` set (db_approvals (w_db s))"
      using row(2) by (auto simp: list_ex_iff same_key_def w'(2))
    with row True that [of "[a]"] show thesis by (simp add: new_approval_def is_pending_def)
  next
    case False
    with v(1) have "v = u" by (simp add: ins_def ret_def)
    with False that [of "[]"] show thesis by simp
  qed
  from v(2) obtain rows where rows:
    "w_db t = (w_db v)\<lparr>db_audit_logs := db_audit_logs (w_db v) @ rows\<rparr>"
    "if sv_audit sv then \<exists>r. rows = [r] \<and> records_event (workflow_event act w' creator req ctx) r
     else rows = []" by (rule maybe_audit_Inr)
  have w: "same_case w w'" "wf_error w' = wf_error w" "wf_result w' = Some results"
    "wf_status w' = (if needs then workflow_status_value WS_AWAITING_APPROVAL
                 else workflow_status_value WS_COMPLETED)"
    using w'(3) by (auto simp: same_case_def)
  have "wf_id w' = wf_id w" using w by (simp add: same_case_def)
  with audit_entriesI [OF rows(2)] have log: "audit_entries sv act (wf_id w) creator rows"
    by (simp only:)
  have "w_db t = (w_db s)\<lparr>db_workflows := ws @ [w'],
      db_approvals := db_approvals (w_db s) @ aps, db_audit_logs := db_audit_logs (w_db s) @ rows\<rparr>"
    by (simp add: rows(1) aps(1) w'(2))
  from that [OF this w(1-3)] show thesis
    using w(4) aps(2) log unfolding needs_def [symmetric] act_def by (cases needs) simp_all
qed

section \<open>A whole start\<close>

lemma plan_workflow_run: "\<exists>t. plan_workflow ty s = (Inr (plan_of ty), t) \<and> w_db t = w_db s"
proof -
  obtain ms t where t: "execute ''orchestrator_agent'' None (pure_run (run_orchestrator ty)) s =
      (Inr (succeeded_outcome ''orchestrator_agent'' None (plan_of ty) ms), t)"
    using execute_pure [of "''orchestrator_agent''" None "run_orchestrator ty" s]
    by (auto simp: run_orchestrator_plan)
  have "quiet (execute ''orchestrator_agent'' None (pure_run (run_orchestrator ty)))"
    by (intro quiet_execute quiet_pure_run)
  from keepsD [OF this t] have "w_db t = w_db s" by simp
  with t show ?thesis
    by (simp add: plan_workflow_def bindE_def succeeded_outcome_def ret_def)
qed

text \<open>
  The outcome of a start: failed at a step, parked with a pending approval that asks for the plan's
  permission, or completed without one.
\<close>

inductive start_outcome ::
  "workflow_type \<Rightarrow> workflow_row \<Rightarrow> agent_run_row list \<Rightarrow> approval_row list \<Rightarrow> string \<Rightarrow> bool" where
  failed: "steps_trace (wf_id w) (map ps_agent (wp_steps (plan_of ty))) [] False runs
       (StepFailed agent results err) \<Longrightarrow>
     wf_status w = workflow_status_value WS_FAILED \<Longrightarrow> wf_error w = err \<Longrightarrow>
     wf_result w = Some results \<Longrightarrow> start_outcome ty w runs [] ''workflow.failed''"
| parked: "steps_trace (wf_id w) (map ps_agent (wp_steps (plan_of ty))) [] False runs
       (AllDone results flagged) \<Longrightarrow>
     wp_requires_human_approval (plan_of ty) \<or> flagged \<Longrightarrow>
     wf_status w = workflow_status_value WS_AWAITING_APPROVAL \<Longrightarrow> wf_result w = Some results \<Longrightarrow>
     is_pending a \<Longrightarrow> ap_workflow_id a = wf_id w \<Longrightarrow>
     ap_required_permission a = approval_permission (plan_of ty) \<Longrightarrow>
     ap_kind a = approval_kind_value AK_APPROVAL \<Longrightarrow>
     start_outcome ty w runs [a] ''workflow.awaiting_approval''"
| completed: "steps_trace (wf_id w) (map ps_agent (wp_steps (plan_of ty))) [] False runs
       (AllDone results False) \<Longrightarrow>
     \<not> wp_requires_human_approval (plan_of ty) \<Longrightarrow>
     wf_status w = workflow_status_value WS_COMPLETED \<Longrightarrow> wf_result w = Some results \<Longrightarrow>
     start_outcome ty w runs [] ''workflow.completed''"

inductive_cases start_outcomeE: "start_outcome ty w runs aps act"

lemma reload_Inr: "reload i s = (Inr v, t) \<Longrightarrow>
    t = s \<and> (\<exists>w. find_workflow i (w_db s) = Some w \<and> v = view_of (w_db s) w)"
  by (auto simp: reload_def split: option.splits)

lemma find_last_workflow:
  "db_workflows d = ws @ [w] \<Longrightarrow> wf_id w \<notin> wf_id ` set ws \<Longrightarrow> find_workflow (wf_id w) d = Some w"
proof -
  have "wf_id w \<notin> wf_id ` set ws \<Longrightarrow> List.find (\<lambda>x. wf_id x = wf_id w) (ws @ [w]) = Some w"
    by (induction ws) auto
  then show "db_workflows d = ws @ [w] \<Longrightarrow> wf_id w \<notin> wf_id ` set ws \<Longrightarrow>
      find_workflow (wf_id w) d = Some w" by (simp add: find_workflow_def)
qed

lemma start_effect:
  assumes "start_workflow sv ty input creator req s = (Inr v, t)"
    and quiet: "quiet_executor (sv_executor sv)" and ok: "db_ok (w_db s)"
  obtains w runs aps rows act where
    "w_db t = (w_db s)\<lparr>db_workflows := db_workflows (w_db s) @ [w],
       db_agent_runs := db_agent_runs (w_db s) @ runs, db_approvals := db_approvals (w_db s) @ aps,
       db_audit_logs := db_audit_logs (w_db s) @ rows\<rparr>"
    "db_ok (w_db t)" "wf_id w \<notin> wf_id ` set (db_workflows (w_db s))"
    "start_outcome ty w runs aps act" "audit_entries sv act (wf_id w) creator rows"
    "wf_type w = workflow_type_value ty" "wf_input w = input" "wf_created_by w = creator"
    "wf_requires_human_approval w = wp_requires_human_approval (plan_of ty)"
    "v = view_of (w_db t) w"
proof -
  note finished = that
  obtain s1 where s1: "plan_workflow ty s = (Inr (plan_of ty), s1)" "w_db s1 = w_db s"
    using plan_workflow_run by blast
  let ?input = "\<lambda>w. dict_set ''workflow_id'' (JStr (uuid_str (wf_id w))) input"
  from assms(1) s1(1) obtain w0 s2 en s3 s4 where
    ins: "insert_workflow (new_workflow ty input (plan_of ty) creator) s1 = (Inr w0, s2)" and
    steps: "run_steps sv (wf_id w0) (?input w0) (map ps_agent (wp_steps (plan_of ty))) [] False s2
      = (Inr en, s3)" and
    fin: "(case en of
         StepFailed agent results err \<Rightarrow> finish_failed sv w0 agent results err creator req
       | AllDone results flagged \<Rightarrow> finish_done sv (plan_of ty) w0 results flagged creator req) s3 = (Inr (), s4)" and
    rel: "reload (wf_id w0) s4 = (Inr v, t)"
    by (auto simp: start_workflow_def bindE_Inr thenE_def)
  from insert_row_Inr [OF ins [unfolded insert_workflow_def]] obtain i c u where
    w0: "w0 = new_workflow ty input (plan_of ty) creator i c u"
      "\<not> list_ex (same_key wf_id w0) (db_workflows (w_db s))"
      "w_db s2 = (w_db s)\<lparr>db_workflows := db_workflows (w_db s) @ [w0]\<rparr>" by (auto simp: s1(2))
  have fresh: "wf_id w0 \<notin> wf_id ` set (db_workflows (w_db s))"
    using w0(2) by (auto simp: list_ex_iff same_key_def)
  have d2: "distinct (map ag_id (db_agent_runs (w_db s2)))" using ok by (simp add: w0(3) db_ok_def)
  from run_steps_effect [OF steps quiet d2] obtain runs where
    tr: "steps_trace (wf_id w0) (map ps_agent (wp_steps (plan_of ty))) [] False runs en" and
    s3: "w_db s3 = (w_db s2)\<lparr>db_agent_runs := db_agent_runs (w_db s2) @ runs\<rparr>"
      "distinct (map ag_id (db_agent_runs (w_db s3)))" by auto
  have last: "db_workflows (w_db s3) = db_workflows (w_db s) @ [w0]"
    "distinct (map wf_id (db_workflows (w_db s) @ [w0]))"
    using ok fresh by (simp_all add: s3(1) w0(3) db_ok_def)
  have kept: "same_case w0 w \<Longrightarrow> wf_type w = workflow_type_value ty \<and> wf_input w = input
      \<and> wf_created_by w = creator \<and> wf_id w = wf_id w0
      \<and> wf_requires_human_approval w = wp_requires_human_approval (plan_of ty)" for w
    by (simp add: same_case_def w0(1) new_workflow_def)
  have wrap: thesis if t4: "w_db s4 = (w_db s)\<lparr>db_workflows := db_workflows (w_db s) @ [w],
       db_agent_runs := db_agent_runs (w_db s) @ runs, db_approvals := db_approvals (w_db s) @ aps,
       db_audit_logs := db_audit_logs (w_db s) @ rows\<rparr>" and same: "same_case w0 w"
    and out: "start_outcome ty w runs aps act" and log: "audit_entries sv act (wf_id w0) creator rows"
    and ids: "distinct (map ap_id (db_approvals (w_db s) @ aps))" for w aps rows act
  proof -
    have id: "wf_id w = wf_id w0" using kept [OF same] by simp
    have t: "t = s4" using reload_Inr [OF rel] by blast
    have "find_workflow (wf_id w0) (w_db s4) = Some w"
      using find_last_workflow [of "w_db s4" "db_workflows (w_db s)" w] fresh by (simp add: t4 id)
    then have "v = view_of (w_db t) w" using reload_Inr [OF rel] by (auto simp: t)
    moreover have "db_ok (w_db t)"
      using ok ids fresh s3 by (simp add: db_ok_def t t4 id w0(3))
    moreover have "wf_id w \<notin> wf_id ` set (db_workflows (w_db s))" using fresh unfolding id .
    moreover have "audit_entries sv act (wf_id w) creator rows" using log unfolding id .
    ultimately show thesis
      using finished [OF t4 [folded t] _ _ out] kept [OF same] by blast
  qed
  show thesis
  proof (cases en)
    case (StepFailed agent results err)
    with fin have "finish_failed sv w0 agent results err creator req s3 = (Inr (), s4)" by simp
    from finish_failed_effect [OF this last] obtain w rows where f:
      "w_db s4 = (w_db s3)\<lparr>db_workflows := db_workflows (w_db s) @ [w],
        db_audit_logs := db_audit_logs (w_db s3) @ rows\<rparr>" "same_case w0 w"
      "wf_status w = workflow_status_value WS_FAILED" "wf_error w = err" "wf_result w = Some results"
      "audit_entries sv ''workflow.failed'' (wf_id w0) creator rows" .
    have "start_outcome ty w runs [] ''workflow.failed''"
      using tr kept [OF f(2)] by (intro start_outcome.failed [OF _ f(3-5)]) (simp add: StepFailed)
    moreover have "w_db s4 = (w_db s)\<lparr>db_workflows := db_workflows (w_db s) @ [w],
       db_agent_runs := db_agent_runs (w_db s) @ runs, db_approvals := db_approvals (w_db s) @ [],
       db_audit_logs := db_audit_logs (w_db s) @ rows\<rparr>" by (simp add: f(1) s3(1) w0(3))
    moreover have "distinct (map ap_id (db_approvals (w_db s) @ []))" using ok by (simp add: db_ok_def)
    ultimately show thesis by (intro wrap [OF _ f(2) _ f(6)])
  next
    case (AllDone results flagged)
    with fin have "finish_done sv (plan_of ty) w0 results flagged creator req s3 = (Inr (), s4)" by simp
    from finish_done_effect [OF this last] obtain w aps rows where f:
      "w_db s4 = (w_db s3)\<lparr>db_workflows := db_workflows (w_db s) @ [w],
         db_approvals := db_approvals (w_db s3) @ aps, db_audit_logs := db_audit_logs (w_db s3) @ rows\<rparr>"
      "same_case w0 w" "wf_error w = wf_error w0" "wf_result w = Some results"
      "if wp_requires_human_approval (plan_of ty) \<or> flagged
       then wf_status w = workflow_status_value WS_AWAITING_APPROVAL
         \<and> (\<exists>a. aps = [a] \<and> is_pending a \<and> ap_workflow_id a = wf_id w0
            \<and> ap_required_permission a = approval_permission (plan_of ty)
            \<and> ap_kind a = approval_kind_value AK_APPROVAL
            \<and> ap_id a \<notin> ap_id ` set (db_approvals (w_db s3)))
         \<and> audit_entries sv ''workflow.awaiting_approval'' (wf_id w0) creator rows
       else wf_status w = workflow_status_value WS_COMPLETED \<and> aps = []
         \<and> audit_entries sv ''workflow.completed'' (wf_id w0) creator rows" .
    have db4: "w_db s4 = (w_db s)\<lparr>db_workflows := db_workflows (w_db s) @ [w],
       db_agent_runs := db_agent_runs (w_db s) @ runs, db_approvals := db_approvals (w_db s) @ aps,
       db_audit_logs := db_audit_logs (w_db s) @ rows\<rparr>" by (simp add: f(1) s3(1) w0(3))
    have tr': "steps_trace (wf_id w) (map ps_agent (wp_steps (plan_of ty))) [] False runs
        (AllDone results flagged)" using tr kept [OF f(2)] by (simp add: AllDone)
    show thesis
    proof (cases "wp_requires_human_approval (plan_of ty) \<or> flagged")
      case True
      with f(5) obtain a where a: "aps = [a]" "is_pending a" "ap_workflow_id a = wf_id w0"
        "ap_required_permission a = approval_permission (plan_of ty)"
        "ap_id a \<notin> ap_id ` set (db_approvals (w_db s3))"
        "wf_status w = workflow_status_value WS_AWAITING_APPROVAL"
        "audit_entries sv ''workflow.awaiting_approval'' (wf_id w0) creator rows"
        "ap_kind a = approval_kind_value AK_APPROVAL" by auto
      have "start_outcome ty w runs aps ''workflow.awaiting_approval''"
        unfolding a(1) using kept [OF f(2)] a(3)
        by (intro start_outcome.parked [OF tr' True a(6) f(4) a(2) _ a(4) a(8)]) simp
      moreover have "distinct (map ap_id (db_approvals (w_db s) @ aps))"
        using ok a(5) by (simp add: db_ok_def a(1) s3(1) w0(3))
      ultimately show thesis using wrap [OF db4 f(2) _ a(7)] by simp
    next
      case False
      with f(5) have c: "wf_status w = workflow_status_value WS_COMPLETED" "aps = []"
        "audit_entries sv ''workflow.completed'' (wf_id w0) creator rows" by (auto split: if_splits)
      have "start_outcome ty w runs aps ''workflow.completed''"
        unfolding c(2) using tr' False by (intro start_outcome.completed [OF _ _ c(1) f(4)]) simp_all
      moreover have "distinct (map ap_id (db_approvals (w_db s) @ aps))"
        using ok by (simp add: db_ok_def c(2))
      ultimately show thesis using wrap [OF db4 f(2) _ c(3)] by simp
    qed
  qed
qed

end
