(* ===== verification/Decisions.thy ===== *)
theory Decisions
  imports WorkflowFacts
begin

text \<open>
  What a human decision does to the tables, and the two ways it is refused.
\<close>

section \<open>Refusals\<close>

lemma find_workflow_Some: "find_workflow i d = Some w \<Longrightarrow> w \<in> set (db_workflows d) \<and> wf_id w = i"
  by (auto simp: find_workflow_def dest: find_SomeD)

lemma decide_missing:
  "find_workflow i (w_db s) = None \<Longrightarrow>
     decide sv i target dec kind actor reason req s = (Inl (workflow_not_found i), s)"
  by (simp add: decide_def get_workflow_def reload_def bindE_def)

lemma decide_refused:
  assumes "find_workflow i (w_db s) = Some w" "wf_status w = workflow_status_value current"
    and "current \<notin> set DECIDABLE"
  shows "decide sv i target dec kind actor reason req s = (Inl (not_decidable i current), s)"
  using assms by (simp add: decide_def get_workflow_def reload_def bindE_def view_of_def throw_def
      workflow_status.parse_val)

lemma decide_unqueued:
  assumes "find_workflow i (w_db s) = Some w" "\<not> is_queued w"
  shows "snd (decide sv i target dec kind actor reason req s) = s
    \<and> (\<forall>cur. wf_status w = workflow_status_value cur \<longrightarrow>
         decide sv i target dec kind actor reason req s = (Inl (not_decidable i cur), s))"
proof (cases "enum_parse workflow_status_value (wf_status w)")
  case None
  then have "wf_status w \<noteq> workflow_status_value cur" for cur
    using workflow_status.parse_val [of cur] by auto
  with None assms(1) show ?thesis
    by (simp add: decide_def get_workflow_def reload_def bindE_def view_of_def throw_def)
next
  case (Some cur)
  from enum_parse_value [OF Some] have st: "wf_status w = workflow_status_value cur" by simp
  with assms(2) have "cur \<notin> set DECIDABLE" unfolding is_queued_def by blast
  from decide_refused [OF assms(1) st this] show ?thesis
    using workflow_status.parse_val Some unfolding st by fastforce
qed

section \<open>The change of the approvals\<close>

text \<open>The columns of an approval that a decision fills in, and those it keeps.\<close>

definition decision_of ::
  "approval_decision \<Rightarrow> approval_kind \<Rightarrow> uuid \<Rightarrow> string option \<Rightarrow> approval_row \<Rightarrow> bool" where
  "decision_of dec kind actor reason a \<longleftrightarrow> ap_decision a = approval_decision_value dec
     \<and> ap_kind a = approval_kind_value kind \<and> ap_decided_by a = Some actor
     \<and> ap_decision_reason a = reason"

definition same_request :: "approval_row \<Rightarrow> approval_row \<Rightarrow> bool" where
  "same_request a a' \<longleftrightarrow> ap_id a' = ap_id a \<and> ap_workflow_id a' = ap_workflow_id a
     \<and> ap_required_permission a' = ap_required_permission a \<and> ap_summary a' = ap_summary a"

inductive settles ::
  "approval_decision \<Rightarrow> approval_kind \<Rightarrow> uuid \<Rightarrow> string option \<Rightarrow> uuid \<Rightarrow> approval_row list
     \<Rightarrow> approval_row list \<Rightarrow> bool"
  for dec kind actor reason i where
  answered: "List.find (\<lambda>a. ap_workflow_id a = i \<and> is_pending a) as = Some a \<Longrightarrow> same_request a a' \<Longrightarrow>
     decision_of dec kind actor reason a' \<Longrightarrow>
     settles dec kind actor reason i as (map (\<lambda>x. if ap_id x = ap_id a then a' else x) as)"
| added: "List.find (\<lambda>a. ap_workflow_id a = i \<and> is_pending a) as = None \<Longrightarrow> ap_workflow_id a' = i \<Longrightarrow>
     ap_id a' \<notin> ap_id ` set as \<Longrightarrow> ap_required_permission a' = ''workflow:approve'' \<Longrightarrow>
     decision_of dec kind actor reason a' \<Longrightarrow> settles dec kind actor reason i as (as @ [a'])"

inductive_cases settlesE: "settles dec kind actor reason i as bs"

lemma find_filter_and: "List.find P (filter Q xs) = List.find (\<lambda>x. Q x \<and> P x) xs"
  by (induction xs) auto

lemma pending_of_view:
  "pending_approval (view_of d w) =
     List.find (\<lambda>a. ap_workflow_id a = wf_id w \<and> is_pending a) (db_approvals d)"
  by (simp add: pending_approval_def view_of_def find_filter_and is_pending_def)

lemma settle_approval_effect:
  assumes "settle_approval v dec kind actor reason s = (Inr x, t)"
    and "pending_approval v = List.find (\<lambda>a. ap_workflow_id a = i \<and> is_pending a) (db_approvals (w_db s))"
    and "wf_id (wv_workflow v) = i" "distinct (map ap_id (db_approvals (w_db s)))"
  obtains bs where "w_db t = (w_db s)\<lparr>db_approvals := bs\<rparr>"
    "settles dec kind actor reason i (db_approvals (w_db s)) bs"
proof (cases "pending_approval v")
  case None
  then have "insert_row (same_key ap_id) db_approvals db_approvals_update
      (\<lambda>j c u. decided_approval dec kind actor reason (fresh_approval i j c u)) s = (Inr x, t)"
    using assms(1,3) by (simp add: settle_approval_def insert_approval_def)
  from insert_row_Inr [OF this] obtain j c u where
    row: "x = decided_approval dec kind actor reason (fresh_approval i j c u)"
    "\<not> list_ex (same_key ap_id x) (db_approvals (w_db s))"
    "w_db t = db_approvals_update (\<lambda>rs. rs @ [x]) (w_db s)" by blast
  then have db: "w_db t = (w_db s)\<lparr>db_approvals := db_approvals (w_db s) @ [x]\<rparr>" by simp
  have "settles dec kind actor reason i (db_approvals (w_db s)) (db_approvals (w_db s) @ [x])"
  proof (rule settles.added)
    show "List.find (\<lambda>a. ap_workflow_id a = i \<and> is_pending a) (db_approvals (w_db s)) = None"
      using None assms(2) by simp
    show "ap_id x \<notin> ap_id ` set (db_approvals (w_db s))"
      using row(2) by (auto simp: list_ex_iff same_key_def)
    show "ap_workflow_id x = i" "ap_required_permission x = ''workflow:approve''"
      "decision_of dec kind actor reason x"
      by (simp_all add: row(1) decided_approval_def fresh_approval_def new_approval_def decision_of_def)
  qed
  with db show thesis by (rule that)
next
  case (Some a)
  let ?a = "decided_approval dec kind actor reason a"
  have "update_approval ?a s = (Inr x, t)" using assms(1) Some by (simp add: settle_approval_def)
  moreover obtain r' u where upd: "update_approval ?a s = (Inr r', u)"
    "w_db u = (w_db s)\<lparr>db_approvals :=
       map (\<lambda>x. if ap_id x = ap_id ?a then r' else x) (db_approvals (w_db s))\<rparr>"
    "r' = ?a \<or> (\<exists>n. r' = ?a\<lparr>ap_updated_at := n\<rparr>)"
    using update_approval_run [OF assms(4)] by blast
  ultimately have t: "t = u" by simp
  have id: "ap_id ?a = ap_id a" by (simp add: decided_approval_def)
  have "same_request a r'" "decision_of dec kind actor reason r'"
    using upd(3) by (auto simp: same_request_def decision_of_def decided_approval_def)
  from settles.answered [OF Some [unfolded assms(2)] this] show thesis
    using upd(2) by (intro that) (simp_all only: t id)
qed

lemma settles_distinct:
  assumes "settles dec kind actor reason i as bs" "distinct (map ap_id as)"
  shows "distinct (map ap_id bs)"
  using assms(1)
proof cases
  case (answered a a')
  have "map ap_id bs = map ap_id as" using answered by (auto simp: same_request_def)
  with assms(2) show ?thesis by simp
qed (use assms(2) in auto)

section \<open>A whole decision\<close>

lemma find_replaced:
  assumes "find_workflow i d = Some w" "wf_id w' = i"
    "db_workflows d' = map (\<lambda>x. if wf_id x = i then w' else x) (db_workflows d)"
  shows "find_workflow i d' = Some w'"
proof -
  have "List.find (\<lambda>x. wf_id x = i) xs = Some w \<Longrightarrow>
      List.find (\<lambda>x. wf_id x = i) (map (\<lambda>x. if wf_id x = i then w' else x) xs) = Some w'" for xs
    using assms(2) by (induction xs) (auto split: if_splits)
  then show ?thesis using assms(1,3) by (simp add: find_workflow_def)
qed

lemma decide_effect:
  assumes run: "decide sv i target dec kind actor reason req s = (Inr v, t)" and ok: "db_ok (w_db s)"
  obtains w w' bs rows where
    "find_workflow i (w_db s) = Some w" "is_queued w" "same_case w w'"
    "wf_status w' = workflow_status_value (final_status target)"
    "wf_result w' = wf_result w" "wf_error w' = wf_error w"
    "w_db t = (w_db s)\<lparr>db_workflows := map (\<lambda>x. if wf_id x = i then w' else x) (db_workflows (w_db s)),
       db_approvals := bs, db_audit_logs := db_audit_logs (w_db s) @ rows\<rparr>"
    "settles dec kind actor reason i (db_approvals (w_db s)) bs"
    "audit_entries sv (''workflow.'' @ approval_decision_value dec) i (Some actor) rows"
    "v = view_of (w_db t) w'" "db_ok (w_db t)"
proof -
  obtain w where w: "find_workflow i (w_db s) = Some w"
    using run decide_missing [of i s sv target dec kind actor reason req] by (cases "find_workflow i (w_db s)") auto
  note wid = find_workflow_Some [OF w]
  let ?w = "w\<lparr>wf_status := workflow_status_value (final_status target)\<rparr>"
  let ?v = "view_of (w_db s) w"
  have wv: "wv_workflow ?v = w" by (simp add: view_of_def)
  obtain current where cur: "enum_parse workflow_status_value (wf_status w) = Some current"
    "current \<in> set DECIDABLE"
    and rest: "bindE (update_workflow ?w) (\<lambda>w'. thenE (settle_approval ?v dec kind actor reason)
        (thenE (maybe_audit sv (''workflow.'' @ approval_decision_value dec) w' (Some actor) req
                [(''reason'', JStr (case reason of None \<Rightarrow> '''' | Some r \<Rightarrow> r))])
             (reload i))) s = (Inr v, t)"
    using run by (auto simp: decide_def get_workflow_def reload_def w bindE_def throw_def wv
        split: option.splits if_splits)
  have queued: "is_queued w" using cur(2) enum_parse_value [OF cur(1)] unfolding is_queued_def by (metis image_eqI)
  obtain w' u where w': "update_workflow ?w s = (Inr w', u)"
    "w_db u = (w_db s)\<lparr>db_workflows := map (\<lambda>x. if wf_id x = wf_id ?w then w' else x) (db_workflows (w_db s))\<rparr>"
    "w' = ?w \<or> (\<exists>n. w' = ?w\<lparr>wf_updated_at := n\<rparr>)"
    using update_workflow_run [of s ?w] ok by (auto simp: db_ok_def)
  have col: "same_case w w'" "wf_status w' = workflow_status_value (final_status target)"
    "wf_result w' = wf_result w" "wf_error w' = wf_error w"
    using w'(3) by (auto simp: same_case_def)
  have id': "wf_id w' = i" using col(1) wid by (simp add: same_case_def)
  obtain x p q where steps: "settle_approval ?v dec kind actor reason u = (Inr x, p)"
    "maybe_audit sv (''workflow.'' @ approval_decision_value dec) w' (Some actor) req
        [(''reason'', JStr (case reason of None \<Rightarrow> '''' | Some r \<Rightarrow> r))] p = (Inr (), q)"
    "reload i q = (Inr v, t)"
    using rest by (auto simp: bindE_Inr thenE_def w'(1))
  have aps: "db_approvals (w_db u) = db_approvals (w_db s)" by (simp add: w'(2))
  obtain bs where bs: "w_db p = (w_db u)\<lparr>db_approvals := bs\<rparr>"
    "settles dec kind actor reason i (db_approvals (w_db u)) bs"
    using settle_approval_effect [OF steps(1), of i] ok wid pending_of_view [of "w_db s" w]
    by (auto simp: aps wv db_ok_def)
  obtain rows where rows: "w_db q = (w_db p)\<lparr>db_audit_logs := db_audit_logs (w_db p) @ rows\<rparr>"
    "audit_entries sv (''workflow.'' @ approval_decision_value dec) (wf_id w') (Some actor) rows"
    using maybe_audit_Inr [OF steps(2)] audit_entriesI by metis
  from reload_Inr [OF steps(3)] have t: "t = q" by blast
  have db: "w_db t = (w_db s)\<lparr>db_workflows := map (\<lambda>x. if wf_id x = i then w' else x) (db_workflows (w_db s)),
       db_approvals := bs, db_audit_logs := db_audit_logs (w_db s) @ rows\<rparr>"
    using wid by (simp add: t rows(1) bs(1) w'(2))
  have "find_workflow i (w_db t) = Some w'" by (rule find_replaced [OF w id']) (simp add: db)
  with reload_Inr [OF steps(3)] have v: "v = view_of (w_db t) w'" by (auto simp: t)
  have "map wf_id (map (\<lambda>x. if wf_id x = i then w' else x) (db_workflows (w_db s)))
      = map wf_id (db_workflows (w_db s))" using id' by auto
  then have "db_ok (w_db t)"
    using ok settles_distinct [OF bs(2)] by (simp add: db_ok_def db aps del: map_map)
  with w queued col db bs(2) rows(2) v show thesis unfolding aps id' by (rule that)
qed

end
