(* ===== verification/Lifecycle.thy ===== *)
theory Lifecycle
  imports Decisions
begin

text \<open>
  The cases of the workflow service as a transition system: the requests that start a case or
  decide one, each in its own transaction, and whatever else happens to the rest of the database.
  The invariant says what each status of a case implies for its approvals.
\<close>

text \<open>The strings stored for the members stay folded: only their difference matters here.\<close>

declare workflow_status_value.simps [simp del] approval_decision_value.simps [simp del]
declare workflow_status.val_eq_iff [simp] approval_decision.val_eq_iff [simp]

section \<open>Requests\<close>

datatype request =
    StartCase workflow_type json_dict "uuid option" "string option"
  | ApproveCase uuid uuid "string option" "string option"
  | RejectCase uuid uuid "string option" "string option"
  | EscalateCase uuid uuid "string option" "string option"

fun serve :: "wf_service \<Rightarrow> request \<Rightarrow> workflow_view action" where
  "serve sv (StartCase ty input creator req) = in_transaction (start_workflow sv ty input creator req)"
| "serve sv (ApproveCase i actor reason req) = in_transaction (approve_workflow sv i actor reason req)"
| "serve sv (RejectCase i actor reason req) = in_transaction (reject_workflow sv i actor reason req)"
| "serve sv (EscalateCase i actor reason req) = in_transaction (escalate_workflow sv i actor reason req)"

fun_cases serve_elims: "serve sv rq = m"

definition same_cases :: "db \<Rightarrow> db \<Rightarrow> bool" where
  "same_cases d d' \<longleftrightarrow> db_workflows d' = db_workflows d \<and> db_approvals d' = db_approvals d
     \<and> db_agent_runs d' = db_agent_runs d"

inductive reachable :: "wf_service \<Rightarrow> world \<Rightarrow> bool" for sv where
  initial: "db_workflows (w_db s) = [] \<Longrightarrow> db_approvals (w_db s) = [] \<Longrightarrow> db_agent_runs (w_db s) = []
     \<Longrightarrow> reachable sv s"
| served: "reachable sv s \<Longrightarrow> serve sv rq s = (r, t) \<Longrightarrow> reachable sv t"
| elsewhere: "reachable sv s \<Longrightarrow> same_cases (w_db s) (w_db t) \<Longrightarrow> reachable sv t"

section \<open>The states of a case\<close>

definition approvals_of :: "uuid \<Rightarrow> approval_row list \<Rightarrow> approval_row list" where
  "approvals_of i as = filter (\<lambda>a. ap_workflow_id a = i) as"

text \<open>A decision taken by a person.\<close>

definition decided :: "approval_decision \<Rightarrow> approval_row \<Rightarrow> bool" where
  "decided dec a \<longleftrightarrow> ap_decision a = approval_decision_value dec \<and> ap_decided_by a \<noteq> None"

definition escalations :: "approval_row list \<Rightarrow> bool" where
  "escalations as \<longleftrightarrow> (\<forall>a \<in> set as. decided AD_ESCALATED a)"

text \<open>
  What is left of a case: closed by the run, failed, waiting for its first decision, or decided,
  any number of escalations having come first.
\<close>

inductive case_state :: "workflow_type \<Rightarrow> string \<Rightarrow> approval_row list \<Rightarrow> bool" where
  unattended: "\<not> wp_requires_human_approval (plan_of ty) \<Longrightarrow>
     case_state ty (workflow_status_value WS_COMPLETED) []"
| broken: "case_state ty (workflow_status_value WS_FAILED) []"
| waiting: "is_pending a \<Longrightarrow> ap_required_permission a = approval_permission (plan_of ty) \<Longrightarrow>
     case_state ty (workflow_status_value WS_AWAITING_APPROVAL) [a]"
| escalated: "es \<noteq> [] \<Longrightarrow> escalations es \<Longrightarrow> case_state ty (workflow_status_value WS_ESCALATED) es"
| approved: "escalations es \<Longrightarrow> decided AD_APPROVED a \<Longrightarrow>
     case_state ty (workflow_status_value WS_COMPLETED) (es @ [a])"
| rejected: "escalations es \<Longrightarrow> decided AD_REJECTED a \<Longrightarrow>
     case_state ty (workflow_status_value WS_REJECTED) (es @ [a])"

inductive_cases case_stateE: "case_state ty st as"
inductive_cases waitingE: "case_state ty (workflow_status_value WS_AWAITING_APPROVAL) as"
inductive_cases escalatedE: "case_state ty (workflow_status_value WS_ESCALATED) as"
inductive_simps completed_iff: "case_state ty (workflow_status_value WS_COMPLETED) as"

definition case_ok :: "db \<Rightarrow> workflow_row \<Rightarrow> bool" where
  "case_ok d w \<longleftrightarrow> (\<exists>ty. wf_type w = workflow_type_value ty
     \<and> wf_requires_human_approval w = wp_requires_human_approval (plan_of ty)
     \<and> case_state ty (wf_status w) (approvals_of (wf_id w) (db_approvals d)))"

definition cases_ok :: "db \<Rightarrow> bool" where
  "cases_ok d \<longleftrightarrow> db_ok d \<and> (\<forall>w \<in> set (db_workflows d). case_ok d w)
     \<and> (\<forall>a \<in> set (db_approvals d). ap_workflow_id a \<in> wf_id ` set (db_workflows d))"

lemma cases_ok_same: "same_cases d d' \<Longrightarrow> cases_ok d \<Longrightarrow> cases_ok d'"
  by (simp add: cases_ok_def same_cases_def case_ok_def db_ok_def)

section \<open>What a decision does to the approvals of a case\<close>

lemma approvals_of_append [simp]: "approvals_of i (as @ bs) = approvals_of i as @ approvals_of i bs"
  by (simp add: approvals_of_def)

lemma approvals_of_replace:
  assumes "a \<in> set as" "distinct (map ap_id as)" "same_request a a'"
  shows "approvals_of i (map (\<lambda>x. if ap_id x = ap_id a then a' else x) as) =
    map (\<lambda>x. if ap_id x = ap_id a then a' else x) (approvals_of i as)"
proof -
  have "ap_workflow_id x = ap_workflow_id a'" if "x \<in> set as" "ap_id x = ap_id a" for x
    using distinct_map_fst_unique [OF assms(2) that(1) assms(1) that(2)] assms(3)
    by (simp add: same_request_def)
  then show ?thesis by (induction as) (auto simp: approvals_of_def)
qed

lemma settles_other:
  assumes "settles dec kind actor reason i as bs" "distinct (map ap_id as)" "j \<noteq> i"
  shows "approvals_of j bs = approvals_of j as"
  using assms(1)
proof cases
  case (answered a a')
  then have a: "a \<in> set as" "ap_workflow_id a = i" by (auto dest: find_SomeD)
  have "ap_id x \<noteq> ap_id a" if "x \<in> set (approvals_of j as)" for x
    using that distinct_map_fst_unique [OF assms(2) _ a(1)] a(2) assms(3)
    by (auto simp: approvals_of_def)
  then show ?thesis
    unfolding answered(1) approvals_of_replace [OF a(1) assms(2) answered(3)]
    by (intro map_idI) auto
next
  case (added a')
  with assms(3) show ?thesis by (simp add: approvals_of_def)
qed

lemma settles_waiting:
  assumes "settles dec kind actor reason i as bs" "distinct (map ap_id as)"
    and "approvals_of i as = [a]" "is_pending a"
  obtains a' where "approvals_of i bs = [a']" "same_request a a'" "decision_of dec kind actor reason a'"
  using assms(1)
proof cases
  case (answered b b')
  then have b: "b \<in> set as" "b \<in> set (approvals_of i as)" by (auto simp: approvals_of_def dest: find_SomeD)
  with assms(3) have "b = a" by simp
  with answered approvals_of_replace [OF b(1) assms(2) answered(3), of i] assms(3) show thesis
    by (intro that [of b']) simp_all
next
  case (added a')
  have "a \<in> set as" "ap_workflow_id a = i"
    using assms(3) by (auto simp: approvals_of_def filter_eq_Cons_iff)
  with added(2) assms(4) show thesis by (auto simp: find_None_iff)
qed

lemma settles_decided:
  assumes "settles dec kind actor reason i as bs" "\<forall>a \<in> set (approvals_of i as). \<not> is_pending a"
  obtains a' where "approvals_of i bs = approvals_of i as @ [a']" "decision_of dec kind actor reason a'"
  using assms(1)
proof cases
  case (answered b b')
  then show thesis using assms(2) by (auto simp: approvals_of_def dest: find_SomeD)
next
  case (added a')
  then show thesis by (intro that [of a']) (simp_all add: approvals_of_def)
qed

section \<open>Decisions keep the states\<close>

definition verdicts :: "(workflow_status \<times> approval_decision) set" where
  "verdicts = {(WS_APPROVED, AD_APPROVED), (WS_REJECTED, AD_REJECTED), (WS_ESCALATED, AD_ESCALATED)}"

lemma decision_decided: "decision_of dec kind actor reason a \<Longrightarrow> decided dec a"
  by (simp add: decision_of_def decided_def)

lemma decided_not_pending: "decided dec a \<Longrightarrow> dec \<noteq> AD_PENDING \<Longrightarrow> \<not> is_pending a"
  by (auto simp: decided_def is_pending_def)

lemma escalations_append: "escalations (es @ [a]) \<longleftrightarrow> escalations es \<and> decided AD_ESCALATED a"
  by (auto simp: escalations_def)

lemma verdict_state:
  assumes "escalations es" "decided dec a" "(target, dec) \<in> verdicts"
  shows "case_state ty (workflow_status_value (final_status target)) (es @ [a])"
proof -
  from assms(3) consider "target = WS_APPROVED" "dec = AD_APPROVED"
    | "target = WS_REJECTED" "dec = AD_REJECTED" | "target = WS_ESCALATED" "dec = AD_ESCALATED"
    by (auto simp: verdicts_def)
  then show ?thesis
  proof cases
    case 1
    with assms(1,2) show ?thesis
      unfolding final_status_def by (simp only: if_True simp_thms case_state.approved)
  next
    case 2
    then have "final_status target = WS_REJECTED" by (simp add: final_status_def)
    with assms(1,2) 2 show ?thesis by (simp only: case_state.rejected)
  next
    case 3
    then have "final_status target = WS_ESCALATED" by (simp add: final_status_def)
    moreover have "escalations (es @ [a])" using assms(1,2) 3 by (simp add: escalations_append)
    ultimately show ?thesis by (simp only: case_state.escalated append_is_Nil_conv not_Cons_self2 simp_thms)
  qed
qed

lemma queued_cases:
  assumes "is_queued w"
  obtains "wf_status w = workflow_status_value WS_AWAITING_APPROVAL"
    | "wf_status w = workflow_status_value WS_ESCALATED"
  using assms by (auto simp: is_queued_def DECIDABLE_def)

lemma awaiting_state:
  assumes "case_state ty (workflow_status_value WS_AWAITING_APPROVAL) as"
  obtains a where "as = [a]" "is_pending a" "ap_required_permission a = approval_permission (plan_of ty)"
  using assms by (elim waitingE) simp_all

lemma escalated_state:
  "case_state ty (workflow_status_value WS_ESCALATED) as \<Longrightarrow> as \<noteq> [] \<and> escalations as"
  by (elim escalatedE) simp_all

lemma settled_state:
  assumes "case_state ty (wf_status w) (approvals_of i as)" "is_queued w"
    and "settles dec kind actor reason i as bs" "distinct (map ap_id as)" "(target, dec) \<in> verdicts"
  shows "case_state ty (workflow_status_value (final_status target)) (approvals_of i bs)"
  using assms(2)
proof (cases rule: queued_cases)
  case 1
  with assms(1) obtain a where a: "approvals_of i as = [a]" "is_pending a" by (auto elim: awaiting_state)
  obtain a' where "approvals_of i bs = [a']" "decision_of dec kind actor reason a'"
    by (rule settles_waiting [OF assms(3,4) a])
  with verdict_state [of "[]" dec a' target ty] assms(5) show ?thesis
    by (simp add: escalations_def decision_decided)
next
  case 2
  with assms(1) have es: "escalations (approvals_of i as)" using escalated_state by simp
  then have "\<forall>a \<in> set (approvals_of i as). \<not> is_pending a"
    unfolding escalations_def using decided_not_pending by blast
  from settles_decided [OF assms(3) this] obtain a' where
    "approvals_of i bs = approvals_of i as @ [a']" "decision_of dec kind actor reason a'" .
  with verdict_state [OF es decision_decided assms(5)] show ?thesis by simp
qed

lemma decide_keeps_cases:
  assumes "decide sv i target dec kind actor reason req s = (Inr v, t)"
    and "(target, dec) \<in> verdicts" "cases_ok (w_db s)"
  shows "cases_ok (w_db t)"
proof -
  have ok: "db_ok (w_db s)" using assms(3) by (simp add: cases_ok_def)
  obtain w w' bs rows where d:
    "find_workflow i (w_db s) = Some w" "is_queued w" "same_case w w'"
    "wf_status w' = workflow_status_value (final_status target)"
    and "wf_result w' = wf_result w" "wf_error w' = wf_error w"
    and db: "w_db t = (w_db s)\<lparr>db_workflows := map (\<lambda>x. if wf_id x = i then w' else x) (db_workflows (w_db s)),
       db_approvals := bs, db_audit_logs := db_audit_logs (w_db s) @ rows\<rparr>"
    and bs: "settles dec kind actor reason i (db_approvals (w_db s)) bs"
    and "audit_entries sv (''workflow.'' @ approval_decision_value dec) i (Some actor) rows"
      "v = view_of (w_db t) w'"
    and ok': "db_ok (w_db t)" by (rule decide_effect [OF assms(1) ok])
  note w = find_workflow_Some [OF d(1)]
  have dist: "distinct (map ap_id (db_approvals (w_db s)))" using ok by (simp add: db_ok_def)
  have id': "wf_id w' = i" using d(3) w by (simp add: same_case_def)
  have new: "case_ok (w_db t) w'"
  proof -
    obtain ty where ty: "wf_type w = workflow_type_value ty"
      "wf_requires_human_approval w = wp_requires_human_approval (plan_of ty)"
      "case_state ty (wf_status w) (approvals_of i (db_approvals (w_db s)))"
      using assms(3) w by (auto simp: cases_ok_def case_ok_def)
    from settled_state [OF ty(3) d(2) bs dist assms(2)] show ?thesis
      using ty(1,2) d(3,4) id' by (auto simp: case_ok_def db same_case_def)
  qed
  have old: "case_ok (w_db t) x" if "x \<in> set (db_workflows (w_db s))" "wf_id x \<noteq> i" for x
    using assms(3) that settles_other [OF bs dist that(2)] by (simp add: cases_ok_def case_ok_def db)
  have refs: "wf_id ` set (db_workflows (w_db t)) = wf_id ` set (db_workflows (w_db s))"
  proof -
    have "map wf_id (db_workflows (w_db t)) = map wf_id (db_workflows (w_db s))" using id' by (simp add: db)
    from arg_cong [OF this, of set] show ?thesis by (simp only: set_map)
  qed
  have "ap_workflow_id a \<in> ap_workflow_id ` set (db_approvals (w_db s)) \<or> ap_workflow_id a = i"
    if "a \<in> set bs" for a
    using bs
  proof cases
    case (answered b b')
    with that show ?thesis by (auto simp: same_request_def dest!: find_SomeD split: if_splits)
  next
    case (added b')
    with that show ?thesis by auto
  qed
  then have "\<forall>a \<in> set (db_approvals (w_db t)). ap_workflow_id a \<in> wf_id ` set (db_workflows (w_db t))"
    unfolding refs using assms(3) w by (fastforce simp: cases_ok_def db)
  moreover have "\<forall>x \<in> set (db_workflows (w_db t)). case_ok (w_db t) x"
    using new old by (auto simp: db)
  ultimately show ?thesis using ok' by (simp add: cases_ok_def)
qed

section \<open>Starts keep the states\<close>

lemma start_outcome_state:
  "start_outcome ty w runs aps act \<Longrightarrow> case_state ty (wf_status w) aps
     \<and> (\<forall>a \<in> set aps. ap_workflow_id a = wf_id w)"
  by (cases rule: start_outcome.cases, assumption)
    (simp_all add: case_state.broken case_state.waiting case_state.unattended)

lemma start_keeps_cases:
  assumes "start_workflow sv ty input creator req s = (Inr v, t)"
    and "quiet_executor (sv_executor sv)" "cases_ok (w_db s)"
  shows "cases_ok (w_db t)"
proof -
  have ok: "db_ok (w_db s)" using assms(3) by (simp add: cases_ok_def)
  from start_effect [OF assms(1,2) ok] obtain w runs aps rows act where e:
    "w_db t = (w_db s)\<lparr>db_workflows := db_workflows (w_db s) @ [w],
       db_agent_runs := db_agent_runs (w_db s) @ runs, db_approvals := db_approvals (w_db s) @ aps,
       db_audit_logs := db_audit_logs (w_db s) @ rows\<rparr>"
    "db_ok (w_db t)" "wf_id w \<notin> wf_id ` set (db_workflows (w_db s))"
    "start_outcome ty w runs aps act" "wf_type w = workflow_type_value ty"
    "wf_requires_human_approval w = wp_requires_human_approval (plan_of ty)" by metis
  note st = start_outcome_state [OF e(4)]
  have none: "approvals_of (wf_id w) (db_approvals (w_db s)) = []"
  proof -
    have "ap_workflow_id a \<in> wf_id ` set (db_workflows (w_db s))"
      if "a \<in> set (db_approvals (w_db s))" for a
      using assms(3) that by (simp add: cases_ok_def)
    with e(3) show ?thesis unfolding approvals_of_def filter_empty_conv by metis
  qed
  have all: "approvals_of (wf_id w) aps = aps" "x \<noteq> wf_id w \<Longrightarrow> approvals_of x aps = []" for x
    using st by (auto simp: approvals_of_def filter_id_conv filter_empty_conv)
  have "case_ok (w_db t) w" using st e(5,6) by (auto simp: case_ok_def e(1) none all)
  moreover have "case_ok (w_db t) x" if "x \<in> set (db_workflows (w_db s))" for x
  proof -
    have "wf_id x \<noteq> wf_id w" using that e(3) by (metis image_eqI)
    with assms(3) that show ?thesis by (simp add: cases_ok_def case_ok_def e(1) all)
  qed
  moreover have "\<forall>a \<in> set (db_approvals (w_db t)). ap_workflow_id a \<in> wf_id ` set (db_workflows (w_db t))"
    using assms(3) st by (auto simp: cases_ok_def e(1))
  ultimately show ?thesis using e(2) by (simp add: cases_ok_def e(1))
qed

section \<open>Reachable states\<close>

lemma serve_keeps_cases:
  assumes "serve sv rq s = (r, t)" "quiet_executor (sv_executor sv)" "cases_ok (w_db s)"
  shows "cases_ok (w_db t)"
proof (cases r)
  case (Inl e)
  have "w_db t = w_db s" using assms(1) in_transaction_Inl unfolding Inl by (cases rq) fastforce+
  with assms(3) show ?thesis by simp
next
  case (Inr v)
  note decides = approve_workflow_def reject_workflow_def escalate_workflow_def
  have "cases_ok (w_db t)"
    if "decide sv i target dec kind actor reason req s = (Inr v, t)" "(target, dec) \<in> verdicts"
    for i target dec kind actor reason req
    by (rule decide_keeps_cases [OF that assms(3)])
  then show ?thesis
    using assms(1) start_keeps_cases [OF _ assms(2,3)] unfolding Inr
    by (cases rq) (auto simp: in_transaction_Inr decides verdicts_def)
qed

lemma initial_cases: "db_workflows d = [] \<Longrightarrow> db_approvals d = [] \<Longrightarrow> db_agent_runs d = [] \<Longrightarrow> cases_ok d"
  by (simp add: cases_ok_def db_ok_def)

lemma reachable_cases_ok:
  assumes "reachable sv s" "quiet_executor (sv_executor sv)"
  shows "cases_ok (w_db s)"
  using assms(1)
proof induction
  case (served s rq r t)
  show ?case by (rule serve_keeps_cases [OF served.hyps(2) assms(2) served.IH])
qed (auto intro: initial_cases cases_ok_same)

declare workflow_status_value.simps [simp] approval_decision_value.simps [simp]

end
