(* ===== verification/Samples.thy ===== *)
theory Samples
  imports Lifecycle
begin

text \<open>
  Concrete instances: a world in which identifiers and times are counted up and no endpoint can be
  reached, a validation of inputs that meets \<open>pydantic_spec\<close>, and a workflow service over them.
  The hypotheses of the properties are discharged on these.
\<close>

text \<open>The position of each stream that matters is an argument.\<close>

definition w_at :: "nat \<Rightarrow> nat \<Rightarrow> nat \<Rightarrow> db \<Rightarrow> world" where
  "w_at u c p d = \<lparr> en_uuid = (\<lambda>n. of_nat (Suc n)), en_uuid_pos = u,
     en_clock = (\<lambda>n. 1700000000000000 + 1000000 * int n), en_clock_pos = c,
     en_today = (\<lambda>_. \<lparr> dt_year = 2026, dt_month = 6, dt_day = 26 \<rparr>), en_today_pos = 0,
     en_perf = (\<lambda>_. 0), en_perf_pos = p, en_salt = (\<lambda>n. n), en_salt_pos = 0,
     en_net = (\<lambda>_. HttpTransport ''ConnectError''), en_net_pos = 0, en_sent = [],
     w_db = d, w_tele = \<lparr> tl_model_calls = [], tl_costs = [] \<rparr>, w_vectors = [],
     w_files = Map.empty([''tmp''] \<mapsto> Dir) \<rparr>"

text \<open>How the operations of the environment and of the tables run on it.\<close>

lemma w_at_ops [simp]:
  "uuid4 (w_at u c p d) = (Inr (of_nat (Suc u)), w_at (Suc u) c p d)"
  "utc_now (w_at u c p d) = (Inr (1700000000000000 + 1000000 * int c), w_at u (Suc c) p d)"
  "perf_counter (w_at u c p d) = (Inr (Fin 0), w_at u c (Suc p) d)"
  "w_db (w_at u c p d) = d"
  "(w_at u c p d)\<lparr>w_db := d'\<rparr> = w_at u c p d'"
  by (simp_all add: w_at_def uuid4_def utc_now_def perf_counter_def ns_to_seconds_def)

lemma execute_w_at [simp]:
  "execute name pv (pure_run r) (w_at u c p d) =
    ((case r of Inl e \<Rightarrow> Inr (failed_outcome name pv (failure_text e) 0)
      | Inr out \<Rightarrow> Inr (succeeded_outcome name pv out 0)), w_at u c (p + 2) d)"
  by (cases r) (simp_all add: execute_def exec_simps pure_run_def elapsed_ms_def trunc_def fsub_def)

lemma plan_w_at [simp]: "plan_workflow ty (w_at u c p d) = (Inr (plan_of ty), w_at u c (p + 2) d)"
  by (simp add: plan_workflow_def bindE_def run_orchestrator_plan succeeded_outcome_def ret_def)

lemma insert_w_at [simp]:
  "insert_row clash rows upd mk (w_at u c p d) =
     (let r = mk (of_nat (Suc u)) (1700000000000000 + 1000000 * int c) (1700000000000000 + 1000000 * int (Suc c))
      in if list_ex (clash r) (rows d) then (Inl integrity_error, w_at (Suc u) (c + 2) p d)
         else (Inr r, w_at (Suc u) (c + 2) p (upd (\<lambda>rs. rs @ [r]) d)))"
  by (simp add: insert_row_def bindE_def Let_def)

lemma update_w_at [simp]:
  "update_row key rows upd touch r (w_at u c p d) =
     (if r \<in> set (rows d) then (Inr r, w_at u c p d)
      else (let n = 1700000000000000 + 1000000 * int c in (Inr (touch n r), w_at u (Suc c) p
         (upd (map (\<lambda>x. if key x = key r then touch n r else x)) d))))"
  by (simp add: update_row_def bindE_def Let_def)
definition fresh_world :: world where
  "fresh_world = w_at 0 0 0 empty_db"

text \<open>Inputs are taken where they have the declared shape; the others are fixed valid ones.\<close>

definition not_valid :: exn where
  "not_valid = Py ''ValidationError'' ''Input is not valid''"

definition plain_transaction :: fraud_txn where
  "plain_transaction = \<lparr> tx_amount = Fin 50, tx_currency = ''USD'', tx_country = None,
     tx_account_age_days = 400, tx_is_new_beneficiary = False, tx_beneficiary_country = None,
     tx_channel = ''web'', tx_hour_of_day = 12, tx_recent_failed_logins = 0 \<rparr>"

definition sample_coercers :: coercers where
  "sample_coercers = \<lparr>
     cx_document = (\<lambda>i k t x. case (i, k, t, x) of
         (JStr i, JStr k, JStr t, JArr []) \<Rightarrow> (case uuid_parse i of None \<Rightarrow> Inl not_valid
           | Some u \<Rightarrow> Inr \<lparr> di_document_id = u, di_kind = k, di_text = t, di_extra_expected_fields = [] \<rparr>)
       | _ \<Rightarrow> Inl not_valid),
     cx_kyc = (\<lambda>p d. Inr \<lparr> ki_profile = [], ki_document_fields = [], ki_today = None \<rparr>),
     cx_fraud = (\<lambda>t a. Inr \<lparr> fi_transaction = plain_transaction, fi_customer_avg_amount = Fin 0 \<rparr>),
     cx_loan = (\<lambda>d. Inl not_valid),
     cx_summarization = (\<lambda>c n. Inl not_valid),
     cx_retrieval = (\<lambda>q k. Inr \<lparr> ri_query = [], ri_top_k = 5 \<rparr>),
     cx_compliance = (\<lambda>q k. Inr \<lparr> co_question = [], co_top_k = 4 \<rparr>),
     cx_audit = (\<lambda>w e. case e of JObj d \<Rightarrow> Inr \<lparr> au_workflow_id = w, au_evidence = d \<rparr>
                         | _ \<Rightarrow> Inl not_valid) \<rparr>"

lemma sample_coercers_spec: "pydantic_spec sample_coercers"
  by (simp add: pydantic_spec_def sample_coercers_def fraud_input_valid_def plain_transaction_def
      uuid_roundtrip)

definition sample_libs :: libs where
  "sample_libs = \<lparr> lb_co = sample_coercers, lb_pow = (\<lambda>x n. None) \<rparr>"

definition sample_service :: wf_service where
  "sample_service = \<lparr> sv_libs = sample_libs,
     sv_executor = \<lparr> ex_router = None, ex_embedder = Some (\<lambda>_. Inr []), ex_has_store = True \<rparr>,
     sv_audit = True \<rparr>"

lemma sample_service_quiet: "quiet_executor (sv_executor sample_service)"
  by (simp add: sample_service_def quiet_executor_def)

lemma fraud_step:
  "run_step sample_libs ex ''fraud_agent'' [(''workflow_id'', v)] (w_at u c p d) =
    (case run_fraud \<lparr> fi_transaction = plain_transaction, fi_customer_avg_amount = Fin 0 \<rparr> of
       Inr out \<Rightarrow> (Inr (wrap_outcome OutFraud (succeeded_outcome ''fraud_agent'' None out 0)),
                   w_at u c (p + 2) d)
     | Inl e \<Rightarrow> (Inl e, w_at u c p d))"
  by (simp add: run_step_def run_fraud_agent_def as_kwargs_def jget_def sample_libs_def
      sample_coercers_def bindE_def liftE_def run_agent_def ret_def run_fraud_def Let_def)
text \<open>A fraud review starts on the empty database.\<close>

lemma sample_start: "\<exists>v t. start_workflow sample_service FRAUD_REVIEW [] None None (w_at u c p empty_db) = (Inr v, t)"
  apply (simp add: start_workflow_def bindE_def insert_workflow_def empty_db_def Let_def plan_of_fields)
  apply (simp add: do_step_def insert_agent_run_def bindE_def Let_def gated_def catchE_def
      sample_service_def fraud_step new_workflow_def)
  apply (simp add: run_fraud_def Let_def wrap_outcome_def succeeded_outcome_def update_agent_run_def ret_def)
  apply (simp add: finish_done_def Let_def bindE_def update_workflow_def thenE_def insert_approval_def
      new_approval_def maybe_audit_def record_audit_def insert_audit_log_def audit_row_of_def reload_def
      find_workflow_def plan_of_fields gated_def ret_def new_run_def finished_run_def same_key_def
      new_workflow_def)
  done

section \<open>A case that waits\<close>

definition waiting_case :: workflow_row where
  "waiting_case = (new_workflow KYC [] (plan_of KYC) None 11 5 5)\<lparr>
     wf_status := workflow_status_value WS_AWAITING_APPROVAL, wf_result := Some []\<rparr>"

definition waiting_approval :: approval_row where
  "waiting_approval = new_approval 11 ''kyc:review'' ''review'' 12 6 6"

definition waiting_db :: db where
  "waiting_db = empty_db\<lparr>db_workflows := [waiting_case], db_approvals := [waiting_approval]\<rparr>"

lemma waiting_simps [simp]:
  "db_workflows waiting_db = [waiting_case]" "db_approvals waiting_db = [waiting_approval]"
  "db_agent_runs waiting_db = []" "db_audit_logs waiting_db = []"
  "wf_id waiting_case = 11" "wf_status waiting_case = workflow_status_value WS_AWAITING_APPROVAL"
  "wf_type waiting_case = workflow_type_value KYC"
  "ap_id waiting_approval = 12" "ap_workflow_id waiting_approval = 11"
  "ap_decision waiting_approval = approval_decision_value AD_PENDING"
  by (simp_all add: waiting_db_def empty_db_def waiting_case_def new_workflow_def waiting_approval_def
      new_approval_def)

lemma waiting_found:
  "get_workflow 11 (w_at u c p waiting_db) = (Inr (view_of waiting_db waiting_case), w_at u c p waiting_db)"
  by (simp add: get_workflow_def reload_def find_workflow_def)

lemma sample_decision:
  "\<exists>v t. decide sample_service 11 target dec kind actor reason req (w_at u c p waiting_db) = (Inr v, t)"
proof -
  have "enum_parse workflow_status_value (wf_status (wv_workflow (view_of waiting_db waiting_case)))
      = Some WS_AWAITING_APPROVAL"
    using workflow_status.parse_val [of WS_AWAITING_APPROVAL] by (simp add: view_of_def)
  moreover have "WS_AWAITING_APPROVAL \<in> set DECIDABLE" by (simp add: DECIDABLE_def)
  moreover have "pending_approval (view_of waiting_db waiting_case) = Some waiting_approval"
    by (simp add: pending_approval_def view_of_def)
  ultimately show ?thesis
    unfolding decide_def bindE_def waiting_found
    by (simp add: settle_approval_def update_workflow_def update_approval_def Let_def thenE_def bindE_def
        maybe_audit_def record_audit_def insert_audit_log_def reload_def find_workflow_def view_of_def
        sample_service_def ret_def)
qed

section \<open>The invariant on the instances\<close>

declare workflow_status_value.simps [simp del] approval_decision_value.simps [simp del]

lemma waiting_cases_ok: "cases_ok waiting_db"
proof -
  have "case_ok waiting_db waiting_case"
    unfolding case_ok_def
    by (rule exI [of _ KYC])
      (auto simp: approvals_of_def waiting_case_def new_workflow_def is_pending_def waiting_approval_def
        new_approval_def approval_permission_def plan_permission_values intro!: case_state.waiting)
  then show ?thesis by (simp add: cases_ok_def db_ok_def)
qed

lemma empty_cases_ok: "cases_ok empty_db"
  by (simp add: empty_db_def initial_cases)

declare workflow_status_value.simps [simp] approval_decision_value.simps [simp]

end
