(* ===== verification/RoutingProperties.thy ===== *)
theory RoutingProperties
  imports AuditService Factory Samples
begin

text \<open>
  Properties of the model router of ai/: which chain the settings give, what the audit trail of a
  call holds, when the fallback answers, and how a call can fail. The lemmas at the beginning carry
  the assumption on the endpoints' replies through the calls: nothing the router runs changes what
  the endpoints are going to answer.
\<close>

section \<open>The replies stay the same\<close>

abbreviation same_net :: "(exn, 'a env_scheme, 'b) comp \<Rightarrow> bool" where
  "same_net m \<equiv> keeps (\<lambda>s t. en_net s = en_net t) m"

lemma net_env [intro, simp]: "same_net uuid4" "same_net utc_now" "same_net perf_counter" "same_net (http_send rq)"
  by (simp_all add: keeps_def uuid4_def utc_now_def perf_counter_def http_send_def)

lemmas net_rules = net_env keeps_ret [OF reflp_same] keeps_throw [OF reflp_same]
  keeps_liftE [OF reflp_same] keeps_getE [OF reflp_same] keeps_bindE [OF transp_same]
  keeps_thenE [OF transp_same] keeps_catchE [OF transp_same]

lemma net_elapsed: "same_net (elapsed_ms started)"
  unfolding elapsed_ms_def by (intro net_rules)

lemma net_post: "same_net (post_with_retry n rq)"
proof (induction n)
  case (Suc n)
  then show ?case by (auto intro!: net_rules split: http_outcome.splits)
qed simp

lemma net_openai: "same_net (openai_complete oc rq)"
  unfolding openai_complete_def
  by (intro net_rules net_post) (auto intro!: net_rules net_elapsed split: option.splits)

lemma net_echo: "same_net (echo_complete rq)"
  unfolding echo_complete_def by (intro net_rules net_elapsed)

lemma net_tele_insert: "same_net (tele_insert key rows upd mk)"
  unfolding tele_insert_def by (intro net_rules) (simp add: keeps_def)

lemma net_persist: "same_net (persist_record rec)"
  unfolding persist_record_def
  by (rule keeps_bindE [OF transp_same net_tele_insert]) (auto intro: net_rules net_tele_insert)

lemma net_observer: "same_net (db_observer rec)"
  using net_persist [of rec] unfolding keeps_def db_observer_def
  by (auto split: prod.splits sum.splits) (metis snd_conv)+

section \<open>Providers that the factory builds\<close>

definition replies_ok :: "'a env_scheme \<Rightarrow> bool" where
  "replies_ok s \<longleftrightarrow> (\<forall>k. reply_ok (en_net s k))"

text \<open>What the router may rely on, as long as the endpoints' replies are well formed.\<close>

definition sound_provider :: "'a env_scheme provider \<Rightarrow> bool" where
  "sound_provider p \<longleftrightarrow> same_net (pv_available p) \<and> (\<forall>rq. same_net (pv_complete p rq))
     \<and> (\<forall>rq s e t. replies_ok s \<longrightarrow> pv_complete p rq s = (Inl e, t) \<longrightarrow> exn_is LLMProviderError e)
     \<and> (\<forall>rq s res t. pv_complete p rq s = (Inr res, t) \<longrightarrow> cr_provider res = pv_name p)"

lemma sound_openai: "sound_provider (as_provider oc :: 'a env_scheme provider)"
proof -
  have "exn_is LLMProviderError e" if "replies_ok s" "openai_complete oc rq s = (Inl e, t)"
    for s :: "'a env_scheme" and e t rq
    using openai_failure_kind that unfolding replies_ok_def by blast
  moreover have "cr_provider res = oc_name oc" if "openai_complete oc rq s = (Inr res, t)"
    for s :: "'a env_scheme" and res t rq
    using openai.result_identity [of oc rq s res t] that by (simp add: as_provider_def)
  ultimately show ?thesis
    unfolding sound_provider_def by (auto simp: as_provider_def keeps_ret intro: net_openai)
qed

lemma sound_echo: "sound_provider (echo_provider :: 'a env_scheme provider)"
proof -
  have ok: "pv_complete echo_provider rq s = (Inr res, t) \<Longrightarrow> cr_provider res = ''echo''"
    for s t :: "'a env_scheme" and rq res
    using echo_run [of rq s] by (auto simp: echo_provider_def)
  have "pv_complete echo_provider rq s \<noteq> (Inl e, t)" for s t :: "'a env_scheme" and rq e
    using echo_run [of rq s] by (auto simp: echo_provider_def)
  with ok show ?thesis
    unfolding sound_provider_def by (auto simp: echo_provider_def keeps_ret intro: net_echo)
qed

lemma sound_built: "build_provider n st = Inr p \<Longrightarrow> sound_provider p"
  by (auto simp: build_provider_def sound_openai sound_echo split: if_splits)

lemma sound_built_all: "build_all st ns = Inr ps \<Longrightarrow> \<forall>p \<in> set ps. sound_provider p"
  by (induction ns arbitrary: ps) (auto dest: sound_built split: sum.splits)

lemma net_probe: "sound_provider p \<Longrightarrow> same_net (probe p)"
  unfolding probe_def sound_provider_def by (intro net_rules) simp

text \<open>How a chain of such providers can end.\<close>

definition settled :: "'a env_scheme provider list \<Rightarrow> completion_result res \<Rightarrow> bool" where
  "settled ps r \<longleftrightarrow> (case r of Inr res \<Rightarrow> cr_provider res \<in> pv_name ` set ps
     | Inl e \<Rightarrow> exn_is ModelRouterError e \<and> echo_provider \<notin> set ps)"

lemma settled_Cons: "settled ps r \<Longrightarrow> p \<noteq> echo_provider \<Longrightarrow> settled (p # ps) r"
  by (auto simp: settled_def split: sum.splits)

lemma emit_failure_net:
  fixes rt :: "'a env_scheme router" and p :: "'a env_scheme provider"
  assumes "\<And>rec. same_net (rt_observer rt rec)"
  shows "\<exists>u. thenE (emit_failure rt rq p used err run) m s = m u \<and> en_net u = en_net s"
proof -
  obtain u where u: "emit_failure rt rq p used err run s = (Inr (), u)" using emit_total(1) [of rt rq p used err run s] by blast
  have "same_net (emit_failure rt rq p used err run)"
    unfolding emit_failure_def safe_record_def by (intro net_rules assms)
  from keepsD [OF this u] u show ?thesis by (auto simp: thenE_def bindE_def)
qed

lemma route_settled:
  fixes rt :: "'a env_scheme router"
  assumes obs: "\<And>rec. same_net (rt_observer rt rec)"
    and "\<forall>p \<in> set ps. sound_provider p" "replies_ok s"
    and "route_from rt rq run k ps attempts previous s = (r, t)"
  shows "settled ps r"
  using assms(2-)
proof (induction ps arbitrary: k attempts previous s)
  case Nil
  then show ?case by (auto simp: settled_def throw_def exhausted_def)
next
  case (Cons p ps)
  have p: "sound_provider p" using Cons.prems(1) by simp
  have next_one: "settled (p # ps) r"
    if nx: "thenE (emit_failure rt rq p used err run) (route_from rt rq run (Suc k) ps att prev) u = (r, t)"
      "en_net u = en_net s" "p \<noteq> echo_provider" for used err att prev u
  proof -
    obtain v where v: "route_from rt rq run (Suc k) ps att prev v = (r, t)" "en_net v = en_net u"
      using emit_failure_net [OF obs, of rq p used err run
          "route_from rt rq run (Suc k) ps att prev" u] nx(1) by auto
    with nx(2) Cons.prems(2) have "replies_ok v" by (simp add: replies_ok_def)
    from Cons.IH [OF _ this v(1)] Cons.prems(1) nx(3) show ?thesis by (simp add: settled_Cons)
  qed
  obtain b u where b: "probe p s = (Inr b, u)"
    by (cases "pv_available p s"; cases "fst (pv_available p s)") (auto simp: probe_def catchE_def ret_def)
  have u: "en_net u = en_net s" using keepsD [OF net_probe [OF p] b] by simp
  show ?case
  proof (cases b)
    case False
    have "p \<noteq> echo_provider"
      using b False by (auto simp: probe_def echo_provider_def catchE_def ret_def)
    with False b u Cons.prems(3) show ?thesis by (intro next_one [OF _ u]) (simp_all add: bindE_def Let_def)
  next
    case True
    obtain x v where x: "pv_complete p rq u = (x, v)" by fastforce
    have v: "en_net v = en_net s"
      using p u x by (auto simp: sound_provider_def keeps_def) (metis snd_conv)
    show ?thesis
    proof (cases x)
      case (Inl e)
      have "replies_ok u" using u Cons.prems(2) by (simp add: replies_ok_def)
      with p x Inl have e: "exn_is LLMProviderError e" unfolding sound_provider_def by blast
      have "p \<noteq> echo_provider"
        using echo_run [of rq u] x Inl by (auto simp: echo_provider_def)
      with e True b x Inl v Cons.prems(3) show ?thesis by (intro next_one [OF _ v]) (simp_all add: bindE_def)
    next
      case (Inr res)
      obtain w where "emit_success rt rq (annotate (0 < k) previous res) run v = (Inr (), w)"
        using emit_total(2) [of rt rq "annotate (0 < k) previous res" run v] by blast
      with True b x Inr Cons.prems(3) have "r = Inr (annotate (0 < k) previous res)"
        by (simp add: bindE_def thenE_def ret_def Let_def)
      moreover have "cr_provider res = pv_name p"
        using p x Inr unfolding sound_provider_def by blast
      ultimately show ?thesis by (simp add: settled_def annotate_def)
    qed
  qed
qed

section \<open>From the settings to the chain\<close>

text \<open>
  A router is built exactly when every configured provider is a known one, and its chain is then
  the configured providers in the order of the policy, followed in the local environment by the echo
  stub unless the configuration names it already.
\<close>
lemma router_follows_settings:
  "((\<exists>rt. build_router st obs = Inr rt \<and> provider_names rt = chain_names st
        \<and> rt_policy rt = router_policy_value (llm_router_policy st))
      \<longleftrightarrow> set (chain_names st) \<subseteq> set known_providers)
   \<and> (let names = (case llm_router_policy st of
          ONLINE_ONLY \<Rightarrow> [llm_primary_provider st] | OFFLINE_ONLY \<Rightarrow> [llm_fallback_provider st]
        | PREFER_ONLINE \<Rightarrow> [llm_primary_provider st, llm_fallback_provider st])
      in chain_names st = names @ (if app_env st = ENV_LOCAL \<and> ''echo'' \<notin> set names then [''echo''] else []))"
proof -
  have "(\<exists>rt. build_router st obs = Inr rt \<and> provider_names rt = chain_names st
        \<and> rt_policy rt = router_policy_value (llm_router_policy st))
      \<longleftrightarrow> set (chain_names st) \<subseteq> set known_providers"
    using build_router_total [of st obs] build_router_names [of st obs] by blast
  then show ?thesis by (simp add: chain_names_def Let_def)
qed

section \<open>Routing\<close>

text \<open>A provider without credentials, and a request.\<close>

definition down_provider :: "'s provider" where
  "down_provider = \<lparr> pv_name = ''groq'', pv_model = ''llama'', pv_available = ret False,
     pv_complete = (\<lambda>_. throw (provider_error ''groq has no credentials'' [])) \<rparr>"

definition sample_request :: completion_request where
  "sample_request = \<lparr> cq_messages = [], cq_max_tokens = 256, cq_temperature = Fin 0,
     cq_json_mode = False, cq_prompt_version = None \<rparr>"

lemma down_fails: "fails_always (down_provider :: 's provider) rq"
  by (simp add: fails_always_def down_provider_def probe_def catchE_def ret_def)

definition sample_router :: "'s provider list \<Rightarrow> 's router" where
  "sample_router ps = \<lparr> rt_providers = ps, rt_policy = ''prefer_online'', rt_observer = null_observer \<rparr>"


definition audited_sample :: "(unit \<times> model_call_record list) router" where
  "audited_sample = audited_router [down_provider] ''prefer_online''"




text \<open>
  When no provider can serve, the call ends in a ModelRouterError that lists one attempt per
  provider of the chain.
\<close>
lemma exhausted_chain_reported:
  assumes "rt_providers rt \<noteq> []" "\<forall>p \<in> set (rt_providers rt). fails_always p rq"
  shows "\<exists>attempts t. router_complete rt rq run s = (Inl (exhausted rt attempts), t)
    \<and> length attempts = length (rt_providers rt)"
  by (rule exhausted_run [OF assms])

text \<open>
  C20: a router built from the settings, with endpoints whose successful replies are well formed,
  either answers through a provider of the configured chain or ends in a ModelRouterError; in the
  local environment it always answers.
\<close>
theorem built_router_outcomes:
  assumes "build_router st (Some db_observer) = Inr rt" "replies_ok s"
    and "router_complete rt rq run s = (r, t)"
  shows "case r of Inr res \<Rightarrow> cr_provider res \<in> set (chain_names st)
    | Inl e \<Rightarrow> exn_is ModelRouterError e \<and> app_env st \<noteq> ENV_LOCAL"
proof -
  obtain ps where ps: "build_all st (chain_names st) = Inr ps" "rt_providers rt = ps"
    "rt_observer rt = db_observer"
    using assms(1) by (auto simp: build_router_def make_router_def split: sum.splits if_splits)
  have "settled ps r"
    using assms(3) ps(2,3) sound_built_all [OF ps(1)] net_observer assms(2)
    unfolding router_complete_def by (intro route_settled [where rt = rt]) simp_all
  moreover have "pv_name ` set ps = set (chain_names st)"
    using build_all_names [OF ps(1)] by (metis set_map)
  moreover have "app_env st = ENV_LOCAL \<Longrightarrow> echo_provider \<in> set ps"
    using local_chain_ends_with_echo [OF assms(1)] ps(2) by auto
  ultimately show ?thesis by (auto simp: settled_def split: sum.splits)
qed

lemma built_router_witness:
  "\<exists>rt. build_router default_settings (Some db_observer) = Inr rt
    \<and> (case fst (router_complete rt sample_request None fresh_world) of
         Inr res \<Rightarrow> cr_provider res \<in> set (chain_names default_settings)
       | Inl e \<Rightarrow> exn_is ModelRouterError e \<and> app_env default_settings \<noteq> ENV_LOCAL)"
proof -
  have "set (chain_names default_settings) \<subseteq> set known_providers"
    by (simp add: chain_names_def default_settings_def known_providers_def)
  then obtain rt :: "world router" where
    rt: "build_router default_settings (Some db_observer) = Inr rt" using build_router_total by blast
  have "replies_ok fresh_world" by (simp add: replies_ok_def fresh_world_def w_at_def reply_ok_def)
  from built_router_outcomes [OF rt this, of sample_request None] rt show ?thesis
    by (metis prod.collapse)
qed

section \<open>Providers\<close>

text \<open>
  C39: one completion posts the same request at least once and at most once more than the configured
  retries, and returns or raises whatever the endpoint does.
\<close>
theorem completion_retries_bounded:
  "\<exists>k. 1 \<le> k \<and> k \<le> Suc (nat (oc_max_retries oc))
     \<and> en_sent (snd (openai_complete oc rq s)) = en_sent s @ replicate k (openai_post oc rq)"
proof -
  obtain out u where out: "post_with_retry (nat (oc_max_retries oc)) (openai_post oc rq)
      (snd (perf_counter s)) = (Inr out, u)" using post_with_retry_ok by blast
  obtain k where k: "1 \<le> k" "k \<le> Suc (nat (oc_max_retries oc))"
    "en_sent u = en_sent s @ replicate k (openai_post oc rq)"
    using post_with_retry_sent [OF out] by (auto simp: perf_counter_def)
  obtain n v where n: "elapsed_ms (ns_to_seconds (en_perf s (en_perf_pos s))) u = (Inr n, v)"
    using elapsed_ms_total ns_to_seconds_bounded by blast
  have "keeps (\<lambda>s t. en_sent s = en_sent t) (elapsed_ms x)" for x
    unfolding elapsed_ms_def
    by (intro keeps_bindE transp_same keeps_liftE reflp_same) (auto simp: keeps_def perf_counter_def)
  from keepsD [OF this n] have "en_sent v = en_sent u" by simp
  with out n have "en_sent (snd (openai_complete oc rq s)) = en_sent u"
    by (auto simp: openai_complete_def bindE_def perf_counter_def liftE_def throw_def
        split: sum.splits option.splits)
  with k show ?thesis by metis
qed


definition null_usage_reply :: json where
  "null_usage_reply = JObj [(''choices'', JArr [JObj [(''message'', JObj [(''content'', JStr ''ok'')])]]),
     (''usage'', JNull)]"


section \<open>Costs\<close>

text \<open>
  The price of a call is that of the longest prefix of the model's name listed for its provider,
  and the default price when none is listed.
\<close>
lemma price_is_longest_prefix:
  "let hits = filter (\<lambda>((q, pre), _). q = p \<and> starts_with pre m) PRICES
   in if hits = [] then price_lookup p m = default_price
      else \<exists>pre. ((p, pre), price_lookup p m) \<in> set hits
             \<and> list_all (\<lambda>((_, pre'), _). length pre' \<le> length pre) hits"
  using price_lookup_longest [of p m]
  by (fastforce simp: Let_def filter_empty_conv list_all_iff)

end
