(* ===== verification/Failures.thy ===== *)
theory Failures
  imports Lifecycle
begin

text \<open>
  How the requests of the workflow service can fail. Starting a case, and deciding one that waits for
  a decision, raise nothing but the violation of a unique key: what goes wrong in an agent ends up in
  the case, not in the caller.
\<close>

section \<open>Computations with one kind of failure\<close>

definition clashes_only :: "'a action \<Rightarrow> bool" where
  "clashes_only m \<longleftrightarrow> (\<forall>s e t. m s = (Inl e, t) \<longrightarrow> e = integrity_error)"

lemma clashes_onlyD: "clashes_only m \<Longrightarrow> m s = (Inl e, t) \<Longrightarrow> e = integrity_error"
  by (auto simp: clashes_only_def)

lemma clashes_rules:
  "clashes_only (ret x)"
  "clashes_only m \<Longrightarrow> (\<And>x. clashes_only (f x)) \<Longrightarrow> clashes_only (bindE m f)"
  "clashes_only m \<Longrightarrow> clashes_only k \<Longrightarrow> clashes_only (thenE m k)"
  by (simp_all add: clashes_only_def ret_def thenE_def bindE_Inl) blast+

lemma clashes_insert: "clashes_only (insert_row clash rows upd mk)"
  unfolding clashes_only_def using insert_row_Inl by blast

lemma clashes_update: "clashes_only (update_row key rows upd touch r)"
  unfolding clashes_only_def using update_row_run [of key rows upd touch r] by (metis Pair_inject sum.distinct(1))

lemma clashes_tables:
  "clashes_only (insert_workflow mk)" "clashes_only (insert_agent_run mk')"
  "clashes_only (insert_approval mk'')" "clashes_only (update_workflow w)"
  "clashes_only (update_agent_run r)" "clashes_only (update_approval a)"
  by (simp_all add: clashes_insert clashes_update insert_workflow_def insert_agent_run_def
      insert_approval_def update_workflow_def update_agent_run_def update_approval_def)

lemma clashes_audit: "clashes_only (maybe_audit sv act w actor req ctx)"
  unfolding clashes_only_def using maybe_audit_Inl by blast

lemma clashes_caught: "(\<And>e. clashes_only (h e)) \<Longrightarrow> clashes_only (catchE m h)"
  by (auto simp: clashes_only_def catchE_def split: prod.splits sum.splits)

lemma clashes_do_step: "clashes_only (do_step sv w payload agent)"
  unfolding do_step_def by (intro clashes_rules clashes_tables clashes_caught)

lemma clashes_run_steps: "clashes_only (run_steps sv w payload steps results flagged)"
  by (induction steps arbitrary: results flagged)
    (auto intro!: clashes_rules clashes_do_step simp: Let_def)

lemma clashes_finish:
  "clashes_only (finish_failed sv w agent results err creator req)"
  "clashes_only (finish_done sv plan w results flagged creator req)"
  unfolding finish_failed_def finish_done_def Let_def
  by (intro clashes_rules clashes_tables clashes_audit clashes_update | simp)+
    (auto intro!: clashes_rules clashes_tables)

lemma clashes_settle: "clashes_only (settle_approval v dec kind actor reason)"
  unfolding settle_approval_def by (auto intro: clashes_tables split: option.split)

section \<open>Starts\<close>

lemma workflows_written:
  "d' = d\<lparr>db_workflows := ws, db_approvals := aps, db_audit_logs := rows\<rparr> \<Longrightarrow> db_workflows d' = ws"
  "d' = d\<lparr>db_workflows := ws, db_audit_logs := rows\<rparr> \<Longrightarrow> db_workflows d' = ws"
  by simp_all

lemma start_fails_by_clash:
  assumes "start_workflow sv ty input creator req s = (Inl e, t)"
    and "quiet_executor (sv_executor sv)" "db_ok (w_db s)"
  shows "e = integrity_error"
proof (rule ccontr)
  assume e: "e \<noteq> integrity_error"
  obtain s1 where s1: "plan_workflow ty s = (Inr (plan_of ty), s1)" "w_db s1 = w_db s"
    using plan_workflow_run by blast
  let ?input = "\<lambda>w. dict_set ''workflow_id'' (JStr (uuid_str (wf_id w))) input"
  let ?finish = "\<lambda>w en. case en of
         StepFailed agent results err \<Rightarrow> finish_failed sv w agent results err creator req
       | AllDone results flagged \<Rightarrow> finish_done sv (plan_of ty) w results flagged creator req"
  have fin_only: "clashes_only (?finish w en)" for w en
    using clashes_finish by (cases en) auto
  from assms(1) s1(1) e obtain w0 s2 en s3 s4 where
    ins: "insert_workflow (new_workflow ty input (plan_of ty) creator) s1 = (Inr w0, s2)" and
    steps: "run_steps sv (wf_id w0) (?input w0) (map ps_agent (wp_steps (plan_of ty))) [] False s2
      = (Inr en, s3)" and
    fin: "?finish w0 en s3 = (Inr (), s4)" and rel: "reload (wf_id w0) s4 = (Inl e, t)"
    by (auto simp: start_workflow_def thenE_def bindE_Inl dest: clashes_onlyD [OF clashes_tables(1)]
        clashes_onlyD [OF clashes_run_steps] clashes_onlyD [OF fin_only])
  from insert_row_Inr [OF ins [unfolded insert_workflow_def]] have
    w0: "\<not> list_ex (same_key wf_id w0) (db_workflows (w_db s))"
      "w_db s2 = (w_db s)\<lparr>db_workflows := db_workflows (w_db s) @ [w0]\<rparr>" by (auto simp: s1(2))
  have d2: "distinct (map ag_id (db_agent_runs (w_db s2)))" using assms(3) by (simp add: w0(2) db_ok_def)
  from run_steps_effect [OF steps assms(2) d2] have
    last: "db_workflows (w_db s3) = db_workflows (w_db s) @ [w0]" by (auto simp: w0(2))
  have fresh: "wf_id w0 \<notin> wf_id ` set (db_workflows (w_db s))"
    using w0(1) by (auto simp: list_ex_iff same_key_def)
  then have dist: "distinct (map wf_id (db_workflows (w_db s) @ [w0]))"
    using assms(3) by (simp add: db_ok_def)
  obtain w where "db_workflows (w_db s4) = db_workflows (w_db s) @ [w]" "same_case w0 w"
  proof (cases en)
    case (StepFailed agent results err)
    with fin have "finish_failed sv w0 agent results err creator req s3 = (Inr (), s4)" by simp
    from this last dist show thesis
      by (rule finish_failed_effect) (rule that, erule workflows_written(2), assumption)
  next
    case (AllDone results flagged)
    with fin have "finish_done sv (plan_of ty) w0 results flagged creator req s3 = (Inr (), s4)" by simp
    from this last dist show thesis
      by (rule finish_done_effect) (rule that, erule workflows_written(1), assumption)
  qed
  with fresh have "find_workflow (wf_id w0) (w_db s4) = Some w"
    using find_last_workflow [of "w_db s4" "db_workflows (w_db s)" w] by (simp add: same_case_def)
  with rel show False by (simp add: reload_def)
qed

section \<open>Decisions\<close>

lemma approval_update_keeps: "update_approval a s = (Inr x, t) \<Longrightarrow> db_workflows (w_db t) = db_workflows (w_db s)"
  using update_row_run [of ap_id db_approvals db_approvals_update "\<lambda>n r. r\<lparr>ap_updated_at := n\<rparr>" a s]
  by (auto simp: update_approval_def split: if_splits)

lemma approval_insert_keeps: "insert_approval mk s = (Inr x, t) \<Longrightarrow> db_workflows (w_db t) = db_workflows (w_db s)"
  unfolding insert_approval_def by (drule insert_row_Inr) auto

lemma settle_keeps_workflows:
  "settle_approval v dec kind actor reason s = (Inr x, t) \<Longrightarrow> db_workflows (w_db t) = db_workflows (w_db s)"
  unfolding settle_approval_def
  by (cases "pending_approval v") (simp_all add: approval_update_keeps approval_insert_keeps)

lemma audit_keeps_workflows:
  "maybe_audit sv act w actor req ctx s = (Inr y, t) \<Longrightarrow> db_workflows (w_db t) = db_workflows (w_db s)"
  by (cases y) (auto elim: maybe_audit_Inr)

lemma decide_fails_by_clash:
  assumes "decide sv i target dec kind actor reason req s = (Inl e, t)"
    and "find_workflow i (w_db s) = Some w" "is_queued w" "db_ok (w_db s)"
  shows "e = integrity_error"
proof (rule ccontr)
  assume e: "e \<noteq> integrity_error"
  obtain cur where cur: "cur \<in> set DECIDABLE" "wf_status w = workflow_status_value cur"
    using assms(3) by (auto simp: is_queued_def)
  let ?w = "w\<lparr>wf_status := workflow_status_value (final_status target)\<rparr>"
  have "get_workflow i s = (Inr (view_of (w_db s) w), s)"
    using assms(2) by (simp add: get_workflow_def reload_def)
  moreover have "enum_parse workflow_status_value (wf_status w) = Some cur"
    by (simp add: cur(2) workflow_status.parse_val)
  ultimately obtain w' u x v y z where
    upd: "update_workflow ?w s = (Inr w', u)" and
    set: "settle_approval (view_of (w_db s) w) dec kind actor reason u = (Inr x, v)" and
    aud: "maybe_audit sv (''workflow.'' @ approval_decision_value dec) w' (Some actor) req
        [(''reason'', JStr (case reason of None \<Rightarrow> '''' | Some r \<Rightarrow> r))] v = (Inr y, z)" and
    rel: "reload i z = (Inl e, t)"
    using assms(1) cur(1) e
    by (auto simp: decide_def bindE_def view_of_def thenE_def split: prod.splits sum.splits
        dest: clashes_onlyD [OF clashes_tables(4)] clashes_onlyD [OF clashes_settle]
          clashes_onlyD [OF clashes_audit])
  have dist: "distinct (map wf_id (db_workflows (w_db s)))" using assms(4) by (simp add: db_ok_def)
  have id: "wf_id w = i" using find_workflow_Some [OF assms(2)] by simp
  obtain r' u' where r': "update_workflow ?w s = (Inr r', u')"
    "w_db u' = (w_db s)\<lparr>db_workflows := map (\<lambda>x. if wf_id x = wf_id ?w then r' else x) (db_workflows (w_db s))\<rparr>"
    "r' = ?w \<or> (\<exists>n. r' = ?w\<lparr>wf_updated_at := n\<rparr>)" by (rule update_workflow_run [OF dist])
  note audit_keeps_workflows [OF aud]
  then have "db_workflows (w_db z) = map (\<lambda>x. if wf_id x = i then r' else x) (db_workflows (w_db s))"
    using settle_keeps_workflows [OF set] upd r'(1,2) id by simp
  moreover have "wf_id r' = i" using r'(3) id by auto
  ultimately have "r' \<in> set (db_workflows (w_db z))" using find_workflow_Some [OF assms(2)] by auto
  with \<open>wf_id r' = i\<close> have "find_workflow i (w_db z) \<noteq> None"
    unfolding find_workflow_def find_None_iff by blast
  with rel show False by (auto simp: reload_def split: option.splits)
qed

end
