(* ===== verification/Schemas.thy ===== *)
theory Schemas
  imports Workflow
begin

text \<open>
  schemas/: the public contract. A schema is a record whose fields carry the declared types, and
  \<open>model_validate\<close> reads one off a row; a stored string that is no member of the declared enumeration
  makes it raise. Times stay in microseconds since the epoch.
\<close>

section \<open>Pages\<close>

record page_meta =
  pn_page :: int
  pn_page_size :: int
  pn_total :: int
  pn_total_pages :: int

record 'a page =
  pg_items :: "'a list"
  pg_meta :: page_meta

definition invalid_model :: exn where
  "invalid_model = Py ''ValidationError'' ''validation error''"

definition page_meta_valid :: "page_meta \<Rightarrow> bool" where
  "page_meta_valid m \<longleftrightarrow> 1 \<le> pn_page m \<and> 1 \<le> pn_page_size m \<and> pn_page_size m \<le> 200
     \<and> 0 \<le> pn_total m \<and> 0 \<le> pn_total_pages m"

definition total_pages :: "int \<Rightarrow> int \<Rightarrow> int" where
  "total_pages page_size found = (if page_size \<noteq> 0 then (found + page_size - 1) div page_size else 0)"

definition page_build :: "'a list \<Rightarrow> int \<Rightarrow> int \<Rightarrow> int \<Rightarrow> 'a page res" where
  "page_build items page page_size found =
     (let m = \<lparr> pn_page = page, pn_page_size = page_size, pn_total = found,
                pn_total_pages = total_pages page_size found \<rparr>
      in if page_meta_valid m then Inr \<lparr> pg_items = items, pg_meta = m \<rparr> else Inl invalid_model)"

record page_params =
  pp_page :: int
  pp_page_size :: int

definition page_params_valid :: "page_params \<Rightarrow> bool" where
  "page_params_valid p \<longleftrightarrow> 1 \<le> pp_page p \<and> 1 \<le> pp_page_size p \<and> pp_page_size p \<le> 200"

definition page_offset :: "page_params \<Rightarrow> int" where
  "page_offset p = (pp_page p - 1) * pp_page_size p"

text \<open>\<open>LIMIT\<close> and \<open>OFFSET\<close> of a query.\<close>

definition slice :: "int \<Rightarrow> int \<Rightarrow> 'a list \<Rightarrow> 'a list" where
  "slice limit offset rows = take (nat limit) (drop (nat offset) rows)"

section \<open>Enumeration fields\<close>

definition as_member :: "('e :: enum \<Rightarrow> string) \<Rightarrow> string \<Rightarrow> 'e res" where
  "as_member val raw = (case enum_parse val raw of None \<Rightarrow> Inl invalid_model | Some x \<Rightarrow> Inr x)"

definition map_right :: "('a \<Rightarrow> 'b) \<Rightarrow> 'a res \<Rightarrow> 'b res" where
  "map_right f r = (case r of Inl e \<Rightarrow> Inl e | Inr x \<Rightarrow> Inr (f x))"

definition bind_res :: "'a res \<Rightarrow> ('a \<Rightarrow> 'b res) \<Rightarrow> 'b res" where
  "bind_res r f = (case r of Inl e \<Rightarrow> Inl e | Inr x \<Rightarrow> f x)"

section \<open>The error envelope\<close>

record error_detail =
  ed_code :: string
  ed_message :: string
  ed_details :: json_dict

record error_response =
  er_error :: error_detail

text \<open>\<open>model_validate\<close> of a decoded body: unknown keys are ignored, absent details are empty.\<close>

definition error_detail_of :: "json \<Rightarrow> error_detail res" where
  "error_detail_of j = (case j of
       JObj d \<Rightarrow> (case (dict_get ''code'' d, dict_get ''message'' d, dict_get ''details'' d) of
           (Some (JStr c), Some (JStr m), None) \<Rightarrow> Inr \<lparr> ed_code = c, ed_message = m, ed_details = [] \<rparr>
         | (Some (JStr c), Some (JStr m), Some (JObj x)) \<Rightarrow>
             Inr \<lparr> ed_code = c, ed_message = m, ed_details = x \<rparr>
         | _ \<Rightarrow> Inl invalid_model)
     | _ \<Rightarrow> Inl invalid_model)"

definition error_response_of :: "json \<Rightarrow> error_response res" where
  "error_response_of j = (case j of
       JObj d \<Rightarrow> (case dict_get ''error'' d of
           Some x \<Rightarrow> map_right (\<lambda>e. \<lparr> er_error = e \<rparr>) (error_detail_of x)
         | None \<Rightarrow> Inl invalid_model)
     | _ \<Rightarrow> Inl invalid_model)"

text \<open>What every failing endpoint sends is what the documented schema reads.\<close>

lemma envelope_is_error_response:
  "error_response_of (envelope c m d) = Inr \<lparr> er_error = \<lparr> ed_code = c, ed_message = m, ed_details = d \<rparr> \<rparr>"
  by (simp add: error_response_of_def envelope_def error_detail_of_def map_right_def)

section \<open>Workflows\<close>

record agent_run_out =
  ro_id :: uuid
  ro_agent_name :: string
  ro_status :: agent_run_status
  ro_input :: json_dict
  ro_output :: "json option"
  ro_error :: "string option"
  ro_latency_ms :: "int option"
  ro_prompt_version :: "string option"
  ro_model_used :: "string option"
  ro_created_at :: int

record task_out =
  to_id :: uuid
  to_name :: string
  to_state :: task_state
  to_detail :: "string option"
  to_progress :: pyfloat

record approval_out =
  av_id :: uuid
  av_kind :: string
  av_decision :: string
  av_required_permission :: string
  av_summary :: "string option"
  av_decided_by :: "uuid option"
  av_decision_reason :: "string option"
  av_created_at :: int

record workflow_out =
  wo_id :: uuid
  wo_workflow_type :: workflow_type
  wo_status :: workflow_status
  wo_application_id :: "uuid option"
  wo_input_payload :: json_dict
  wo_result :: "json_dict option"
  wo_error :: "string option"
  wo_requires_human_approval :: bool
  wo_created_at :: int
  wo_updated_at :: int

record workflow_detail = workflow_out +
  wd_agent_runs :: "agent_run_out list"
  wd_approvals :: "approval_out list"
  wd_tasks :: "task_out list"

definition agent_run_out_of :: "agent_run_row \<Rightarrow> agent_run_out res" where
  "agent_run_out_of r = map_right (\<lambda>st. \<lparr> ro_id = ag_id r, ro_agent_name = ag_agent_name r,
     ro_status = st, ro_input = ag_input r, ro_output = ag_output r, ro_error = ag_error r,
     ro_latency_ms = ag_latency_ms r, ro_prompt_version = ag_prompt_version r,
     ro_model_used = ag_model_used r, ro_created_at = ag_created_at r \<rparr>)
     (as_member agent_run_status_value (ag_status r))"

definition task_out_of :: "task_row \<Rightarrow> task_out res" where
  "task_out_of k = map_right (\<lambda>st. \<lparr> to_id = tk_id k, to_name = tk_name k, to_state = st,
     to_detail = tk_detail k, to_progress = tk_progress k \<rparr>) (as_member task_state_value (tk_state k))"

definition approval_out_of :: "approval_row \<Rightarrow> approval_out" where
  "approval_out_of a = \<lparr> av_id = ap_id a, av_kind = ap_kind a, av_decision = ap_decision a,
     av_required_permission = ap_required_permission a, av_summary = ap_summary a,
     av_decided_by = ap_decided_by a, av_decision_reason = ap_decision_reason a,
     av_created_at = ap_created_at a \<rparr>"

definition workflow_out_of :: "workflow_row \<Rightarrow> workflow_out res" where
  "workflow_out_of w =
     bind_res (as_member workflow_type_value (wf_type w)) (\<lambda>ty.
     map_right (\<lambda>st. \<lparr> wo_id = wf_id w, wo_workflow_type = ty, wo_status = st,
       wo_application_id = wf_application_id w, wo_input_payload = wf_input w,
       wo_result = wf_result w, wo_error = wf_error w,
       wo_requires_human_approval = wf_requires_human_approval w,
       wo_created_at = wf_created_at w, wo_updated_at = wf_updated_at w \<rparr>)
       (as_member workflow_status_value (wf_status w)))"

definition workflow_detail_of :: "workflow_view \<Rightarrow> workflow_detail res" where
  "workflow_detail_of v =
     bind_res (workflow_out_of (wv_workflow v)) (\<lambda>w.
     bind_res (map_res agent_run_out_of (wv_agent_runs v)) (\<lambda>runs.
     map_right (\<lambda>tasks. workflow_out.extend w \<lparr> wd_agent_runs = runs,
         wd_approvals = map approval_out_of (wv_approvals v), wd_tasks = tasks \<rparr>)
       (map_res task_out_of (wv_tasks v))))"

section \<open>Documents, search, audit, identity\<close>

record document_out =
  dc_id :: uuid
  dc_filename :: string
  dc_content_type :: string
  dc_size_bytes :: int
  dc_sha256 :: string
  dc_status :: document_status
  dc_metadata :: json_dict
  dc_created_at :: int

definition document_out_of :: "document_row \<Rightarrow> document_out res" where
  "document_out_of d =
     bind_res (case do_sha256 d of None \<Rightarrow> Inl invalid_model | Some h \<Rightarrow> Inr h) (\<lambda>h.
     map_right (\<lambda>st. \<lparr> dc_id = do_id d, dc_filename = do_filename d,
     dc_content_type = do_content_type d, dc_size_bytes = do_size_bytes d, dc_sha256 = h,
     dc_status = st, dc_metadata = do_metadata d, dc_created_at = do_created_at d \<rparr>)
     (as_member document_status_value (do_status d)))"

text \<open>
  \<open>DocumentChunkOut\<close> reads an attribute \<open>text\<close>, which the mapped class calls \<open>content\<close>, so no row has
  this schema. No endpoint uses it.
\<close>

record document_chunk_out =
  dk_id :: uuid
  dk_chunk_index :: int
  dk_text :: string

definition document_chunk_out_of :: "uuid option \<Rightarrow> int option \<Rightarrow> string option \<Rightarrow> document_chunk_out res" where
  "document_chunk_out_of id_attr index_attr text_attr = (case (id_attr, index_attr, text_attr) of
       (Some i, Some n, Some t) \<Rightarrow> Inr \<lparr> dk_id = i, dk_chunk_index = n, dk_text = t \<rparr>
     | _ \<Rightarrow> Inl invalid_model)"

lemma no_chunk_has_its_schema:
  "document_chunk_out_of (Some (ch_id r)) (Some (ch_index r)) None = Inl invalid_model"
  by (simp add: document_chunk_out_of_def)

record search_response =
  sp_query :: string
  sp_hits :: "search_hit list"

record audit_log_out =
  lo_id :: uuid
  lo_actor_id :: "uuid option"
  lo_actor_email :: "string option"
  lo_action :: string
  lo_resource_type :: string
  lo_resource_id :: "string option"
  lo_outcome :: string
  lo_request_id :: "string option"
  lo_context :: json_dict
  lo_created_at :: int

definition audit_log_out_of :: "audit_row \<Rightarrow> audit_log_out" where
  "audit_log_out_of r = \<lparr> lo_id = al_id r, lo_actor_id = al_actor_id r,
     lo_actor_email = al_actor_email r, lo_action = al_action r,
     lo_resource_type = al_resource_type r, lo_resource_id = al_resource_id r,
     lo_outcome = al_outcome r, lo_request_id = al_request_id r, lo_context = al_context r,
     lo_created_at = al_created_at r \<rparr>"

record current_user =
  cu_id :: string
  cu_email :: string
  cu_roles :: "string list"
  cu_permissions :: "string list"

section \<open>Facts\<close>

lemma bind_res_Inr: "bind_res r f = Inr y \<longleftrightarrow> (\<exists>x. r = Inr x \<and> f x = Inr y)"
  by (auto simp: bind_res_def split: sum.splits)

lemma map_right_Inr: "map_right f r = Inr y \<longleftrightarrow> (\<exists>x. r = Inr x \<and> y = f x)"
  by (auto simp: map_right_def split: sum.splits)

lemma map_res_total: "(\<And>x. x \<in> set xs \<Longrightarrow> \<exists>y. f x = Inr y) \<Longrightarrow> \<exists>ys. map_res f xs = Inr ys"
proof (induction xs)
  case (Cons x xs)
  then obtain y ys where "f x = Inr y" "map_res f xs = Inr ys" by (metis list.set_intros)
  then show ?case by simp
qed simp

lemma as_member_Inr: "as_member val raw = Inr x \<Longrightarrow> val x = raw"
  by (auto simp: as_member_def split: option.splits dest: enum_parse_value)

lemmas res_Inr = bind_res_Inr map_right_Inr map_res_Inr

lemma total_pages_bounds:
  assumes "1 \<le> n" "0 \<le> found"
  shows "found \<le> total_pages n found * n" "(total_pages n found - 1) * n < found \<or> total_pages n found = 0"
proof -
  define q where "q = total_pages n found"
  define r where "r = (found + n - 1) mod n"
  have q: "found + n - 1 = q * n + r" using assms by (simp add: q_def r_def total_pages_def)
  have r: "0 \<le> r" "r < n" using assms by (simp_all add: r_def)
  show "found \<le> total_pages n found * n" using q r by (simp add: q_def)
  have "(q - 1) * n = found - 1 - r" using q by (simp add: algebra_simps)
  then show "(total_pages n found - 1) * n < found \<or> total_pages n found = 0"
    using r by (simp add: q_def)
qed

lemma page_build_run:
  "1 \<le> page \<Longrightarrow> 1 \<le> n \<Longrightarrow> n \<le> 200 \<Longrightarrow> 0 \<le> found \<Longrightarrow> \<exists>pg. page_build items page n found = Inr pg
     \<and> pg_items pg = items \<and> pn_total (pg_meta pg) = found
     \<and> pn_total_pages (pg_meta pg) = total_pages n found"
  by (auto simp: page_build_def Let_def page_meta_valid_def total_pages_def pos_imp_zdiv_nonneg_iff)

text \<open>The pages together are the whole result, each row on one of them.\<close>

lemma slices_cover:
  assumes "1 \<le> n"
  shows "concat (map (\<lambda>p. slice n ((p - 1) * n) rows) [1..total_pages n (int (length rows))]) = rows"
proof -
  define k where "k = nat n"
  have k: "n = int k" "0 < k" using assms by (auto simp: k_def)
  have step: "concat (map (\<lambda>i. take k (drop (i * k) xs)) [0..<m]) = take (m * k) xs" for m and xs :: "'a list"
    by (induction m) (simp_all add: take_add add.commute [of k])
  have len: "length rows \<le> nat (total_pages n (int (length rows))) * k"
  proof -
    have "int (length rows) \<le> total_pages n (int (length rows)) * n"
      by (rule total_pages_bounds) (use assms in simp_all)
    then have "int (length rows) \<le> int (nat (total_pages n (int (length rows)))) * int k"
      by (metis k(1) mult_nonneg_nonneg mult_right_mono of_nat_0_le_iff order_trans int_nat_eq
          nat_le_iff zero_le_mult_iff linorder_le_cases of_nat_mono nat_int)
    then show ?thesis by (metis of_nat_le_iff of_nat_mult)
  qed
  have "[1..q] = map (\<lambda>i. 1 + int i) [0..<nat q]" for q
    by (rule nth_equalityI) simp_all
  then have "concat (map (\<lambda>p. slice n ((p - 1) * n) rows) [1..total_pages n (int (length rows))])
      = concat (map (\<lambda>i. take k (drop (i * k) rows)) [0..<nat (total_pages n (int (length rows)))])"
    by (simp add: slice_def k(1) comp_def flip: of_nat_mult)
  also have "\<dots> = rows" using len by (simp add: step)
  finally show ?thesis .
qed

end
