(* ===== verification/CaseProperties.thy ===== *)
theory CaseProperties
  imports Failures Samples Schemas
begin

text \<open>
  Properties of the workflow service: what starting a case leaves, that a gated case is never closed
  without a person, what a decision changes, who waits in the review queue, and how requests fail.
\<close>

declare workflow_status_value.simps [simp del] approval_decision_value.simps [simp del]

section \<open>Starting a case\<close>

text \<open>
  C2: starting a case fails, if at all, by the clash of a unique key: a failing agent, router or
  endpoint makes the case fail, not the request. A successful start adds exactly one case, with the
  runs of its steps, its approval if it waits and its audit entry; every other row is untouched. The
  runs are those of the plan in order, all of them successful when the case closes or waits, and cut
  after the first failure when it fails. The case waits exactly when all steps ran and the plan is
  gated or an agent asked for a review.
\<close>
theorem start_outcomes:
  assumes "start_workflow sv ty input creator req s = (r, t)"
    and "quiet_executor (sv_executor sv)" "db_ok (w_db s)"
  shows "case r of Inl e \<Rightarrow> e = integrity_error | Inr v \<Rightarrow> \<exists>w runs aps rows act.
    w_db t = (w_db s)\<lparr>db_workflows := db_workflows (w_db s) @ [w],
       db_agent_runs := db_agent_runs (w_db s) @ runs, db_approvals := db_approvals (w_db s) @ aps,
       db_audit_logs := db_audit_logs (w_db s) @ rows\<rparr>
    \<and> wf_id w \<notin> wf_id ` set (db_workflows (w_db s)) \<and> wf_type w = workflow_type_value ty
    \<and> wf_input w = input \<and> wf_created_by w = creator \<and> v = view_of (w_db t) w
    \<and> start_outcome ty w runs aps act \<and> audit_entries sv act (wf_id w) creator rows
    \<and> map ag_agent_name runs = take (length runs) (map ps_agent (wp_steps (plan_of ty)))"
proof (cases r)
  case (Inl e)
  with start_fails_by_clash [OF _ assms(2,3)] assms(1) show ?thesis by simp
next
  case (Inr v)
  from start_effect [OF assms(1) [unfolded Inr] assms(2,3)] obtain w runs aps rows act where e:
    "w_db t = (w_db s)\<lparr>db_workflows := db_workflows (w_db s) @ [w],
       db_agent_runs := db_agent_runs (w_db s) @ runs, db_approvals := db_approvals (w_db s) @ aps,
       db_audit_logs := db_audit_logs (w_db s) @ rows\<rparr>"
    "wf_id w \<notin> wf_id ` set (db_workflows (w_db s))" "start_outcome ty w runs aps act"
    "audit_entries sv act (wf_id w) creator rows" "wf_type w = workflow_type_value ty"
    "wf_input w = input" "wf_created_by w = creator" "v = view_of (w_db t) w" by metis
  have "map ag_agent_name runs = take (length runs) (map ps_agent (wp_steps (plan_of ty)))"
    using e(3) by (cases rule: start_outcome.cases) (auto dest: steps_trace_runs)
  with e show ?thesis unfolding Inr sum.case by blast
qed

lemma start_outcomes_witness:
  "\<exists>v t w runs aps act. start_workflow sample_service FRAUD_REVIEW [] None None fresh_world = (Inr v, t)
     \<and> db_workflows (w_db t) = [w] \<and> start_outcome FRAUD_REVIEW w runs aps act"
proof -
  obtain v t where r: "start_workflow sample_service FRAUD_REVIEW [] None None fresh_world = (Inr v, t)"
    using sample_start unfolding fresh_world_def by blast
  have "db_ok (w_db fresh_world)" "db_workflows (w_db fresh_world) = []"
    by (simp_all add: fresh_world_def empty_db_def db_ok_def)
  with start_outcomes [OF r sample_service_quiet] r show ?thesis by fastforce
qed

text \<open>
  Starting a KYC, fraud or loan case never closes it: either an agent failed, or the case waits
  with exactly one approval, pending, that asks for the permission of the plan.
\<close>
lemma gated_start_waits:
  assumes "start_workflow sv ty input creator req s = (Inr v, t)"
    and "quiet_executor (sv_executor sv)" "cases_ok (w_db s)"
    and "ty \<in> {KYC, FRAUD_REVIEW, LOAN}"
  shows "wf_status (wv_workflow v) = workflow_status_value WS_FAILED \<and> wv_approvals v = []
    \<or> wf_status (wv_workflow v) = workflow_status_value WS_AWAITING_APPROVAL
      \<and> (\<exists>a. wv_approvals v = [a] \<and> is_pending a
           \<and> ap_required_permission a = approval_permission (plan_of ty))"
proof -
  have ok: "db_ok (w_db s)" using assms(3) by (simp add: cases_ok_def)
  from start_effect [OF assms(1,2) ok] obtain w runs aps rows act where e:
    "w_db t = (w_db s)\<lparr>db_workflows := db_workflows (w_db s) @ [w],
       db_agent_runs := db_agent_runs (w_db s) @ runs, db_approvals := db_approvals (w_db s) @ aps,
       db_audit_logs := db_audit_logs (w_db s) @ rows\<rparr>"
    "wf_id w \<notin> wf_id ` set (db_workflows (w_db s))" "start_outcome ty w runs aps act"
    "v = view_of (w_db t) w" by metis
  have refs: "ap_workflow_id a \<in> wf_id ` set (db_workflows (w_db s))" if "a \<in> set (db_approvals (w_db s))" for a
    using assms(3) that by (simp add: cases_ok_def)
  have "filter (\<lambda>a. ap_workflow_id a = wf_id w) (db_approvals (w_db s)) = []"
    unfolding filter_empty_conv using refs e(2) by metis
  moreover have "filter (\<lambda>a. ap_workflow_id a = wf_id w) aps = aps"
    using start_outcome_state [OF e(3)] by (simp add: filter_id_conv)
  ultimately have aps: "wv_approvals v = aps" by (simp add: e(1,4) view_of_def)
  from e(3) assms(4) plan_gate_iff show ?thesis
    unfolding aps by (cases rule: start_outcome.cases) (auto simp: e(4) view_of_def)
qed

lemma gated_start_witness:
  "\<exists>v t. start_workflow sample_service FRAUD_REVIEW [] None None fresh_world = (Inr v, t)
     \<and> wf_status (wv_workflow v) \<in> {workflow_status_value WS_FAILED, workflow_status_value WS_AWAITING_APPROVAL}"
proof -
  obtain v t where r: "start_workflow sample_service FRAUD_REVIEW [] None None fresh_world = (Inr v, t)"
    using sample_start unfolding fresh_world_def by blast
  have "cases_ok (w_db fresh_world)" by (simp add: fresh_world_def empty_cases_ok)
  from gated_start_waits [OF r sample_service_quiet this] r show ?thesis by blast
qed

section \<open>The life of a case\<close>

lemma escalations_settled: "escalations es \<Longrightarrow> filter is_pending es = []"
  unfolding escalations_def filter_empty_conv using decided_not_pending by blast

lemma case_state_facts:
  assumes "case_state ty st as"
  shows "(st = workflow_status_value WS_AWAITING_APPROVAL \<longleftrightarrow> filter is_pending as \<noteq> [])
    \<and> length (filter is_pending as) \<le> 1
    \<and> (st = workflow_status_value WS_COMPLETED \<longrightarrow>
         \<not> wp_requires_human_approval (plan_of ty) \<or> (\<exists>a \<in> set as. decided AD_APPROVED a))"
  using assms
proof cases
  case (approved es a)
  then have "\<not> is_pending a" using decided_not_pending by blast
  with approved show ?thesis by (simp add: escalations_settled)
next
  case (rejected es a)
  then have "\<not> is_pending a" using decided_not_pending by blast
  with rejected show ?thesis by (simp add: escalations_settled)
qed (simp_all add: escalations_settled)

text \<open>
  C1: in every reachable state, a case awaits approval exactly when it has a pending approval, it has
  at most one, and a completed case of a gated type carries an approval granted by a person.
\<close>
theorem no_gated_completion_without_human:
  assumes "reachable sv s" "quiet_executor (sv_executor sv)" "w \<in> set (db_workflows (w_db s))"
  shows "(wf_status w = workflow_status_value WS_AWAITING_APPROVAL
           \<longleftrightarrow> (\<exists>a \<in> set (approvals_of (wf_id w) (db_approvals (w_db s))). is_pending a))
    \<and> length (filter is_pending (approvals_of (wf_id w) (db_approvals (w_db s)))) \<le> 1
    \<and> (wf_requires_human_approval w \<and> wf_status w = workflow_status_value WS_COMPLETED
        \<longrightarrow> (\<exists>a \<in> set (approvals_of (wf_id w) (db_approvals (w_db s))). decided AD_APPROVED a))"
proof -
  have "case_ok (w_db s) w" using reachable_cases_ok [OF assms(1,2)] assms(3) by (simp add: cases_ok_def)
  then obtain ty where ty: "wf_requires_human_approval w = wp_requires_human_approval (plan_of ty)"
    "case_state ty (wf_status w) (approvals_of (wf_id w) (db_approvals (w_db s)))"
    by (auto simp: case_ok_def)
  from case_state_facts [OF ty(2)] show ?thesis by (simp add: ty(1) filter_empty_conv)
qed

lemma no_gated_completion_witness:
  "\<exists>s t w. serve sample_service (StartCase FRAUD_REVIEW [] None None) fresh_world = (s, t)
     \<and> w \<in> set (db_workflows (w_db t))
     \<and> length (filter is_pending (approvals_of (wf_id w) (db_approvals (w_db t)))) \<le> 1"
proof -
  obtain v t where r: "start_workflow sample_service FRAUD_REVIEW [] None None fresh_world = (Inr v, t)"
    using sample_start unfolding fresh_world_def by blast
  have ok: "db_ok (w_db fresh_world)" by (simp add: fresh_world_def empty_db_def db_ok_def)
  have "\<exists>w. w \<in> set (db_workflows (w_db t))"
    by (rule start_effect [OF r sample_service_quiet ok]) (simp, blast)
  then obtain w where w: "w \<in> set (db_workflows (w_db t))" by blast
  have s: "serve sample_service (StartCase FRAUD_REVIEW [] None None) fresh_world = (Inr v, t)"
    using r by (simp add: in_transaction_Inr)
  have "reachable sample_service fresh_world"
    by (rule reachable.initial) (simp_all add: fresh_world_def empty_db_def)
  from no_gated_completion_without_human [OF reachable.served [OF this s] sample_service_quiet w] s w
  show ?thesis by blast
qed

section \<open>Decisions\<close>



definition closed_case :: workflow_row where
  "closed_case = (new_workflow AUDIT_EVIDENCE [] (plan_of AUDIT_EVIDENCE) None 11 5 5)\<lparr>
     wf_status := workflow_status_value WS_COMPLETED\<rparr>"

definition closed_db :: db where
  "closed_db = empty_db\<lparr>db_workflows := [closed_case]\<rparr>"

lemma closed_simps [simp]:
  "db_workflows closed_db = [closed_case]" "db_approvals closed_db = []" "db_agent_runs closed_db = []"
  "wf_id closed_case = 11" "wf_status closed_case = workflow_status_value WS_COMPLETED"
  by (simp_all add: closed_db_def empty_db_def closed_case_def new_workflow_def)

lemma closed_cases_ok: "cases_ok closed_db"
proof -
  have "case_ok closed_db closed_case"
    unfolding case_ok_def
    by (rule exI [of _ AUDIT_EVIDENCE])
      (auto simp: approvals_of_def closed_case_def new_workflow_def plan_gate_iff
        intro!: case_state.unattended)
  then show ?thesis by (simp add: cases_ok_def db_ok_def)
qed

text \<open>
  C4: a decision on an unknown case is answered by not-found, one on a case that neither awaits
  approval nor was escalated is refused with the case's status, and neither changes anything. A case
  that waits can always be decided: the decision takes effect unless a unique key clashes.
\<close>
theorem decision_outcomes:
  assumes "db_ok (w_db s)" "decide sv i target dec kind actor reason req s = (r, t)"
  shows "case find_workflow i (w_db s) of
      None \<Rightarrow> r = Inl (workflow_not_found i) \<and> t = s
    | Some w \<Rightarrow> (if is_queued w
        then r = Inl integrity_error
          \<or> (\<exists>v. r = Inr v \<and> wf_status (wv_workflow v) = workflow_status_value (final_status target))
        else t = s \<and> (\<forall>cur. wf_status w = workflow_status_value cur \<longrightarrow> r = Inl (not_decidable i cur)))"
proof (cases "find_workflow i (w_db s)")
  case None
  with decide_missing assms(2) show ?thesis by simp
next
  case (Some w)
  show ?thesis
  proof (cases "is_queued w")
    case True
    show ?thesis
    proof (cases r)
      case (Inl e)
      with decide_fails_by_clash [OF _ Some True assms(1)] assms(2) Some True show ?thesis by simp
    next
      case (Inr v)
      from assms(2) [unfolded Inr] have "wf_status (wv_workflow v) = workflow_status_value (final_status target)"
        by (rule decide_effect [OF _ assms(1)]) (simp add: view_of_def)
      with Some True Inr show ?thesis by simp
    qed
  next
    case False
    from decide_unqueued [OF Some this, of sv target dec kind actor reason req] show ?thesis
      unfolding assms(2) using Some False by simp
  qed
qed

lemma decision_outcomes_witness:
  "\<exists>r. reject_workflow sample_service 11 3 None None (w_at 20 0 0 closed_db) = (r, w_at 20 0 0 closed_db)
     \<and> r = Inl (not_decidable 11 WS_COMPLETED)"
proof -
  obtain r t where r: "decide sample_service 11 WS_REJECTED AD_REJECTED AK_REJECTION 3 None None
      (w_at 20 0 0 closed_db) = (r, t)" by fastforce
  have "find_workflow 11 (w_db (w_at 20 0 0 closed_db)) = Some closed_case" "\<not> is_queued closed_case"
    by (simp_all add: find_workflow_def is_queued_def DECIDABLE_def)
  with decision_outcomes [OF _ r] closed_cases_ok r show ?thesis
    by (simp add: reject_workflow_def cases_ok_def)
qed

text \<open>
  C5: a closed case is final: no request of the service changes a case that is completed, rejected
  or failed, nor its approvals.
\<close>
theorem closed_cases_final:
  assumes "serve sv rq s = (r, t)" "quiet_executor (sv_executor sv)" "cases_ok (w_db s)"
    and "w \<in> set (db_workflows (w_db s))" "\<not> is_queued w"
  shows "w \<in> set (db_workflows (w_db t))
    \<and> approvals_of (wf_id w) (db_approvals (w_db t)) = approvals_of (wf_id w) (db_approvals (w_db s))"
proof (cases r)
  case (Inl e)
  have "w_db t = w_db s" using assms(1) in_transaction_Inl unfolding Inl by (cases rq) fastforce+
  with assms(4) show ?thesis by simp
next
  case (Inr v)
  have ok: "db_ok (w_db s)" using assms(3) by (simp add: cases_ok_def)
  then have dist: "distinct (map ap_id (db_approvals (w_db s)))" "distinct (map wf_id (db_workflows (w_db s)))"
    by (simp_all add: db_ok_def)
  have dec: ?thesis if d: "decide sv i target dec kind actor reason req s = (Inr v, t)"
    for i target dec kind actor reason req
  proof (rule decide_effect [OF d ok])
    fix w0 w' bs rows
    assume w0: "find_workflow i (w_db s) = Some w0" "is_queued w0"
      and db: "w_db t = (w_db s)\<lparr>db_workflows := map (\<lambda>x. if wf_id x = i then w' else x) (db_workflows (w_db s)),
         db_approvals := bs, db_audit_logs := db_audit_logs (w_db s) @ rows\<rparr>"
      and st: "settles dec kind actor reason i (db_approvals (w_db s)) bs"
    have "wf_id w \<noteq> i"
      using find_workflow_Some [OF w0(1)] w0(2) assms(4,5) distinct_map_fst_unique [OF dist(2)] by metis
    with settles_other [OF st dist(1) this] assms(4) show ?thesis by (force simp: db)
  qed
  show ?thesis
  proof (cases rq)
    case (StartCase ty input creator req)
    then have "start_workflow sv ty input creator req s = (Inr v, t)"
      using assms(1) Inr by (simp add: in_transaction_Inr)
    from start_effect [OF this assms(2) ok] obtain x runs aps rows act where e:
      "w_db t = (w_db s)\<lparr>db_workflows := db_workflows (w_db s) @ [x],
         db_agent_runs := db_agent_runs (w_db s) @ runs, db_approvals := db_approvals (w_db s) @ aps,
         db_audit_logs := db_audit_logs (w_db s) @ rows\<rparr>"
      "wf_id x \<notin> wf_id ` set (db_workflows (w_db s))" "start_outcome ty x runs aps act" by metis
    have "wf_id w \<noteq> wf_id x" using e(2) assms(4) by (metis image_eqI)
    then have "approvals_of (wf_id w) aps = []"
      using start_outcome_state [OF e(3)] by (auto simp: approvals_of_def filter_empty_conv)
    with assms(4) show ?thesis by (simp add: e(1))
  qed (use assms(1) Inr dec in \<open>auto simp: in_transaction_Inr approve_workflow_def reject_workflow_def
      escalate_workflow_def\<close>)
qed

lemma closed_cases_witness:
  "\<exists>r t. serve sample_service (ApproveCase 11 3 None None) (w_at 20 0 0 closed_db) = (r, t)
     \<and> closed_case \<in> set (db_workflows (w_db t))"
proof -
  obtain r t where r: "serve sample_service (ApproveCase 11 3 None None) (w_at 20 0 0 closed_db) = (r, t)"
    by fastforce
  have "cases_ok (w_db (w_at 20 0 0 closed_db))" "closed_case \<in> set (db_workflows (w_db (w_at 20 0 0 closed_db)))"
    "\<not> is_queued closed_case" by (simp_all add: closed_cases_ok is_queued_def DECIDABLE_def)
  from closed_cases_final [OF r sample_service_quiet this] r show ?thesis by blast
qed

section \<open>The review queue\<close>



declare workflow_status_value.simps [simp] approval_decision_value.simps [simp]

end
