(* ===== verification/Interleaving.thy ===== *)
theory Interleaving
  imports Failures Samples
begin

text \<open>
  Decisions that overlap in time. \<open>_decide\<close> of services/workflow_service.py first reads the case in
  the session of its request and only later, at the flush, writes what it changed; nothing locks the
  row in between. A decision is split here at that point, and the two halves of several requests are
  interleaved. A flush sends the columns whose value differs from the one that was read, so a second
  decision overwrites only these in the row that the first one left. Each half is atomic: the first
  reads one committed state, and of two flushes that write the same row the second waits for the
  commit of the first.
\<close>

declare workflow_status_value.simps [simp del] approval_decision_value.simps [simp del]

section \<open>A decision and its two halves\<close>

datatype verdict = Approve | Reject | Escalate

fun verdict_target :: "verdict \<Rightarrow> workflow_status" where
  "verdict_target Approve = WS_APPROVED"
| "verdict_target Reject = WS_REJECTED"
| "verdict_target Escalate = WS_ESCALATED"

fun verdict_decision :: "verdict \<Rightarrow> approval_decision" where
  "verdict_decision Approve = AD_APPROVED"
| "verdict_decision Reject = AD_REJECTED"
| "verdict_decision Escalate = AD_ESCALATED"

fun verdict_kind :: "verdict \<Rightarrow> approval_kind" where
  "verdict_kind Approve = AK_APPROVAL"
| "verdict_kind Reject = AK_REJECTION"
| "verdict_kind Escalate = AK_ESCALATION"

record decision_call =
  de_case :: uuid
  de_verdict :: verdict
  de_by :: uuid
  de_reason :: "string option"
  de_request :: "string option"

definition decide_call :: "wf_service \<Rightarrow> decision_call \<Rightarrow> workflow_view action" where
  "decide_call sv c = decide sv (de_case c) (verdict_target (de_verdict c))
     (verdict_decision (de_verdict c)) (verdict_kind (de_verdict c)) (de_by c) (de_reason c) (de_request c)"

text \<open>The first half: the case with its approvals, if it can be decided.\<close>

definition open_case :: "uuid \<Rightarrow> workflow_view action" where
  "open_case i = bindE (get_workflow i) (\<lambda>v.
     case enum_parse workflow_status_value (wf_status (wv_workflow v)) of
       None \<Rightarrow> throw (Py ''ValueError'' (wf_status (wv_workflow v)))
     | Some current \<Rightarrow> if current \<notin> set DECIDABLE then throw (not_decidable i current) else ret v)"

text \<open>An UPDATE by primary key of some columns, and the error of the session when no row matches.\<close>

definition stale_data :: "string \<Rightarrow> exn" where
  "stale_data table = Py ''StaleDataError'' (''UPDATE statement on table '' @ [CHR 0x27] @ table @ [CHR 0x27]
     @ '' expected to update 1 row(s); 0 were matched.'')"

definition send_update ::
  "string \<Rightarrow> ('r \<Rightarrow> uuid) \<Rightarrow> (db \<Rightarrow> 'r list) \<Rightarrow> (('r list \<Rightarrow> 'r list) \<Rightarrow> db \<Rightarrow> db) \<Rightarrow> (int \<Rightarrow> 'r \<Rightarrow> 'r)
     \<Rightarrow> uuid \<Rightarrow> ('r \<Rightarrow> 'r) \<Rightarrow> unit action" where
  "send_update table key rows upd touch i columns = bindE utc_now (\<lambda>n s.
     if i \<notin> key ` set (rows (w_db s)) then (Inl (stale_data table), s)
     else (Inr (), s\<lparr>w_db := upd (map (\<lambda>x. if key x = i then touch n (columns x) else x)) (w_db s)\<rparr>))"

text \<open>A column is sent when its value is not the one that was read.\<close>

definition sent :: "'c \<Rightarrow> 'c \<Rightarrow> 'c \<Rightarrow> 'c" where
  "sent loaded new current = (if new = loaded then current else new)"

definition flush_workflow :: "workflow_row \<Rightarrow> workflow_row \<Rightarrow> unit action" where
  "flush_workflow w w' = (if w' = w then ret () else
     send_update ''workflows'' wf_id db_workflows db_workflows_update (\<lambda>n r. r\<lparr>wf_updated_at := n\<rparr>) (wf_id w)
       (\<lambda>x. x\<lparr>wf_status := sent (wf_status w) (wf_status w') (wf_status x)\<rparr>))"

definition flush_approval :: "approval_row \<Rightarrow> approval_row \<Rightarrow> unit action" where
  "flush_approval a a' = (if a' = a then ret () else
     send_update ''approvals'' ap_id db_approvals db_approvals_update (\<lambda>n r. r\<lparr>ap_updated_at := n\<rparr>) (ap_id a)
       (\<lambda>x. x\<lparr>ap_decision := sent (ap_decision a) (ap_decision a') (ap_decision x),
              ap_kind := sent (ap_kind a) (ap_kind a') (ap_kind x),
              ap_decided_by := sent (ap_decided_by a) (ap_decided_by a') (ap_decided_by x),
              ap_decision_reason := sent (ap_decision_reason a) (ap_decision_reason a') (ap_decision_reason x)\<rparr>))"

definition decided_row :: "decision_call \<Rightarrow> approval_row \<Rightarrow> approval_row" where
  "decided_row c = decided_approval (verdict_decision (de_verdict c)) (verdict_kind (de_verdict c))
     (de_by c) (de_reason c)"

definition store_approval :: "workflow_view \<Rightarrow> decision_call \<Rightarrow> unit action" where
  "store_approval v c = (case pending_approval v of
       Some a \<Rightarrow> flush_approval a (decided_row c a)
     | None \<Rightarrow> bindE (insert_approval (\<lambda>i n u. decided_row c
                 (fresh_approval (wf_id (wv_workflow v)) i n u))) (\<lambda>_. ret ()))"

text \<open>The second half, from the view that was read: the changed rows, and the audit entry.\<close>

definition store_decision :: "wf_service \<Rightarrow> workflow_view \<Rightarrow> decision_call \<Rightarrow> unit action" where
  "store_decision sv v c =
     thenE (flush_workflow (wv_workflow v) ((wv_workflow v)\<lparr>wf_status :=
              workflow_status_value (final_status (verdict_target (de_verdict c)))\<rparr>))
     (thenE (store_approval v c)
     (maybe_audit sv (''workflow.'' @ approval_decision_value (verdict_decision (de_verdict c)))
        (wv_workflow v) (Some (de_by c)) (de_request c)
        [(''reason'', JStr (case de_reason c of None \<Rightarrow> '''' | Some r \<Rightarrow> r))]))"

text \<open>Nothing happening in between, the two halves are the decision.\<close>

lemma flush_workflow_update:
  assumes "distinct (map wf_id (db_workflows (w_db s)))" "w \<in> set (db_workflows (w_db s))"
  shows "flush_workflow w (w\<lparr>wf_status := st\<rparr>) s =
    (case update_workflow (w\<lparr>wf_status := st\<rparr>) s of (r, t) \<Rightarrow> (Inr (), t))"
proof (cases "st = wf_status w")
  case True
  then have "w\<lparr>wf_status := st\<rparr> = w" by simp
  with assms(2) show ?thesis by (simp add: flush_workflow_def update_workflow_def update_row_def ret_def)
next
  case False
  then have ne: "w\<lparr>wf_status := st\<rparr> \<noteq> w" by (cases w) simp
  have "w\<lparr>wf_status := st\<rparr> \<notin> set (db_workflows (w_db s))"
    using distinct_map_fst_unique [OF assms(1) _ assms(2), of "w\<lparr>wf_status := st\<rparr>"] ne by auto
  moreover have "map (\<lambda>x. if wf_id x = wf_id w then x\<lparr>wf_status := st, wf_updated_at := n\<rparr> else x)
        (db_workflows d) =
      map (\<lambda>x. if wf_id x = wf_id w then w\<lparr>wf_status := st, wf_updated_at := n\<rparr> else x) (db_workflows d)"
    if "d = w_db s" for d n
    using distinct_map_fst_unique [OF assms(1) _ assms(2)] that by auto
  ultimately show ?thesis
    using False assms(2) ne
    by (auto simp: flush_workflow_def update_workflow_def update_row_def send_update_def bindE_def
        utc_now_def sent_def)
qed

lemma sent_read [simp]: "sent x y x = y"
  by (simp add: sent_def)

lemma flush_approval_update:
  assumes "distinct (map ap_id (db_approvals (w_db s)))" "a \<in> set (db_approvals (w_db s))"
  shows "flush_approval a (decided_row c a) s =
    (case update_approval (decided_row c a) s of (r, t) \<Rightarrow> (Inr (), t))"
proof (cases "decided_row c a = a")
  case True
  with assms(2) show ?thesis by (simp add: flush_approval_def update_approval_def update_row_def ret_def)
next
  case False
  have id: "ap_id (decided_row c a) = ap_id a" by (simp add: decided_row_def decided_approval_def)
  have same: "x = a" if "x \<in> set (db_approvals (w_db s))" "ap_id x = ap_id a" for x
    using distinct_map_fst_unique [OF assms(1) that(1) assms(2) that(2)] .
  then have "decided_row c a \<notin> set (db_approvals (w_db s))" using False id by blast
  moreover have "map (\<lambda>x. if ap_id x = ap_id a then x\<lparr>
         ap_decision := sent (ap_decision a) (ap_decision (decided_row c a)) (ap_decision x),
         ap_kind := sent (ap_kind a) (ap_kind (decided_row c a)) (ap_kind x),
         ap_decided_by := sent (ap_decided_by a) (ap_decided_by (decided_row c a)) (ap_decided_by x),
         ap_decision_reason := sent (ap_decision_reason a) (ap_decision_reason (decided_row c a))
           (ap_decision_reason x), ap_updated_at := n\<rparr> else x) (db_approvals d) =
      map (\<lambda>x. if ap_id x = ap_id a then (decided_row c a)\<lparr>ap_updated_at := n\<rparr> else x) (db_approvals d)"
    if "d = w_db s" for d n
    by (rule map_cong) (use that in \<open>auto dest!: same simp: decided_row_def decided_approval_def\<close>)
  ultimately show ?thesis
    using False assms(2) id
    by (auto simp: flush_approval_def update_approval_def update_row_def send_update_def bindE_def
        utc_now_def)
qed

lemma open_case_state: "open_case i s = (r, t) \<Longrightarrow> t = s"
  by (auto simp: open_case_def get_workflow_def reload_def bindE_def throw_def ret_def
      split: option.splits if_splits)

lemma open_case_view:
  assumes "open_case i s = (Inr v, t)"
  obtains w cur where "t = s" "find_workflow i (w_db s) = Some w" "v = view_of (w_db s) w" "is_queued w"
    "enum_parse workflow_status_value (wf_status w) = Some cur" "cur \<in> set DECIDABLE"
proof -
  from assms obtain w cur where w: "t = s" "find_workflow i (w_db s) = Some w" "v = view_of (w_db s) w"
    "enum_parse workflow_status_value (wf_status w) = Some cur" "cur \<in> set DECIDABLE"
    by (auto simp: open_case_def get_workflow_def reload_def bindE_def throw_def ret_def view_of_def
        split: option.splits if_splits)
  then have "is_queued w" using enum_parse_value [OF w(4)] unfolding is_queued_def by (metis image_eqI)
  with w that show thesis by blast
qed

lemma settle_in_place:
  assumes "distinct (map ap_id (db_approvals (w_db u)))"
    and "\<And>a. pending_approval v = Some a \<Longrightarrow> a \<in> set (db_approvals (w_db u))"
  shows "store_approval v c u = bindE (settle_approval v (verdict_decision (de_verdict c))
      (verdict_kind (de_verdict c)) (de_by c) (de_reason c)) (\<lambda>_. ret ()) u"
proof (cases "pending_approval v")
  case None
  then show ?thesis
    by (simp add: settle_approval_def store_approval_def decided_row_def)
next
  case (Some a)
  from flush_approval_update [OF assms(1) assms(2) [OF Some], of c] Some show ?thesis
    by (auto simp: settle_approval_def store_approval_def decided_row_def update_approval_def
        update_row_def bindE_def utc_now_def ret_def)
qed

lemma decide_phases:
  assumes "db_ok (w_db s)"
  shows "decide_call sv c s =
    bindE (open_case (de_case c)) (\<lambda>v. thenE (store_decision sv v c) (reload (de_case c))) s"
proof (cases "open_case (de_case c) s")
  case (Pair r t)
  show ?thesis
  proof (cases r)
    case (Inl e)
    with Pair show ?thesis
      by (auto simp: decide_call_def decide_def open_case_def get_workflow_def reload_def bindE_def
          throw_def ret_def split: option.splits if_splits)
  next
    case (Inr v)
    from open_case_view [OF Pair [unfolded Inr]] obtain w cur where w:
      "t = s" "find_workflow (de_case c) (w_db s) = Some w" "v = view_of (w_db s) w"
      "enum_parse workflow_status_value (wf_status w) = Some cur" "cur \<in> set DECIDABLE" by blast
    let ?w = "w\<lparr>wf_status := workflow_status_value (final_status (verdict_target (de_verdict c)))\<rparr>"
    let ?settle = "settle_approval v (verdict_decision (de_verdict c)) (verdict_kind (de_verdict c))
       (de_by c) (de_reason c)"
    let ?audit = "\<lambda>w. maybe_audit sv (''workflow.'' @ approval_decision_value (verdict_decision (de_verdict c)))
       w (Some (de_by c)) (de_request c)
       [(''reason'', JStr (case de_reason c of None \<Rightarrow> '''' | Some r \<Rightarrow> r))]"
    have wv: "wv_workflow v = w" by (simp add: w(3) view_of_def)
    have dist: "distinct (map wf_id (db_workflows (w_db s)))" "distinct (map ap_id (db_approvals (w_db s)))"
      using assms by (simp_all add: db_ok_def)
    have mem: "w \<in> set (db_workflows (w_db s))" using find_workflow_Some [OF w(2)] by blast
    obtain w' u where upd: "update_workflow ?w s = (Inr w', u)"
      "w_db u = (w_db s)\<lparr>db_workflows := map (\<lambda>x. if wf_id x = wf_id ?w then w' else x) (db_workflows (w_db s))\<rparr>"
      "w' = ?w \<or> (\<exists>n. w' = ?w\<lparr>wf_updated_at := n\<rparr>)"
      using update_workflow_run [OF dist(1), of ?w] by blast
    have aps: "db_approvals (w_db u) = db_approvals (w_db s)" by (simp add: upd(2))
    have settle: "store_approval v c u = bindE ?settle (\<lambda>_. ret ()) u"
      by (rule settle_in_place) (use dist(2) aps in \<open>auto simp: w(3) pending_of_view dest: find_SomeD\<close>)
    have "wf_id w' = wf_id w" using upd(3) by auto
    then have audit: "?audit w' = ?audit w" by (simp add: maybe_audit_def workflow_event_def)
    have "decide_call sv c s = bindE (update_workflow ?w)
        (\<lambda>w'. thenE ?settle (thenE (?audit w') (reload (de_case c)))) s"
      by (simp add: decide_call_def decide_def bindE_def get_workflow_def reload_def w(2,4,5) view_of_def
          split: prod.split sum.split)
        (simp add: w(3) view_of_def)
    also have "\<dots> = thenE ?settle (thenE (?audit w) (reload (de_case c))) u"
      by (simp only: bindE_def upd(1) split_conv prod.case sum.case audit)
    also have "\<dots> = bindE (bindE ?settle (\<lambda>_. ret ())) (\<lambda>_. thenE (?audit w) (reload (de_case c))) u"
      by (simp only: bindE_assoc bindE_ret thenE_def)
    also have "\<dots> = thenE (store_approval v c) (thenE (?audit w) (reload (de_case c))) u"
      by (simp add: thenE_def bindE_def settle)
    also have "\<dots> = thenE (store_decision sv v c) (reload (de_case c)) s"
      using flush_workflow_update [OF dist(1) mem] upd(1)
      by (simp add: store_decision_def thenE_def bindE_def wv split: prod.splits sum.splits)
    finally show ?thesis by (simp add: bindE_def Pair Inr w(1))
  qed
qed

section \<open>Interleaved requests\<close>

text \<open>
  A request that decides has not read its case yet, holds the view it read, or is done. The requests
  that arrive take turns in any order; starting a case writes only rows nobody else knows of before
  its commit, so it stays one step.
\<close>

datatype session =
    Asking decision_call
  | Holding decision_call workflow_view
  | Done decision_call "exn + unit"

inductive turn :: "wf_service \<Rightarrow> world \<times> session list \<Rightarrow> world \<times> session list \<Rightarrow> bool" for sv where
  arrives: "turn sv (s, ss) (s, ss @ [Asking c])"
| reads: "k < length ss \<Longrightarrow> ss ! k = Asking c \<Longrightarrow> open_case (de_case c) s = (Inr v, t) \<Longrightarrow>
     turn sv (s, ss) (t, ss[k := Holding c v])"
| refused: "k < length ss \<Longrightarrow> ss ! k = Asking c \<Longrightarrow> open_case (de_case c) s = (Inl e, t) \<Longrightarrow>
     turn sv (s, ss) (t, ss[k := Done c (Inl e)])"
| writes: "k < length ss \<Longrightarrow> ss ! k = Holding c v \<Longrightarrow>
     in_transaction (store_decision sv v c) s = (r, t) \<Longrightarrow> turn sv (s, ss) (t, ss[k := Done c r])"
| starts: "serve sv (StartCase ty input creator req) s = (r, t) \<Longrightarrow> turn sv (s, ss) (t, ss)"
| elsewhere: "same_cases (w_db s) (w_db t) \<Longrightarrow> turn sv (s, ss) (t, ss)"

inductive_cases turn_elims: "turn sv (s, ss) (t, ts)"

inductive interleaved :: "wf_service \<Rightarrow> world \<times> session list \<Rightarrow> bool" for sv where
  nobody: "cases_ok (w_db s) \<Longrightarrow> interleaved sv (s, [])"
| takes_turn: "interleaved sv p \<Longrightarrow> turn sv p q \<Longrightarrow> interleaved sv q"

section \<open>What a flush changes\<close>

lemma send_update_Inr:
  "send_update table key rows upd touch i columns s = (Inr (), t) \<Longrightarrow>
     \<exists>n. w_db t = upd (map (\<lambda>x. if key x = i then touch n (columns x) else x)) (w_db s)"
  by (auto simp: send_update_def bindE_def utc_now_def split: if_splits)

lemma flush_workflow_Inr:
  assumes "flush_workflow w (w\<lparr>wf_status := st\<rparr>) s = (Inr (), t)"
  obtains f where "w_db t = (w_db s)\<lparr>db_workflows :=
      map (\<lambda>x. if wf_id x = wf_id w then f x else x) (db_workflows (w_db s))\<rparr>"
    "\<And>x. same_case x (f x) \<and> wf_status (f x) = sent (wf_status w) st (wf_status x)"
proof (cases "w\<lparr>wf_status := st\<rparr> = w")
  case True
  then have "wf_status (w\<lparr>wf_status := st\<rparr>) = wf_status w" by (simp only:)
  with True assms show thesis
    by (intro that [of "\<lambda>x. x"]) (auto simp: flush_workflow_def ret_def same_case_def sent_def)
next
  case False
  let ?f = "\<lambda>n x. x\<lparr>wf_status := sent (wf_status w) st (wf_status x), wf_updated_at := n\<rparr>"
  from False assms send_update_Inr obtain n where "w_db t = db_workflows_update
      (map (\<lambda>x. if wf_id x = wf_id w then ?f n x else x)) (w_db s)"
    unfolding flush_workflow_def by fastforce
  then show thesis by (intro that [of "?f n"]) (simp_all add: same_case_def)
qed

text \<open>The columns of an approval after a decision that read \<open>a\<close>.\<close>

definition overwritten :: "decision_call \<Rightarrow> approval_row \<Rightarrow> approval_row \<Rightarrow> approval_row \<Rightarrow> bool" where
  "overwritten c a x y \<longleftrightarrow> same_request x y
     \<and> ap_decision y = sent (ap_decision a) (approval_decision_value (verdict_decision (de_verdict c))) (ap_decision x)
     \<and> ap_kind y = sent (ap_kind a) (approval_kind_value (verdict_kind (de_verdict c))) (ap_kind x)
     \<and> ap_decided_by y = sent (ap_decided_by a) (Some (de_by c)) (ap_decided_by x)
     \<and> ap_decision_reason y = sent (ap_decision_reason a) (de_reason c) (ap_decision_reason x)"

lemma decided_columns:
  "ap_decision (decided_row c a) = approval_decision_value (verdict_decision (de_verdict c))"
  "ap_kind (decided_row c a) = approval_kind_value (verdict_kind (de_verdict c))"
  "ap_decided_by (decided_row c a) = Some (de_by c)" "ap_decision_reason (decided_row c a) = de_reason c"
  by (simp_all add: decided_row_def decided_approval_def)

lemma flush_approval_Inr:
  assumes "flush_approval a (decided_row c a) s = (Inr (), t)"
  obtains f where "w_db t = (w_db s)\<lparr>db_approvals :=
      map (\<lambda>x. if ap_id x = ap_id a then f x else x) (db_approvals (w_db s))\<rparr>"
    "\<And>x. overwritten c a x (f x)"
proof (cases "decided_row c a = a")
  case True
  note cols = decided_columns [of c a, unfolded True]
  have "overwritten c a x x" for x
    by (simp add: overwritten_def same_request_def sent_def cols [symmetric])
  with True assms show thesis
    by (intro that [of "\<lambda>x. x"]) (auto simp: flush_approval_def ret_def)
next
  case False
  let ?a = "decided_row c a"
  let ?f = "\<lambda>n x. x\<lparr>ap_decision := sent (ap_decision a) (ap_decision ?a) (ap_decision x),
     ap_kind := sent (ap_kind a) (ap_kind ?a) (ap_kind x),
     ap_decided_by := sent (ap_decided_by a) (ap_decided_by ?a) (ap_decided_by x),
     ap_decision_reason := sent (ap_decision_reason a) (ap_decision_reason ?a) (ap_decision_reason x),
     ap_updated_at := n\<rparr>"
  have "overwritten c a x (?f n x)" for n x
    by (simp add: overwritten_def same_request_def decided_columns)
  moreover from False assms send_update_Inr obtain n where "w_db t = db_approvals_update
      (map (\<lambda>x. if ap_id x = ap_id a then ?f n x else x)) (w_db s)"
    unfolding flush_approval_def by fastforce
  ultimately show thesis by (intro that [of "?f n"]) simp_all
qed

inductive restates :: "workflow_view \<Rightarrow> decision_call \<Rightarrow> approval_row list \<Rightarrow> approval_row list \<Rightarrow> bool"
  for v c as where
  over: "pending_approval v = Some a \<Longrightarrow> (\<And>x. overwritten c a x (g x)) \<Longrightarrow>
     restates v c as (map (\<lambda>x. if ap_id x = ap_id a then g x else x) as)"
| adds: "pending_approval v = None \<Longrightarrow> ap_id b \<notin> ap_id ` set as \<Longrightarrow>
     ap_workflow_id b = wf_id (wv_workflow v) \<Longrightarrow>
     decision_of (verdict_decision (de_verdict c)) (verdict_kind (de_verdict c)) (de_by c) (de_reason c) b \<Longrightarrow>
     restates v c as (as @ [b])"

lemma store_approval_Inr:
  assumes "store_approval v c s = (Inr (), t)"
  obtains bs where "w_db t = (w_db s)\<lparr>db_approvals := bs\<rparr>" "restates v c (db_approvals (w_db s)) bs"
proof (cases "pending_approval v")
  case None
  with assms obtain b where "insert_row (same_key ap_id) db_approvals db_approvals_update
      (\<lambda>i n u. decided_row c (fresh_approval (wf_id (wv_workflow v)) i n u)) s = (Inr b, t)"
    by (auto simp: store_approval_def insert_approval_def bindE_Inr ret_def)
  from insert_row_Inr [OF this] obtain i n u where b:
    "b = decided_row c (fresh_approval (wf_id (wv_workflow v)) i n u)"
    "\<not> list_ex (same_key ap_id b) (db_approvals (w_db s))"
    "w_db t = db_approvals_update (\<lambda>rs. rs @ [b]) (w_db s)" by blast
  have "restates v c (db_approvals (w_db s)) (db_approvals (w_db s) @ [b])"
  proof (rule restates.adds [OF None])
    show "ap_id b \<notin> ap_id ` set (db_approvals (w_db s))"
      using b(2) by (auto simp: list_ex_iff same_key_def)
    show "ap_workflow_id b = wf_id (wv_workflow v)"
      by (simp add: b(1) decided_row_def decided_approval_def fresh_approval_def new_approval_def)
  qed (simp add: b(1) decision_of_def decided_columns)
  with b(3) show thesis by (intro that) simp_all
next
  case (Some a)
  with assms have "flush_approval a (decided_row c a) s = (Inr (), t)" by (simp add: store_approval_def)
  then obtain g where g: "w_db t = (w_db s)\<lparr>db_approvals :=
      map (\<lambda>x. if ap_id x = ap_id a then g x else x) (db_approvals (w_db s))\<rparr>"
    "\<And>x. overwritten c a x (g x)" by (rule flush_approval_Inr) (iprover intro: that)
  show thesis by (rule that [OF g(1) restates.over [OF Some g(2)]])
qed

definition verdict_status :: "verdict \<Rightarrow> string" where
  "verdict_status d = workflow_status_value (final_status (verdict_target d))"

lemma store_decision_Inr:
  assumes "store_decision sv v c s = (Inr (), t)"
  obtains f bs rows where
    "w_db t = (w_db s)\<lparr>db_workflows :=
         map (\<lambda>x. if wf_id x = wf_id (wv_workflow v) then f x else x) (db_workflows (w_db s)),
       db_approvals := bs, db_audit_logs := db_audit_logs (w_db s) @ rows\<rparr>"
    "\<And>x. same_case x (f x) \<and> wf_status (f x) =
       sent (wf_status (wv_workflow v)) (verdict_status (de_verdict c)) (wf_status x)"
    "restates v c (db_approvals (w_db s)) bs"
    "audit_entries sv (''workflow.'' @ approval_decision_value (verdict_decision (de_verdict c)))
       (wf_id (wv_workflow v)) (Some (de_by c)) rows"
proof -
  let ?w = "wv_workflow v"
  from assms obtain p q where steps:
    "flush_workflow ?w (?w\<lparr>wf_status := verdict_status (de_verdict c)\<rparr>) s = (Inr (), p)"
    "store_approval v c p = (Inr (), q)"
    "maybe_audit sv (''workflow.'' @ approval_decision_value (verdict_decision (de_verdict c))) ?w
       (Some (de_by c)) (de_request c)
       [(''reason'', JStr (case de_reason c of None \<Rightarrow> '''' | Some r \<Rightarrow> r))] q = (Inr (), t)"
    by (auto simp: store_decision_def thenE_def bindE_Inr verdict_status_def)
  obtain f where f: "w_db p = (w_db s)\<lparr>db_workflows :=
      map (\<lambda>x. if wf_id x = wf_id ?w then f x else x) (db_workflows (w_db s))\<rparr>"
    "\<And>x. same_case x (f x) \<and> wf_status (f x) = sent (wf_status ?w) (verdict_status (de_verdict c)) (wf_status x)"
    by (blast intro: flush_workflow_Inr [OF steps(1)])
  obtain bs where bs: "w_db q = (w_db p)\<lparr>db_approvals := bs\<rparr>" "restates v c (db_approvals (w_db p)) bs"
    by (blast intro: store_approval_Inr [OF steps(2)])
  obtain rows where rows: "w_db t = (w_db q)\<lparr>db_audit_logs := db_audit_logs (w_db q) @ rows\<rparr>"
    "audit_entries sv (''workflow.'' @ approval_decision_value (verdict_decision (de_verdict c)))
       (wf_id ?w) (Some (de_by c)) rows"
    using maybe_audit_Inr [OF steps(3)] audit_entriesI by metis
  show thesis
    by (rule that [OF _ f(2) _ rows(2)]) (use bs(2) in \<open>simp_all add: rows(1) bs(1) f(1)\<close>)
qed

section \<open>The gate under interleaving\<close>

text \<open>
  What holds of a case and its approvals whatever the order of the turns: only a waiting case has a
  pending approval, at most one, and a gated case that is completed has an approval by a person.
\<close>

definition gate_state :: "bool \<Rightarrow> string \<Rightarrow> approval_row list \<Rightarrow> bool" where
  "gate_state needed st as \<longleftrightarrow>
     (\<forall>a \<in> set as. is_pending a \<longrightarrow> st = workflow_status_value WS_AWAITING_APPROVAL)
     \<and> (\<forall>a \<in> set as. \<forall>b \<in> set as. is_pending a \<and> is_pending b \<longrightarrow> a = b)
     \<and> (needed \<and> st = workflow_status_value WS_COMPLETED \<longrightarrow> (\<exists>a \<in> set as. decided AD_APPROVED a))"

definition gates_ok :: "db \<Rightarrow> bool" where
  "gates_ok d \<longleftrightarrow> db_ok d
     \<and> (\<forall>w \<in> set (db_workflows d). gate_state (wf_requires_human_approval w) (wf_status w)
          (approvals_of (wf_id w) (db_approvals d)))
     \<and> (\<forall>a \<in> set (db_approvals d). ap_workflow_id a \<in> wf_id ` set (db_workflows d))"

lemma case_gate_state: "case_state ty st as \<Longrightarrow> gate_state (wp_requires_human_approval (plan_of ty)) st as"
  by (erule case_stateE)
    (auto simp: gate_state_def escalations_def dest: decided_not_pending)

lemma case_ok_gate: "case_ok d w \<Longrightarrow>
    gate_state (wf_requires_human_approval w) (wf_status w) (approvals_of (wf_id w) (db_approvals d))"
proof -
  assume "case_ok d w"
  then obtain ty where "wf_requires_human_approval w = wp_requires_human_approval (plan_of ty)"
    "case_state ty (wf_status w) (approvals_of (wf_id w) (db_approvals d))" by (auto simp: case_ok_def)
  with case_gate_state show ?thesis by (simp only:)
qed

lemma cases_gates_ok: "cases_ok d \<Longrightarrow> gates_ok d"
  by (auto simp: cases_ok_def gates_ok_def case_ok_gate)

text \<open>What a request that read the case may rely on until it writes.\<close>

definition holds_approval :: "db \<Rightarrow> uuid \<Rightarrow> approval_row \<Rightarrow> bool" where
  "holds_approval d i a \<longleftrightarrow> (\<exists>b \<in> set (db_approvals d). ap_id b = ap_id a)
     \<and> (\<forall>b \<in> set (db_approvals d). ap_id b = ap_id a \<longrightarrow> ap_workflow_id b = i
          \<and> (ap_decided_by a \<noteq> None \<longrightarrow> ap_decided_by b \<noteq> None))
     \<and> (\<forall>b \<in> set (db_approvals d). is_pending b \<and> ap_workflow_id b = i \<longrightarrow> ap_id b = ap_id a)"

definition none_pending :: "db \<Rightarrow> uuid \<Rightarrow> bool" where
  "none_pending d i \<longleftrightarrow> (\<forall>b \<in> set (db_approvals d). is_pending b \<longrightarrow> ap_workflow_id b \<noteq> i)"

definition held_ok :: "db \<Rightarrow> workflow_view \<Rightarrow> bool" where
  "held_ok d v \<longleftrightarrow> wf_id (wv_workflow v) \<in> wf_id ` set (db_workflows d) \<and> is_queued (wv_workflow v)
     \<and> (case pending_approval v of
          None \<Rightarrow> none_pending d (wf_id (wv_workflow v))
        | Some a \<Rightarrow> wf_status (wv_workflow v) = workflow_status_value WS_AWAITING_APPROVAL \<and> is_pending a
            \<and> holds_approval d (wf_id (wv_workflow v)) a)"

fun session_ok :: "db \<Rightarrow> session \<Rightarrow> bool" where
  "session_ok d (Asking c) = True"
| "session_ok d (Holding c v) = held_ok d v"
| "session_ok d (Done c r) = True"

lemma read_held_ok:
  assumes "open_case i s = (Inr v, t)" "gates_ok (w_db s)"
  shows "held_ok (w_db t) v"
proof -
  from open_case_view [OF assms(1)] obtain w where w: "t = s" "find_workflow i (w_db s) = Some w"
    "v = view_of (w_db s) w" "is_queued w" by blast
  have wv: "wv_workflow v = w" by (simp add: w(3) view_of_def)
  note in_db = find_workflow_Some [OF w(2)]
  have gate: "gate_state (wf_requires_human_approval w) (wf_status w) (approvals_of (wf_id w) (db_approvals (w_db s)))"
    and dist: "distinct (map ap_id (db_approvals (w_db s)))"
    using assms(2) in_db by (auto simp: gates_ok_def db_ok_def)
  show ?thesis
  proof (cases "pending_approval v")
    case None
    then have "none_pending (w_db s) (wf_id w)"
      unfolding w(3) pending_of_view find_None_iff none_pending_def by blast
    with None w(4) in_db show ?thesis by (auto simp: held_ok_def w(1) wv)
  next
    case (Some a)
    from Some have a: "a \<in> set (db_approvals (w_db s))" "ap_workflow_id a = wf_id w" "is_pending a"
      unfolding w(3) pending_of_view by (blast dest: find_SomeD)+
    then have "a \<in> set (approvals_of (wf_id w) (db_approvals (w_db s)))" by (simp add: approvals_of_def)
    with gate a(3) have "wf_status w = workflow_status_value WS_AWAITING_APPROVAL"
      unfolding gate_state_def by blast
    moreover have "holds_approval (w_db s) (wf_id w) a"
    proof -
      have same: "b = a" if "b \<in> set (db_approvals (w_db s))" "ap_id b = ap_id a" for b
        using distinct_map_fst_unique [OF dist that(1) a(1) that(2)] .
      have "b = a" if "b \<in> set (db_approvals (w_db s))" "is_pending b" "ap_workflow_id b = wf_id w" for b
        using gate a that by (simp add: gate_state_def approvals_of_def)
      with same a show ?thesis unfolding holds_approval_def by blast
    qed
    ultimately show ?thesis using Some a(3) in_db w(4) by (auto simp: held_ok_def w(1) wv)
  qed
qed

text \<open>How every turn changes the rows a waiting request relies on.\<close>

definition evolves :: "db \<Rightarrow> db \<Rightarrow> bool" where
  "evolves d d' \<longleftrightarrow> wf_id ` set (db_workflows d) \<subseteq> wf_id ` set (db_workflows d')
     \<and> ap_id ` set (db_approvals d) \<subseteq> ap_id ` set (db_approvals d')
     \<and> (\<forall>b' \<in> set (db_approvals d').
          (\<exists>b \<in> set (db_approvals d). ap_id b' = ap_id b \<and> ap_workflow_id b' = ap_workflow_id b
             \<and> (ap_decided_by b \<noteq> None \<longrightarrow> ap_decided_by b' \<noteq> None) \<and> (is_pending b' \<longrightarrow> is_pending b))
          \<or> ap_id b' \<notin> ap_id ` set (db_approvals d)
             \<and> (is_pending b' \<longrightarrow> ap_workflow_id b' \<notin> wf_id ` set (db_workflows d)))"

lemma evolves_approval:
  assumes "evolves d d'" "b' \<in> set (db_approvals d')"
  obtains b where "b \<in> set (db_approvals d)" "ap_id b' = ap_id b" "ap_workflow_id b' = ap_workflow_id b"
      "ap_decided_by b \<noteq> None \<longrightarrow> ap_decided_by b' \<noteq> None" "is_pending b' \<longrightarrow> is_pending b"
  | "ap_id b' \<notin> ap_id ` set (db_approvals d)"
      "is_pending b' \<longrightarrow> ap_workflow_id b' \<notin> wf_id ` set (db_workflows d)"
  using assms unfolding evolves_def by blast

lemma evolves_none:
  assumes "evolves d d'" "i \<in> wf_id ` set (db_workflows d)" "none_pending d i"
  shows "none_pending d' i"
  unfolding none_pending_def
proof (intro ballI impI)
  fix b' assume b: "b' \<in> set (db_approvals d')" "is_pending b'"
  show "ap_workflow_id b' \<noteq> i"
    by (rule evolves_approval [OF assms(1) b(1)]) (use b(2) assms(2,3) in \<open>auto simp: none_pending_def\<close>)
qed

lemma evolves_holds:
  assumes "evolves d d'" "i \<in> wf_id ` set (db_workflows d)" "holds_approval d i a"
  shows "holds_approval d' i a"
proof -
  from assms(3) obtain b where "b \<in> set (db_approvals d)" "ap_id b = ap_id a" unfolding holds_approval_def by blast
  then have id: "ap_id a \<in> ap_id ` set (db_approvals d)" by (metis image_eqI)
  then have "ap_id a \<in> ap_id ` set (db_approvals d')" using assms(1) unfolding evolves_def by blast
  then obtain b' where still: "b' \<in> set (db_approvals d')" "ap_id b' = ap_id a" by (metis imageE)
  from assms(3) have known: "b \<in> set (db_approvals d) \<Longrightarrow> ap_id b = ap_id a \<Longrightarrow>
      ap_workflow_id b = i \<and> (ap_decided_by a \<noteq> None \<longrightarrow> ap_decided_by b \<noteq> None)"
    and only: "b \<in> set (db_approvals d) \<Longrightarrow> is_pending b \<Longrightarrow> ap_workflow_id b = i \<Longrightarrow> ap_id b = ap_id a" for b
    unfolding holds_approval_def by blast+
  have new_known: "ap_workflow_id b' = i \<and> (ap_decided_by a \<noteq> None \<longrightarrow> ap_decided_by b' \<noteq> None)"
    if b: "b' \<in> set (db_approvals d')" "ap_id b' = ap_id a" for b'
    by (rule evolves_approval [OF assms(1) b(1)]) (use b(2) known id in metis)+
  have new_only: "ap_id b' = ap_id a"
    if b: "b' \<in> set (db_approvals d')" "is_pending b'" "ap_workflow_id b' = i" for b'
    by (rule evolves_approval [OF assms(1) b(1)]) (use b(2,3) only assms(2) in metis)+
  show ?thesis unfolding holds_approval_def using still new_known new_only by blast
qed

lemma evolves_held:
  assumes "evolves d d'" "held_ok d v"
  shows "held_ok d' v"
proof -
  have i: "wf_id (wv_workflow v) \<in> wf_id ` set (db_workflows d)" using assms(2) by (simp add: held_ok_def)
  moreover have "wf_id (wv_workflow v) \<in> wf_id ` set (db_workflows d')" using i assms(1) by (auto simp: evolves_def)
  ultimately show ?thesis
    using assms(2) evolves_none [OF assms(1) i] evolves_holds [OF assms(1) i]
    by (simp add: held_ok_def split: option.splits)
qed

lemma evolves_session: "evolves d d' \<Longrightarrow> session_ok d x \<Longrightarrow> session_ok d' x"
  by (cases x) (auto intro: evolves_held)

lemma evolves_same: "same_cases d d' \<Longrightarrow> evolves d d'"
  by (auto simp: evolves_def same_cases_def)

lemma gates_ok_same: "same_cases d d' \<Longrightarrow> gates_ok d \<Longrightarrow> gates_ok d'"
  by (simp add: gates_ok_def same_cases_def db_ok_def)

lemma verdict_decided: "verdict_decision d \<noteq> AD_PENDING"
  by (cases d) simp_all

lemma verdict_status_cases:
  "verdict_status d = workflow_status_value WS_COMPLETED \<longleftrightarrow> d = Approve"
  "verdict_status d \<noteq> workflow_status_value WS_AWAITING_APPROVAL"
  "wf_status w = verdict_status d \<Longrightarrow> is_queued w \<Longrightarrow> d = Escalate"
  by (cases d; auto simp: verdict_status_def final_status_def is_queued_def DECIDABLE_def)+

lemma restates_evolves:
  assumes "restates v c as bs" "wf_id (wv_workflow v) \<in> wf_id ` set (db_workflows d)" "db_approvals d = as"
    "db_approvals d' = bs" "wf_id ` set (db_workflows d') = wf_id ` set (db_workflows d)"
  shows "evolves d d'"
  using assms(1)
proof cases
  case (over a g)
  have g: "ap_id (g x) = ap_id x \<and> ap_workflow_id (g x) = ap_workflow_id x
      \<and> (ap_decided_by x \<noteq> None \<longrightarrow> ap_decided_by (g x) \<noteq> None) \<and> (is_pending (g x) \<longrightarrow> is_pending x)" for x
    using over(3) [of x] verdict_decided [of "de_verdict c"]
    by (auto simp: overwritten_def same_request_def sent_def is_pending_def split: if_splits)
  have "map ap_id bs = map ap_id as" unfolding over(1) using g by simp
  then have "ap_id ` set bs = ap_id ` set as" by (metis set_map)
  moreover have "\<exists>b \<in> set as. ap_id b' = ap_id b \<and> ap_workflow_id b' = ap_workflow_id b
      \<and> (ap_decided_by b \<noteq> None \<longrightarrow> ap_decided_by b' \<noteq> None) \<and> (is_pending b' \<longrightarrow> is_pending b)"
    if "b' \<in> set bs" for b'
  proof -
    from that obtain x where x: "x \<in> set as" "b' = g x \<or> b' = x" unfolding over(1) by (auto split: if_splits)
    with g [of x] show ?thesis by (intro bexI [of _ x]) auto
  qed
  ultimately show ?thesis using assms(3-5) by (simp add: evolves_def)
next
  case (adds b)
  have "\<not> is_pending b" by (rule decided_not_pending [OF decision_decided [OF adds(5)] verdict_decided])
  with adds assms(3-5) show ?thesis by (auto simp: evolves_def)
qed

text \<open>The case itself after the write of a request that held it.\<close>

lemma stored_gate:
  assumes "held_ok d v" "restates v c (db_approvals d) bs" "wf_id w = wf_id (wv_workflow v)"
    and "gate_state needed (wf_status w) (approvals_of (wf_id w) (db_approvals d))"
    and st: "st = sent (wf_status (wv_workflow v)) (verdict_status (de_verdict c)) (wf_status w)"
  shows "gate_state needed st (approvals_of (wf_id w) bs)"
  using assms(2)
proof cases
  case (over a g)
  have held: "wf_status (wv_workflow v) = workflow_status_value WS_AWAITING_APPROVAL" "is_pending a"
    "holds_approval d (wf_id w) a" using assms(1) over(2) by (simp_all add: held_ok_def assms(3))
  then obtain b where h: "wf_status (wv_workflow v) = workflow_status_value WS_AWAITING_APPROVAL"
    "is_pending a" "b \<in> set (db_approvals d)" "ap_id b = ap_id a" "ap_workflow_id b = wf_id w"
    "ap_decided_by a \<noteq> None \<longrightarrow> ap_decided_by b \<noteq> None"
    and only: "\<forall>b \<in> set (db_approvals d). is_pending b \<and> ap_workflow_id b = wf_id w \<longrightarrow> ap_id b = ap_id a"
    unfolding holds_approval_def by blast
  have new: "st = verdict_status (de_verdict c)"
    using h(1) verdict_status_cases(2) by (simp add: st sent_def)
  have g: "ap_decision (g x) = approval_decision_value (verdict_decision (de_verdict c))"
    "ap_workflow_id (g x) = ap_workflow_id x" for x
    using over(3) [of x] h(2) verdict_decided [of "de_verdict c"]
    by (auto simp: overwritten_def same_request_def sent_def is_pending_def)
  have none: "\<not> is_pending x" if "x \<in> set (approvals_of (wf_id w) bs)" for x
    using that only g verdict_decided [of "de_verdict c"]
    unfolding over(1) by (auto simp: approvals_of_def is_pending_def split: if_splits)
  have "ap_decided_by (g b) \<noteq> None"
    using over(3) [of b] h(6) by (auto simp: overwritten_def sent_def)
  then have "decided (verdict_decision (de_verdict c)) (g b)" using g by (simp add: decided_def)
  moreover have "g b \<in> set (approvals_of (wf_id w) bs)"
    using h(3-5) g(2) unfolding over(1) by (auto simp: approvals_of_def intro!: image_eqI [of _ _ b])
  ultimately show ?thesis
    using none verdict_status_cases(1) [of "de_verdict c"] unfolding gate_state_def new by auto
next
  case (adds b)
  have b: "decided (verdict_decision (de_verdict c)) b" "b \<in> set (approvals_of (wf_id w) bs)"
    using adds by (auto simp: decision_decided approvals_of_def assms(3))
  have none: "\<not> is_pending x" if "x \<in> set (approvals_of (wf_id w) bs)" for x
    using that assms(1) adds(2) decided_not_pending [OF b(1) verdict_decided]
    unfolding adds(1) by (auto simp: held_ok_def none_pending_def approvals_of_def assms(3) split: if_splits)
  have "\<exists>a \<in> set (approvals_of (wf_id w) bs). decided AD_APPROVED a"
    if "needed" "st = workflow_status_value WS_COMPLETED"
  proof (cases "de_verdict c = Approve")
    case True
    with b show ?thesis by auto
  next
    case False
    then have "st = wf_status w"
      using that(2) verdict_status_cases(1) [of "de_verdict c"] by (auto simp: st sent_def split: if_splits)
    with that assms(4) obtain a where "a \<in> set (approvals_of (wf_id w) (db_approvals d))" "decided AD_APPROVED a"
      unfolding gate_state_def by metis
    then show ?thesis unfolding adds(1) by auto
  qed
  with none show ?thesis unfolding gate_state_def by blast
qed

lemma restates_other:
  assumes "held_ok d v" "restates v c (db_approvals d) bs" "j \<noteq> wf_id (wv_workflow v)"
  shows "approvals_of j bs = approvals_of j (db_approvals d)"
  using assms(2)
proof cases
  case (over a g)
  have "approvals_of j (map (\<lambda>x. if ap_id x = ap_id a then g x else x) as) = approvals_of j as"
    if "set as \<subseteq> set (db_approvals d)" for as
    using that
  proof (induction as)
    case (Cons x as)
    have "ap_id x = ap_id a \<Longrightarrow> ap_workflow_id (g x) \<noteq> j \<and> ap_workflow_id x \<noteq> j"
      using assms(1,3) over(2) over(3) [of x] Cons.prems
      by (simp add: held_ok_def holds_approval_def overwritten_def same_request_def)
    with Cons show ?case by (auto simp: approvals_of_def)
  qed simp
  then show ?thesis by (simp add: over(1))
next
  case (adds b)
  with assms(3) show ?thesis by (simp add: approvals_of_def)
qed

lemma restates_ids:
  assumes "restates v c as bs" "distinct (map ap_id as)"
  shows "distinct (map ap_id bs)"
  using assms(1)
proof cases
  case (over a g)
  have "ap_id (g x) = ap_id x" for x using over(3) [of x] by (simp add: overwritten_def same_request_def)
  then have "map ap_id bs = map ap_id as" unfolding over(1) by simp
  with assms(2) show ?thesis by (simp only:)
qed (use assms(2) in auto)

lemma restates_refs:
  assumes "restates v c as bs" "b \<in> set bs"
  shows "ap_workflow_id b \<in> ap_workflow_id ` set as \<or> ap_workflow_id b = wf_id (wv_workflow v)"
  using assms(1)
proof cases
  case (over a g)
  have "ap_workflow_id (g x) = ap_workflow_id x" for x
    using over(3) [of x] by (simp add: overwritten_def same_request_def)
  with assms(2) show ?thesis unfolding over(1) by force
qed (use assms(2) in auto)

lemma write_keeps_gates:
  assumes "store_decision sv v c s = (Inr (), t)" "held_ok (w_db s) v" "gates_ok (w_db s)"
  shows "gates_ok (w_db t) \<and> evolves (w_db s) (w_db t)"
proof -
  let ?i = "wf_id (wv_workflow v)"
  obtain f bs rows where e: "w_db t = (w_db s)\<lparr>db_workflows :=
         map (\<lambda>x. if wf_id x = ?i then f x else x) (db_workflows (w_db s)),
       db_approvals := bs, db_audit_logs := db_audit_logs (w_db s) @ rows\<rparr>"
    and f: "\<And>x. same_case x (f x) \<and> wf_status (f x) =
       sent (wf_status (wv_workflow v)) (verdict_status (de_verdict c)) (wf_status x)"
    and bs: "restates v c (db_approvals (w_db s)) bs"
    by (rule store_decision_Inr [OF assms(1)]) iprover
  have ok: "db_ok (w_db s)" and i: "?i \<in> wf_id ` set (db_workflows (w_db s))"
    using assms(2,3) by (simp_all add: gates_ok_def held_ok_def)
  have "map wf_id (db_workflows (w_db t)) = map wf_id (db_workflows (w_db s))"
    using f by (simp add: e same_case_def)
  then have ids: "wf_id ` set (db_workflows (w_db t)) = wf_id ` set (db_workflows (w_db s))"
    and dist: "distinct (map wf_id (db_workflows (w_db t)))"
    using ok by (metis set_map, simp add: db_ok_def del: map_map)
  have "db_ok (w_db t)"
    using dist ok restates_ids [OF bs] by (simp add: db_ok_def e)
  moreover have "gate_state (wf_requires_human_approval y) (wf_status y) (approvals_of (wf_id y) (db_approvals (w_db t)))"
    if "y \<in> set (db_workflows (w_db t))" for y
  proof -
    from that obtain x where x: "x \<in> set (db_workflows (w_db s))" "y = (if wf_id x = ?i then f x else x)"
      by (auto simp: e)
    have gate: "gate_state (wf_requires_human_approval x) (wf_status x) (approvals_of (wf_id x) (db_approvals (w_db s)))"
      using assms(3) x(1) by (simp add: gates_ok_def)
    show ?thesis
    proof (cases "wf_id x = ?i")
      case True
      with stored_gate [OF assms(2) bs True gate refl] f [of x] x(2) show ?thesis
        by (simp add: e same_case_def)
    next
      case False
      with restates_other [OF assms(2) bs False] gate x(2) show ?thesis by (simp add: e)
    qed
  qed
  moreover have "ap_workflow_id b \<in> wf_id ` set (db_workflows (w_db t))" if "b \<in> set (db_approvals (w_db t))" for b
    using that restates_refs [OF bs, of b] assms(3) i unfolding ids by (force simp: e gates_ok_def)
  moreover have "evolves (w_db s) (w_db t)"
    by (rule restates_evolves [OF bs i]) (simp_all add: ids, simp add: e)
  ultimately show ?thesis by (simp add: gates_ok_def)
qed

lemma start_keeps_gates:
  assumes "start_workflow sv ty input creator req s = (Inr v, t)"
    and "quiet_executor (sv_executor sv)" "gates_ok (w_db s)"
  shows "gates_ok (w_db t) \<and> evolves (w_db s) (w_db t)"
proof -
  have ok: "db_ok (w_db s)" using assms(3) by (simp add: gates_ok_def)
  from start_effect [OF assms(1,2) ok] obtain w runs aps rows act where e:
    "w_db t = (w_db s)\<lparr>db_workflows := db_workflows (w_db s) @ [w],
       db_agent_runs := db_agent_runs (w_db s) @ runs, db_approvals := db_approvals (w_db s) @ aps,
       db_audit_logs := db_audit_logs (w_db s) @ rows\<rparr>"
    "db_ok (w_db t)" "wf_id w \<notin> wf_id ` set (db_workflows (w_db s))"
    "start_outcome ty w runs aps act"
    "wf_requires_human_approval w = wp_requires_human_approval (plan_of ty)" by metis
  note st = start_outcome_state [OF e(4)]
  have refs: "\<forall>a \<in> set (db_approvals (w_db s)). ap_workflow_id a \<in> wf_id ` set (db_workflows (w_db s))"
    using assms(3) by (simp add: gates_ok_def)
  then have none: "approvals_of (wf_id w) (db_approvals (w_db s)) = []"
    using e(3) unfolding approvals_of_def filter_empty_conv by metis
  have all: "approvals_of (wf_id w) aps = aps" "x \<noteq> wf_id w \<Longrightarrow> approvals_of x aps = []" for x
    using st by (auto simp: approvals_of_def filter_id_conv filter_empty_conv)
  have "gate_state (wf_requires_human_approval w) (wf_status w) (approvals_of (wf_id w) (db_approvals (w_db t)))"
    using st case_gate_state e(5) by (simp add: e(1) none all)
  moreover have "gate_state (wf_requires_human_approval x) (wf_status x) (approvals_of (wf_id x) (db_approvals (w_db t)))"
    if "x \<in> set (db_workflows (w_db s))" for x
  proof -
    have "wf_id x \<noteq> wf_id w" using that e(3) by (metis image_eqI)
    with assms(3) that show ?thesis by (simp add: gates_ok_def e(1) all)
  qed
  ultimately have "gates_ok (w_db t)"
    using e(2) refs st by (auto simp: gates_ok_def e(1))
  moreover have "ap_id b \<notin> ap_id ` set (db_approvals (w_db s))" if "b \<in> set aps" for b
    using e(2) that by (auto simp: db_ok_def e(1))
  then have "evolves (w_db s) (w_db t)"
    using st e(3) unfolding evolves_def by (auto simp: e(1))
  ultimately show ?thesis by simp
qed

lemma turn_keeps_gates:
  assumes "turn sv (s, ss) (t, ts)" "quiet_executor (sv_executor sv)"
    and "gates_ok (w_db s)" "\<forall>x \<in> set ss. session_ok (w_db s) x"
  shows "gates_ok (w_db t) \<and> (\<forall>x \<in> set ts. session_ok (w_db t) x)"
proof -
  have undone: "evolves (w_db s) (w_db t)" if "w_db t = w_db s"
    using that evolves_same [of "w_db s" "w_db t"] by (simp add: same_cases_def)
  have keep: "\<forall>x \<in> set (ss[k := y]). session_ok (w_db t) x"
    if "evolves (w_db s) (w_db t)" "session_ok (w_db t) y" for k y
    using that assms(4) set_update_subset_insert [of ss k y] by (auto intro: evolves_session)
  from assms(1) show ?thesis
  proof cases
    case (arrives c)
    with assms(3,4) show ?thesis by auto
  next
    case (reads k c v)
    note same = open_case_state [OF reads(4)]
    have "session_ok (w_db t) (Holding c v)" using read_held_ok [OF reads(4) assms(3)] by simp
    with keep [of "Holding c v" k] undone same assms(3) reads(1) show ?thesis by simp
  next
    case (refused k c e)
    from open_case_state [OF refused(4)] keep [of "Done c (Inl e)" k] undone assms(3) refused(1)
    show ?thesis by simp
  next
    case (writes k c v r)
    have held: "held_ok (w_db s) v" using assms(4) writes(2,3) by (metis nth_mem session_ok.simps(2))
    show ?thesis
    proof (cases r)
      case (Inl e)
      from in_transaction_Inl [OF writes(4) [unfolded Inl]] keep [of "Done c r" k] undone assms(3) writes(1)
      show ?thesis by simp
    next
      case (Inr u)
      with writes(4) have "store_decision sv v c s = (Inr (), t)" by (simp add: in_transaction_Inr)
      from write_keeps_gates [OF this held assms(3)] keep [of "Done c r" k] writes(1) show ?thesis by simp
    qed
  next
    case (starts ty input creator req r)
    have "gates_ok (w_db t) \<and> evolves (w_db s) (w_db t)"
    proof (cases r)
      case (Inl e)
      with starts(2) have "w_db t = w_db s" by (auto dest: in_transaction_Inl)
      with undone assms(3) show ?thesis by simp
    next
      case (Inr v)
      with starts(2) start_keeps_gates [OF _ assms(2,3)] show ?thesis by (simp add: in_transaction_Inr)
    qed
    with assms(4) starts(1) show ?thesis by (auto intro: evolves_session)
  next
    case elsewhere
    with assms(4) gates_ok_same [OF elsewhere(2) assms(3)] evolves_session [OF evolves_same [OF elsewhere(2)]]
    show ?thesis by simp
  qed
qed

lemma interleaved_gates:
  assumes "interleaved sv p" "quiet_executor (sv_executor sv)"
  shows "gates_ok (w_db (fst p)) \<and> (\<forall>x \<in> set (snd p). session_ok (w_db (fst p)) x)"
  using assms(1)
proof induction
  case (nobody s)
  then show ?case by (simp add: cases_gates_ok)
next
  case (takes_turn p q)
  then show ?case using turn_keeps_gates [OF _ assms(2)] by (cases p; cases q) simp
qed

section \<open>Two decisions that overlap\<close>

text \<open>Both requests read the case before either writes.\<close>

definition overlapped :: "wf_service \<Rightarrow> decision_call \<Rightarrow> decision_call \<Rightarrow> unit action" where
  "overlapped sv c c' =
     bindE (open_case (de_case c)) (\<lambda>v. bindE (open_case (de_case c')) (\<lambda>v'.
     thenE (in_transaction (store_decision sv v c)) (in_transaction (store_decision sv v' c'))))"

text \<open>An approval as a start leaves it.\<close>

definition untouched :: "approval_row \<Rightarrow> bool" where
  "untouched a \<longleftrightarrow> is_pending a \<and> ap_kind a = approval_kind_value AK_APPROVAL \<and> ap_decided_by a = None
     \<and> ap_decision_reason a = None"

lemma restates_single:
  assumes "restates v c as bs" "pending_approval v = Some a" "approvals_of i as = [x]" "ap_id x = ap_id a"
    and "distinct (map ap_id as)"
  obtains y where "approvals_of i bs = [y]" "overwritten c a x y"
  using assms(1)
proof cases
  case (over a' g)
  then have a: "a' = a" using assms(2) by simp
  have x: "x \<in> set as" using assms(3) by (auto simp: approvals_of_def filter_eq_Cons_iff)
  have "map (\<lambda>y. if ap_id y = ap_id a then g y else y) as
      = map (\<lambda>y. if ap_id y = ap_id x then g x else y) as"
    using distinct_map_fst_unique [OF assms(5) _ x] assms(4) by (intro map_cong) auto
  moreover have "same_request x (g x)" using over(3) [of x] by (simp add: overwritten_def)
  ultimately have "approvals_of i bs = [g x]"
    using approvals_of_replace [OF x assms(5), of "g x" i] assms(3) unfolding over(1) a
    by (simp only: list.map simp_thms if_True)
  with over(3) [of x] a show thesis by (intro that) simp_all
qed (use assms(2) in simp)

lemma overlapped_Inr:
  assumes "overlapped sv c c' s = (Inr (), u)" "de_case c' = de_case c"
  obtains w t where "find_workflow (de_case c) (w_db s) = Some w" "is_queued w"
    "store_decision sv (view_of (w_db s) w) c s = (Inr (), t)"
    "store_decision sv (view_of (w_db s) w) c' t = (Inr (), u)"
proof -
  from assms(1) obtain v p v' q t where r: "open_case (de_case c) s = (Inr v, p)"
    "open_case (de_case c') p = (Inr v', q)" "store_decision sv v c q = (Inr (), t)"
    "store_decision sv v' c' t = (Inr (), u)"
    by (auto simp: overlapped_def thenE_def bindE_Inr in_transaction_Inr)
  from open_case_view [OF r(1)] obtain w where w: "p = s" "find_workflow (de_case c) (w_db s) = Some w"
    "v = view_of (w_db s) w" "is_queued w" by blast
  from open_case_view [OF r(2)] w(1,2) assms(2) have "q = s" "v' = view_of (w_db s) w" by auto
  with r(3,4) w show thesis by (intro that) simp_all
qed

lemma stored_status:
  assumes "find_workflow i d = Some x" "db_workflows d' = map (\<lambda>x. if wf_id x = i then f x else x) (db_workflows d)"
    and "\<And>x. same_case x (f x)" "distinct (map wf_id (db_workflows d))"
  shows "find_workflow i d' = Some (f x)"
proof -
  note x = find_workflow_Some [OF assms(1)]
  have "map (\<lambda>y. if wf_id y = i then f y else y) (db_workflows d)
      = map (\<lambda>y. if wf_id y = i then f x else y) (db_workflows d)"
    using distinct_map_fst_unique [OF assms(4)] x by (intro map_cong) auto
  with assms(2) show ?thesis
    using x assms(3) [of x] by (intro find_replaced [OF assms(1)]) (simp_all add: same_case_def)
qed

lemma store_two:
  assumes "db_ok (w_db s)" "find_workflow i (w_db s) = Some w" "wf_status w = workflow_status_value WS_AWAITING_APPROVAL"
    and "approvals_of i (db_approvals (w_db s)) = [a]" "is_pending a"
    and "store_decision sv (view_of (w_db s) w) c s = (Inr (), t)"
    and "store_decision sv (view_of (w_db s) w) c' t = (Inr (), u)"
  obtains w' x y rows rows' where "find_workflow i (w_db u) = Some w'" "wf_status w' = verdict_status (de_verdict c')"
    "same_case w w'" "approvals_of i (db_approvals (w_db u)) = [y]" "overwritten c a a x" "overwritten c' a x y"
    "db_audit_logs (w_db u) = db_audit_logs (w_db s) @ rows @ rows'"
    "audit_entries sv (''workflow.'' @ approval_decision_value (verdict_decision (de_verdict c))) i (Some (de_by c)) rows"
    "audit_entries sv (''workflow.'' @ approval_decision_value (verdict_decision (de_verdict c'))) i (Some (de_by c')) rows'"
proof -
  let ?v = "view_of (w_db s) w"
  have i: "wf_id (wv_workflow ?v) = i" "wf_status (wv_workflow ?v) = workflow_status_value WS_AWAITING_APPROVAL"
    using find_workflow_Some [OF assms(2)] assms(3) by (simp_all add: view_of_def)
  have "List.find is_pending (approvals_of i (db_approvals (w_db s))) = Some a" using assms(4,5) by simp
  then have held: "pending_approval ?v = Some a"
    using find_workflow_Some [OF assms(2)] by (simp add: pending_of_view find_filter_and approvals_of_def)
  have dist: "distinct (map ap_id (db_approvals (w_db s)))" "distinct (map wf_id (db_workflows (w_db s)))"
    using assms(1) by (simp_all add: db_ok_def)
  obtain f bs rows where e: "w_db t = (w_db s)\<lparr>db_workflows :=
         map (\<lambda>x. if wf_id x = i then f x else x) (db_workflows (w_db s)),
       db_approvals := bs, db_audit_logs := db_audit_logs (w_db s) @ rows\<rparr>"
    and f: "\<And>x. same_case x (f x) \<and> wf_status (f x) = sent (workflow_status_value WS_AWAITING_APPROVAL)
       (verdict_status (de_verdict c)) (wf_status x)"
    and bs: "restates ?v c (db_approvals (w_db s)) bs"
    and rows: "audit_entries sv (''workflow.'' @ approval_decision_value (verdict_decision (de_verdict c)))
       i (Some (de_by c)) rows"
    by (rule store_decision_Inr [OF assms(6), unfolded i]) iprover
  obtain f' bs' rows' where e': "w_db u = (w_db t)\<lparr>db_workflows :=
         map (\<lambda>x. if wf_id x = i then f' x else x) (db_workflows (w_db t)),
       db_approvals := bs', db_audit_logs := db_audit_logs (w_db t) @ rows'\<rparr>"
    and f': "\<And>x. same_case x (f' x) \<and> wf_status (f' x) = sent (workflow_status_value WS_AWAITING_APPROVAL)
       (verdict_status (de_verdict c')) (wf_status x)"
    and bs': "restates ?v c' (db_approvals (w_db t)) bs'"
    and rows': "audit_entries sv (''workflow.'' @ approval_decision_value (verdict_decision (de_verdict c')))
       i (Some (de_by c')) rows'"
    by (rule store_decision_Inr [OF assms(7), unfolded i]) iprover
  obtain x where x: "approvals_of i bs = [x]" "overwritten c a a x"
    by (rule restates_single [OF bs held assms(4) refl dist(1)])
  have bs_t: "db_approvals (w_db t) = bs" by (simp add: e)
  have "ap_id x = ap_id a" using x(2) by (simp add: overwritten_def same_request_def)
  then obtain y where y: "approvals_of i bs' = [y]" "overwritten c' a x y"
    by (rule restates_single [OF bs' [unfolded bs_t] held x(1) _ restates_ids [OF bs dist(1)]])
  have ids: "map wf_id (db_workflows (w_db t)) = map wf_id (db_workflows (w_db s))"
    using f by (simp add: e same_case_def)
  have "find_workflow i (w_db t) = Some (f w)"
    by (rule stored_status [OF assms(2) _ _ dist(2)]) (use f in \<open>simp_all add: e\<close>)
  then have "find_workflow i (w_db u) = Some (f' (f w))"
    by (rule stored_status) (use f' ids dist(2) in \<open>simp_all add: e' del: map_map\<close>)
  moreover have "wf_status (f' (f w)) = verdict_status (de_verdict c')"
    using f' verdict_status_cases(2) by (simp add: sent_def)
  moreover have "same_case w (f' (f w))" using f [of w] f' [of "f w"] by (simp add: same_case_def)
  ultimately show thesis
    by (rule that) (use y x(2) rows rows' in \<open>simp_all add: e e'\<close>)
qed

declare workflow_status_value.simps [simp] approval_decision_value.simps [simp]

end
