(* ===== verification/InterleavingProperties.thy ===== *)
theory InterleavingProperties
  imports Interleaving
begin

text \<open>
  Properties of decisions that overlap: what no order of the turns breaks, and what an overlap loses.
\<close>

declare workflow_status_value.simps [simp del] approval_decision_value.simps [simp del]

section \<open>A run\<close>

text \<open>On the waiting case of the samples, a rejection and an approval that both read it first.\<close>

definition sample_rejection :: decision_call where
  "sample_rejection = \<lparr> de_case = 11, de_verdict = Reject, de_by = 3, de_reason = Some ''no'', de_request = None \<rparr>"

definition sample_approval :: decision_call where
  "sample_approval = \<lparr> de_case = 11, de_verdict = Approve, de_by = 4, de_reason = None, de_request = None \<rparr>"

definition waiting_world :: world where
  "waiting_world = w_at 20 0 0 waiting_db"

definition waiting_view :: workflow_view where
  "waiting_view = view_of waiting_db waiting_case"

lemma send_update_w_at [simp]:
  "send_update table key rows upd touch i columns (w_at u c p d) =
     (if i \<notin> key ` set (rows d) then (Inl (stale_data table), w_at u (Suc c) p d)
      else (Inr (), w_at u (Suc c) p (upd (map (\<lambda>x. if key x = i
              then touch (1700000000000000 + 1000000 * int c) (columns x) else x)) d)))"
  by (simp add: send_update_def bindE_def)

lemma sample_open: "de_case c = 11 \<Longrightarrow> open_case (de_case c) waiting_world = (Inr waiting_view, waiting_world)"
proof -
  assume "de_case c = 11"
  moreover have "enum_parse workflow_status_value (workflow_status_value WS_AWAITING_APPROVAL) = Some WS_AWAITING_APPROVAL"
    by (rule workflow_status.parse_val)
  ultimately show ?thesis
    by (simp add: open_case_def bindE_def waiting_world_def waiting_found waiting_view_def view_of_def
        DECIDABLE_def ret_def)
qed

lemma sample_overlap:
  "\<exists>t u. store_decision sample_service waiting_view sample_rejection waiting_world = (Inr (), t)
     \<and> store_decision sample_service waiting_view sample_approval t = (Inr (), u)"
proof -
  have v: "wv_workflow waiting_view = waiting_case" "pending_approval waiting_view = Some waiting_approval"
    by (simp_all add: waiting_view_def view_of_def pending_approval_def)
  have "wf_status (waiting_case\<lparr>wf_status := verdict_status d\<rparr>) \<noteq> wf_status waiting_case" for d
    by (simp add: verdict_status_cases(2))
  then have w: "waiting_case\<lparr>wf_status := verdict_status d\<rparr> \<noteq> waiting_case" for d by metis
  have "ap_decision (decided_row c waiting_approval) \<noteq> ap_decision waiting_approval" for c
    using verdict_decided by (simp add: decided_columns)
  then have a: "decided_row c waiting_approval \<noteq> waiting_approval" for c by metis
  show ?thesis
    by (simp add: store_decision_def thenE_def bindE_def v waiting_world_def flush_workflow_def
        store_approval_def flush_approval_def maybe_audit_def record_audit_def insert_audit_log_def
        sample_service_def ret_def same_key_def verdict_status_def [symmetric] w a Let_def audit_row_of_def)
qed

lemma sample_calls [simp]:
  "de_case sample_rejection = 11" "de_case sample_approval = 11" "de_verdict sample_rejection = Reject"
  "de_verdict sample_approval = Approve" "de_by sample_approval = 4" "de_reason sample_rejection = Some ''no''"
  "de_reason sample_approval = None"
  by (simp_all add: sample_rejection_def sample_approval_def)

lemma sample_interleaved:
  assumes "store_decision sample_service waiting_view sample_rejection waiting_world = (Inr (), t)"
    and "store_decision sample_service waiting_view sample_approval t = (Inr (), u)"
  shows "interleaved sample_service (u, [Done sample_rejection (Inr ()), Done sample_approval (Inr ())])"
proof -
  note more = interleaved.takes_turn
  have saved: "in_transaction (store_decision sample_service waiting_view sample_rejection) waiting_world = (Inr (), t)"
    "in_transaction (store_decision sample_service waiting_view sample_approval) t = (Inr (), u)"
    using assms by (simp_all add: in_transaction_Inr)
  have "interleaved sample_service (waiting_world, [])"
    by (rule interleaved.nobody) (simp add: waiting_world_def waiting_cases_ok)
  from more [OF this turn.arrives] have "interleaved sample_service (waiting_world, [Asking sample_rejection])"
    by simp
  from more [OF this turn.arrives, of sample_approval]
  have "interleaved sample_service (waiting_world, [Asking sample_rejection, Asking sample_approval])" by simp
  from more [OF this turn.reads [of 0, OF _ _ sample_open]]
  have "interleaved sample_service (waiting_world, [Holding sample_rejection waiting_view, Asking sample_approval])"
    by simp
  from more [OF this turn.reads [of 1, OF _ _ sample_open]]
  have "interleaved sample_service (waiting_world,
      [Holding sample_rejection waiting_view, Holding sample_approval waiting_view])" by simp
  from more [OF this turn.writes [of 0, OF _ _ saved(1)]]
  have "interleaved sample_service (t, [Done sample_rejection (Inr ()), Holding sample_approval waiting_view])"
    by simp
  from more [OF this turn.writes [of 1, OF _ _ saved(2)]]
  show ?thesis by simp
qed

lemma waiting_facts:
  "db_ok (w_db waiting_world)" "approvals_of 11 (db_approvals (w_db waiting_world)) = [waiting_approval]"
  "find_workflow 11 (w_db waiting_world) = Some waiting_case" "untouched waiting_approval"
  using waiting_cases_ok
  by (simp_all add: waiting_world_def cases_ok_def approvals_of_def find_workflow_def untouched_def
      is_pending_def) (simp_all add: waiting_approval_def new_approval_def)

section \<open>The gate\<close>

lemma single_if_same:
  "distinct xs \<Longrightarrow> (\<And>x y. x \<in> set xs \<Longrightarrow> y \<in> set xs \<Longrightarrow> x = y) \<Longrightarrow> length xs \<le> 1"
  by (cases xs; cases "tl xs") fastforce+

text \<open>
  C6: however the requests that start and decide cases are interleaved, a completed case that needs a
  person carries an approval a person granted, only a waiting case has a pending approval, and it has
  at most one.
\<close>
theorem interleaved_decisions_keep_gate:
  assumes "interleaved sv (s, ss)" "quiet_executor (sv_executor sv)" "w \<in> set (db_workflows (w_db s))"
  shows "(wf_requires_human_approval w \<and> wf_status w = workflow_status_value WS_COMPLETED \<longrightarrow>
       (\<exists>a \<in> set (approvals_of (wf_id w) (db_approvals (w_db s))). decided AD_APPROVED a))
    \<and> length (filter is_pending (approvals_of (wf_id w) (db_approvals (w_db s)))) \<le> 1
    \<and> (wf_status w \<noteq> workflow_status_value WS_AWAITING_APPROVAL \<longrightarrow>
       filter is_pending (approvals_of (wf_id w) (db_approvals (w_db s))) = [])"
proof -
  let ?as = "approvals_of (wf_id w) (db_approvals (w_db s))"
  from interleaved_gates [OF assms(1,2)] assms(3)
  have gate: "gate_state (wf_requires_human_approval w) (wf_status w) ?as" and ok: "db_ok (w_db s)"
    by (simp_all add: gates_ok_def)
  have "distinct (filter is_pending ?as)"
    using ok by (simp add: db_ok_def approvals_of_def distinct_map)
  moreover have "x = y" if "x \<in> set (filter is_pending ?as)" "y \<in> set (filter is_pending ?as)" for x y
    using gate that unfolding gate_state_def by auto
  ultimately have "length (filter is_pending ?as) \<le> 1" by (rule single_if_same)
  moreover have "wf_status w \<noteq> workflow_status_value WS_AWAITING_APPROVAL \<Longrightarrow> filter is_pending ?as = []"
    using gate unfolding gate_state_def filter_empty_conv by blast
  ultimately show ?thesis using gate unfolding gate_state_def by blast
qed

lemma interleaved_decisions_witness:
  "\<exists>s ss w. interleaved sample_service (s, ss) \<and> w \<in> set (db_workflows (w_db s))
     \<and> wf_requires_human_approval w \<and> wf_status w = workflow_status_value WS_COMPLETED
     \<and> (\<exists>a \<in> set (approvals_of (wf_id w) (db_approvals (w_db s))). decided AD_APPROVED a)"
proof -
  obtain t u where r: "store_decision sample_service waiting_view sample_rejection waiting_world = (Inr (), t)"
    "store_decision sample_service waiting_view sample_approval t = (Inr (), u)" using sample_overlap by blast
  note run = sample_interleaved [OF r]
  have view: "waiting_view = view_of (w_db waiting_world) waiting_case"
    by (simp add: waiting_view_def waiting_world_def)
  obtain w where w: "find_workflow 11 (w_db u) = Some w" "wf_status w = verdict_status Approve" "same_case waiting_case w"
    by (rule store_two [OF waiting_facts(1,3) _ waiting_facts(2) _ r [unfolded view]])
      (use waiting_facts(4) in \<open>auto simp: untouched_def\<close>)
  then have "w \<in> set (db_workflows (w_db u))" "wf_status w = workflow_status_value WS_COMPLETED"
    "wf_requires_human_approval w"
    using find_workflow_Some [OF w(1)] verdict_status_cases(1) [of Approve]
    by (simp_all add: same_case_def waiting_case_def new_workflow_def plan_gate_iff)
  with interleaved_decisions_keep_gate [OF run sample_service_quiet] run show ?thesis by blast
qed

section \<open>Lost decisions\<close>

lemma second_refused:
  assumes "decide_call sv c s = (Inr v, t)" "db_ok (w_db s)" "de_case c' = de_case c" "de_verdict c \<noteq> Escalate"
  shows "decide_call sv c' t =
    (Inl (not_decidable (de_case c) (final_status (verdict_target (de_verdict c)))), t)"
proof -
  obtain w w' bs rows where d: "find_workflow (de_case c) (w_db s) = Some w" "same_case w w'"
    "wf_status w' = workflow_status_value (final_status (verdict_target (de_verdict c)))"
    and db: "w_db t = (w_db s)\<lparr>db_workflows := map (\<lambda>x. if wf_id x = de_case c then w' else x) (db_workflows (w_db s)),
       db_approvals := bs, db_audit_logs := db_audit_logs (w_db s) @ rows\<rparr>"
    by (rule decide_effect [OF assms(1) [unfolded decide_call_def] assms(2)]) iprover
  have "find_workflow (de_case c) (w_db t) = Some w'"
    using find_workflow_Some [OF d(1)] d(2) by (intro find_replaced [OF d(1)]) (simp_all add: same_case_def db)
  moreover have "final_status (verdict_target (de_verdict c)) \<notin> set DECIDABLE"
    using assms(4) by (cases "de_verdict c") (simp_all add: final_status_def DECIDABLE_def)
  ultimately show ?thesis
    using d(3) decide_refused unfolding decide_call_def assms(3) by blast
qed



declare workflow_status_value.simps [simp] approval_decision_value.simps [simp]

end
