(* ===== verification/Security.thy ===== *)
theory Security
  imports Config Rbac "HOL-Library.Countable"
begin

text \<open>
  core/security.py: password verification, issue and verification of tokens, and the principal with
  its permissions. PyJWT and passlib are third-party: they are the records \<open>jwt_lib\<close> and
  \<open>pwd_lib\<close>, with what the code relies on as the predicates \<open>jwt_spec\<close> and \<open>pwd_spec\<close>. The time
  (microseconds since the epoch) and the random \<open>jti\<close> are arguments.
\<close>

section \<open>Third-party libraries\<close>

datatype jwt_outcome = JwtPayload json_dict | JwtExpired | JwtInvalid

record jwt_lib =
  jwt_encode :: "json_dict \<Rightarrow> string \<Rightarrow> string \<Rightarrow> string"
  jwt_decode :: "string \<Rightarrow> string \<Rightarrow> string list \<Rightarrow> string list \<Rightarrow> int \<Rightarrow> jwt_outcome"

text \<open>
  PyJWT's documented behaviour on a token it made itself: with the same key and an accepted
  algorithm it returns the payload if every required claim is present and the time lies between
  \<open>iat\<close>/\<open>nbf\<close> and \<open>exp\<close>, and reports expiry once \<open>exp\<close> has passed; under another key the
  signature does not verify. Times are compared in seconds.
\<close>

definition int_claim :: "string \<Rightarrow> json_dict \<Rightarrow> int \<Rightarrow> bool" where
  "int_claim k p n \<longleftrightarrow> dict_get k p = Some (JInt n)"

definition has_claims :: "string list \<Rightarrow> json_dict \<Rightarrow> bool" where
  "has_claims req p \<longleftrightarrow> (\<forall>k \<in> set req. case dict_get k p of None \<Rightarrow> False | Some v \<Rightarrow> v \<noteq> JNull)"

definition jwt_spec :: "jwt_lib \<Rightarrow> bool" where
  "jwt_spec lib \<longleftrightarrow>
     (\<forall>p key alg algs req now issued expires.
        alg \<in> set algs \<longrightarrow> has_claims req p \<longrightarrow> int_claim ''iat'' p issued \<longrightarrow>
        int_claim ''nbf'' p issued \<longrightarrow> int_claim ''exp'' p expires \<longrightarrow>
        issued * 1000000 \<le> now \<longrightarrow>
        jwt_decode lib (jwt_encode lib p key alg) key algs req now =
          (if now < expires * 1000000 then JwtPayload p else JwtExpired))
     \<and> (\<forall>p key key' alg algs req now. key \<noteq> key' \<longrightarrow>
          jwt_decode lib (jwt_encode lib p key alg) key' algs req now = JwtInvalid)"

record pwd_lib =
  pwd_hash :: "nat \<Rightarrow> string \<Rightarrow> string"
  pwd_verify :: "string \<Rightarrow> string \<Rightarrow> bool option"

text \<open>passlib verifies a hash it made, whatever the salt, for exactly the password hashed.\<close>

definition pwd_spec :: "pwd_lib \<Rightarrow> bool" where
  "pwd_spec lib \<longleftrightarrow> (\<forall>salt p q. pwd_verify lib q (pwd_hash lib salt p) = Some (q = p))
     \<and> (\<forall>salt p. pwd_hash lib salt p \<noteq> [])"

section \<open>Passwords\<close>

definition hash_password :: "pwd_lib \<Rightarrow> nat \<Rightarrow> string \<Rightarrow> string" where
  "hash_password lib salt plain = pwd_hash lib salt plain"

text \<open>A malformed hash (\<open>ValueError\<close>, here \<open>None\<close>) counts as a non-match.\<close>

definition verify_password :: "pwd_lib \<Rightarrow> string \<Rightarrow> string \<Rightarrow> bool" where
  "verify_password lib plain hashed = (case pwd_verify lib plain hashed of None \<Rightarrow> False | Some b \<Rightarrow> b)"

section \<open>Tokens\<close>

datatype token_type = ACCESS | REFRESH

fun token_type_value :: "token_type \<Rightarrow> string" where
  "token_type_value ACCESS = ''access''"
| "token_type_value REFRESH = ''refresh''"

definition token_ttl :: "settings \<Rightarrow> token_type \<Rightarrow> int" where
  "token_ttl s ty = (if ty = ACCESS then security_access_token_ttl_seconds s
                     else security_refresh_token_ttl_seconds s)"

text \<open>\<open>int(t.timestamp())\<close> for a time in microseconds since the epoch.\<close>

definition timestamp :: "int \<Rightarrow> int" where
  "timestamp us = us div 1000000"

definition token_payload ::
  "settings \<Rightarrow> string \<Rightarrow> string list \<Rightarrow> token_type \<Rightarrow> json_dict \<Rightarrow> int \<Rightarrow> string \<Rightarrow> json_dict" where
  "token_payload s subject roles ty extra issued jti =
     dict_union
       [(''sub'', JStr subject), (''roles'', JArr (map JStr roles)),
        (''type'', JStr (token_type_value ty)),
        (''iat'', JInt (timestamp issued)), (''nbf'', JInt (timestamp issued)),
        (''exp'', JInt (timestamp (issued + token_ttl s ty * 1000000))),
        (''jti'', JStr jti), (''iss'', JStr (app_name s))]
       extra"

definition create_token ::
  "jwt_lib \<Rightarrow> settings \<Rightarrow> string \<Rightarrow> string list \<Rightarrow> token_type \<Rightarrow> json_dict \<Rightarrow> int \<Rightarrow> string
     \<Rightarrow> string \<times> string" where
  "create_token lib s subject roles ty extra issued jti =
     (jwt_encode lib (token_payload s subject roles ty extra issued jti)
        (security_jwt_secret s) (security_jwt_algorithm s), jti)"

definition required_claims :: "string list" where
  "required_claims = [''exp'', ''iat'', ''sub'']"

definition decode_token ::
  "jwt_lib \<Rightarrow> settings \<Rightarrow> token_type option \<Rightarrow> string \<Rightarrow> int \<Rightarrow> json_dict res" where
  "decode_token lib s expected token now =
     (case jwt_decode lib token (security_jwt_secret s) [security_jwt_algorithm s]
             required_claims now of
        JwtExpired \<Rightarrow> Inl (app_err AuthenticationError ''Token has expired.'')
      | JwtInvalid \<Rightarrow> Inl (app_err AuthenticationError ''Invalid authentication token.'')
      | JwtPayload p \<Rightarrow>
          (case expected of None \<Rightarrow> Inr p
           | Some ty \<Rightarrow>
               if dict_get ''type'' p = Some (JStr (token_type_value ty)) then Inr p
               else Inl (app_err AuthenticationError
                      (''Expected a '' @ token_type_value ty @ '' token.''))))"

section \<open>The principal\<close>

record principal =
  pr_user_id :: string
  pr_email :: "string option"
  pr_roles :: "string list"
  pr_permissions :: "string set"
  pr_token_id :: "string option"

text \<open>
  \<open>str(v)\<close> of a claim; only strings and integers occur as subjects of the tokens the platform
  issues, and the other forms are Python's renderings of constants.
\<close>

fun claim_str :: "json \<Rightarrow> string" where
  "claim_str (JStr s) = s"
| "claim_str (JInt i) = int_str i"
| "claim_str (JBool b) = (if b then ''True'' else ''False'')"
| "claim_str (JFloat x) = float_repr x"
| "claim_str JNull = ''None''"
| "claim_str v = dumps v"

text \<open>
  \<open>list(claims.get('roles', []))\<close>: the entries of a list, the characters of a string, the keys of
  an object; anything else is not iterable. An entry of a list that is not a string names no role
  and is left out.
\<close>

fun claim_roles :: "json option \<Rightarrow> string list res" where
  "claim_roles None = Inr []"
| "claim_roles (Some (JArr vs)) = Inr (concat (map (\<lambda>v. case v of JStr s \<Rightarrow> [s] | _ \<Rightarrow> []) vs))"
| "claim_roles (Some (JStr s)) = Inr (map (\<lambda>c. [c]) s)"
| "claim_roles (Some (JObj d)) = Inr (dict_keys d)"
| "claim_roles (Some v) = Inl (Py ''TypeError'' ''object is not iterable'')"

fun claim_opt :: "json option \<Rightarrow> string option" where
  "claim_opt (Some (JStr s)) = Some s"
| "claim_opt _ = None"

definition from_claims :: "json_dict \<Rightarrow> principal res" where
  "from_claims claims = (case claim_roles (dict_get ''roles'' claims) of
       Inl e \<Rightarrow> Inl e
     | Inr rs \<Rightarrow> (case dict_get ''sub'' claims of
         None \<Rightarrow> Inl (Py ''KeyError'' ''sub'')
       | Some sub \<Rightarrow> Inr \<lparr> pr_user_id = claim_str sub,
           pr_email = claim_opt (dict_get ''email'' claims), pr_roles = rs,
           pr_permissions = permissions_for_roles rs,
           pr_token_id = claim_opt (dict_get ''jti'' claims) \<rparr>))"

definition has_permission :: "principal \<Rightarrow> string \<Rightarrow> bool" where
  "has_permission p perm \<longleftrightarrow> perm \<in> pr_permissions p"

definition require :: "principal \<Rightarrow> string list \<Rightarrow> unit res" where
  "require p perms =
     (let missing = filter (\<lambda>q. q \<notin> pr_permissions p) perms
      in if missing \<noteq> [] then
           Inl (app_err_details AuthorizationError ''Missing required permission(s).''
             [(''missing'', JArr (map JStr missing))])
         else Inr ())"

section \<open>Facts\<close>

lemma require_ok_iff: "require p perms = Inr () \<longleftrightarrow> set perms \<subseteq> pr_permissions p"
  by (auto simp: require_def Let_def filter_empty_conv)

lemma require_Inl:
  "require p perms = Inl e \<Longrightarrow>
     \<exists>missing. missing \<noteq> [] \<and> set missing = set perms - pr_permissions p
       \<and> e = app_err_details AuthorizationError ''Missing required permission(s).''
               [(''missing'', JArr (map JStr missing))]"
  by (auto simp: require_def Let_def split: if_splits intro!: exI)

lemma timestamp_add_seconds: "timestamp (us + n * 1000000) = timestamp us + n"
  by (simp add: timestamp_def)

text \<open>The claims the issuing code writes are not overwritten by the extra claims it passes.\<close>

definition reserved_claims :: "string list" where
  "reserved_claims = [''sub'', ''roles'', ''type'', ''iat'', ''nbf'', ''exp'', ''jti'', ''iss'']"

lemma token_payload_reserved:
  assumes "k \<in> set reserved_claims" "set (map fst extra) \<inter> set reserved_claims = {}"
  shows "dict_get k (token_payload s subject roles ty extra issued jti) =
    dict_get k
       [(''sub'', JStr subject), (''roles'', JArr (map JStr roles)),
        (''type'', JStr (token_type_value ty)),
        (''iat'', JInt (timestamp issued)), (''nbf'', JInt (timestamp issued)),
        (''exp'', JInt (timestamp issued + token_ttl s ty)),
        (''jti'', JStr jti), (''iss'', JStr (app_name s))]"
proof -
  have "k \<notin> set (map fst (rev extra))" using assms by auto
  then have "map_of (rev extra) k = None" by (simp add: map_of_eq_None_iff)
  then show ?thesis
    by (simp only: token_payload_def dict_union_lookup map_add_None map_add_def
        timestamp_add_seconds option.case)
qed

lemma token_payload_claims:
  assumes "set (map fst extra) \<inter> set reserved_claims = {}"
  shows "has_claims required_claims (token_payload s subject roles ty extra issued jti)"
    and "int_claim ''iat'' (token_payload s subject roles ty extra issued jti) (timestamp issued)"
    and "int_claim ''nbf'' (token_payload s subject roles ty extra issued jti) (timestamp issued)"
    and "int_claim ''exp'' (token_payload s subject roles ty extra issued jti)
           (timestamp issued + token_ttl s ty)"
    and "dict_get ''type'' (token_payload s subject roles ty extra issued jti)
           = Some (JStr (token_type_value ty))"
    and "dict_get ''sub'' (token_payload s subject roles ty extra issued jti) = Some (JStr subject)"
    and "dict_get ''roles'' (token_payload s subject roles ty extra issued jti)
           = Some (JArr (map JStr roles))"
    and "dict_get ''jti'' (token_payload s subject roles ty extra issued jti) = Some (JStr jti)"
  by (simp_all add: has_claims_def required_claims_def int_claim_def reserved_claims_def
      token_payload_reserved [OF _ assms])

lemma token_type_value_inj: "token_type_value a = token_type_value b \<longleftrightarrow> a = b"
  by (cases a; cases b) simp_all

lemma decode_created:
  assumes "jwt_spec lib" "set (map fst extra) \<inter> set reserved_claims = {}" "issued \<le> now"
  shows "decode_token lib s expected
           (fst (create_token lib s subject roles ty extra issued jti)) now =
     (if now < (timestamp issued + token_ttl s ty) * 1000000 then
        if expected = None \<or> expected = Some ty
        then Inr (token_payload s subject roles ty extra issued jti)
        else Inl (app_err AuthenticationError
               (''Expected a '' @ token_type_value (the expected) @ '' token.''))
      else Inl (app_err AuthenticationError ''Token has expired.''))"
proof -
  let ?p = "token_payload s subject roles ty extra issued jti"
  have "timestamp issued * 1000000 \<le> now" using assms(3) by (simp add: timestamp_def)
  then have "jwt_decode lib (jwt_encode lib ?p (security_jwt_secret s) (security_jwt_algorithm s))
      (security_jwt_secret s) [security_jwt_algorithm s] required_claims now =
      (if now < (timestamp issued + token_ttl s ty) * 1000000 then JwtPayload ?p else JwtExpired)"
    using assms(1) token_payload_claims(1-4) [OF assms(2)]
    unfolding jwt_spec_def by (metis list.set_intros(1))
  then show ?thesis
    by (auto simp: decode_token_def create_token_def token_payload_claims(5) [OF assms(2)]
        token_type_value_inj split: option.splits)
qed

lemma decode_other_key:
  assumes "jwt_spec lib" "security_jwt_secret s \<noteq> security_jwt_secret s'"
  shows "decode_token lib s' expected (fst (create_token lib s subject roles ty extra issued jti)) now
    = Inl (app_err AuthenticationError ''Invalid authentication token.'')"
  using assms unfolding jwt_spec_def decode_token_def create_token_def by simp

lemma claim_roles_strings [simp]: "claim_roles (Some (JArr (map JStr rs))) = Inr rs"
  by (simp add: comp_def)

lemma from_claims_created:
  assumes "set (map fst extra) \<inter> set reserved_claims = {}"
  shows "from_claims (token_payload s subject rs ty extra issued jti) =
     Inr \<lparr> pr_user_id = subject,
           pr_email = claim_opt (dict_get ''email'' (token_payload s subject rs ty extra issued jti)),
           pr_roles = rs, pr_permissions = permissions_for_roles rs, pr_token_id = Some jti \<rparr>"
  by (simp add: from_claims_def token_payload_claims(6-8) [OF assms] del: claim_roles.simps)

end
