(* ===== verification/UserService.thy ===== *)
theory UserService
  imports Security Database
begin

text \<open>
  services/user_service.py: credential verification, issue of the token pair and its refresh. A
  password is checked against the stored hash; for a user without one, or no user, the same work is
  done on a hash made on the spot.
\<close>

section \<open>Users\<close>

record auth_libs =
  au_jwt :: jwt_lib
  au_pwd :: pwd_lib

definition get_by_email :: "string \<Rightarrow> user_row option action" where
  "get_by_email email = select_one (\<lambda>u. us_email u = email) db_users"

text \<open>\<open>User.role_names\<close>, through the association table.\<close>

definition role_names :: "db \<Rightarrow> user_row \<Rightarrow> string list" where
  "role_names d u = concat (map (\<lambda>(ui, ri). if ui = us_id u
       then map rl_name (filter (\<lambda>r. rl_id r = ri) (db_roles d)) else []) (db_user_roles d))"

section \<open>Credentials\<close>

definition dummy_password :: string where
  "dummy_password = ''not-a-real-password''"

definition dummy_verify :: "auth_libs \<Rightarrow> string \<Rightarrow> bool action" where
  "dummy_verify lb password = bindE draw_salt (\<lambda>salt.
     ret (verify_password (au_pwd lb) password (hash_password (au_pwd lb) salt dummy_password)))"

definition stored_hash :: "user_row option \<Rightarrow> string option" where
  "stored_hash user = (case user of None \<Rightarrow> None
     | Some u \<Rightarrow> (case us_hashed_password u of Some (c # cs) \<Rightarrow> Some (c # cs) | _ \<Rightarrow> None))"

definition bad_credentials :: exn where
  "bad_credentials = app_err AuthenticationError ''Invalid email or password.''"

definition authenticate :: "auth_libs \<Rightarrow> string \<Rightarrow> string \<Rightarrow> user_row action" where
  "authenticate lb email password =
     bindE (get_by_email email) (\<lambda>user.
     bindE (case stored_hash user of
              Some h \<Rightarrow> ret (verify_password (au_pwd lb) password h)
            | None \<Rightarrow> dummy_verify lb password) (\<lambda>ok.
       case user of None \<Rightarrow> throw bad_credentials
       | Some u \<Rightarrow> if \<not> us_is_active u \<or> \<not> ok then throw bad_credentials else ret u))"

section \<open>Tokens\<close>

record token_pair =
  tp_access_token :: string
  tp_refresh_token :: string
  tp_token_type :: string
  tp_expires_in :: int

definition issue_token ::
  "auth_libs \<Rightarrow> settings \<Rightarrow> user_row \<Rightarrow> string list \<Rightarrow> token_type \<Rightarrow> string action" where
  "issue_token lb st u rs ty = bindE utc_now (\<lambda>issued. bindE uuid4 (\<lambda>j.
     ret (fst (create_token (au_jwt lb) st (uuid_str (us_id u)) rs ty
                 [(''email'', JStr (us_email u))] issued (uuid_hex j)))))"

definition issue_tokens :: "auth_libs \<Rightarrow> settings \<Rightarrow> user_row \<Rightarrow> token_pair action" where
  "issue_tokens lb st u =
     bindE (getE (\<lambda>s. role_names (w_db s) u)) (\<lambda>rs.
     bindE (issue_token lb st u rs ACCESS) (\<lambda>a.
     bindE (issue_token lb st u rs REFRESH) (\<lambda>r.
       ret \<lparr> tp_access_token = a, tp_refresh_token = r, tp_token_type = ''bearer'',
             tp_expires_in = security_access_token_ttl_seconds st \<rparr>)))"

definition as_uuid :: "json \<Rightarrow> uuid res" where
  "as_uuid v = (case uuid_parse (claim_str v) of
       None \<Rightarrow> Inl (app_err AuthenticationError ''Malformed token subject.'')
     | Some i \<Rightarrow> Inr i)"

definition stale_subject :: exn where
  "stale_subject = app_err AuthenticationError ''Refresh subject is no longer valid.''"

text \<open>The library reads the clock to compare it with the token's times.\<close>

definition refresh_tokens :: "auth_libs \<Rightarrow> settings \<Rightarrow> string \<Rightarrow> token_pair action" where
  "refresh_tokens lb st token =
     bindE utc_now (\<lambda>now.
     bindE (liftE (decode_token (au_jwt lb) st (Some REFRESH) token now)) (\<lambda>claims.
       case dict_get ''sub'' claims of None \<Rightarrow> throw (Py ''KeyError'' ''sub'')
       | Some sub \<Rightarrow>
           bindE (liftE (as_uuid sub)) (\<lambda>i.
           bindE (select_one (\<lambda>u. us_id u = i) db_users) (\<lambda>user.
             case user of None \<Rightarrow> throw stale_subject
             | Some u \<Rightarrow> if us_is_active u then issue_tokens lb st u else throw stale_subject))))"

section \<open>Facts\<close>

text \<open>None of the operations writes to the database.\<close>

lemma quiet_authenticate: "quiet (authenticate lb email password)"
  unfolding authenticate_def get_by_email_def dummy_verify_def by (intro quiet_rules)

lemma quiet_issue_tokens: "quiet (issue_tokens lb st u)"
  unfolding issue_tokens_def issue_token_def by (intro quiet_rules)

lemma quiet_refresh: "quiet (refresh_tokens lb st token)"
  unfolding refresh_tokens_def by (intro quiet_rules quiet_issue_tokens)

text \<open>Who gets in: an active user whose stored hash matches, or without one the fixed password.\<close>

definition lets_in :: "auth_libs \<Rightarrow> user_row \<Rightarrow> string \<Rightarrow> bool" where
  "lets_in lb u password \<longleftrightarrow> us_is_active u \<and> (case stored_hash (Some u) of
       Some h \<Rightarrow> verify_password (au_pwd lb) password h
     | None \<Rightarrow> password = dummy_password)"

lemma dummy_verify_run:
  "pwd_spec (au_pwd lb) \<Longrightarrow> \<exists>t. dummy_verify lb password s = (Inr (password = dummy_password), t)"
  by (auto simp: dummy_verify_def bindE_def draw_salt_def ret_def verify_password_def hash_password_def
      pwd_spec_def)

lemma authenticate_run:
  assumes "pwd_spec (au_pwd lb)"
  shows "fst (authenticate lb email password s) =
    (case List.find (\<lambda>u. us_email u = email) (db_users (w_db s)) of
       None \<Rightarrow> Inl bad_credentials
     | Some u \<Rightarrow> if lets_in lb u password then Inr u else Inl bad_credentials)"
proof -
  let ?user = "List.find (\<lambda>u. us_email u = email) (db_users (w_db s))"
  obtain t where t: "dummy_verify lb password s = (Inr (password = dummy_password), t)"
    using dummy_verify_run [OF assms] by blast
  show ?thesis
  proof (cases "stored_hash ?user")
    case None
    then show ?thesis
      by (cases ?user) (auto simp: authenticate_def get_by_email_def select_one_def bindE_def getE_def
          t lets_in_def throw_def ret_def stored_hash_def)
  next
    case (Some h)
    then show ?thesis
      by (cases ?user) (auto simp: authenticate_def get_by_email_def select_one_def bindE_def getE_def
          lets_in_def throw_def ret_def)
  qed
qed

text \<open>What an issued token says, and how long it is accepted.\<close>

definition principal_of :: "user_row \<Rightarrow> string list \<Rightarrow> string \<Rightarrow> principal" where
  "principal_of u rs jti = \<lparr> pr_user_id = uuid_str (us_id u), pr_email = Some (us_email u),
     pr_roles = rs, pr_permissions = permissions_for_roles rs, pr_token_id = Some jti \<rparr>"

lemma email_not_reserved: "set (map fst [(''email'', JStr e)]) \<inter> set reserved_claims = {}"
  by (simp add: reserved_claims_def)

lemma issue_token_run:
  assumes "issue_token lb st u rs ty s = (Inr tok, t)" "jwt_spec (au_jwt lb)"
  obtains issued jti claims where "en_clock s (en_clock_pos s) = issued"
    "from_claims claims = Inr (principal_of u rs jti)" "dict_get ''sub'' claims = Some (JStr (uuid_str (us_id u)))"
    "w_db t = w_db s"
    "\<And>now expected. issued \<le> now \<Longrightarrow> decode_token (au_jwt lb) st expected tok now =
       (if now < (timestamp issued + token_ttl st ty) * 1000000 then
          if expected = None \<or> expected = Some ty then Inr claims
          else Inl (app_err AuthenticationError
                 (''Expected a '' @ token_type_value (the expected) @ '' token.''))
        else Inl (app_err AuthenticationError ''Token has expired.''))"
proof -
  let ?extra = "[(''email'', JStr (us_email u))]"
  define issued where "issued = en_clock s (en_clock_pos s)"
  define jti where "jti = uuid_hex (en_uuid s (en_uuid_pos s))"
  define claims where "claims = token_payload st (uuid_str (us_id u)) rs ty ?extra issued jti"
  have run: "tok = fst (create_token (au_jwt lb) st (uuid_str (us_id u)) rs ty ?extra issued jti)"
    "w_db t = w_db s"
    using assms(1) by (auto simp: issue_token_def bindE_def utc_now_def uuid4_def ret_def issued_def jti_def)
  have "dict_get ''email'' claims = Some (JStr (us_email u))"
    by (simp add: claims_def token_payload_def dict_union_lookup del: dict_union_def)
  then have "from_claims claims = Inr (principal_of u rs jti)"
    using from_claims_created [OF email_not_reserved, of st "uuid_str (us_id u)" rs ty "us_email u" issued jti]
    by (simp add: claims_def principal_of_def)
  moreover have "dict_get ''sub'' claims = Some (JStr (uuid_str (us_id u)))"
    unfolding claims_def by (rule token_payload_claims(6) [OF email_not_reserved])
  moreover have "decode_token (au_jwt lb) st expected tok now =
       (if now < (timestamp issued + token_ttl st ty) * 1000000 then
          if expected = None \<or> expected = Some ty then Inr claims
          else Inl (app_err AuthenticationError
                 (''Expected a '' @ token_type_value (the expected) @ '' token.''))
        else Inl (app_err AuthenticationError ''Token has expired.''))" if "issued \<le> now" for now expected
    unfolding run(1) claims_def by (rule decode_created [OF assms(2) email_not_reserved that])
  ultimately show thesis using that run(2) issued_def by blast
qed

end
