(* ===== verification/Seed.thy ===== *)
theory Seed
  imports UserService
begin

text \<open>
  services/seed.py: the catalogue of permissions and roles and the development administrator. A set
  of permissions is visited in the order of its enumeration; rows are looked up in dictionaries
  built from the tables.
\<close>

section \<open>Permissions\<close>

definition by_key :: "('r \<Rightarrow> string) \<Rightarrow> 'r list \<Rightarrow> (string, 'r) dict" where
  "by_key key rows = fold (\<lambda>r d. dict_set (key r) r d) rows []"

definition new_permission :: "string \<Rightarrow> uuid \<Rightarrow> int \<Rightarrow> int \<Rightarrow> permission_row" where
  "new_permission nm i c u = \<lparr> pm_id = i, pm_created_at = c, pm_updated_at = u, pm_code = nm,
     pm_description = None \<rparr>"

fun add_permissions ::
  "permission list \<Rightarrow> (string, permission_row) dict \<Rightarrow> (string, permission_row) dict action" where
  "add_permissions [] perms = ret perms"
| "add_permissions (p # ps) perms =
     (if dict_get (permission_value p) perms \<noteq> None then add_permissions ps perms
      else bindE (insert_permission (new_permission (permission_value p))) (\<lambda>row.
             add_permissions ps (dict_set (permission_value p) row perms)))"

section \<open>Roles\<close>

definition new_role :: "string \<Rightarrow> uuid \<Rightarrow> int \<Rightarrow> int \<Rightarrow> role_row" where
  "new_role name i c u = \<lparr> rl_id = i, rl_created_at = c, rl_updated_at = u, rl_name = name,
     rl_description = None \<rparr>"

definition role_codes :: "db \<Rightarrow> role_row \<Rightarrow> string set" where
  "role_codes d r = {pm_code p | p. p \<in> set (db_permissions d)
     \<and> (rl_id r, pm_id p) \<in> set (db_role_permissions d)}"

definition has_code :: "db \<Rightarrow> role_row \<Rightarrow> string \<Rightarrow> bool" where
  "has_code d r c \<longleftrightarrow> list_ex (\<lambda>p. pm_code p = c
     \<and> (rl_id r, pm_id p) \<in> set (db_role_permissions d)) (db_permissions d)"

definition link_permission :: "role_row \<Rightarrow> permission_row \<Rightarrow> unit action" where
  "link_permission r p = modifyE (\<lambda>s. s\<lparr>w_db := (w_db s)\<lparr>db_role_permissions :=
     db_role_permissions (w_db s) @ [(rl_id r, pm_id p)]\<rparr>\<rparr>)"

definition link_all ::
  "(string, permission_row) dict \<Rightarrow> role_row \<Rightarrow> permission list \<Rightarrow> unit action" where
  "link_all perms r ps = forE ps (\<lambda>p. case dict_get (permission_value p) perms of
       None \<Rightarrow> throw (Py ''KeyError'' (permission_value p))
     | Some row \<Rightarrow> link_permission r row)"

definition listed :: "permission set \<Rightarrow> permission list" where
  "listed ps = filter (\<lambda>p. p \<in> ps) Enum.enum"

text \<open>A missing role is created with its permissions, an existing one gets those it lacks.\<close>

definition seed_role ::
  "(string, permission_row) dict \<Rightarrow> role \<times> permission set \<Rightarrow> (string, role_row) dict
     \<Rightarrow> (string, role_row) dict action" where
  "seed_role perms entry roles = (case entry of (r, ps) \<Rightarrow>
     (case dict_get (role_value r) roles of
        None \<Rightarrow> bindE (insert_role (new_role (role_value r))) (\<lambda>row.
          thenE (link_all perms row (listed ps)) (ret (dict_set (role_value r) row roles)))
      | Some row \<Rightarrow>
          bindE (getE (\<lambda>s. filter (\<lambda>p. \<not> has_code (w_db s) row (permission_value p)) (listed ps)))
            (\<lambda>missing. thenE (link_all perms row missing) (ret roles))))"

fun seed_roles ::
  "(string, permission_row) dict \<Rightarrow> (role \<times> permission set) list \<Rightarrow> (string, role_row) dict
     \<Rightarrow> (string, role_row) dict action" where
  "seed_roles perms [] roles = ret roles"
| "seed_roles perms (e # es) roles = bindE (seed_role perms e roles) (seed_roles perms es)"

definition seed_rbac :: "(string, role_row) dict action" where
  "seed_rbac =
     bindE (getE (\<lambda>s. by_key pm_code (db_permissions (w_db s)))) (\<lambda>found.
     bindE (add_permissions Enum.enum found) (\<lambda>perms.
     bindE (getE (\<lambda>s. by_key rl_name (db_roles (w_db s)))) (seed_roles perms ROLE_PERMISSIONS)))"

section \<open>The administrator\<close>

definition new_admin :: "pwd_lib \<Rightarrow> settings \<Rightarrow> nat \<Rightarrow> uuid \<Rightarrow> int \<Rightarrow> int \<Rightarrow> user_row" where
  "new_admin lib st salt i c u = \<lparr> us_id = i, us_created_at = c, us_updated_at = u,
     us_email = seed_admin_email st, us_full_name = Some ''Local Admin'',
     us_hashed_password = Some (hash_password lib salt (seed_admin_password st)),
     us_is_active = True, us_external_subject = None \<rparr>"

definition create_admin :: "pwd_lib \<Rightarrow> settings \<Rightarrow> (string, role_row) dict \<Rightarrow> user_row action" where
  "create_admin lib st roles =
     bindE draw_salt (\<lambda>salt.
       case dict_get (role_value SYSTEM_ADMIN) roles of
         None \<Rightarrow> throw (Py ''KeyError'' (role_value SYSTEM_ADMIN))
       | Some r \<Rightarrow> bindE (insert_user (new_admin lib st salt)) (\<lambda>u.
           bindE (modifyE (\<lambda>s. s\<lparr>w_db := (w_db s)\<lparr>db_user_roles :=
                    db_user_roles (w_db s) @ [(us_id u, rl_id r)]\<rparr>\<rparr>)) (\<lambda>_. ret u)))"

definition seed_admin :: "pwd_lib \<Rightarrow> settings \<Rightarrow> user_row action" where
  "seed_admin lib st =
     bindE seed_rbac (\<lambda>roles.
     bindE (select_one (\<lambda>u. us_email u = seed_admin_email st) db_users) (\<lambda>existing.
       case existing of Some u \<Rightarrow> ret u | None \<Rightarrow> create_admin lib st roles))"

section \<open>Dictionaries of rows\<close>

lemma by_key_append [simp]: "by_key key (rows @ [r]) = dict_set (key r) r (by_key key rows)"
  by (simp add: by_key_def)

lemma by_key_get: "dict_get k (by_key key rows) = Some r \<Longrightarrow> r \<in> set rows \<and> key r = k"
  by (induction rows rule: rev_induct) (auto simp: by_key_def split: if_splits)

lemma by_key_None: "dict_get k (by_key key rows) = None \<longleftrightarrow> k \<notin> key ` set rows"
  by (induction rows rule: rev_induct) (auto simp: by_key_def)

lemma role_codes_iff: "c \<in> role_codes d r \<longleftrightarrow> has_code d r c"
  by (auto simp: role_codes_def has_code_def list_ex_iff)

section \<open>What seeding leaves\<close>

text \<open>The catalogue is in place: seeding again has nothing to do.\<close>

definition has_permissions :: "db \<Rightarrow> bool" where
  "has_permissions d \<longleftrightarrow> (\<forall>p. dict_get (permission_value p) (by_key pm_code (db_permissions d)) \<noteq> None)"

definition role_seeded :: "db \<Rightarrow> role \<times> permission set \<Rightarrow> bool" where
  "role_seeded d e \<longleftrightarrow> (case e of (r, ps) \<Rightarrow> \<exists>row.
     dict_get (role_value r) (by_key rl_name (db_roles d)) = Some row
       \<and> (\<forall>p \<in> ps. has_code d row (permission_value p)))"

definition seeded :: "db \<Rightarrow> bool" where
  "seeded d \<longleftrightarrow> has_permissions d \<and> (\<forall>e \<in> set ROLE_PERMISSIONS. role_seeded d e)"

lemma add_permissions_present:
  "\<forall>p \<in> set ps. dict_get (permission_value p) perms \<noteq> None \<Longrightarrow>
     add_permissions ps perms = ret perms"
  by (induction ps) auto

lemma seed_role_present:
  assumes "role_seeded (w_db s) e" "roles = by_key rl_name (db_roles (w_db s))"
  shows "seed_role perms e roles s = (Inr roles, s)"
proof -
  obtain r ps where e: "e = (r, ps)" by fastforce
  from assms(1) obtain row where row: "dict_get (role_value r) roles = Some row"
    "\<forall>p \<in> ps. has_code (w_db s) row (permission_value p)"
    by (auto simp: role_seeded_def e assms(2))
  then have "filter (\<lambda>p. \<not> has_code (w_db s) row (permission_value p)) (listed ps) = []"
    by (auto simp: filter_empty_conv listed_def)
  with row(1) show ?thesis
    by (simp add: seed_role_def e bindE_def getE_def thenE_def link_all_def ret_def)
qed

lemma seed_roles_present:
  "\<forall>e \<in> set es. role_seeded (w_db s) e \<Longrightarrow> roles = by_key rl_name (db_roles (w_db s)) \<Longrightarrow>
     seed_roles perms es roles s = (Inr roles, s)"
  by (induction es) (simp_all add: ret_def bindE_def seed_role_present)

lemma seed_rbac_again:
  assumes "seeded (w_db s)"
  shows "seed_rbac s = (Inr (by_key rl_name (db_roles (w_db s))), s)"
proof -
  let ?perms = "by_key pm_code (db_permissions (w_db s))"
  have "add_permissions Enum.enum ?perms = ret ?perms"
    using assms by (intro add_permissions_present) (simp add: seeded_def has_permissions_def)
  then have "seed_rbac s = seed_roles ?perms ROLE_PERMISSIONS (by_key rl_name (db_roles (w_db s))) s"
    by (simp add: seed_rbac_def bindE_def getE_def ret_def)
  with assms show ?thesis by (simp add: seeded_def seed_roles_present)
qed

text \<open>Seeding only adds: what is linked stays linked.\<close>

definition grows :: "db \<Rightarrow> db \<Rightarrow> bool" where
  "grows d d' \<longleftrightarrow> db_permissions d' = db_permissions d
     \<and> set (db_role_permissions d) \<subseteq> set (db_role_permissions d')
     \<and> (\<forall>k r. dict_get k (by_key rl_name (db_roles d)) = Some r \<longrightarrow>
          dict_get k (by_key rl_name (db_roles d')) = Some r)"

lemma grows_trans: "grows d d' \<Longrightarrow> grows d' d'' \<Longrightarrow> grows d d''"
  by (auto simp: grows_def)

lemma grows_has_code: "grows d d' \<Longrightarrow> has_code d r c \<Longrightarrow> has_code d' r c"
  by (auto simp: grows_def has_code_def list_ex_iff)

lemma grows_role_seeded:
  assumes "grows d d'" "role_seeded d e"
  shows "role_seeded d' e"
proof -
  obtain r ps where e: "e = (r, ps)" by fastforce
  from assms(2) obtain row where "dict_get (role_value r) (by_key rl_name (db_roles d)) = Some row"
    "\<forall>p \<in> ps. has_code d row (permission_value p)" by (auto simp: role_seeded_def e)
  with assms(1) grows_has_code [OF assms(1)] show ?thesis by (auto simp: role_seeded_def e grows_def)
qed

definition perms_of_db :: "(string, permission_row) dict \<Rightarrow> db \<Rightarrow> bool" where
  "perms_of_db perms d \<longleftrightarrow> perms = by_key pm_code (db_permissions d) \<and> has_permissions d"

lemma add_permissions_run:
  assumes "add_permissions ps perms s = (Inr perms', t)"
    and "perms = by_key pm_code (db_permissions (w_db s))"
  shows "perms' = by_key pm_code (db_permissions (w_db t))
    \<and> (\<exists>rows. w_db t = (w_db s)\<lparr>db_permissions := rows\<rparr>)
    \<and> (\<forall>k. dict_get k perms \<noteq> None \<longrightarrow> dict_get k perms' \<noteq> None)
    \<and> (\<forall>p \<in> set ps. dict_get (permission_value p) perms' \<noteq> None)"
  using assms
proof (induction ps arbitrary: perms s)
  case Nil
  then show ?case by (auto simp: ret_def intro!: exI [where x = "db_permissions (w_db s)"])
next
  case (Cons p ps)
  show ?case
  proof (cases "dict_get (permission_value p) perms = None")
    case False
    with Cons.IH [of perms s] Cons.prems show ?thesis by auto
  next
    case True
    with Cons.prems(1) obtain row u where
      row: "insert_permission (new_permission (permission_value p)) s = (Inr row, u)"
      "add_permissions ps (dict_set (permission_value p) row perms) u = (Inr perms', t)"
      by (auto simp: bindE_Inr)
    from insert_row_Inr [OF row(1) [unfolded insert_permission_def]]
    have u: "pm_code row = permission_value p" "w_db u = db_permissions_update (\<lambda>rs. rs @ [row]) (w_db s)"
      by (auto simp: new_permission_def)
    have "dict_set (permission_value p) row perms = by_key pm_code (db_permissions (w_db u))"
      by (simp add: u Cons.prems(2) flip: u(1))
    from Cons.IH [OF row(2) this] show ?thesis by (auto simp: u(2))
  qed
qed

lemma link_all_run:
  assumes "perms_of_db perms (w_db s)"
  shows "\<exists>t extra. link_all perms r ps s = (Inr (), t)
    \<and> w_db t = (w_db s)\<lparr>db_role_permissions := db_role_permissions (w_db s) @ extra\<rparr>
    \<and> (\<forall>p \<in> set ps. has_code (w_db t) r (permission_value p))"
  using assms
proof (induction ps arbitrary: s)
  case Nil
  then show ?case by (auto simp: link_all_def ret_def intro!: exI [where x = "[]"])
next
  case (Cons p ps)
  from Cons.prems obtain row where row: "dict_get (permission_value p) perms = Some row"
    unfolding perms_of_db_def has_permissions_def by blast
  then have rp: "row \<in> set (db_permissions (w_db s))" "pm_code row = permission_value p"
    using Cons.prems by (auto simp: perms_of_db_def dest: by_key_get)
  define u where "u = s\<lparr>w_db := (w_db s)\<lparr>db_role_permissions :=
     db_role_permissions (w_db s) @ [(rl_id r, pm_id row)]\<rparr>\<rparr>"
  have go: "link_all perms r (p # ps) s = link_all perms r ps u"
    by (simp add: link_all_def row link_permission_def thenE_def bindE_def modifyE_def u_def)
  have "perms_of_db perms (w_db u)"
    using Cons.prems by (simp add: u_def perms_of_db_def has_permissions_def)
  from Cons.IH [OF this] obtain t extra where t: "link_all perms r ps u = (Inr (), t)"
    "w_db t = (w_db u)\<lparr>db_role_permissions := db_role_permissions (w_db u) @ extra\<rparr>"
    "\<forall>q \<in> set ps. has_code (w_db t) r (permission_value q)" by blast
  have "has_code (w_db t) r (permission_value p)"
    using rp by (auto simp: t(2) u_def has_code_def list_ex_iff)
  with t show ?case unfolding go
    by (intro exI [where x = t] exI [where x = "(rl_id r, pm_id row) # extra"]) (simp add: u_def)
qed

lemma seed_role_run:
  assumes "seed_role perms e roles s = (Inr roles', t)" "perms_of_db perms (w_db s)"
    and "roles = by_key rl_name (db_roles (w_db s))"
  shows "roles' = by_key rl_name (db_roles (w_db t)) \<and> role_seeded (w_db t) e
    \<and> grows (w_db s) (w_db t) \<and> perms_of_db perms (w_db t)"
proof -
  obtain r ps where e: "e = (r, ps)" by fastforce
  have all: "set (listed ps) = ps" by (simp add: listed_def enum_UNIV)
  show ?thesis
  proof (cases "dict_get (role_value r) roles")
    case None
    with assms(1) obtain row u where row: "insert_role (new_role (role_value r)) s = (Inr row, u)"
      "thenE (link_all perms row (listed ps)) (ret (dict_set (role_value r) row roles)) u = (Inr roles', t)"
      by (auto simp: seed_role_def e bindE_Inr)
    from insert_row_Inr [OF row(1) [unfolded insert_role_def]]
    have u: "rl_name row = role_value r" "w_db u = db_roles_update (\<lambda>rs. rs @ [row]) (w_db s)"
      by (auto simp: new_role_def)
    have pu: "perms_of_db perms (w_db u)"
      using assms(2) by (simp add: u(2) perms_of_db_def has_permissions_def)
    obtain v extra where v: "link_all perms row (listed ps) u = (Inr (), v)"
      "w_db v = (w_db u)\<lparr>db_role_permissions := db_role_permissions (w_db u) @ extra\<rparr>"
      "\<forall>p \<in> set (listed ps). has_code (w_db v) row (permission_value p)"
      using link_all_run [OF pu] by blast
    have t: "t = v" "roles' = dict_set (role_value r) row roles"
      using row(2) by (auto simp: thenE_def bindE_def v(1) ret_def)
    have new: "roles' = by_key rl_name (db_roles (w_db t))"
      by (simp add: t v(2) u(2) assms(3) flip: u(1))
    moreover have "role_seeded (w_db t) e"
    proof -
      have "dict_get (role_value r) (by_key rl_name (db_roles (w_db t))) = Some row"
        by (simp add: t(2) flip: new)
      with v(3) show ?thesis by (auto simp: role_seeded_def e t(1) all)
    qed
    moreover have "grows (w_db s) (w_db t)"
      using None by (auto simp: grows_def t v(2) u assms(3))
    moreover have "perms_of_db perms (w_db t)"
      using pu by (simp add: t v(2) perms_of_db_def has_permissions_def)
    ultimately show ?thesis by blast
  next
    case (Some row)
    define missing where
      "missing = filter (\<lambda>p. \<not> has_code (w_db s) row (permission_value p)) (listed ps)"
    obtain v extra where v: "link_all perms row missing s = (Inr (), v)"
      "w_db v = (w_db s)\<lparr>db_role_permissions := db_role_permissions (w_db s) @ extra\<rparr>"
      "\<forall>p \<in> set missing. has_code (w_db v) row (permission_value p)"
      using link_all_run [OF assms(2)] by blast
    have t: "t = v" "roles' = roles"
      using assms(1) Some
      by (auto simp: seed_role_def e bindE_def getE_def thenE_def missing_def [symmetric] v(1) ret_def)
    have g: "grows (w_db s) (w_db t)" by (auto simp: grows_def t v(2))
    have "has_code (w_db t) row (permission_value p)" if "p \<in> ps" for p
      using v(3) that grows_has_code [OF g] all by (auto simp: missing_def t)
    moreover have "dict_get (role_value r) (by_key rl_name (db_roles (w_db t))) = Some row"
      using Some by (simp add: t v(2) assms(3))
    ultimately have "role_seeded (w_db t) e" by (auto simp: role_seeded_def e)
    moreover have "perms_of_db perms (w_db t)"
      using assms(2) by (simp add: t v(2) perms_of_db_def has_permissions_def)
    ultimately show ?thesis using g by (simp add: t v(2) assms(3))
  qed
qed

lemma seed_roles_run:
  assumes "seed_roles perms es roles s = (Inr roles', t)" "perms_of_db perms (w_db s)"
    and "roles = by_key rl_name (db_roles (w_db s))"
  shows "roles' = by_key rl_name (db_roles (w_db t)) \<and> (\<forall>e \<in> set es. role_seeded (w_db t) e)
    \<and> grows (w_db s) (w_db t) \<and> perms_of_db perms (w_db t)"
  using assms
proof (induction es arbitrary: roles s)
  case Nil
  then show ?case by (auto simp: ret_def grows_def)
next
  case (Cons e es)
  then obtain roles1 u where u: "seed_role perms e roles s = (Inr roles1, u)"
    "seed_roles perms es roles1 u = (Inr roles', t)" by (auto simp: bindE_Inr)
  note step = seed_role_run [OF u(1) Cons.prems(2,3)]
  with Cons.IH [OF u(2)] have rest: "roles' = by_key rl_name (db_roles (w_db t))"
    "\<forall>e \<in> set es. role_seeded (w_db t) e" "grows (w_db u) (w_db t)" "perms_of_db perms (w_db t)"
    by blast+
  then show ?case using step grows_role_seeded grows_trans by auto
qed

lemma seed_rbac_seeds:
  assumes "seed_rbac s = (Inr roles, t)"
  shows "seeded (w_db t) \<and> roles = by_key rl_name (db_roles (w_db t))"
proof -
  from assms obtain perms u where u:
    "add_permissions Enum.enum (by_key pm_code (db_permissions (w_db s))) s = (Inr perms, u)"
    "seed_roles perms ROLE_PERMISSIONS (by_key rl_name (db_roles (w_db u))) u = (Inr roles, t)"
    by (auto simp: seed_rbac_def bindE_Inr getE_def)
  from add_permissions_run [OF u(1) refl] have "perms_of_db perms (w_db u)"
    by (auto simp: perms_of_db_def has_permissions_def enum_UNIV)
  from seed_roles_run [OF u(2) this refl] show ?thesis
    by (auto simp: seeded_def perms_of_db_def)
qed

lemma create_admin_run:
  assumes "create_admin lib st roles s = (Inr u, t)"
  obtains r where "dict_get (role_value SYSTEM_ADMIN) roles = Some r"
    "w_db t = (w_db s)\<lparr>db_users := db_users (w_db s) @ [u],
       db_user_roles := db_user_roles (w_db s) @ [(us_id u, rl_id r)]\<rparr>"
    "us_email u = seed_admin_email st" "us_is_active u"
    "\<exists>salt. us_hashed_password u = Some (hash_password lib salt (seed_admin_password st))"
proof -
  from assms obtain salt s1 where s1: "draw_salt s = (Inr salt, s1)" and rest:
    "(case dict_get (role_value SYSTEM_ADMIN) roles of
         None \<Rightarrow> throw (Py ''KeyError'' (role_value SYSTEM_ADMIN))
       | Some r \<Rightarrow> bindE (insert_user (new_admin lib st salt)) (\<lambda>u.
           bindE (modifyE (\<lambda>s. s\<lparr>w_db := (w_db s)\<lparr>db_user_roles :=
                    db_user_roles (w_db s) @ [(us_id u, rl_id r)]\<rparr>\<rparr>)) (\<lambda>_. ret u))) s1 = (Inr u, t)"
    unfolding create_admin_def bindE_Inr by blast
  then obtain r where r: "dict_get (role_value SYSTEM_ADMIN) roles = Some r"
    by (cases "dict_get (role_value SYSTEM_ADMIN) roles") (simp_all add: throw_def)
  with rest obtain v where ins: "insert_user (new_admin lib st salt) s1 = (Inr u, v)"
    and t: "t = v\<lparr>w_db := (w_db v)\<lparr>db_user_roles := db_user_roles (w_db v) @ [(us_id u, rl_id r)]\<rparr>\<rparr>"
    by (auto simp: bindE_Inr modifyE_def ret_def)
  have "w_db s1 = w_db s" using s1 by (auto simp: draw_salt_def)
  with insert_row_Inr [OF ins [unfolded insert_user_def]]
  have v: "us_email u = seed_admin_email st" "us_is_active u"
    "\<exists>salt. us_hashed_password u = Some (hash_password lib salt (seed_admin_password st))"
    "w_db v = db_users_update (\<lambda>rs. rs @ [u]) (w_db s)" by (auto simp: new_admin_def)
  show thesis by (rule that [OF r]) (simp_all add: t v)
qed

lemma seed_admin_run:
  assumes "seed_admin lib st s = (Inr u, t)"
  obtains roles w where "seed_rbac s = (Inr roles, w)"
    "List.find (\<lambda>x. us_email x = seed_admin_email st) (db_users (w_db w)) = Some u \<and> t = w
     \<or> List.find (\<lambda>x. us_email x = seed_admin_email st) (db_users (w_db w)) = None
        \<and> create_admin lib st roles w = (Inr u, t)"
proof -
  from assms obtain roles w where w: "seed_rbac s = (Inr roles, w)" and rest:
    "(case List.find (\<lambda>x. us_email x = seed_admin_email st) (db_users (w_db w)) of
        Some x \<Rightarrow> ret x | None \<Rightarrow> create_admin lib st roles) w = (Inr u, t)"
    by (auto simp: seed_admin_def bindE_Inr select_one_def getE_def)
  then show thesis
    by (cases "List.find (\<lambda>x. us_email x = seed_admin_email st) (db_users (w_db w))")
      (auto simp: ret_def intro: that [OF w])
qed

lemma seeded_cong:
  "db_permissions d' = db_permissions d \<Longrightarrow> db_roles d' = db_roles d \<Longrightarrow>
     db_role_permissions d' = db_role_permissions d \<Longrightarrow> seeded d' = seeded d"
  by (simp add: seeded_def has_permissions_def role_seeded_def has_code_def split: prod.splits)

lemma seed_admin_seeds:
  assumes "seed_admin lib st s = (Inr u, t)"
  shows "seeded (w_db t)"
    and "List.find (\<lambda>x. us_email x = seed_admin_email st) (db_users (w_db t)) = Some u"
proof -
  obtain roles w where w: "seed_rbac s = (Inr roles, w)" and
    or: "List.find (\<lambda>x. us_email x = seed_admin_email st) (db_users (w_db w)) = Some u \<and> t = w
     \<or> List.find (\<lambda>x. us_email x = seed_admin_email st) (db_users (w_db w)) = None
        \<and> create_admin lib st roles w = (Inr u, t)" by (rule seed_admin_run [OF assms])
  note sd = conjunct1 [OF seed_rbac_seeds [OF w]]
  have app: "List.find P xs = None \<Longrightarrow> P x \<Longrightarrow> List.find P (xs @ [x]) = Some x" for P and xs :: "user_row list" and x
    by (induction xs) (auto split: if_splits)
  from or have "seeded (w_db t) \<and>
      List.find (\<lambda>x. us_email x = seed_admin_email st) (db_users (w_db t)) = Some u"
  proof
    assume "List.find (\<lambda>x. us_email x = seed_admin_email st) (db_users (w_db w)) = Some u \<and> t = w"
    with sd show ?thesis by simp
  next
    assume new: "List.find (\<lambda>x. us_email x = seed_admin_email st) (db_users (w_db w)) = None
        \<and> create_admin lib st roles w = (Inr u, t)"
    obtain r where "dict_get (role_value SYSTEM_ADMIN) roles = Some r"
      and r: "w_db t = (w_db w)\<lparr>db_users := db_users (w_db w) @ [u],
       db_user_roles := db_user_roles (w_db w) @ [(us_id u, rl_id r)]\<rparr>" "us_email u = seed_admin_email st"
      and "us_is_active u" by (rule create_admin_run [OF conjunct2 [OF new]])
    have "seeded (w_db t)" using sd by (subst seeded_cong [of _ "w_db w"]) (simp_all add: r(1))
    with new r app show ?thesis by simp
  qed
  then show "seeded (w_db t)"
    and "List.find (\<lambda>x. us_email x = seed_admin_email st) (db_users (w_db t)) = Some u" by simp_all
qed

text \<open>Seeding the catalogue leaves the users and their roles alone.\<close>

definition users_of :: "world \<Rightarrow> user_row list \<times> (uuid \<times> uuid) list" where
  "users_of s = (db_users (w_db s), db_user_roles (w_db s))"

abbreviation same_users :: "world \<Rightarrow> world \<Rightarrow> bool" where
  "same_users \<equiv> \<lambda>s t. users_of s = users_of t"

lemma seed_rbac_users: "keeps same_users seed_rbac"
proof -
  have ins: "keeps same_users (insert_permission mk)" "keeps same_users (insert_role mk')" for mk mk'
    by (auto simp: keeps_def insert_permission_def insert_role_def insert_row_def bindE_def uuid4_def
        utc_now_def users_of_def)
  have adds: "keeps same_users (add_permissions ps perms)" for ps perms
    by (induction ps arbitrary: perms) (auto intro!: keeps_rules ins)
  have link: "keeps same_users (link_all perms r ps)" for perms r ps
    unfolding link_all_def
    by (intro keeps_forE) (auto simp: keeps_def link_permission_def modifyE_def throw_def users_of_def
        reflp_def transp_def split: option.split)
  have role: "keeps same_users (seed_role perms e roles)" for perms e roles
    unfolding seed_role_def by (auto intro!: keeps_rules ins link split: prod.split option.split)
  have "keeps same_users (seed_roles perms es roles)" for perms es roles
    by (induction es arbitrary: roles) (auto intro!: keeps_rules role)
  then show ?thesis unfolding seed_rbac_def by (intro keeps_rules adds) simp_all
qed

text \<open>The administrator of a database that had none.\<close>

lemma seed_admin_fresh:
  assumes "seed_admin lib st s = (Inr u, t)"
    and "List.find (\<lambda>x. us_email x = seed_admin_email st) (db_users (w_db s)) = None"
  obtains salt r where "us_is_active u"
    "us_hashed_password u = Some (hash_password lib salt (seed_admin_password st))"
    "(us_id u, rl_id r) \<in> set (db_user_roles (w_db t))" "r \<in> set (db_roles (w_db t))"
    "rl_name r = role_value SYSTEM_ADMIN"
proof -
  obtain roles w where w: "seed_rbac s = (Inr roles, w)" and
    or: "List.find (\<lambda>x. us_email x = seed_admin_email st) (db_users (w_db w)) = Some u \<and> t = w
     \<or> List.find (\<lambda>x. us_email x = seed_admin_email st) (db_users (w_db w)) = None
        \<and> create_admin lib st roles w = (Inr u, t)" by (rule seed_admin_run [OF assms(1)])
  have "db_users (w_db w) = db_users (w_db s)" using keepsD [OF seed_rbac_users w] by (simp add: users_of_def)
  with or assms(2) have "create_admin lib st roles w = (Inr u, t)" by simp
  then obtain r where r: "dict_get (role_value SYSTEM_ADMIN) roles = Some r"
    and t: "w_db t = (w_db w)\<lparr>db_users := db_users (w_db w) @ [u],
       db_user_roles := db_user_roles (w_db w) @ [(us_id u, rl_id r)]\<rparr>"
    and u: "us_is_active u" "\<exists>salt. us_hashed_password u = Some (hash_password lib salt (seed_admin_password st))"
    by (rule create_admin_run)
  have "roles = by_key rl_name (db_roles (w_db w))" using seed_rbac_seeds [OF w] by simp
  with by_key_get r have "r \<in> set (db_roles (w_db w)) \<and> rl_name r = role_value SYSTEM_ADMIN" by metis
  with t u show thesis using that [of _ r] by auto
qed

lemma seed_admin_again:
  assumes "seeded (w_db s)" "List.find (\<lambda>x. us_email x = seed_admin_email st) (db_users (w_db s)) = Some u"
  shows "seed_admin lib st s = (Inr u, s)"
  using assms(2) by (simp add: seed_admin_def bindE_def seed_rbac_again [OF assms(1)] select_one_def
      getE_def ret_def)

end
