(* ===== verification/DocumentService.thy ===== *)
theory DocumentService
  imports Database Storage VectorStore
begin

text \<open>
  services/document_service.py: chunking and the ingestion of an uploaded file, from the stored
  bytes to the indexed chunks. The file and the vectors are written outside the transaction.
\<close>

section \<open>Chunks\<close>

text \<open>
  The windows of \<open>sz\<close> words, each \<open>step\<close> after the previous one, until one reaches the last word.
  The argument is what remains from the start of the window. Neither \<open>sz\<close> nor \<open>overlap\<close> is
  negative anywhere in the program.
\<close>

definition chunk_step :: "nat \<Rightarrow> nat \<Rightarrow> nat" where
  "chunk_step sz overlap = max 1 (sz - overlap)"

function windows :: "nat \<Rightarrow> nat \<Rightarrow> string list \<Rightarrow> string list list" where
  "windows sz overlap ws =
     (if ws = [] then []
      else (let here = (if take sz ws \<noteq> [] then [take sz ws] else [])
            in if length ws \<le> sz then here
               else here @ windows sz overlap (drop (chunk_step sz overlap) ws)))"
  by pat_completeness auto
termination
  by (relation "measure (\<lambda>(_, _, ws). length ws)") (auto simp: chunk_step_def)

declare windows.simps [simp del]

definition chunk_text :: "nat \<Rightarrow> nat \<Rightarrow> string \<Rightarrow> string list" where
  "chunk_text sz overlap tx = map (join '' '') (windows sz overlap (split_ws tx))"

definition default_chunks :: "string \<Rightarrow> string list" where
  "default_chunks tx = chunk_text 120 20 tx"

section \<open>Decoding\<close>

text \<open>
  \<open>bytes.decode('utf-8', errors='replace')\<close>, on bytes and giving the text in the same bytes: a well
  formed sequence stays, and each maximal part of an ill-formed one becomes U+FFFD. The lead byte lists the
  ranges that the following bytes must lie in.
\<close>

definition replacement :: string where
  "replacement = [CHR 0xEF, CHR 0xBF, CHR 0xBD]"

definition continuation :: "nat \<times> nat" where
  "continuation = (128, 191)"

definition utf8_lead :: "char \<Rightarrow> (nat \<times> nat) list option" where
  "utf8_lead c =
     (let n = code c
      in if n < 128 then Some []
         else if 194 \<le> n \<and> n \<le> 223 then Some [continuation]
         else if n = 224 then Some [(160, 191), continuation]
         else if n = 237 then Some [(128, 159), continuation]
         else if 225 \<le> n \<and> n \<le> 239 then Some [continuation, continuation]
         else if n = 240 then Some [(144, 191), continuation, continuation]
         else if 241 \<le> n \<and> n \<le> 243 then Some [continuation, continuation, continuation]
         else if n = 244 then Some [(128, 143), continuation, continuation]
         else None)"

text \<open>The longest prefix within the ranges, and whether all of them were met.\<close>

fun utf8_tail :: "(nat \<times> nat) list \<Rightarrow> string \<Rightarrow> string \<times> bool" where
  "utf8_tail [] cs = ([], True)"
| "utf8_tail (r # rs) [] = ([], False)"
| "utf8_tail (r # rs) (c # cs) =
     (if fst r \<le> code c \<and> code c \<le> snd r
      then (case utf8_tail rs cs of (t, ok) \<Rightarrow> (c # t, ok)) else ([], False))"

function utf8_decode :: "string \<Rightarrow> string" where
  "utf8_decode [] = []"
| "utf8_decode (c # cs) =
     (case utf8_lead c of
        None \<Rightarrow> replacement @ utf8_decode cs
      | Some ranges \<Rightarrow> (case utf8_tail ranges cs of (t, ok) \<Rightarrow>
          (if ok then c # t else replacement) @ utf8_decode (drop (length t) cs)))"
  by pat_completeness auto
termination
  by (relation "measure length") auto

definition decode_text :: "string \<Rightarrow> string \<Rightarrow> string" where
  "decode_text data content_type =
     (if starts_with ''text/'' content_type
         \<or> content_type \<in> set [''application/json'', ''application/xml'']
      then utf8_decode data else [])"

section \<open>ingest\<close>

record upload =
  up_filename :: string
  up_content_type :: string
  up_data :: string
  up_text :: "string option"
  up_by :: "uuid option"
  up_metadata :: json_dict

definition new_document :: "upload \<Rightarrow> string \<Rightarrow> uuid \<Rightarrow> int \<Rightarrow> int \<Rightarrow> document_row" where
  "new_document up k i c u = \<lparr> do_id = i, do_created_at = c, do_updated_at = u,
     do_filename = up_filename up, do_content_type = up_content_type up,
     do_size_bytes = int (length (up_data up)), do_storage_key = k,
     do_sha256 = Some (hd (split_on CHR ''/'' k)), do_status = document_status_value DS_PROCESSING,
     do_metadata = up_metadata up, do_uploaded_by = up_by up \<rparr>"

definition new_chunk :: "uuid \<Rightarrow> int \<Rightarrow> string \<Rightarrow> uuid \<Rightarrow> int \<Rightarrow> int \<Rightarrow> chunk_row" where
  "new_chunk d n tx i c u = \<lparr> ch_id = i, ch_created_at = c, ch_updated_at = u,
     ch_document_id = d, ch_index = n, ch_content = tx,
     ch_token_count = max 1 (int (length tx) div 4) \<rparr>"

definition new_embedding :: "uuid \<Rightarrow> int \<Rightarrow> pyfloat list \<Rightarrow> uuid \<Rightarrow> int \<Rightarrow> int \<Rightarrow> embedding_row" where
  "new_embedding ch dims v i c u = \<lparr> em_id = i, em_created_at = c, em_updated_at = u,
     em_chunk_id = ch, em_model = ''hashing-embedder'', em_dimensions = dims, em_vector = v \<rparr>"

definition chunk_record :: "document_row \<Rightarrow> chunk_row \<Rightarrow> pyfloat list \<Rightarrow> vector_record" where
  "chunk_record d ch v = \<lparr> vr_chunk_id = uuid_str (ch_id ch), vr_document_id = uuid_str (do_id d),
     vr_text = ch_content ch, vr_embedding = v, vr_filename = Some (do_filename d) \<rparr>"

text \<open>
  The row of an embedding is sent with the next flush; nothing reads the table before, so it is
  written here at once.
\<close>

fun index_chunks ::
  "int \<Rightarrow> document_row \<Rightarrow> int \<Rightarrow> string list \<Rightarrow> vector_record list \<Rightarrow> vector_record list action" where
  "index_chunks dims d n [] records = ret records"
| "index_chunks dims d n (tx # rest) records =
     bindE (insert_chunk (new_chunk (do_id d) n tx)) (\<lambda>ch.
     bindE (liftE (embed dims tx)) (\<lambda>v.
     bindE (insert_embedding (new_embedding (ch_id ch) dims v)) (\<lambda>_.
       index_chunks dims d (n + 1) rest (records @ [chunk_record d ch v]))))"

definition put_file :: "path \<Rightarrow> string \<Rightarrow> string \<Rightarrow> string action" where
  "put_file base k data s = (case storage_put base k data (w_files s) of (r, fs) \<Rightarrow> (r, s\<lparr>w_files := fs\<rparr>))"

definition index_vectors :: "vector_record list \<Rightarrow> unit action" where
  "index_vectors records =
     (if records = [] then ret () else modifyE (\<lambda>s. s\<lparr>w_vectors := upsert records (w_vectors s)\<rparr>))"

definition ingest :: "path \<Rightarrow> int \<Rightarrow> upload \<Rightarrow> document_row action" where
  "ingest base dims up =
     (let k = content_key (up_filename up) (up_data up)
      in thenE (put_file base k (up_data up))
        (bindE (insert_document (new_document up k)) (\<lambda>d.
           let extracted = (case up_text up of Some t \<Rightarrow> t
                            | None \<Rightarrow> decode_text (up_data up) (up_content_type up));
               chunks = (if extracted = [] then [] else default_chunks extracted)
           in bindE (index_chunks dims d 0 chunks []) (\<lambda>records.
              thenE (index_vectors records)
                (update_document (d\<lparr>do_status := (if chunks \<noteq> []
                   then document_status_value DS_PROCESSED
                   else document_status_value DS_NEEDS_REVIEW)\<rparr>))))))"

section \<open>Facts on the chunks\<close>

lemma windows_Nil [simp]: "windows sz overlap [] = []"
  by (simp add: windows.simps)

lemma windows_short: "ws \<noteq> [] \<Longrightarrow> length ws \<le> sz \<Longrightarrow> windows sz overlap ws = [ws]"
  by (simp add: windows.simps)

lemma windows_long:
  "0 < sz \<Longrightarrow> sz < length ws \<Longrightarrow>
     windows sz overlap ws = take sz ws # windows sz overlap (drop (chunk_step sz overlap) ws)"
  by (subst windows.simps) auto

lemma windows_cases [consumes 1, case_names short long]:
  assumes "ws \<noteq> []" "length ws \<le> sz \<Longrightarrow> P" "sz < length ws \<Longrightarrow> P"
  shows P
  using assms by fastforce

text \<open>Dropping the overlap from all windows but the first gives the words back.\<close>

lemma windows_reassemble:
  assumes "overlap < sz" "ws \<noteq> []"
  shows "\<exists>w rest. windows sz overlap ws = w # rest \<and> w = take sz ws
    \<and> w @ concat (map (drop overlap) rest) = ws"
  using assms
proof (induction sz overlap ws rule: windows.induct)
  case (1 sz overlap ws)
  show ?case
  proof (cases "length ws \<le> sz")
    case True
    with 1 show ?thesis by (simp add: windows_short)
  next
    case False
    define st where "st = chunk_step sz overlap"
    have st: "st + overlap = sz" using "1.prems"(1) by (simp add: st_def chunk_step_def)
    have ne: "drop st ws \<noteq> []" using False st by simp
    obtain w rest where rest: "windows sz overlap (drop st ws) = w # rest" "w = take sz (drop st ws)"
      "w @ concat (map (drop overlap) rest) = drop st ws"
      using "1.IH" [OF "1.prems"(2) refl False] "1.prems"(1) ne by (auto simp: st_def)
    have "overlap \<le> length w" using False st "1.prems"(1) by (simp add: rest(2))
    then have "drop overlap w @ concat (map (drop overlap) rest) = drop overlap (drop st ws)"
      by (simp flip: rest(3))
    also have "\<dots> = drop sz ws" using st by (simp add: add.commute)
    finally have "take sz ws @ concat (map (drop overlap) (w # rest)) = ws" by simp
    moreover have "windows sz overlap ws = take sz ws # w # rest"
      using windows_long [of sz ws overlap] False "1.prems"(1) rest(1) by (simp add: st_def)
    ultimately show ?thesis by blast
  qed
qed

lemma windows_element:
  assumes "0 < sz" "w \<in> set (windows sz overlap ws)"
  shows "w \<noteq> [] \<and> length w \<le> sz \<and> (\<exists>a b. ws = a @ w @ b)"
  using assms
proof (induction sz overlap ws rule: windows.induct)
  case (1 sz overlap ws)
  then have ne: "ws \<noteq> []" by auto
  show ?case
  proof (cases "length ws \<le> sz")
    case True
    with 1 ne show ?thesis by (auto simp: windows_short intro!: exI [where x = "[]"])
  next
    case False
    let ?rest = "drop (chunk_step sz overlap) ws"
    from False 1 consider "w = take sz ws" | "w \<in> set (windows sz overlap ?rest)"
      by (auto simp: windows_long)
    then show ?thesis
    proof cases
      case 1
      have "ws = [] @ w @ drop sz ws" by (simp add: 1)
      with 1 False "1.prems"(1) ne show ?thesis by (metis length_take min.cobounded2 take_eq_Nil neq0_conv)
    next
      case 2
      from "1.IH" [OF ne refl False "1.prems"(1) 2] obtain a b where
        w: "w \<noteq> []" "length w \<le> sz" "?rest = a @ w @ b" by blast
      then have "ws = (take (chunk_step sz overlap) ws @ a) @ w @ b" by (metis append.assoc append_take_drop_id)
      with w show ?thesis by blast
    qed
  qed
qed

lemma window_words:
  assumes "0 < sz" "w \<in> set (windows sz overlap (split_ws tx))"
  shows "\<forall>x \<in> set w. is_word x"
proof -
  obtain a b where "split_ws tx = a @ w @ b" using windows_element [OF assms] by blast
  then have "set w \<subseteq> set (split_ws tx)" by auto
  then show ?thesis using split_ws_words [of _ tx] by blast
qed

lemma chunk_text_words: "0 < sz \<Longrightarrow> map split_ws (chunk_text sz overlap tx) = windows sz overlap (split_ws tx)"
  using window_words split_ws_join by (auto simp: chunk_text_def comp_def intro!: map_idI)

section \<open>Facts on the decoding\<close>

lemma utf8_decode_ascii: "\<forall>c \<in> set s. code c < 128 \<Longrightarrow> utf8_decode s = s"
  by (induction s) (simp_all add: utf8_lead_def)

section \<open>Facts on the ingestion\<close>

text \<open>The rows and the records of the chunks, in order.\<close>

definition chunk_rows_ok :: "document_row \<Rightarrow> int \<Rightarrow> string list \<Rightarrow> chunk_row list \<Rightarrow> bool" where
  "chunk_rows_ok d n txts chs \<longleftrightarrow> map ch_content chs = txts
     \<and> map ch_index chs = map (\<lambda>i. n + int i) [0..<length txts]
     \<and> (\<forall>ch \<in> set chs. ch_document_id ch = do_id d \<and> 1 \<le> ch_token_count ch)"

definition embedding_of :: "int \<Rightarrow> chunk_row \<Rightarrow> embedding_row \<Rightarrow> bool" where
  "embedding_of dims ch em \<longleftrightarrow> em_chunk_id em = ch_id ch \<and> em_dimensions em = dims
     \<and> embed dims (ch_content ch) = Inr (em_vector em)"

lemma upt_shift: "map (\<lambda>i. n + int i) [0..<Suc k] = n # map (\<lambda>i. n + 1 + int i) [0..<k]"
  by (simp add: upt_conv_Cons map_Suc_upt [symmetric] comp_def del: upt_Suc)

lemma index_chunks_run:
  assumes "index_chunks dims d n txts records s = (Inr out, t)"
  shows "\<exists>chs ems. w_db t = (w_db s)\<lparr>db_chunks := db_chunks (w_db s) @ chs,
      db_embeddings := db_embeddings (w_db s) @ ems\<rparr>
    \<and> w_vectors t = w_vectors s \<and> w_files t = w_files s \<and> w_tele t = w_tele s
    \<and> chunk_rows_ok d n txts chs \<and> list_all2 (embedding_of dims) chs ems
    \<and> out = records @ map2 (\<lambda>ch em. chunk_record d ch (em_vector em)) chs ems"
  using assms
proof (induction txts arbitrary: n records s)
  case Nil
  then have "out = records" "t = s" by (simp_all add: ret_def)
  then show ?case
    by (intro exI [where x = "[] :: chunk_row list"] exI [where x = "[] :: embedding_row list"])
      (simp add: chunk_rows_ok_def)
next
  case (Cons tx rest)
  from Cons.prems obtain ch u v em x where steps:
    "insert_chunk (new_chunk (do_id d) n tx) s = (Inr ch, u)" "embed dims tx = Inr v"
    "insert_embedding (new_embedding (ch_id ch) dims v) u = (Inr em, x)"
    "index_chunks dims d (n + 1) rest (records @ [chunk_record d ch v]) x = (Inr out, t)"
    by (auto simp: bindE_Inr liftE_def)
  from insert_row_Inr [OF steps(1) [unfolded insert_chunk_def]]
  have ch: "ch_content ch = tx" "ch_index ch = n" "ch_document_id ch = do_id d" "1 \<le> ch_token_count ch"
    "w_db u = db_chunks_update (\<lambda>rs. rs @ [ch]) (w_db s)" "w_vectors u = w_vectors s"
    "w_files u = w_files s" "w_tele u = w_tele s"
    by (auto simp: new_chunk_def)
  from insert_row_Inr [OF steps(3) [unfolded insert_embedding_def]]
  have em: "embedding_of dims ch em" "em_vector em = v"
    "w_db x = db_embeddings_update (\<lambda>rs. rs @ [em]) (w_db u)" "w_vectors x = w_vectors u"
    "w_files x = w_files u" "w_tele x = w_tele u"
    using steps(2) by (auto simp: new_embedding_def embedding_of_def ch(1))
  obtain chs ems where IH: "w_db t = (w_db x)\<lparr>db_chunks := db_chunks (w_db x) @ chs,
      db_embeddings := db_embeddings (w_db x) @ ems\<rparr>"
    "w_vectors t = w_vectors x" "w_files t = w_files x" "w_tele t = w_tele x"
    "chunk_rows_ok d (n + 1) rest chs" "list_all2 (embedding_of dims) chs ems"
    "out = (records @ [chunk_record d ch v]) @ map2 (\<lambda>ch em. chunk_record d ch (em_vector em)) chs ems"
    using Cons.IH [OF steps(4)] by blast
  have "chunk_rows_ok d n (tx # rest) (ch # chs)"
    using IH(5) ch(1-4) unfolding chunk_rows_ok_def by (simp add: upt_shift del: upt_Suc)
  with IH ch em show ?case
    by (intro exI [where x = "ch # chs"] exI [where x = "em # ems"]) simp
qed

section \<open>A whole upload\<close>

definition upload_text :: "upload \<Rightarrow> string" where
  "upload_text up = (case up_text up of Some t \<Rightarrow> t | None \<Rightarrow> decode_text (up_data up) (up_content_type up))"

lemma chunks_of_text: "(if x = [] then [] else default_chunks x) = default_chunks x"
  by (simp add: default_chunks_def chunk_text_def split_ws_def)

lemma ingest_eq:
  "ingest base dims up =
     thenE (put_file base (content_key (up_filename up) (up_data up)) (up_data up))
       (bindE (insert_document (new_document up (content_key (up_filename up) (up_data up)))) (\<lambda>d.
          bindE (index_chunks dims d 0 (default_chunks (upload_text up)) []) (\<lambda>records.
             thenE (index_vectors records)
               (update_document (d\<lparr>do_status := document_status_value
                  (if default_chunks (upload_text up) \<noteq> [] then DS_PROCESSED else DS_NEEDS_REVIEW)\<rparr>)))))"
  by (simp only: ingest_def Let_def upload_text_def [symmetric] chunks_of_text if_distrib [of document_status_value])

lemma put_file_run:
  "put_file base k data s = (Inr x, t) \<Longrightarrow> storage_put base k data (w_files s) = (Inr x, w_files t)
     \<and> x = k \<and> w_db t = w_db s \<and> w_vectors t = w_vectors s"
  by (auto simp: put_file_def storage_put_def split: prod.splits sum.splits)

lemma ingest_run:
  assumes "ingest base dims up s = (Inr d, t)"
  obtains chs ems where
    "w_db t = (w_db s)\<lparr>db_documents := db_documents (w_db s) @ [d],
       db_chunks := db_chunks (w_db s) @ chs, db_embeddings := db_embeddings (w_db s) @ ems\<rparr>"
    "chunk_rows_ok d 0 (default_chunks (upload_text up)) chs" "list_all2 (embedding_of dims) chs ems"
    "w_vectors t = upsert (map2 (\<lambda>ch em. chunk_record d ch (em_vector em)) chs ems) (w_vectors s)"
    "storage_put base (content_key (up_filename up) (up_data up)) (up_data up) (w_files s)
       = (Inr (do_storage_key d), w_files t)"
    "do_filename d = up_filename up" "do_size_bytes d = int (length (up_data up))"
    "do_sha256 d \<noteq> None" "do_id d \<notin> do_id ` set (db_documents (w_db s))"
    "do_status d = document_status_value
       (if default_chunks (upload_text up) \<noteq> [] then DS_PROCESSED else DS_NEEDS_REVIEW)"
proof -
  define k where "k = content_key (up_filename up) (up_data up)"
  define chunks where "chunks = default_chunks (upload_text up)"
  define st where "st = document_status_value (if chunks \<noteq> [] then DS_PROCESSED else DS_NEEDS_REVIEW)"
  from assms obtain x s1 d0 s2 records s3 z s4 where steps:
    "put_file base k (up_data up) s = (Inr x, s1)" "insert_document (new_document up k) s1 = (Inr d0, s2)"
    "index_chunks dims d0 0 chunks [] s2 = (Inr records, s3)" "index_vectors records s3 = (Inr z, s4)"
    "update_document (d0\<lparr>do_status := st\<rparr>) s4 = (Inr d, t)"
    unfolding ingest_eq thenE_def bindE_Inr k_def chunks_def st_def by blast
  note put = put_file_run [OF steps(1)]
  from insert_row_Inr [OF steps(2) [unfolded insert_document_def]] obtain i c u where
    d0: "d0 = new_document up k i c u" "\<not> list_ex (same_key do_id d0) (db_documents (w_db s1))"
      "w_db s2 = db_documents_update (\<lambda>rs. rs @ [d0]) (w_db s1)" "w_vectors s2 = w_vectors s1"
      "w_files s2 = w_files s1" by blast
  from index_chunks_run [OF steps(3)] obtain chs ems where
    ix: "w_db s3 = (w_db s2)\<lparr>db_chunks := db_chunks (w_db s2) @ chs,
        db_embeddings := db_embeddings (w_db s2) @ ems\<rparr>" "w_vectors s3 = w_vectors s2"
      "w_files s3 = w_files s2" "chunk_rows_ok d0 0 chunks chs" "list_all2 (embedding_of dims) chs ems"
      "records = map2 (\<lambda>ch em. chunk_record d0 ch (em_vector em)) chs ems" by auto
  have s4: "w_db s4 = w_db s3" "w_files s4 = w_files s3" "w_vectors s4 = upsert records (w_vectors s3)"
    using steps(4) by (auto simp: index_vectors_def ret_def modifyE_def upsert_def split: if_splits)
  let ?d = "d0\<lparr>do_status := st\<rparr>" and ?touch = "\<lambda>n r. r\<lparr>do_updated_at := n\<rparr>"
  have docs: "db_documents (w_db s4) = db_documents (w_db s) @ [d0]"
    using put by (simp add: s4 ix(1) d0(3))
  have fresh: "do_id d0 \<notin> do_id ` set (db_documents (w_db s))"
    using d0(2) put by (auto simp: list_ex_iff same_key_def)
  from map_last_row [OF this, of "do_id ?d"]
  have last: "map (\<lambda>x. if do_id x = do_id ?d then r else x) (db_documents (w_db s4))
      = db_documents (w_db s) @ [r]" for r by (simp add: docs)
  have neq: "?d \<noteq> d0" by (auto simp: d0(1) new_document_def st_def dest: arg_cong [where f = do_status])
  have "?d \<notin> set (db_documents (w_db s4))"
  proof
    assume "?d \<in> set (db_documents (w_db s4))"
    then have "?d \<in> set (db_documents (w_db s))" using neq by (simp add: docs)
    then have "do_id ?d \<in> do_id ` set (db_documents (w_db s))" by (rule imageI)
    with fresh show False by simp
  qed
  with update_row_run [of do_id db_documents db_documents_update ?touch ?d s4] steps(5)
  obtain n where d: "d = ?touch n ?d" and t: "w_db t = db_documents_update
      (map (\<lambda>x. if do_id x = do_id ?d then ?touch n ?d else x)) (w_db s4)"
    "w_vectors t = w_vectors s4" "w_files t = w_files s4" by (auto simp: update_document_def)
  have upd: "db_documents_update f x = x\<lparr>db_documents := f (db_documents x)\<rparr>" for f and x :: db
    by simp
  have "w_db t = (w_db s4)\<lparr>db_documents :=
      map (\<lambda>x. if do_id x = do_id ?d then d else x) (db_documents (w_db s4))\<rparr>"
    unfolding t(1) d by (rule upd)
  then have tdb: "w_db t = (w_db s4)\<lparr>db_documents := db_documents (w_db s) @ [d]\<rparr>" unfolding last .
  show thesis
  proof (rule that)
    show "w_db t = (w_db s)\<lparr>db_documents := db_documents (w_db s) @ [d],
       db_chunks := db_chunks (w_db s) @ chs, db_embeddings := db_embeddings (w_db s) @ ems\<rparr>"
      using put by (simp add: tdb s4(1) ix(1) d0(3))
    show "do_id d \<notin> do_id ` set (db_documents (w_db s))" using fresh by (simp add: d)
  qed (use ix(4-6) put in \<open>simp_all add: chunk_rows_ok_def chunks_def [symmetric] k_def [symmetric]
      st_def [symmetric] d d0 new_document_def t s4 ix chunk_record_def\<close>)
qed

end
