(* ===== verification/AppState.thy ===== *)
theory AppState
  imports Workflow Seed DocumentService Factory
begin

text \<open>
  api/state.py, the shared services built once from the settings, db/session.py, the process-wide
  engine, and the startup of main.py.
\<close>

section \<open>The engine\<close>

text \<open>How an engine was made: the pool arguments are left out for SQLite.\<close>

record engine =
  eg_url :: string
  eg_echo :: bool
  eg_pool :: "(int \<times> int) option"

definition build_engine :: "settings \<Rightarrow> engine" where
  "build_engine st = \<lparr> eg_url = database_url st, eg_echo = database_echo st,
     eg_pool = (if starts_with ''sqlite'' (database_url st) then None
                else Some (database_pool_size st, database_max_overflow st)) \<rparr>"

text \<open>
  The module's two globals are set and cleared together, so one option stands for both. The
  settings read when none are given are the process's.
\<close>

definition init_engine :: "settings \<Rightarrow> engine option \<Rightarrow> engine \<times> engine option" where
  "init_engine st g = (case g of
       None \<Rightarrow> (build_engine st, Some (build_engine st))
     | Some e \<Rightarrow> (e, Some e))"

definition get_sessionmaker :: "settings \<Rightarrow> engine option \<Rightarrow> engine \<times> engine option" where
  "get_sessionmaker st g = init_engine st g"

definition dispose_engine :: "engine option \<Rightarrow> engine option" where
  "dispose_engine g = None"

lemma init_engine_once:
  "snd (init_engine st' (snd (init_engine st g))) = snd (init_engine st g)"
  "fst (init_engine st' (snd (init_engine st g))) = fst (init_engine st g)"
  by (auto simp: init_engine_def split: option.splits)

section \<open>The shared services\<close>

record app_state =
  as_settings :: settings
  as_router :: "world router"
  as_dims :: int
  as_storage_root :: path

definition s3_seam :: exn where
  "s3_seam = Py ''NotImplementedError''
     ''S3Storage is a documented seam; set STORAGE_USE_LOCAL_FS=true for dev. Install the [storage] extra and implement with boto3 for production.''"

text \<open>Nothing constructs the other vector store, whatever \<open>VECTOR_BACKEND\<close> says.\<close>

definition pg_vector_store :: "unit res" where
  "pg_vector_store = Inl (Py ''NotImplementedError''
     ''PgVectorStore is a documented production seam; set VECTOR_BACKEND=memory for local/dev runs. See docs/architecture.md.'')"

text \<open>\<open>build_storage\<close> gives the root of the local storage; the other backend is not implemented.\<close>

definition build_storage :: "settings \<Rightarrow> path \<Rightarrow> path res" where
  "build_storage st base = (if storage_use_local_fs st then Inr base else Inl s3_seam)"

text \<open>\<open>LocalFileStorage.__init__\<close> makes its root.\<close>

definition open_storage :: "path \<Rightarrow> unit action" where
  "open_storage base s = (case mkdirs base (w_files s) of
       Inl e \<Rightarrow> (Inl e, s) | Inr fs \<Rightarrow> (Inr (), s\<lparr>w_files := fs\<rparr>))"

definition build_app_state :: "path \<Rightarrow> settings \<Rightarrow> app_state action" where
  "build_app_state tmp st =
     bindE (liftE (build_router st (Some db_observer))) (\<lambda>rt.
     let base = (if storage_use_local_fs st then tmp @ [''banking-ai-objects''] else tmp)
     in bindE (liftE (build_storage st base)) (\<lambda>dir.
        thenE (open_storage dir)
          (bindE (modifyE (\<lambda>s. s\<lparr>w_vectors := []\<rparr>)) (\<lambda>_.
             ret \<lparr> as_settings = st, as_router = rt, as_dims = vector_dimensions st,
                   as_storage_root = dir \<rparr>))))"

text \<open>\<open>_service\<close> of the workflow endpoints.\<close>

definition workflow_service :: "libs \<Rightarrow> app_state \<Rightarrow> wf_service" where
  "workflow_service lb a = \<lparr> sv_libs = lb,
     sv_executor = \<lparr> ex_router = Some (as_router a), ex_embedder = Some (embed (as_dims a)),
                     ex_has_store = True \<rparr>,
     sv_audit = True \<rparr>"

text \<open>The configured vector backend is never read: the services are the same with either.\<close>

lemma vector_backend_ignored:
  "build_app_state tmp (st\<lparr>vector_backend := b\<rparr>) s =
     (case build_app_state tmp st s of
        (Inl e, t) \<Rightarrow> (Inl e, t) | (Inr a, t) \<Rightarrow> (Inr (a\<lparr>as_settings := st\<lparr>vector_backend := b\<rparr>\<rparr>), t))"
proof -
  have "build_all (st\<lparr>vector_backend := b\<rparr>) ns = (build_all st ns :: world provider list res)" for ns
    by (induction ns)
      (simp_all add: build_provider_def groq_provider_def local_gemma_provider_def cong: if_cong)
  moreover have "chain_names (st\<lparr>vector_backend := b\<rparr>) = chain_names st"
    by (cases "llm_router_policy st") (simp_all add: chain_names_def)
  ultimately have "build_router (st\<lparr>vector_backend := b\<rparr>) ob = build_router st ob" for ob :: "world observer option"
    by (simp add: build_router_def split: sum.split)
  then show ?thesis
    by (simp add: build_app_state_def bindE_def thenE_def liftE_def ret_def modifyE_def build_storage_def
        open_storage_def Let_def split: sum.splits)
qed

section \<open>Startup\<close>

definition seed_if_local :: "pwd_lib \<Rightarrow> settings \<Rightarrow> unit action" where
  "seed_if_local lib st =
     (if app_env st \<noteq> ENV_LOCAL then ret ()
      else bindE (in_transaction (seed_admin lib st)) (\<lambda>_. ret ()))"

text \<open>The lifespan handler: a failure of the seeding is suppressed, one of the services is not.\<close>

definition startup :: "path \<Rightarrow> pwd_lib \<Rightarrow> settings \<Rightarrow> app_state action" where
  "startup tmp lib st =
     bindE (build_app_state tmp st) (\<lambda>a.
     thenE (catchE (seed_if_local lib st) (\<lambda>e. ret ())) (ret a))"

section \<open>Facts\<close>

lemma built_service_quiet:
  assumes "build_app_state tmp st s = (Inr a, t)"
  shows "quiet_executor (sv_executor (workflow_service lb a))" "as_settings a = st"
proof -
  from assms have rt: "build_router st (Some db_observer) = Inr (as_router a)" and "as_settings a = st"
    by (auto simp: build_app_state_def bindE_Inr thenE_def liftE_def Let_def ret_def)
  then show "as_settings a = st" by simp
  show "quiet_executor (sv_executor (workflow_service lb a))"
    using built_router_quiet [OF rt] by (simp add: quiet_executor_def workflow_service_def)
qed

lemma build_app_state_db: "build_app_state tmp st s = (x, t) \<Longrightarrow> w_db t = w_db s"
  by (auto simp: build_app_state_def bindE_def thenE_def liftE_def Let_def ret_def modifyE_def
      open_storage_def split: sum.splits prod.splits)

lemma startup_outside_local:
  assumes "startup tmp lib st s = (x, t)" "app_env st \<noteq> ENV_LOCAL"
  shows "w_db t = w_db s"
proof -
  obtain r u where u: "build_app_state tmp st s = (r, u)" by fastforce
  with assms have "w_db t = w_db u"
    by (cases r) (auto simp: startup_def bindE_def thenE_def catchE_def seed_if_local_def ret_def)
  with build_app_state_db [OF u] show ?thesis by simp
qed

lemma in_transaction_run:
  "in_transaction m s = (x, t) \<Longrightarrow> \<exists>u. m s = (x, u) \<and> w_db t = (case x of Inl e \<Rightarrow> w_db s | Inr v \<Rightarrow> w_db u)"
  by (auto simp: in_transaction_def split: prod.splits sum.splits)

lemma startup_local_run:
  assumes "startup tmp lib st s = (Inr a, t)" "app_env st = ENV_LOCAL"
  obtains (unchanged) "w_db t = w_db s" "as_settings a = st"
    | (seeds) u v where "w_db v = w_db s" "seed_admin lib st v = (Inr u, t)" "as_settings a = st"
proof -
  from assms(1) obtain v where v: "build_app_state tmp st s = (Inr a, v)"
    and rest: "thenE (catchE (seed_if_local lib st) (\<lambda>e. ret ())) (ret a) v = (Inr a, t)"
    by (auto simp: startup_def bindE_Inr thenE_def ret_def)
  obtain x w where w: "in_transaction (seed_admin lib st) v = (x, w)" by fastforce
  have t: "t = w"
    using rest w assms(2)
    by (cases x) (simp_all add: thenE_def catchE_def seed_if_local_def bindE_def ret_def)
  note db = build_app_state_db [OF v] built_service_quiet(2) [OF v]
  show thesis
  proof (cases x)
    case (Inl e)
    with w have "w_db w = w_db v" by (auto dest: in_transaction_Inl)
    with db show thesis by (intro unchanged) (simp_all add: t)
  next
    case (Inr y)
    with w have "seed_admin lib st v = (Inr y, t)" by (simp add: in_transaction_Inr t)
    with db show thesis by (intro seeds)
  qed
qed

lemma startup_local:
  assumes "startup tmp lib st s = (Inr a, t)" "app_env st = ENV_LOCAL"
  shows "w_db t = w_db s \<or> seeded (w_db t)"
  by (rule startup_local_run [OF assms]) (simp_all add: seed_admin_seeds(1))

end
