(* ===== verification/Api.thy ===== *)
theory Api
  imports AppState Schemas Lifecycle "HOL-Library.List_Lexorder" "HOL-Library.Char_ord"
begin

text \<open>
  api/: authentication, authorisation and the endpoints. A request is a constructor of \<open>api_call\<close>
  carrying the parameters of its endpoint, and \<open>api_step\<close> runs it: first the caller, then the
  parameters, then the handler, in a transaction when the endpoint has a session. The wrapping by
  the middleware and the exception handlers is \<open>handle_request\<close>.
\<close>

section \<open>Requests\<close>

record upload_file =
  uf_filename :: "string option"
  uf_content_type :: "string option"
  uf_data :: string
  uf_kind :: string

datatype api_call =
    Health
  | Ready
  | RouterConfig
  | Login string string
  | Refresh "string option"
  | Me
  | UploadDocument upload_file
  | GetDocument uuid
  | StartWorkflow workflow_type json_dict "string option"
  | ReviewQueue int int
  | GetWorkflow uuid
  | ApproveWorkflow uuid "string option"
  | RejectWorkflow uuid "string option"
  | EscalateWorkflow uuid "string option"
  | ListAgentRuns string int int "uuid option"
  | SearchDocuments string int
  | ListAuditLogs int int "string option" "string option" "string option"

datatype api_result =
    StatusText string
  | RouterInfo string "string list"
  | TokensOut token_pair
  | UserOut current_user
  | OneDocument document_out
  | OneWorkflow workflow_detail
  | WorkflowPage "workflow_out page"
  | RunPage "agent_run_out page"
  | SearchOut search_response
  | AuditPage "audit_log_out page"

text \<open>What a handler sees of the HTTP request besides its parameters.\<close>

record http_ctx =
  hc_authorization :: "string option"
  hc_cookies :: "(string, string) dict"
  hc_request_id :: "string option"

text \<open>
  The third-party parts: token and password libraries, the coercions of the agents' inputs, the
  e-mail validator (the normal form, or \<open>None\<close> for a malformed address) and the items with which the
  framework reports bad parameters.
\<close>

record platform =
  pf_auth :: auth_libs
  pf_libs :: libs
  pf_email :: "string \<Rightarrow> string option"
  pf_errors :: "api_call \<Rightarrow> validation_item list"

type_synonym 'a endpoint = "(http_exn, world, 'a) comp"

definition app_action :: "'a action \<Rightarrow> 'a endpoint" where
  "app_action m s = (case m s of (Inl e, t) \<Rightarrow> (Inl (AppExn e), t) | (Inr x, t) \<Rightarrow> (Inr x, t))"

section \<open>Authentication and authorisation\<close>

definition bearer_prefix :: string where
  "bearer_prefix = ''Bearer ''"

definition cookie_name :: string where
  "cookie_name = ''access_token''"

definition extract_token :: "http_ctx \<Rightarrow> string res" where
  "extract_token hc =
     (let header = (case hc_authorization hc of None \<Rightarrow> [] | Some h \<Rightarrow> h)
      in if starts_with bearer_prefix header then Inr (strip (drop (length bearer_prefix) header))
         else (case dict_get cookie_name (hc_cookies hc) of
             Some (c # cs) \<Rightarrow> Inr (c # cs)
           | _ \<Rightarrow> Inl (app_err AuthenticationError ''Missing bearer token or session cookie.'')))"

definition current_principal :: "platform \<Rightarrow> settings \<Rightarrow> http_ctx \<Rightarrow> principal action" where
  "current_principal pf st hc =
     bindE (liftE (extract_token hc)) (\<lambda>token.
     bindE utc_now (\<lambda>now.
     bindE (liftE (decode_token (au_jwt (pf_auth pf)) st (Some ACCESS) token now)) (\<lambda>claims.
       liftE (from_claims claims))))"

definition require_permissions ::
  "platform \<Rightarrow> settings \<Rightarrow> http_ctx \<Rightarrow> string list \<Rightarrow> principal action" where
  "require_permissions pf st hc perms =
     bindE (current_principal pf st hc) (\<lambda>p. thenE (liftE (require p perms)) (ret p))"

text \<open>\<open>uuid.UUID(principal.user_id)\<close>\<close>

definition caller_id :: "principal \<Rightarrow> uuid res" where
  "caller_id p = (case uuid_parse (pr_user_id p) of
       None \<Rightarrow> Inl (Py ''ValueError'' ''badly formed hexadecimal UUID string'')
     | Some i \<Rightarrow> Inr i)"

section \<open>auth\<close>

record cookie =
  ck_name :: string
  ck_value :: string
  ck_max_age :: int
  ck_httponly :: bool
  ck_secure :: bool
  ck_samesite :: string
  ck_domain :: "string option"

definition auth_cookie :: "settings \<Rightarrow> string \<Rightarrow> string \<Rightarrow> int \<Rightarrow> cookie" where
  "auth_cookie st name v age = \<lparr> ck_name = name, ck_value = v, ck_max_age = age, ck_httponly = True,
     ck_secure = security_cookie_secure st, ck_samesite = ''lax'',
     ck_domain = (if security_cookie_domain st = [] then None else Some (security_cookie_domain st)) \<rparr>"

definition set_auth_cookies :: "settings \<Rightarrow> token_pair \<Rightarrow> cookie list" where
  "set_auth_cookies st tp =
     [auth_cookie st ''access_token'' (tp_access_token tp) (security_access_token_ttl_seconds st),
      auth_cookie st ''refresh_token'' (tp_refresh_token tp) (security_refresh_token_ttl_seconds st)]"

definition login :: "platform \<Rightarrow> settings \<Rightarrow> string \<Rightarrow> string \<Rightarrow> token_pair action" where
  "login pf st email password =
     bindE (authenticate (pf_auth pf) email password) (issue_tokens (pf_auth pf) st)"

definition refresh_source :: "http_ctx \<Rightarrow> string option \<Rightarrow> string" where
  "refresh_source hc body = (case body of Some (c # cs) \<Rightarrow> c # cs
     | _ \<Rightarrow> (case dict_get ''refresh_token'' (hc_cookies hc) of None \<Rightarrow> [] | Some t \<Rightarrow> t))"

definition refresh_endpoint ::
  "platform \<Rightarrow> settings \<Rightarrow> http_ctx \<Rightarrow> string option \<Rightarrow> token_pair action" where
  "refresh_endpoint pf st hc body = refresh_tokens (pf_auth pf) st (refresh_source hc body)"

text \<open>The e-mail field is validated, so a principal without one makes the response model raise.\<close>

definition me :: "platform \<Rightarrow> principal \<Rightarrow> current_user res" where
  "me pf p = (case pf_email pf (case pr_email p of None \<Rightarrow> [] | Some e \<Rightarrow> e) of
       None \<Rightarrow> Inl invalid_model
     | Some e \<Rightarrow> Inr \<lparr> cu_id = pr_user_id p, cu_email = e, cu_roles = pr_roles p,
                       cu_permissions = sorted_list_of_set (pr_permissions p) \<rparr>)"

section \<open>documents\<close>

definition MAX_BYTES :: int where
  "MAX_BYTES = 25 * 1024 * 1024"

definition or_default :: "string \<Rightarrow> string option \<Rightarrow> string" where
  "or_default d v = (case v of Some (c # cs) \<Rightarrow> c # cs | _ \<Rightarrow> d)"

definition too_large :: "string \<Rightarrow> exn" where
  "too_large data = app_err_details ValidationAppError ''Uploaded file exceeds the size limit.''
     [(''max_bytes'', JInt MAX_BYTES), (''size'', JInt (int (length data)))]"

definition upload_event :: "principal \<Rightarrow> uuid \<Rightarrow> http_ctx \<Rightarrow> document_row \<Rightarrow> audit_event" where
  "upload_event p i hc d = \<lparr> ae_action = ''document.uploaded'', ae_resource_type = ''document'',
     ae_outcome = ''success'', ae_actor_id = Some i, ae_actor_email = pr_email p,
     ae_resource_id = Some (uuid_str (do_id d)), ae_request_id = hc_request_id hc,
     ae_context = [(''filename'', JStr (do_filename d)), (''size'', JInt (do_size_bytes d))] \<rparr>"

definition upload_document ::
  "app_state \<Rightarrow> http_ctx \<Rightarrow> upload_file \<Rightarrow> principal \<Rightarrow> document_out action" where
  "upload_document a hc f p =
     (if MAX_BYTES < int (length (uf_data f)) then throw (too_large (uf_data f))
      else
        bindE (liftE (caller_id p)) (\<lambda>i.
        bindE (ingest (as_storage_root a) (as_dims a)
           \<lparr> up_filename = or_default ''upload.bin'' (uf_filename f),
             up_content_type = or_default ''application/octet-stream'' (uf_content_type f),
             up_data = uf_data f, up_text = None, up_by = Some i,
             up_metadata = [(''kind'', JStr (uf_kind f))] \<rparr>) (\<lambda>d.
        bindE (record_audit (upload_event p i hc d)) (\<lambda>_. liftE (document_out_of d)))))"

definition get_document :: "uuid \<Rightarrow> document_out action" where
  "get_document i =
     bindE (select_one (\<lambda>d. do_id d = i) db_documents) (\<lambda>d. case d of
         None \<Rightarrow> throw (app_err NotFoundError (''Document '' @ uuid_str i @ '' not found.''))
       | Some d \<Rightarrow> liftE (document_out_of d))"

section \<open>workflows\<close>

definition start_endpoint ::
  "wf_service \<Rightarrow> http_ctx \<Rightarrow> workflow_type \<Rightarrow> json_dict \<Rightarrow> principal \<Rightarrow> workflow_detail action" where
  "start_endpoint sv hc ty input p =
     bindE (liftE (caller_id p)) (\<lambda>i.
     bindE (start_workflow sv ty input (Some i) (hc_request_id hc)) (\<lambda>v. liftE (workflow_detail_of v)))"

definition review_endpoint :: "int \<Rightarrow> int \<Rightarrow> workflow_out page action" where
  "review_endpoint page page_size =
     bindE (review_queue page_size ((page - 1) * page_size)) (\<lambda>(rows, n).
     bindE (liftE (map_res workflow_out_of rows)) (\<lambda>items.
       liftE (page_build items page page_size n)))"

definition get_endpoint :: "uuid \<Rightarrow> workflow_detail action" where
  "get_endpoint i = bindE (get_workflow i) (\<lambda>v. liftE (workflow_detail_of v))"

definition decision_endpoint ::
  "(uuid \<Rightarrow> uuid \<Rightarrow> string option \<Rightarrow> string option \<Rightarrow> workflow_view action) \<Rightarrow> http_ctx \<Rightarrow> uuid
     \<Rightarrow> string option \<Rightarrow> principal \<Rightarrow> workflow_detail action" where
  "decision_endpoint act hc i reason p =
     bindE (liftE (caller_id p)) (\<lambda>c.
     bindE (act i c reason (hc_request_id hc)) (\<lambda>v. liftE (workflow_detail_of v)))"

section \<open>agents, audit, search\<close>

text \<open>\<open>order_by(created_at.desc())\<close> with \<open>LIMIT\<close> and \<open>OFFSET\<close>, and the number of all matches.\<close>

definition newest ::
  "('r \<Rightarrow> int) \<Rightarrow> int \<Rightarrow> int \<Rightarrow> 'r list \<Rightarrow> 'r list" where
  "newest created page page_size rows =
     slice page_size ((page - 1) * page_size) (sort_desc created rows)"

definition list_agent_runs :: "string \<Rightarrow> int \<Rightarrow> int \<Rightarrow> uuid option \<Rightarrow> agent_run_out page action" where
  "list_agent_runs agent page page_size w =
     bindE (getE (\<lambda>s. filter (\<lambda>r. ag_agent_name r = agent
         \<and> (case w of None \<Rightarrow> True | Some i \<Rightarrow> ag_workflow_id r = Some i)) (db_agent_runs (w_db s)))) (\<lambda>rows.
     bindE (liftE (map_res agent_run_out_of (newest ag_created_at page page_size rows))) (\<lambda>items.
       liftE (page_build items page page_size (int (length rows)))))"

text \<open>An absent or empty filter matches everything.\<close>

definition filter_ok :: "string option \<Rightarrow> string option \<Rightarrow> bool" where
  "filter_ok f v = (case f of Some (c # cs) \<Rightarrow> v = Some (c # cs) | _ \<Rightarrow> True)"

definition list_audit_logs ::
  "int \<Rightarrow> int \<Rightarrow> string option \<Rightarrow> string option \<Rightarrow> string option \<Rightarrow> audit_log_out page action" where
  "list_audit_logs page page_size act rty rid =
     bindE (getE (\<lambda>s. filter (\<lambda>r. filter_ok act (Some (al_action r))
         \<and> filter_ok rty (Some (al_resource_type r)) \<and> filter_ok rid (al_resource_id r))
         (db_audit_logs (w_db s)))) (\<lambda>rows.
     liftE (page_build (map audit_log_out_of (newest al_created_at page page_size rows))
              page page_size (int (length rows))))"

definition search :: "app_state \<Rightarrow> string \<Rightarrow> int \<Rightarrow> search_response action" where
  "search a q top_k =
     bindE (\<lambda>s. execute ''retrieval_agent'' None (pure_run (run_retrieval (embed (as_dims a))
              (w_vectors s) \<lparr> ri_query = q, ri_top_k = top_k \<rparr>)) s) (\<lambda>oc.
       case ao_output oc of
         None \<Rightarrow> throw (app_err AgentError (or_default ''Search failed.'' (ao_error oc)))
       | Some hits \<Rightarrow> ret \<lparr> sp_query = q, sp_hits = hits \<rparr>)"

section \<open>Guards\<close>

text \<open>The permissions an endpoint declares; \<open>None\<close> for those open to everyone.\<close>

fun needs :: "api_call \<Rightarrow> string list option" where
  "needs Health = None"
| "needs Ready = None"
| "needs (Login e p) = None"
| "needs (Refresh t) = None"
| "needs Me = Some []"
| "needs RouterConfig = Some [permission_value ADMIN_READ]"
| "needs (UploadDocument f) = Some [permission_value DOCUMENT_UPLOAD]"
| "needs (GetDocument i) = Some [permission_value DOCUMENT_READ]"
| "needs (StartWorkflow ty d r) = Some [permission_value WORKFLOW_START]"
| "needs (ReviewQueue p n) = Some [permission_value WORKFLOW_READ]"
| "needs (GetWorkflow i) = Some [permission_value WORKFLOW_READ]"
| "needs (ApproveWorkflow i r) = Some [permission_value WORKFLOW_APPROVE]"
| "needs (RejectWorkflow i r) = Some [permission_value WORKFLOW_REJECT]"
| "needs (EscalateWorkflow i r) = Some [permission_value WORKFLOW_ESCALATE]"
| "needs (ListAgentRuns a p n w) = Some [permission_value AGENT_READ]"
| "needs (SearchDocuments q k) = Some [permission_value SEARCH_READ]"
| "needs (ListAuditLogs p n a b c) = Some [permission_value AUDIT_READ]"

definition page_args_ok :: "int \<Rightarrow> int \<Rightarrow> bool" where
  "page_args_ok page page_size \<longleftrightarrow> 1 \<le> page \<and> 1 \<le> page_size \<and> page_size \<le> 200"

definition short_text :: "nat \<Rightarrow> string option \<Rightarrow> bool" where
  "short_text n v \<longleftrightarrow> (case v of None \<Rightarrow> True | Some x \<Rightarrow> length x \<le> n)"

fun args_ok :: "platform \<Rightarrow> api_call \<Rightarrow> bool" where
  "args_ok pf (Login e p) \<longleftrightarrow> pf_email pf e \<noteq> None \<and> 1 \<le> length p \<and> length p \<le> 256"
| "args_ok pf (StartWorkflow ty d r) \<longleftrightarrow> short_text 64 r"
| "args_ok pf (ReviewQueue p n) \<longleftrightarrow> page_args_ok p n"
| "args_ok pf (ApproveWorkflow i r) \<longleftrightarrow> short_text 2000 r"
| "args_ok pf (RejectWorkflow i r) \<longleftrightarrow> short_text 2000 r"
| "args_ok pf (EscalateWorkflow i r) \<longleftrightarrow> short_text 2000 r"
| "args_ok pf (ListAgentRuns a p n w) \<longleftrightarrow> page_args_ok p n"
| "args_ok pf (SearchDocuments q k) \<longleftrightarrow> 1 \<le> length q \<and> length q \<le> 1000 \<and> 1 \<le> k \<and> k \<le> 50"
| "args_ok pf (ListAuditLogs p n a b c) \<longleftrightarrow> page_args_ok p n"
| "args_ok pf c \<longleftrightarrow> True"

definition nobody :: principal where
  "nobody = \<lparr> pr_user_id = [], pr_email = None, pr_roles = [], pr_permissions = {}, pr_token_id = None \<rparr>"

text \<open>The caller, then the parameters.\<close>

definition admit :: "platform \<Rightarrow> settings \<Rightarrow> http_ctx \<Rightarrow> api_call \<Rightarrow> principal endpoint" where
  "admit pf st hc c =
     bindE (case needs c of None \<Rightarrow> ret nobody
            | Some perms \<Rightarrow> app_action (require_permissions pf st hc perms)) (\<lambda>p.
       if args_ok pf c then ret p else throw (RequestValidation (pf_errors pf c)))"

section \<open>The endpoints\<close>

definition giving :: "('a \<Rightarrow> 'b) \<Rightarrow> 'a action \<Rightarrow> 'b action" where
  "giving f m = bindE m (\<lambda>x. ret (f x))"

fun respond ::
  "platform \<Rightarrow> app_state \<Rightarrow> http_ctx \<Rightarrow> api_call \<Rightarrow> principal \<Rightarrow> api_result action" where
  "respond pf a hc Health p = ret (StatusText ''ok'')"
| "respond pf a hc Ready p = ret (StatusText ''ready'')"
| "respond pf a hc RouterConfig p =
     ret (RouterInfo (rt_policy (as_router a)) (provider_names (as_router a)))"
| "respond pf a hc (Login e pw) p = giving TokensOut (login pf (as_settings a)
     (case pf_email pf e of None \<Rightarrow> e | Some x \<Rightarrow> x) pw)"
| "respond pf a hc (Refresh t) p = giving TokensOut (refresh_endpoint pf (as_settings a) hc t)"
| "respond pf a hc Me p = giving UserOut (liftE (me pf p))"
| "respond pf a hc (UploadDocument f) p = giving OneDocument (upload_document a hc f p)"
| "respond pf a hc (GetDocument i) p = giving OneDocument (get_document i)"
| "respond pf a hc (StartWorkflow ty d r) p =
     giving OneWorkflow (start_endpoint (workflow_service (pf_libs pf) a) hc ty d p)"
| "respond pf a hc (ReviewQueue pg n) p = giving WorkflowPage (review_endpoint pg n)"
| "respond pf a hc (GetWorkflow i) p = giving OneWorkflow (get_endpoint i)"
| "respond pf a hc (ApproveWorkflow i r) p = giving OneWorkflow
     (decision_endpoint (approve_workflow (workflow_service (pf_libs pf) a)) hc i r p)"
| "respond pf a hc (RejectWorkflow i r) p = giving OneWorkflow
     (decision_endpoint (reject_workflow (workflow_service (pf_libs pf) a)) hc i r p)"
| "respond pf a hc (EscalateWorkflow i r) p = giving OneWorkflow
     (decision_endpoint (escalate_workflow (workflow_service (pf_libs pf) a)) hc i r p)"
| "respond pf a hc (ListAgentRuns g pg n w) p = giving RunPage (list_agent_runs g pg n w)"
| "respond pf a hc (SearchDocuments q k) p = giving SearchOut (search a q k)"
| "respond pf a hc (ListAuditLogs pg n x y z) p = giving AuditPage (list_audit_logs pg n x y z)"

text \<open>Every endpoint that writes has a session; the others write nothing a transaction could undo.\<close>

definition api_step :: "platform \<Rightarrow> app_state \<Rightarrow> http_ctx \<Rightarrow> api_call \<Rightarrow> api_result endpoint" where
  "api_step pf a hc c = in_transaction (bindE (admit pf (as_settings a) hc c)
     (\<lambda>p. app_action (respond pf a hc c p)))"

section \<open>The HTTP response\<close>

record http_request =
  hq_authorization :: "string option"
  hq_cookies :: "(string, string) dict"
  hq_request_id :: "string option"
  hq_call :: api_call

record http_response =
  hs_status :: nat
  hs_body :: "json + api_result"
  hs_request_id :: "string option"
  hs_cookies :: "cookie list"

fun success_status :: "api_call \<Rightarrow> nat" where
  "success_status (UploadDocument f) = 201"
| "success_status (StartWorkflow ty d r) = 201"
| "success_status c = 200"

fun response_cookies :: "settings \<Rightarrow> api_result \<Rightarrow> cookie list" where
  "response_cookies st (TokensOut tp) = set_auth_cookies st tp"
| "response_cookies st r = []"

text \<open>\<open>request.headers.get(...) or uuid.uuid4().hex\<close>\<close>

definition request_id_of :: "http_request \<Rightarrow> string action" where
  "request_id_of rq = (case hq_request_id rq of
       Some (c # cs) \<Rightarrow> ret (c # cs) | _ \<Rightarrow> bindE uuid4 (\<lambda>i. ret (uuid_hex i)))"

fun unexpected :: "http_exn \<Rightarrow> bool" where
  "unexpected (AppExn (Py n m)) = True"
| "unexpected x = False"

text \<open>
  The middleware and the registered handlers. The handler of unexpected exceptions lies outside the
  middleware, which re-raises them, so its response does not carry the request identifier. Timings
  and access logs are left out.
\<close>

definition handle_request ::
  "platform \<Rightarrow> app_state \<Rightarrow> http_request \<Rightarrow> world \<Rightarrow> http_response \<times> world" where
  "handle_request pf a rq s = (case request_id_of rq s of
       (Inl e, u) \<Rightarrow> (\<lparr> hs_status = 500, hs_body = Inl (snd (unhandled_handler e)),
                        hs_request_id = None, hs_cookies = [] \<rparr>, u)
     | (Inr rid, u) \<Rightarrow>
         (case api_step pf a \<lparr> hc_authorization = hq_authorization rq, hc_cookies = hq_cookies rq,
                               hc_request_id = Some rid \<rparr> (hq_call rq) u of
            (Inr r, t) \<Rightarrow> (\<lparr> hs_status = success_status (hq_call rq), hs_body = Inr r,
                hs_request_id = Some rid, hs_cookies = response_cookies (as_settings a) r \<rparr>, t)
          | (Inl x, t) \<Rightarrow> (\<lparr> hs_status = fst (render_exception x), hs_body = Inl (snd (render_exception x)),
                hs_request_id = (if unexpected x then None else Some rid), hs_cookies = [] \<rparr>, t)))"

end
