(* ===== verification/Routes.thy ===== *)
theory Routes
  imports Api
begin

text \<open>
  The routing table: the decorators of api/v1, the prefixes of the routers, their order in
  api/v1/__init__.py, and what \<open>create_app\<close> of main.py mounts beside them. Matching is that of the
  framework: the routes are tried in order, and a parameter stands for one non-empty segment of the
  path. The pages of documentation that the framework adds by itself are not in the table.
\<close>

section \<open>The table\<close>

datatype http_method = GET | POST

datatype segment = Lit string | Param

record route =
  rr_method :: http_method
  rr_path :: "segment list"
  rr_endpoint :: string
  rr_permissions :: "string list option"

text \<open>A route with the name of its handler and the permissions its dependencies declare.\<close>

abbreviation route_of ::
  "http_method \<Rightarrow> segment list \<Rightarrow> string \<Rightarrow> string list option \<Rightarrow> route" where
  "route_of m p e g \<equiv> \<lparr> rr_method = m, rr_path = p, rr_endpoint = e, rr_permissions = g \<rparr>"

definition with_prefix :: "string list \<Rightarrow> route list \<Rightarrow> route list" where
  "with_prefix ps rs = map (\<lambda>r. r\<lparr>rr_path := map Lit ps @ rr_path r\<rparr>) rs"

definition auth_routes :: "route list" where
  "auth_routes = with_prefix [''auth'']
     [route_of POST [Lit ''login''] ''login'' None,
      route_of POST [Lit ''refresh''] ''refresh'' None,
      route_of GET [Lit ''me''] ''me'' (Some [])]"

definition documents_routes :: "route list" where
  "documents_routes = with_prefix [''documents'']
     [route_of POST [Lit ''upload''] ''upload_document'' (Some [permission_value DOCUMENT_UPLOAD]),
      route_of GET [Param] ''get_document'' (Some [permission_value DOCUMENT_READ])]"

definition workflows_routes :: "route list" where
  "workflows_routes = with_prefix [''workflows'']
     [route_of POST [Lit ''start''] ''start_workflow'' (Some [permission_value WORKFLOW_START]),
      route_of GET [] ''review_queue'' (Some [permission_value WORKFLOW_READ]),
      route_of GET [Param] ''get_workflow'' (Some [permission_value WORKFLOW_READ]),
      route_of POST [Param, Lit ''approve''] ''approve_workflow'' (Some [permission_value WORKFLOW_APPROVE]),
      route_of POST [Param, Lit ''reject''] ''reject_workflow'' (Some [permission_value WORKFLOW_REJECT]),
      route_of POST [Param, Lit ''escalate''] ''escalate_workflow'' (Some [permission_value WORKFLOW_ESCALATE])]"

definition agents_routes :: "route list" where
  "agents_routes = with_prefix [''agents'']
     [route_of GET [Param, Lit ''runs''] ''list_agent_runs'' (Some [permission_value AGENT_READ])]"

definition search_routes :: "route list" where
  "search_routes = with_prefix [''search'']
     [route_of GET [] ''search'' (Some [permission_value SEARCH_READ])]"

definition audit_routes :: "route list" where
  "audit_routes = with_prefix [''audit'']
     [route_of GET [Lit ''logs''] ''list_audit_logs'' (Some [permission_value AUDIT_READ])]"

definition admin_routes :: "route list" where
  "admin_routes =
     [route_of GET [Lit ''health''] ''health'' None,
      route_of GET [Lit ''ready''] ''ready'' None,
      route_of GET [Lit ''admin'', Lit ''router''] ''router_config'' (Some [permission_value ADMIN_READ])]"

definition api_router :: "route list" where
  "api_router = auth_routes @ documents_routes @ workflows_routes @ agents_routes @ search_routes
     @ audit_routes @ admin_routes"

definition API_PREFIX :: "string list" where
  "API_PREFIX = [''api'', ''v1'']"

text \<open>Prometheus is mounted when it is switched on and its library is there.\<close>

definition mount_metrics :: "bool \<Rightarrow> route list" where
  "mount_metrics installed = (if installed then [route_of GET [Lit ''metrics''] ''metrics'' None] else [])"

definition app_routes :: "settings \<Rightarrow> bool \<Rightarrow> route list" where
  "app_routes st installed =
     with_prefix API_PREFIX api_router
     @ (if metrics_enabled st then mount_metrics installed else [])
     @ [route_of GET [] ''root'' None]"

section \<open>Matching\<close>

fun path_matches :: "segment list \<Rightarrow> string list \<Rightarrow> bool" where
  "path_matches [] [] = True"
| "path_matches (Lit a # p) (x # xs) = (a = x \<and> path_matches p xs)"
| "path_matches (Param # p) (x # xs) = (x \<noteq> [] \<and> path_matches p xs)"
| "path_matches p xs = False"

definition route_matches :: "http_method \<Rightarrow> string list \<Rightarrow> route \<Rightarrow> bool" where
  "route_matches m path r \<longleftrightarrow> rr_method r = m \<and> path_matches (rr_path r) path"

definition dispatch :: "route list \<Rightarrow> http_method \<Rightarrow> string list \<Rightarrow> route option" where
  "dispatch rs m path = List.find (route_matches m path) rs"

text \<open>Where the requests of the model are sent: the method and the path below the prefix.\<close>

fun address :: "api_call \<Rightarrow> http_method \<times> string list" where
  "address Health = (GET, [''health''])"
| "address Ready = (GET, [''ready''])"
| "address RouterConfig = (GET, [''admin'', ''router''])"
| "address (Login e p) = (POST, [''auth'', ''login''])"
| "address (Refresh t) = (POST, [''auth'', ''refresh''])"
| "address Me = (GET, [''auth'', ''me''])"
| "address (UploadDocument f) = (POST, [''documents'', ''upload''])"
| "address (GetDocument i) = (GET, [''documents'', uuid_str i])"
| "address (StartWorkflow ty d r) = (POST, [''workflows'', ''start''])"
| "address (ReviewQueue p n) = (GET, [''workflows''])"
| "address (GetWorkflow i) = (GET, [''workflows'', uuid_str i])"
| "address (ApproveWorkflow i r) = (POST, [''workflows'', uuid_str i, ''approve''])"
| "address (RejectWorkflow i r) = (POST, [''workflows'', uuid_str i, ''reject''])"
| "address (EscalateWorkflow i r) = (POST, [''workflows'', uuid_str i, ''escalate''])"
| "address (ListAgentRuns a p n w) = (GET, [''agents'', a, ''runs''])"
| "address (SearchDocuments q k) = (GET, [''search''])"
| "address (ListAuditLogs p n x y z) = (GET, [''audit'', ''logs''])"

fun handler_name :: "api_call \<Rightarrow> string" where
  "handler_name Health = ''health''"
| "handler_name Ready = ''ready''"
| "handler_name RouterConfig = ''router_config''"
| "handler_name (Login e p) = ''login''"
| "handler_name (Refresh t) = ''refresh''"
| "handler_name Me = ''me''"
| "handler_name (UploadDocument f) = ''upload_document''"
| "handler_name (GetDocument i) = ''get_document''"
| "handler_name (StartWorkflow ty d r) = ''start_workflow''"
| "handler_name (ReviewQueue p n) = ''review_queue''"
| "handler_name (GetWorkflow i) = ''get_workflow''"
| "handler_name (ApproveWorkflow i r) = ''approve_workflow''"
| "handler_name (RejectWorkflow i r) = ''reject_workflow''"
| "handler_name (EscalateWorkflow i r) = ''escalate_workflow''"
| "handler_name (ListAgentRuns a p n w) = ''list_agent_runs''"
| "handler_name (SearchDocuments q k) = ''search''"
| "handler_name (ListAuditLogs p n x y z) = ''list_audit_logs''"

section \<open>Facts\<close>

lemmas route_tables = app_routes_def api_router_def auth_routes_def documents_routes_def
  workflows_routes_def agents_routes_def search_routes_def audit_routes_def admin_routes_def
  with_prefix_def API_PREFIX_def mount_metrics_def

text \<open>Two patterns that both match a path agree wherever both have a literal.\<close>

fun may_agree :: "segment \<Rightarrow> segment \<Rightarrow> bool" where
  "may_agree (Lit a) (Lit b) = (a = b)"
| "may_agree a b = True"

fun overlap :: "segment list \<Rightarrow> segment list \<Rightarrow> bool" where
  "overlap [] [] = True"
| "overlap (a # p) (b # q) = (may_agree a b \<and> overlap p q)"
| "overlap p q = False"

lemma matching_overlap: "path_matches p path \<Longrightarrow> path_matches q path \<Longrightarrow> overlap p q"
proof (induction p q arbitrary: path rule: overlap.induct)
  case (2 a p b q)
  then show ?case by (cases path; cases a; cases b) auto
qed (auto elim: path_matches.elims)

definition clash :: "route \<Rightarrow> route \<Rightarrow> bool" where
  "clash r q \<longleftrightarrow> rr_method r = rr_method q \<and> overlap (rr_path r) (rr_path q)"

lemma matches_clash: "route_matches m path r \<Longrightarrow> route_matches m path q \<Longrightarrow> clash r q"
  by (auto simp: route_matches_def clash_def intro: matching_overlap)

text \<open>No two routes overlap, so the order of the table does not matter.\<close>

definition full_table :: "route list" where
  "full_table = with_prefix API_PREFIX api_router @ mount_metrics True @ [route_of GET [] ''root'' None]"

lemma full_table_unambiguous: "sorted_wrt (\<lambda>r q. \<not> clash r q) full_table"
  by code_simp

lemma table_unambiguous: "sorted_wrt (\<lambda>r q. \<not> clash r q) (app_routes st b)"
  using full_table_unambiguous
  by (cases "metrics_enabled st"; cases b)
    (auto simp: app_routes_def full_table_def mount_metrics_def sorted_wrt_append)

lemma only_match:
  "sorted_wrt (\<lambda>r q. \<not> clash r q) rs \<Longrightarrow> r \<in> set rs \<Longrightarrow> route_matches m path r \<Longrightarrow>
     filter (route_matches m path) rs = [r]"
proof (induction rs)
  case (Cons q rs)
  show ?case
  proof (cases "route_matches m path q")
    case True
    then have "filter (route_matches m path) rs = []"
      using Cons.prems(1) matches_clash by (auto simp: filter_empty_conv)
    moreover have "r = q" using True Cons.prems matches_clash by auto
    ultimately show ?thesis using True by simp
  next
    case False
    with Cons show ?thesis by auto
  qed
qed simp

lemma dispatch_filter: "filter (route_matches m path) rs = [r] \<Longrightarrow> dispatch rs m path = Some r"
  by (simp add: dispatch_def find_filter)

section \<open>The endpoints\<close>

text \<open>The name of an agent is read from one segment of the path, which is not empty.\<close>

fun addressable :: "api_call \<Rightarrow> bool" where
  "addressable (ListAgentRuns a p n w) = (a \<noteq> [])"
| "addressable c = True"

lemma call_routed:
  "addressable c \<Longrightarrow> \<exists>r \<in> set (app_routes st b).
     route_matches (fst (address c)) (API_PREFIX @ snd (address c)) r
     \<and> rr_endpoint r = handler_name c \<and> rr_permissions r = needs c"
  by (cases c) (simp_all add: route_tables route_matches_def del: permission_value.simps)

lemma open_routes:
  "r \<in> set (app_routes st b) \<Longrightarrow> rr_permissions r = None \<Longrightarrow>
     rr_endpoint r \<in> {''health'', ''ready'', ''login'', ''refresh'', ''root'', ''metrics''}"
  by (auto simp: route_tables simp del: permission_value.simps split: if_splits)



end
