(* ===== verification/ApiFacts.thy ===== *)
theory ApiFacts
  imports Api
begin

text \<open>
  What a request can do: who is let in, which endpoints write, what a refused or failing request
  leaves behind, and the invariant of the cases and of the audit trail over whole sessions.
\<close>

section \<open>Admission\<close>

lemma app_action_Inr [simp]: "app_action m s = (Inr x, t) \<longleftrightarrow> m s = (Inr x, t)"
  by (auto simp: app_action_def split: prod.splits sum.splits)

lemma app_action_Inl: "app_action m s = (Inl x, t) \<longleftrightarrow> (\<exists>e. x = AppExn e \<and> m s = (Inl e, t))"
  by (auto simp: app_action_def split: prod.splits sum.splits)

text \<open>A caller as the token says.\<close>

definition authenticated :: "platform \<Rightarrow> settings \<Rightarrow> http_ctx \<Rightarrow> int \<Rightarrow> principal \<Rightarrow> bool" where
  "authenticated pf st hc now p \<longleftrightarrow> (\<exists>token claims. extract_token hc = Inr token
     \<and> decode_token (au_jwt (pf_auth pf)) st (Some ACCESS) token now = Inr claims
     \<and> from_claims claims = Inr p)"

lemma current_principal_Inr:
  "current_principal pf st hc s = (Inr p, t) \<longleftrightarrow>
     authenticated pf st hc (en_clock s (en_clock_pos s)) p \<and> t = snd (utc_now s)"
  by (auto simp: current_principal_def authenticated_def bindE_Inr liftE_def utc_now_def)

lemma require_permissions_Inr:
  "require_permissions pf st hc perms s = (Inr p, t) \<longleftrightarrow>
     authenticated pf st hc (en_clock s (en_clock_pos s)) p \<and> set perms \<subseteq> pr_permissions p
       \<and> t = snd (utc_now s)"
  by (auto simp: require_permissions_def bindE_Inr thenE_def liftE_def ret_def require_ok_iff
      current_principal_Inr)

lemma quiet_current_principal: "quiet (current_principal pf st hc)"
  unfolding current_principal_def by (intro quiet_rules)

lemma quiet_require_permissions: "quiet (require_permissions pf st hc perms)"
  unfolding require_permissions_def by (intro quiet_rules quiet_current_principal)

lemma app_action_keeps: "keeps R m \<Longrightarrow> keeps R (app_action m)"
  unfolding keeps_def app_action_def
  by (metis (mono_tags, lifting) case_prod_beta' prod.collapse snd_conv sum.case_eq_if)

lemma admit_keeps: "keeps (\<lambda>s t. w_db s = w_db t) (admit pf st hc c)"
  unfolding admit_def
  by (intro keeps_bindE transp_same)
    (auto intro: app_action_keeps quiet_require_permissions simp: keeps_ret keeps_throw split: option.split)

lemma admit_Inr:
  assumes "admit pf st hc c s = (Inr p, t)" "needs c = Some perms"
  shows "authenticated pf st hc (en_clock s (en_clock_pos s)) p" "set perms \<subseteq> pr_permissions p"
    "args_ok pf c"
  using assms
  by (auto simp: admit_def bindE_Inr require_permissions_Inr ret_def throw_def split: if_splits)

lemma api_step_Inl: "api_step pf a hc c s = (Inl x, t) \<Longrightarrow> w_db t = w_db s"
  unfolding api_step_def by (rule in_transaction_Inl)

lemma api_step_Inr:
  assumes "api_step pf a hc c s = (Inr r, t)"
  obtains p u where "admit pf (as_settings a) hc c s = (Inr p, u)" "w_db u = w_db s"
    "respond pf a hc c p u = (Inr r, t)"
proof -
  obtain p u where pu: "admit pf (as_settings a) hc c s = (Inr p, u)"
    "respond pf a hc c p u = (Inr r, t)"
    using assms unfolding api_step_def in_transaction_Inr bindE_Inr app_action_Inr by blast
  from keepsD [OF admit_keeps pu(1)] have "w_db u = w_db s" by simp
  with pu show thesis by (intro that)
qed

text \<open>Without a token, or with one that lacks a permission.\<close>

lemma admit_no_token:
  "needs c = Some perms \<Longrightarrow> extract_token hc = Inl e \<Longrightarrow> admit pf st hc c s = (Inl (AppExn e), s)"
  by (simp add: admit_def require_permissions_def current_principal_def bindE_def liftE_def app_action_def)

lemma admit_forbidden:
  assumes "needs c = Some perms" "authenticated pf st hc (en_clock s (en_clock_pos s)) p"
    and "\<not> set perms \<subseteq> pr_permissions p"
  shows "\<exists>e t. admit pf st hc c s = (Inl (AppExn e), t) \<and> exn_is AuthorizationError e"
proof -
  from assms(3) obtain e where e: "require p perms = Inl e"
    using require_ok_iff by (cases "require p perms") auto
  then have "exn_is AuthorizationError e" by (auto dest!: require_Inl)
  moreover have "current_principal pf st hc s = (Inr p, snd (utc_now s))"
    using assms(2) by (simp add: current_principal_Inr)
  ultimately show ?thesis
    using e assms(1) by (auto simp: admit_def require_permissions_def bindE_def thenE_def liftE_def app_action_def)
qed

section \<open>Endpoints that only read\<close>

fun reads_only :: "api_call \<Rightarrow> bool" where
  "reads_only (UploadDocument f) = False"
| "reads_only (StartWorkflow ty d r) = False"
| "reads_only (ApproveWorkflow i r) = False"
| "reads_only (RejectWorkflow i r) = False"
| "reads_only (EscalateWorkflow i r) = False"
| "reads_only c = True"

lemma quiet_giving: "quiet m \<Longrightarrow> quiet (giving f m)"
  unfolding giving_def by (intro quiet_rules)

lemma quiet_reload: "quiet (reload i)"
  by (auto simp: keeps_def reload_def split: option.splits)

lemma quiet_review: "quiet (review_endpoint page n)"
  unfolding review_endpoint_def review_queue_def
  by (intro quiet_bindE quiet_combinators) (auto split: prod.splits intro!: quiet_rules)

lemma quiet_search: "quiet (search a q k)"
proof -
  have "quiet (\<lambda>s. execute ''retrieval_agent'' None (pure_run (run_retrieval (embed (as_dims a))
      (w_vectors s) i)) s)" for i
    using quiet_execute [OF quiet_pure_run] unfolding keeps_def by blast
  then show ?thesis unfolding search_def by (intro quiet_rules)
qed

lemma quiet_reads: "reads_only c \<Longrightarrow> quiet (respond pf a hc c p)"
  by (cases c)
    (simp_all add: quiet_giving login_def refresh_endpoint_def get_document_def get_endpoint_def
      get_workflow_def list_agent_runs_def list_audit_logs_def quiet_review quiet_search quiet_refresh
      quiet_bindE quiet_authenticate quiet_issue_tokens quiet_reload quiet_cases)

lemma api_step_reads:
  assumes "api_step pf a hc c s = (x, t)" "reads_only c"
  shows "w_db t = w_db s"
proof (cases x)
  case (Inl e)
  with assms(1) show ?thesis by (simp add: api_step_Inl)
next
  case (Inr r)
  with assms(1) obtain p u where "w_db u = w_db s" "respond pf a hc c p u = (Inr r, t)"
    by (auto elim: api_step_Inr)
  with keepsD [OF quiet_reads [OF assms(2)]] show ?thesis by fastforce
qed

section \<open>Endpoints that write\<close>

lemma giving_Inr: "giving f m s = (Inr y, t) \<longleftrightarrow> (\<exists>x. m s = (Inr x, t) \<and> y = f x)"
  by (auto simp: giving_def bindE_Inr ret_def)

lemma upload_Inr:
  assumes "upload_document a hc f p s = (Inr out, t)"
  obtains i up d u r where "caller_id p = Inr i" "ingest (as_storage_root a) (as_dims a) up s = (Inr d, u)"
    "record_audit (upload_event p i hc d) u = (Inr r, t)" "document_out_of d = Inr out"
    "up_data up = uf_data f" "up_filename up = or_default ''upload.bin'' (uf_filename f)"
    "int (length (uf_data f)) \<le> MAX_BYTES"
proof -
  define up where "up j = \<lparr> up_filename = or_default ''upload.bin'' (uf_filename f),
     up_content_type = or_default ''application/octet-stream'' (uf_content_type f),
     up_data = uf_data f, up_text = None, up_by = Some j, up_metadata = [(''kind'', JStr (uf_kind f))] \<rparr>"
    for j
  from assms have size: "int (length (uf_data f)) \<le> MAX_BYTES"
    by (auto simp: upload_document_def throw_def split: if_splits)
  with assms obtain i d u r where s: "caller_id p = Inr i"
    "ingest (as_storage_root a) (as_dims a) (up i) s = (Inr d, u)"
    "record_audit (upload_event p i hc d) u = (Inr r, t)" "document_out_of d = Inr out"
    by (auto simp: upload_document_def bindE_Inr liftE_def up_def)
  show thesis by (rule that [OF s]) (simp_all add: size up_def)
qed

lemma start_endpoint_Inr:
  assumes "start_endpoint sv hc ty input p s = (Inr out, t)"
  obtains i v where "caller_id p = Inr i"
    "start_workflow sv ty input (Some i) (hc_request_id hc) s = (Inr v, t)" "workflow_detail_of v = Inr out"
  using assms by (auto simp: start_endpoint_def bindE_Inr liftE_def)

lemma decision_endpoint_Inr:
  assumes "decision_endpoint act hc i reason p s = (Inr out, t)"
  obtains c v where "caller_id p = Inr c" "act i c reason (hc_request_id hc) s = (Inr v, t)"
    "workflow_detail_of v = Inr out"
  using assms by (auto simp: decision_endpoint_def bindE_Inr liftE_def)

text \<open>What a successful writing request is, in terms of the services.\<close>

inductive write_effect :: "wf_service \<Rightarrow> api_call \<Rightarrow> uuid \<Rightarrow> world \<Rightarrow> world \<Rightarrow> bool" for sv where
  uploaded: "ingest base dims up s = (Inr d, u) \<Longrightarrow> record_audit ev u = (Inr r, t) \<Longrightarrow>
     write_effect sv (UploadDocument f) i s t"
| started: "start_workflow sv ty input (Some i) req s = (Inr v, t) \<Longrightarrow>
     write_effect sv (StartWorkflow ty input ref) i s t"
| approved: "decide sv w WS_APPROVED AD_APPROVED AK_APPROVAL i reason req s = (Inr v, t) \<Longrightarrow>
     write_effect sv (ApproveWorkflow w reason) i s t"
| rejected: "decide sv w WS_REJECTED AD_REJECTED AK_REJECTION i reason req s = (Inr v, t) \<Longrightarrow>
     write_effect sv (RejectWorkflow w reason) i s t"
| escalated: "decide sv w WS_ESCALATED AD_ESCALATED AK_ESCALATION i reason req s = (Inr v, t) \<Longrightarrow>
     write_effect sv (EscalateWorkflow w reason) i s t"

inductive_cases write_effectE: "write_effect sv c i s t"

lemma respond_writes:
  assumes "respond pf a hc c p s = (Inr r, t)" "\<not> reads_only c"
  obtains i where "caller_id p = Inr i" "write_effect (workflow_service (pf_libs pf) a) c i s t"
proof (cases c)
  case (UploadDocument f)
  with assms(1) obtain out where "upload_document a hc f p s = (Inr out, t)" by (auto simp: giving_Inr)
  then obtain i up d u rr where "caller_id p = Inr i"
    "ingest (as_storage_root a) (as_dims a) up s = (Inr d, u)"
    "record_audit (upload_event p i hc d) u = (Inr rr, t)" by (rule upload_Inr)
  then show thesis
    by (intro that) (auto simp only: UploadDocument intro: write_effect.uploaded)
next
  case (StartWorkflow ty d ref)
  with assms(1) obtain out where
    "start_endpoint (workflow_service (pf_libs pf) a) hc ty d p s = (Inr out, t)" by (auto simp: giving_Inr)
  then obtain i v where "caller_id p = Inr i" "start_workflow (workflow_service (pf_libs pf) a) ty d
      (Some i) (hc_request_id hc) s = (Inr v, t)" by (rule start_endpoint_Inr)
  then show thesis
    by (intro that) (auto simp only: StartWorkflow intro: write_effect.started)
next
  case (ApproveWorkflow w reason)
  with assms(1) obtain out where "decision_endpoint (approve_workflow (workflow_service (pf_libs pf) a))
      hc w reason p s = (Inr out, t)" by (auto simp: giving_Inr)
  then obtain i v where "caller_id p = Inr i" "approve_workflow (workflow_service (pf_libs pf) a) w i
      reason (hc_request_id hc) s = (Inr v, t)" by (rule decision_endpoint_Inr)
  then show thesis unfolding approve_workflow_def
    by (intro that) (auto simp only: ApproveWorkflow intro: write_effect.approved)
next
  case (RejectWorkflow w reason)
  with assms(1) obtain out where "decision_endpoint (reject_workflow (workflow_service (pf_libs pf) a))
      hc w reason p s = (Inr out, t)" by (auto simp: giving_Inr)
  then obtain i v where "caller_id p = Inr i" "reject_workflow (workflow_service (pf_libs pf) a) w i
      reason (hc_request_id hc) s = (Inr v, t)" by (rule decision_endpoint_Inr)
  then show thesis unfolding reject_workflow_def
    by (intro that) (auto simp only: RejectWorkflow intro: write_effect.rejected)
next
  case (EscalateWorkflow w reason)
  with assms(1) obtain out where "decision_endpoint (escalate_workflow (workflow_service (pf_libs pf) a))
      hc w reason p s = (Inr out, t)" by (auto simp: giving_Inr)
  then obtain i v where "caller_id p = Inr i" "escalate_workflow (workflow_service (pf_libs pf) a) w i
      reason (hc_request_id hc) s = (Inr v, t)" by (rule decision_endpoint_Inr)
  then show thesis unfolding escalate_workflow_def
    by (intro that) (auto simp only: EscalateWorkflow intro: write_effect.escalated)
qed (use assms(2) in simp_all)

section \<open>What writing requests keep\<close>

definition log_of :: "world \<Rightarrow> audit_row list" where
  "log_of s = db_audit_logs (w_db s)"

lemma audit_entries_length: "audit_entries sv act w actor rows \<Longrightarrow> length rows = (if sv_audit sv then 1 else 0)"
  by (auto simp: audit_entries_def)

lemma uploaded_tables:
  assumes "ingest base dims up s = (Inr d, u)" "record_audit ev u = (Inr r, t)"
  shows "same_cases (w_db s) (w_db t)" "log_of t = log_of s @ [r]" "records_event ev r"
proof -
  obtain chs ems where u: "w_db u = (w_db s)\<lparr>db_documents := db_documents (w_db s) @ [d],
       db_chunks := db_chunks (w_db s) @ chs, db_embeddings := db_embeddings (w_db s) @ ems\<rparr>"
    by (rule ingest_run [OF assms(1)])
  note t = record_audit_Inr [OF assms(2)]
  show "same_cases (w_db s) (w_db t)" "log_of t = log_of s @ [r]"
    by (simp_all add: same_cases_def log_of_def t(1) u)
  show "records_event ev r" by (rule t(2))
qed

lemma decided_log:
  assumes "decide sv i target dec kind actor reason req s = (Inr v, t)" "db_ok (w_db s)"
  obtains rows where "log_of t = log_of s @ rows"
    "audit_entries sv (''workflow.'' @ approval_decision_value dec) i (Some actor) rows"
proof -
  obtain w w' bs rows where "w_db t = (w_db s)\<lparr>db_workflows := map (\<lambda>x. if wf_id x = i then w' else x)
        (db_workflows (w_db s)), db_approvals := bs, db_audit_logs := db_audit_logs (w_db s) @ rows\<rparr>"
    "audit_entries sv (''workflow.'' @ approval_decision_value dec) i (Some actor) rows"
    by (rule decide_effect [OF assms])
  then show thesis by (intro that) (simp_all add: log_of_def)
qed

lemma started_log:
  assumes "start_workflow sv ty input creator req s = (Inr v, t)" "quiet_executor (sv_executor sv)"
    and "db_ok (w_db s)"
  obtains w act rows where "log_of t = log_of s @ rows" "audit_entries sv act (wf_id w) creator rows"
    "find_workflow (wf_id w) (w_db s) = None" "wv_workflow v = w"
proof -
  obtain w runs aps rows act where w: "w_db t = (w_db s)\<lparr>db_workflows := db_workflows (w_db s) @ [w],
       db_agent_runs := db_agent_runs (w_db s) @ runs, db_approvals := db_approvals (w_db s) @ aps,
       db_audit_logs := db_audit_logs (w_db s) @ rows\<rparr>" "audit_entries sv act (wf_id w) creator rows"
    "wf_id w \<notin> wf_id ` set (db_workflows (w_db s))" "v = view_of (w_db t) w"
    by (rule start_effect [OF assms])
  have "find_workflow (wf_id w) (w_db s) = None"
    using w(3) find_workflow_Some by (metis image_eqI not_None_eq)
  with w show thesis by (intro that) (simp_all add: log_of_def view_of_def)
qed

lemma write_keeps:
  assumes "write_effect sv c i s t" "quiet_executor (sv_executor sv)" "cases_ok (w_db s)"
  shows "cases_ok (w_db t)"
    and "\<exists>rows. log_of t = log_of s @ rows \<and> (sv_audit sv \<longrightarrow> length rows = 1)"
proof -
  have ok: "db_ok (w_db s)" using assms(3) by (simp add: cases_ok_def)
  have dec: "\<exists>rows. log_of t = log_of s @ rows \<and> (sv_audit sv \<longrightarrow> length rows = 1)"
    if "decide sv w target dec kind i reason req s = (Inr v, t)" for w target dec kind reason req v
    using decided_log [OF that ok] audit_entries_length by metis
  have keep: "cases_ok (w_db t)"
    if "decide sv w target dec kind i reason req s = (Inr v, t)" "(target, dec) \<in> verdicts"
    for w target dec kind reason req v by (rule decide_keeps_cases [OF that assms(3)])
  from assms(1) show "cases_ok (w_db t)"
  proof cases
    case (uploaded base dims up d u ev r f)
    show ?thesis by (rule cases_ok_same [OF uploaded_tables(1) [OF uploaded(2,3)] assms(3)])
  next
    case (started ty input req v ref)
    show ?thesis by (rule start_keeps_cases [OF started(2) assms(2,3)])
  next
    case (approved w reason req v)
    show ?thesis by (rule keep [OF approved(2)]) (simp add: verdicts_def)
  next
    case (rejected w reason req v)
    show ?thesis by (rule keep [OF rejected(2)]) (simp add: verdicts_def)
  next
    case (escalated w reason req v)
    show ?thesis by (rule keep [OF escalated(2)]) (simp add: verdicts_def)
  qed
  from assms(1) show "\<exists>rows. log_of t = log_of s @ rows \<and> (sv_audit sv \<longrightarrow> length rows = 1)"
  proof cases
    case (uploaded base dims up d u ev r f)
    with uploaded_tables(2) show ?thesis by fastforce
  next
    case (started ty input req v ref)
    show ?thesis using started_log [OF started(2) assms(2) ok] audit_entries_length by metis
  qed (use dec in auto)
qed

section \<open>Whole runs of the service\<close>

lemma api_step_keeps:
  assumes "api_step pf a hc c s = (x, t)" "quiet_router (as_router a)" "cases_ok (w_db s)"
  shows "cases_ok (w_db t)"
    and "\<exists>rows. log_of t = log_of s @ rows \<and> length rows = (if reads_only c \<or> isl x then 0 else 1)"
proof -
  have quiet: "quiet_executor (sv_executor (workflow_service lb a))" for lb
    using assms(2) by (simp add: quiet_executor_def workflow_service_def)
  have "cases_ok (w_db t) \<and> (\<exists>rows. log_of t = log_of s @ rows
      \<and> length rows = (if reads_only c \<or> isl x then 0 else 1))"
  proof (cases "reads_only c \<or> isl x")
    case True
    then have "w_db t = w_db s"
      using api_step_reads [OF assms(1)] assms(1) by (cases x) (auto dest: api_step_Inl)
    with True assms(3) show ?thesis by (simp add: log_of_def)
  next
    case False
    then obtain r where "x = Inr r" by (cases x) auto
    with assms(1) obtain p u where u: "w_db u = w_db s" "respond pf a hc c p u = (Inr r, t)"
      by (auto elim: api_step_Inr)
    from respond_writes [OF u(2)] False obtain i where
      w: "write_effect (workflow_service (pf_libs pf) a) c i u t" by blast
    have "cases_ok (w_db u)" "sv_audit (workflow_service (pf_libs pf) a)" "log_of u = log_of s"
      using assms(3) u(1) by (simp_all add: workflow_service_def log_of_def)
    with write_keeps [OF w quiet] False show ?thesis by auto
  qed
  then show "cases_ok (w_db t)"
    and "\<exists>rows. log_of t = log_of s @ rows \<and> length rows = (if reads_only c \<or> isl x then 0 else 1)"
    by simp_all
qed

lemma handle_request_step:
  assumes "handle_request pf a rq s = (resp, t)"
  obtains u x rid where "request_id_of rq s = (Inr rid, u)" "w_db u = w_db s"
    "api_step pf a \<lparr> hc_authorization = hq_authorization rq, hc_cookies = hq_cookies rq,
                     hc_request_id = Some rid \<rparr> (hq_call rq) u = (x, t)"
    "hs_body resp = (case x of Inl e \<Rightarrow> Inl (snd (render_exception e)) | Inr r \<Rightarrow> Inr r)"
    "hs_status resp = (case x of Inl e \<Rightarrow> fst (render_exception e) | Inr r \<Rightarrow> success_status (hq_call rq))"
proof -
  obtain rid u where u: "request_id_of rq s = (Inr rid, u)" "w_db u = w_db s"
    by (cases "hq_request_id rq"; cases "the (hq_request_id rq)")
      (auto simp: request_id_of_def ret_def bindE_def uuid4_def)
  obtain x v where x: "api_step pf a \<lparr> hc_authorization = hq_authorization rq, hc_cookies = hq_cookies rq,
      hc_request_id = Some rid \<rparr> (hq_call rq) u = (x, v)" by fastforce
  with assms u have v: "v = t" "hs_body resp = (case x of Inl e \<Rightarrow> Inl (snd (render_exception e)) | Inr r \<Rightarrow> Inr r)"
    "hs_status resp = (case x of Inl e \<Rightarrow> fst (render_exception e) | Inr r \<Rightarrow> success_status (hq_call rq))"
    by (cases x; auto simp: handle_request_def)+
  show thesis by (rule that [OF u x [unfolded v(1)] v(2,3)])
qed

inductive api_run :: "platform \<Rightarrow> app_state \<Rightarrow> world \<Rightarrow> world \<Rightarrow> bool" for pf a s where
  none: "api_run pf a s s"
| more: "api_run pf a s t \<Longrightarrow> snd (handle_request pf a rq t) = u \<Longrightarrow> api_run pf a s u"

lemma api_run_keeps:
  assumes "api_run pf a s t" "quiet_router (as_router a)" "cases_ok (w_db s)"
  shows "cases_ok (w_db t) \<and> prefix (log_of s) (log_of t)"
  using assms(1)
proof induction
  case none
  with assms(3) show ?case by simp
next
  case (more t rq u)
  obtain resp where "handle_request pf a rq t = (resp, u)" using more.hyps(2) by (metis prod.collapse)
  then obtain v x hc where v: "w_db v = w_db t" "api_step pf a hc (hq_call rq) v = (x, u)"
    by (rule handle_request_step)
  have "cases_ok (w_db v)" "log_of v = log_of t" using more.IH v(1) by (simp_all add: log_of_def)
  from api_step_keeps [OF v(2) assms(2) this(1)] this(2) more.IH show ?case
    by (metis prefixI prefix_order.trans)
qed

end
