(* ===== verification/Logging.thy ===== *)
theory Logging
  imports AuditService Config
begin

text \<open>
  core/logging.py: the processor that masks sensitive values of a log event, by a case-insensitive
  substring match on the key, its place in the chain of processors and the context bound to a request.
  The configuration is the threshold and the renderer it chooses; the renderers and the stream are
  not modelled.
\<close>

definition LOG_SENSITIVE_KEYS :: "string list" where
  "LOG_SENSITIVE_KEYS = [''password'', ''secret'', ''token'', ''access_token'', ''refresh_token'',
     ''authorization'', ''api_key'', ''groq_api_key'', ''client_secret'', ''ssn'', ''card_number'',
     ''account_number'', ''jwt'']"

definition log_sensitive :: "string \<Rightarrow> bool" where
  "log_sensitive k \<longleftrightarrow> list_ex (\<lambda>x. contains x (lower k)) LOG_SENSITIVE_KEYS"

definition redact_processor :: "json_dict \<Rightarrow> json_dict" where
  "redact_processor event = fold (\<lambda>k d. if log_sensitive k then dict_set k redacted_value d else d)
     (dict_keys event) event"

section \<open>The pipeline\<close>

text \<open>
  The values bound to a request, and the chain of processors an event passes before it is rendered.
  The processors of structlog that add the level, the time and the stack are arbitrary functions.
\<close>

definition bind_request_context :: "json_dict \<Rightarrow> json_dict \<Rightarrow> json_dict" where
  "bind_request_context kwargs ctx = dict_union ctx kwargs"

definition clear_request_context :: "json_dict \<Rightarrow> json_dict" where
  "clear_request_context ctx = []"

text \<open>The entries of the event win over the bound ones.\<close>

definition merge_contextvars :: "json_dict \<Rightarrow> json_dict \<Rightarrow> json_dict" where
  "merge_contextvars ctx event = dict_union ctx event"

definition shared_processors ::
  "json_dict \<Rightarrow> (json_dict \<Rightarrow> json_dict) \<Rightarrow> (json_dict \<Rightarrow> json_dict) \<Rightarrow> (json_dict \<Rightarrow> json_dict)
     \<Rightarrow> (json_dict \<Rightarrow> json_dict) list" where
  "shared_processors ctx add_log_level time_stamper stack_info =
     [merge_contextvars ctx, add_log_level, time_stamper, stack_info, redact_processor]"

definition rendered_event ::
  "json_dict \<Rightarrow> (json_dict \<Rightarrow> json_dict) \<Rightarrow> (json_dict \<Rightarrow> json_dict) \<Rightarrow> (json_dict \<Rightarrow> json_dict)
     \<Rightarrow> json_dict \<Rightarrow> json_dict" where
  "rendered_event ctx add_log_level time_stamper stack_info event =
     fold (\<lambda>p e. p e) (shared_processors ctx add_log_level time_stamper stack_info) event"

section \<open>Configuration\<close>

text \<open>
  The integer constants of the \<open>logging\<close> module with an upper-case name. The settings admit no level
  whose name is another attribute.
\<close>

definition logging_levels :: "(string, int) dict" where
  "logging_levels = [(''CRITICAL'', 50), (''FATAL'', 50), (''ERROR'', 40), (''WARNING'', 30), (''WARN'', 30),
     (''INFO'', 20), (''DEBUG'', 10), (''NOTSET'', 0)]"

definition level_number :: "string \<Rightarrow> int" where
  "level_number level = (case dict_get (upper level) logging_levels of Some n \<Rightarrow> n | None \<Rightarrow> 20)"

datatype renderer = JSONRenderer | ConsoleRenderer bool

record log_config =
  lc_format :: string
  lc_root_level :: int
  lc_renderer :: renderer
  lc_min_level :: int
  lc_cache_logger :: bool

definition configure_logging :: "string \<Rightarrow> bool \<Rightarrow> log_config" where
  "configure_logging level json_logs = \<lparr> lc_format = ''%(message)s'', lc_root_level = level_number level,
     lc_renderer = (if json_logs then JSONRenderer else ConsoleRenderer True),
     lc_min_level = level_number level, lc_cache_logger = True \<rparr>"

text \<open>The filtering logger drops what is below the threshold.\<close>

definition is_logged :: "log_config \<Rightarrow> int \<Rightarrow> bool" where
  "is_logged c n \<longleftrightarrow> lc_min_level c \<le> n"

section \<open>Facts\<close>

text \<open>Validated settings never fall back to the default level, and always let errors through.\<close>

lemma allowed_level:
  "v \<in> set allowed_log_levels \<Longrightarrow> dict_get (upper v) logging_levels = Some (level_number v)
     \<and> is_logged (configure_logging v j) 50"
  by (auto simp: allowed_log_levels_def logging_levels_def level_number_def is_logged_def
      configure_logging_def upper_def upper_char_def is_lower_def code_def)

lemma redact_fold_get:
  "map_of (fold (\<lambda>k d. if log_sensitive k then dict_set k redacted_value d else d) ks d) k =
     (if k \<in> set ks \<and> log_sensitive k then Some redacted_value else map_of d k)"
  by (induction ks arbitrary: d) auto

lemma redact_processor_get:
  "dict_get k (redact_processor event) =
     (if log_sensitive k then map_option (\<lambda>_. redacted_value) (dict_get k event) else dict_get k event)"
  unfolding redact_processor_def redact_fold_get
  using map_of_eq_None_iff [of event k] by (cases "dict_get k event") auto

text \<open>Redaction comes last, so nothing bound or added earlier escapes it.\<close>

lemma rendered_event_masked:
  "log_sensitive k \<Longrightarrow>
     dict_get k (rendered_event ctx add_log_level time_stamper stack_info event) \<in> {None, Some redacted_value}"
proof -
  have "map_option (\<lambda>_. v) x \<in> {None, Some v}" for v :: json and x :: "json option" by (cases x) simp_all
  then show "log_sensitive k \<Longrightarrow> ?thesis"
    unfolding rendered_event_def shared_processors_def by (simp add: redact_processor_get)
qed

lemma contains_refl: "contains x x"
  by (simp add: contains_sublist)

text \<open>Whatever the audit trail masks, the log masks too; not conversely.\<close>

lemma audit_sensitive_logged: "is_sensitive k \<Longrightarrow> log_sensitive k"
  unfolding is_sensitive_def log_sensitive_def list_ex_iff
  by (rule bexI [where x = "lower k"], rule contains_refl)
    (auto simp: SENSITIVE_KEYS_def LOG_SENSITIVE_KEYS_def)

end
