(* ===== verification/ApiSamples.thy ===== *)
theory ApiSamples
  imports ApiFacts Samples Logging
begin

text \<open>
  Concrete instances for the HTTP layer: token and password libraries that meet their
  specifications, a platform and the shared services over them, a person with a session cookie.
\<close>

section \<open>Libraries\<close>

instance pyfloat :: countable by countable_datatype

instance json :: countable by countable_datatype

text \<open>A token that encodes the payload, the key and the algorithm as its length.\<close>

definition sample_jwt :: jwt_lib where
  "sample_jwt = \<lparr>
     jwt_encode = (\<lambda>p key alg. replicate (Suc (to_nat (p, key, alg))) CHR ''x''),
     jwt_decode = (\<lambda>token key algs req now. case from_nat (length token - 1) of (p, k, alg) \<Rightarrow>
       if k \<noteq> key \<or> alg \<notin> set algs \<or> \<not> has_claims req p then JwtInvalid
       else (case dict_get ''exp'' p of
           Some (JInt n) \<Rightarrow> if now < n * 1000000 then JwtPayload p else JwtExpired
         | _ \<Rightarrow> JwtInvalid)) \<rparr>"

lemma sample_jwt_spec: "jwt_spec sample_jwt"
  by (simp add: jwt_spec_def sample_jwt_def int_claim_def)

definition sample_pwd :: pwd_lib where
  "sample_pwd = \<lparr> pwd_hash = (\<lambda>salt p. CHR ''$'' # p), pwd_verify = (\<lambda>q h. Some (CHR ''$'' # q = h)) \<rparr>"

lemma sample_pwd_spec: "pwd_spec sample_pwd"
  by (simp add: pwd_spec_def sample_pwd_def)

definition sample_auth :: auth_libs where
  "sample_auth = \<lparr> au_jwt = sample_jwt, au_pwd = sample_pwd \<rparr>"

definition sample_platform :: platform where
  "sample_platform = \<lparr> pf_auth = sample_auth, pf_libs = sample_libs, pf_email = Some,
     pf_errors = (\<lambda>_. []) \<rparr>"

section \<open>The services\<close>

definition echo_router :: "world router" where
  "echo_router = \<lparr> rt_providers = [echo_provider], rt_policy = router_policy_value OFFLINE_ONLY,
     rt_observer = db_observer \<rparr>"

lemma echo_router_quiet: "quiet_router echo_router"
proof (rule built_router_quiet)
  show "build_router (default_settings\<lparr>llm_router_policy := OFFLINE_ONLY,
      llm_fallback_provider := ''echo''\<rparr>) (Some db_observer) = Inr echo_router"
    by (simp add: build_router_def chain_names_def default_settings_def build_provider_def
        make_router_def echo_router_def)
qed

definition sample_app :: app_state where
  "sample_app = \<lparr> as_settings = default_settings, as_router = echo_router, as_dims = 384,
     as_storage_root = [''tmp'', ''banking-ai-objects''] \<rparr>"

lemma sample_app_fields [simp]:
  "as_settings sample_app = default_settings" "as_router sample_app = echo_router"
  by (simp_all add: sample_app_def)

section \<open>A session\<close>

definition session_start :: int where
  "session_start = 1700000000000000"

definition sample_user :: user_row where
  "sample_user = \<lparr> us_id = 3, us_created_at = 0, us_updated_at = 0, us_email = ''meera@bank.test'',
     us_full_name = None, us_hashed_password = Some ''s3cret'', us_is_active = True,
     us_external_subject = None \<rparr>"

definition session_token :: "string list \<Rightarrow> token_type \<Rightarrow> string" where
  "session_token rs ty = fst (create_token sample_jwt default_settings (uuid_str (us_id sample_user))
     rs ty [(''email'', JStr (us_email sample_user))] session_start ''jti'')"

text \<open>The request of a person with the given roles, the token in the session cookie.\<close>

definition request_as :: "string list \<Rightarrow> api_call \<Rightarrow> http_request" where
  "request_as rs c = \<lparr> hq_authorization = None,
     hq_cookies = [(''access_token'', session_token rs ACCESS)], hq_request_id = Some ''r1'',
     hq_call = c \<rparr>"

definition ctx_of :: "http_request \<Rightarrow> string \<Rightarrow> http_ctx" where
  "ctx_of rq rid = \<lparr> hc_authorization = hq_authorization rq, hc_cookies = hq_cookies rq,
     hc_request_id = Some rid \<rparr>"

lemma session_token_nonempty: "\<exists>c cs. session_token rs ty = c # cs"
  by (simp add: session_token_def create_token_def sample_jwt_def)

lemma session_token_extracted:
  "hc_authorization hc = None \<Longrightarrow> hc_cookies hc = [(''access_token'', session_token rs ty)] \<Longrightarrow>
     extract_token hc = Inr (session_token rs ty)"
  using session_token_nonempty [of rs ty]
  by (auto simp: extract_token_def Let_def cookie_name_def bearer_prefix_def starts_with_def)

lemma session_token_claims:
  assumes "session_start \<le> now" "now < session_start + 900 * 1000000" 
  obtains claims where "decode_token sample_jwt default_settings (Some ty) (session_token rs ty) now = Inr claims"
    "from_claims claims = Inr (principal_of sample_user rs ''jti'')"
    "dict_get ''sub'' claims = Some (JStr (uuid_str (us_id sample_user)))"
proof -
  let ?extra = "[(''email'', JStr (us_email sample_user))]"
  define claims where "claims = token_payload default_settings (uuid_str (us_id sample_user)) rs ty
    ?extra session_start ''jti''"
  have "token_ttl default_settings ty \<ge> 900" by (simp add: token_ttl_def default_settings_def)
  then have "now < (timestamp session_start + token_ttl default_settings ty) * 1000000"
    using assms(2) by (simp add: timestamp_def session_start_def)
  then have "decode_token sample_jwt default_settings (Some ty) (session_token rs ty) now = Inr claims"
    using decode_created [OF sample_jwt_spec email_not_reserved assms(1), of default_settings "Some ty"]
    by (simp add: session_token_def claims_def)
  moreover have "from_claims claims = Inr (principal_of sample_user rs ''jti'')"
    using from_claims_created [OF email_not_reserved]
    by (simp add: claims_def principal_of_def token_payload_def dict_union_lookup del: dict_union_def)
  moreover have "dict_get ''sub'' claims = Some (JStr (uuid_str (us_id sample_user)))"
    unfolding claims_def by (rule token_payload_claims(6) [OF email_not_reserved])
  ultimately show thesis by (rule that)
qed

lemma session_authenticated:
  assumes "session_start \<le> now" "now < session_start + 900 * 1000000"
  shows "authenticated sample_platform default_settings (ctx_of (request_as rs c) rid) now
    (principal_of sample_user rs ''jti'')"
proof -
  from session_token_claims [OF assms, of ACCESS rs] obtain claims where
    "decode_token sample_jwt default_settings (Some ACCESS) (session_token rs ACCESS) now = Inr claims"
    "from_claims claims = Inr (principal_of sample_user rs ''jti'')" by metis
  moreover have "extract_token (ctx_of (request_as rs c) rid) = Inr (session_token rs ACCESS)"
    by (rule session_token_extracted) (simp_all add: ctx_of_def request_as_def)
  ultimately show ?thesis
    by (auto simp: authenticated_def sample_platform_def sample_auth_def)
qed

section \<open>A seeded database\<close>

text \<open>A database with the whole catalogue, each role linked with every permission.\<close>

definition seeded_sample :: db where
  "seeded_sample =
     (let perms = map2 (\<lambda>i p. new_permission (permission_value p) (of_nat i) 0 0) [0..<17] Enum.enum;
          roles = map2 (\<lambda>i e. new_role (role_value (fst e)) (of_nat i) 0 0) [0..<8] ROLE_PERMISSIONS
      in empty_db\<lparr>db_permissions := perms, db_roles := roles,
           db_role_permissions := List.product (map rl_id roles) (map pm_id perms),
           db_users := [new_admin sample_pwd default_settings 0 7 0 0]\<rparr>)"

lemma seeded_sample_ok: "seeded seeded_sample"
proof -
  have codes: "pm_code ` set (db_permissions seeded_sample) = range permission_value"
  proof -
    have "map pm_code (db_permissions seeded_sample) = map permission_value Enum.enum"
      by (simp add: seeded_sample_def Let_def new_permission_def enum_permission_def upt_rec)
    then show ?thesis by (metis list.set_map enum_UNIV)
  qed
  have names: "rl_name ` set (db_roles seeded_sample) = (role_value \<circ> fst) ` set ROLE_PERMISSIONS"
  proof -
    have "map rl_name (db_roles seeded_sample) = map (role_value \<circ> fst) ROLE_PERMISSIONS"
      by (simp add: seeded_sample_def Let_def new_role_def ROLE_PERMISSIONS_def upt_rec)
    then show ?thesis by (metis list.set_map)
  qed
  have links: "set (db_role_permissions seeded_sample)
      = rl_id ` set (db_roles seeded_sample) \<times> pm_id ` set (db_permissions seeded_sample)"
    by (simp add: seeded_sample_def Let_def image_image)
  have "has_permissions seeded_sample"
    unfolding has_permissions_def by_key_None codes by blast
  moreover have "role_seeded seeded_sample (r, ps)" if e: "(r, ps) \<in> set ROLE_PERMISSIONS" for r ps
  proof -
    have "dict_get (role_value r) (by_key rl_name (db_roles seeded_sample)) \<noteq> None"
      unfolding by_key_None names using e by force
    then obtain row where row: "dict_get (role_value r) (by_key rl_name (db_roles seeded_sample)) = Some row"
      by (auto simp del: not_None_eq simp: option.exhaust_sel)
    from by_key_get [OF this] have "row \<in> set (db_roles seeded_sample)" by simp
    moreover have "\<exists>q \<in> set (db_permissions seeded_sample). pm_code q = permission_value p" for p
      using codes by (metis imageE rangeI)
    ultimately have "has_code seeded_sample row (permission_value p)" for p
      unfolding has_code_def list_ex_iff links by blast
    with row show ?thesis by (simp add: role_seeded_def)
  qed
  ultimately show ?thesis by (auto simp: seeded_def)
qed

end
