(* ===== verification/ApiProperties.thy ===== *)
theory ApiProperties
  imports ApiSamples
begin

text \<open>
  Properties of the HTTP layer: who is let in and with which permissions, what a refused request
  leaves, that every write is audited with its author, what the tokens carry and how long they hold.
\<close>

section \<open>Requests\<close>

definition request_time :: "world \<Rightarrow> int" where
  "request_time s = en_clock s (en_clock_pos s)"

lemma request_runs:
  assumes "handle_request pf a rq s = (resp, t)"
  obtains u x rid where "w_db u = w_db s" "request_time u = request_time s"
    "api_step pf a (ctx_of rq rid) (hq_call rq) u = (x, t)"
    "hs_body resp = (case x of Inl e \<Rightarrow> Inl (snd (render_exception e)) | Inr r \<Rightarrow> Inr r)"
    "hs_status resp = (case x of Inl e \<Rightarrow> fst (render_exception e) | Inr r \<Rightarrow> success_status (hq_call rq))"
proof -
  obtain u x rid where r: "request_id_of rq s = (Inr rid, u)" "w_db u = w_db s"
    "api_step pf a (ctx_of rq rid) (hq_call rq) u = (x, t)"
    "hs_body resp = (case x of Inl e \<Rightarrow> Inl (snd (render_exception e)) | Inr r \<Rightarrow> Inr r)"
    "hs_status resp = (case x of Inl e \<Rightarrow> fst (render_exception e) | Inr r \<Rightarrow> success_status (hq_call rq))"
    unfolding ctx_of_def by (rule handle_request_step [OF assms])
  from r(1) have "request_time u = request_time s"
    by (auto simp: request_id_of_def request_time_def ret_def bindE_def uuid4_def
        split: option.splits list.splits)
  with r show thesis by (intro that)
qed

lemma body_Inr:
  "hs_body resp = (case x of Inl e \<Rightarrow> Inl (f e) | Inr r \<Rightarrow> Inr r) \<Longrightarrow> hs_body resp = Inr r \<Longrightarrow> x = Inr r"
  by (cases x) auto

lemma admit_Inl_step:
  assumes "admit pf (as_settings a) hc c s = (Inl x, t)"
  shows "api_step pf a hc c s = (Inl x, t\<lparr>w_db := w_db s\<rparr>)"
  using assms by (simp add: api_step_def in_transaction_def bindE_def)

lemma decode_token_Inl: "decode_token lib st ty token now = Inl e \<Longrightarrow> exn_is AuthenticationError e"
  by (auto simp: decode_token_def split: jwt_outcome.splits option.splits if_splits)

lemma extract_token_Inl: "extract_token hc = Inl e \<Longrightarrow> exn_is AuthenticationError e"
  by (auto simp: extract_token_def Let_def split: if_splits option.splits list.splits)

text \<open>
  C8: a guarded endpoint answers only a caller whose access token is valid at the time of the
  request and whose roles give every permission the endpoint declares.
\<close>
theorem guarded_success_authorised:
  assumes "handle_request pf a rq s = (resp, t)" "hs_body resp = Inr r"
    and "needs (hq_call rq) = Some perms"
  shows "\<exists>p rid. authenticated pf (as_settings a) (ctx_of rq rid) (request_time s) p
    \<and> set perms \<subseteq> pr_permissions p \<and> args_ok pf (hq_call rq)"
proof -
  obtain u x rid where u: "request_time u = request_time s"
    "api_step pf a (ctx_of rq rid) (hq_call rq) u = (x, t)"
    "hs_body resp = (case x of Inl e \<Rightarrow> Inl (snd (render_exception e)) | Inr r \<Rightarrow> Inr r)"
    by (rule request_runs [OF assms(1)])
  have "x = Inr r" using u(3) assms(2) by (rule body_Inr)
  with u(2) obtain p v where "admit pf (as_settings a) (ctx_of rq rid) (hq_call rq) u = (Inr p, v)"
    by (auto elim: api_step_Inr)
  from admit_Inr [OF this assms(3)] u(1) show ?thesis unfolding request_time_def by metis
qed

lemma guarded_success_witness:
  "\<exists>resp t p rid. handle_request sample_platform sample_app (request_as [role_value SYSTEM_ADMIN] RouterConfig)
      (w_at 0 0 0 empty_db) = (resp, t)
    \<and> authenticated sample_platform default_settings
        (ctx_of (request_as [role_value SYSTEM_ADMIN] RouterConfig) rid) session_start p
    \<and> {permission_value ADMIN_READ} \<subseteq> pr_permissions p"
proof -
  let ?rq = "request_as [role_value SYSTEM_ADMIN] RouterConfig"
  let ?s = "w_at 0 0 0 empty_db"
  let ?p = "principal_of sample_user [role_value SYSTEM_ADMIN] ''jti''"
  have now: "request_time ?s = session_start"
    by (simp add: request_time_def w_at_def session_start_def)
  have "authenticated sample_platform default_settings (ctx_of ?rq ''r1'') session_start ?p"
    by (rule session_authenticated) (simp_all add: session_start_def)
  moreover have "permission_value ADMIN_READ \<in> pr_permissions ?p"
    unfolding principal_of_def principal.select_convs permissions_for_roles_iff
    by (intro exI [where x = SYSTEM_ADMIN]) (simp add: enum_permission_def)
  ultimately have "require_permissions sample_platform default_settings (ctx_of ?rq ''r1'')
      [permission_value ADMIN_READ] ?s = (Inr ?p, snd (utc_now ?s))"
    using now by (simp only: require_permissions_Inr request_time_def) simp
  then have "\<exists>t. api_step sample_platform sample_app (ctx_of ?rq ''r1'') RouterConfig ?s
      = (Inr (RouterInfo (rt_policy echo_router) (provider_names echo_router)), t)"
    by (simp add: api_step_def in_transaction_def bindE_def admit_def app_action_def ret_def)
  then obtain t where "handle_request sample_platform sample_app ?rq ?s = (\<lparr> hs_status = 200,
      hs_body = Inr (RouterInfo (rt_policy echo_router) (provider_names echo_router)),
      hs_request_id = Some ''r1'', hs_cookies = [] \<rparr>, t)"
    by (auto simp: handle_request_def request_id_of_def request_as_def ctx_of_def ret_def)
  from guarded_success_authorised [OF this] this show ?thesis
    by (fastforce simp: request_as_def now)
qed

lemma ctx_any_id:
  "extract_token (ctx_of rq rid) = extract_token (ctx_of rq [])"
  "authenticated pf st (ctx_of rq rid) = authenticated pf st (ctx_of rq [])"
  by (simp_all add: extract_token_def ctx_of_def authenticated_def fun_eq_iff Let_def)

lemma refusal_answered:
  assumes "api_step pf a hc c u = (x, t)" "admit pf (as_settings a) hc c u = (Inl (AppExn e), v)"
    and "exn_is k e" "k \<in> {AuthenticationError, AuthorizationError}"
  shows "(case x of Inl e \<Rightarrow> fst (render_exception e) | Inr r \<Rightarrow> success_status c) = status_code k
    \<and> w_db t = w_db u"
proof -
  have "x = Inl (AppExn e)" "w_db t = w_db u" using admit_Inl_step [OF assms(2)] assms(1) by auto
  with assms(3,4) show ?thesis
    by (cases e) (auto simp: render_exception_def app_error_handler_def exn_is_def is_instance_leaf)
qed

lemma bad_token_refused:
  assumes "needs c = Some perms" "\<forall>token claims. extract_token hc = Inr token \<longrightarrow>
      decode_token (au_jwt (pf_auth pf)) st (Some ACCESS) token (request_time u) \<noteq> Inr claims"
  shows "\<exists>e v. admit pf st hc c u = (Inl (AppExn e), v) \<and> exn_is AuthenticationError e"
proof (cases "extract_token hc")
  case (Inl e)
  with admit_no_token [OF assms(1)] extract_token_Inl show ?thesis by blast
next
  case (Inr token)
  obtain e where "decode_token (au_jwt (pf_auth pf)) st (Some ACCESS) token (en_clock u (en_clock_pos u)) = Inl e"
    using assms(2) Inr unfolding request_time_def by (metis sum.exhaust_sel sum.collapse)
  with Inr decode_token_Inl [OF this] assms(1) show ?thesis
    by (simp add: admit_def require_permissions_def current_principal_def bindE_def liftE_def
        utc_now_def app_action_def)
qed

text \<open>
  C9: a guarded request with no session token, or with a token that is expired, forged or of the
  wrong type, is answered 401; one whose caller lacks a permission is answered 403. Neither touches
  the database.
\<close>
theorem refused_requests:
  assumes "handle_request pf a rq s = (resp, t)" "needs (hq_call rq) = Some perms"
  shows "((\<forall>token claims. extract_token (ctx_of rq []) = Inr token \<longrightarrow>
            decode_token (au_jwt (pf_auth pf)) (as_settings a) (Some ACCESS) token (request_time s) \<noteq> Inr claims)
          \<longrightarrow> hs_status resp = 401 \<and> w_db t = w_db s)
    \<and> (\<forall>p. authenticated pf (as_settings a) (ctx_of rq []) (request_time s) p
            \<and> \<not> set perms \<subseteq> pr_permissions p
          \<longrightarrow> hs_status resp = 403 \<and> w_db t = w_db s)"
proof -
  obtain u x rid where u: "w_db u = w_db s" "request_time u = request_time s"
    "api_step pf a (ctx_of rq rid) (hq_call rq) u = (x, t)"
    "hs_status resp = (case x of Inl e \<Rightarrow> fst (render_exception e) | Inr r \<Rightarrow> success_status (hq_call rq))"
    by (rule request_runs [OF assms(1)])
  note ctx = ctx_any_id [where rq = rq and rid = rid]
  note answer = refusal_answered [OF u(3)]
  show ?thesis
  proof (intro conjI impI allI)
    assume none: "\<forall>token claims. extract_token (ctx_of rq []) = Inr token \<longrightarrow>
      decode_token (au_jwt (pf_auth pf)) (as_settings a) (Some ACCESS) token (request_time s) \<noteq> Inr claims"
    then obtain e v where "admit pf (as_settings a) (ctx_of rq rid) (hq_call rq) u = (Inl (AppExn e), v)"
      "exn_is AuthenticationError e"
      using bad_token_refused [OF assms(2), of "ctx_of rq rid" pf "as_settings a" u] u(2)
      unfolding ctx by auto
    from answer [OF this] u(1,4) show "hs_status resp = 401" "w_db t = w_db s" by (simp_all add: status_code_def)
  next
    fix p
    assume "authenticated pf (as_settings a) (ctx_of rq []) (request_time s) p
      \<and> \<not> set perms \<subseteq> pr_permissions p"
    then obtain e v where "admit pf (as_settings a) (ctx_of rq rid) (hq_call rq) u = (Inl (AppExn e), v)"
      "exn_is AuthorizationError e"
      using admit_forbidden [OF assms(2), of pf "as_settings a" "ctx_of rq rid" u p] u(2) ctx(2)
      by (auto simp: request_time_def)
    from answer [OF this] u(1,4) show "hs_status resp = 403" "w_db t = w_db s" by (simp_all add: status_code_def)
  qed
qed

definition anonymous_request :: "api_call \<Rightarrow> http_request" where
  "anonymous_request c = \<lparr> hq_authorization = None, hq_cookies = [], hq_request_id = None, hq_call = c \<rparr>"

lemma refused_witness:
  "\<exists>resp t. handle_request sample_platform sample_app (anonymous_request (ApproveWorkflow 11 None))
      (w_at 0 0 0 waiting_db) = (resp, t) \<and> hs_status resp = 401 \<and> w_db t = waiting_db"
proof -
  let ?rq = "anonymous_request (ApproveWorkflow 11 None)"
  obtain resp t where r: "handle_request sample_platform sample_app ?rq (w_at 0 0 0 waiting_db) = (resp, t)"
    by fastforce
  have "extract_token (ctx_of ?rq []) \<noteq> Inr token" for token
    by (simp add: extract_token_def ctx_of_def anonymous_request_def Let_def starts_with_def bearer_prefix_def)
  with refused_requests [OF r] r show ?thesis by (simp add: anonymous_request_def)
qed

lemma api_step_error:
  "api_step pf a hc c s = (Inl x, t) \<Longrightarrow> (\<exists>e. x = AppExn e) \<or> (\<exists>errs. x = RequestValidation errs)"
  by (auto simp: api_step_def in_transaction_def admit_def bindE_def app_action_def ret_def throw_def
      split: prod.splits sum.splits option.splits if_splits)

lemma error_status: "400 \<le> fst (render_exception (AppExn e))" "fst (render_exception (RequestValidation errs)) = 422"
proof -
  have "400 \<le> status_code c" for c by (cases c) (simp_all add: status_code_def)
  then show "400 \<le> fst (render_exception (AppExn e))"
    by (cases e) (auto simp: render_exception_def app_error_handler_def unhandled_handler_def)
qed (simp add: render_exception_def validation_handler_def)



text \<open>
  C13: whatever requests come, in whatever order and whoever sends them, the invariant of the cases
  holds after them, and the audit trail has only grown at its end.
\<close>
theorem sessions_keep_cases_and_trail:
  assumes "api_run pf a s t" "quiet_router (as_router a)" "cases_ok (w_db s)"
  shows "cases_ok (w_db t) \<and> prefix (log_of s) (log_of t)"
  by (rule api_run_keeps [OF assms])

lemma sessions_witness:
  "\<exists>t. api_run sample_platform sample_app (w_at 0 0 0 waiting_db) t
     \<and> t = snd (handle_request sample_platform sample_app
         (request_as [role_value MANAGER] (ApproveWorkflow 11 None)) (w_at 0 0 0 waiting_db))
     \<and> cases_ok (w_db t)"
proof -
  have "api_run sample_platform sample_app (w_at 0 0 0 waiting_db)
     (snd (handle_request sample_platform sample_app
         (request_as [role_value MANAGER] (ApproveWorkflow 11 None)) (w_at 0 0 0 waiting_db)))"
    by (rule api_run.more [OF api_run.none refl])
  moreover from sessions_keep_cases_and_trail [OF this] have "cases_ok (w_db (snd (handle_request
      sample_platform sample_app (request_as [role_value MANAGER] (ApproveWorkflow 11 None))
      (w_at 0 0 0 waiting_db))))"
    by (simp add: echo_router_quiet waiting_cases_ok)
  ultimately show ?thesis by blast
qed

section \<open>The audit trail\<close>

text \<open>The action an endpoint leaves in the trail.\<close>

fun write_actions :: "api_call \<Rightarrow> string list" where
  "write_actions (UploadDocument f) = [''document.uploaded'']"
| "write_actions (StartWorkflow ty d r) =
     [''workflow.completed'', ''workflow.awaiting_approval'', ''workflow.failed'']"
| "write_actions (ApproveWorkflow i r) = [''workflow.approved'']"
| "write_actions (RejectWorkflow i r) = [''workflow.rejected'']"
| "write_actions (EscalateWorkflow i r) = [''workflow.escalated'']"
| "write_actions c = []"

lemma started_action:
  assumes "start_workflow sv ty input creator req s = (Inr v, t)" "quiet_executor (sv_executor sv)"
    and "db_ok (w_db s)"
  obtains act rows and w :: workflow_row where "log_of t = log_of s @ rows" "audit_entries sv act (wf_id w) creator rows"
    "act \<in> set (write_actions (StartWorkflow ty input ref))"
proof -
  obtain w runs aps rows act where w: "w_db t = (w_db s)\<lparr>db_workflows := db_workflows (w_db s) @ [w],
       db_agent_runs := db_agent_runs (w_db s) @ runs, db_approvals := db_approvals (w_db s) @ aps,
       db_audit_logs := db_audit_logs (w_db s) @ rows\<rparr>" "start_outcome ty w runs aps act"
    "audit_entries sv act (wf_id w) creator rows"
    by (rule start_effect [OF assms])
  have "act \<in> set (write_actions (StartWorkflow ty input ref))"
    using w(2) by (cases rule: start_outcome.cases) simp_all
  with w show thesis by (intro that [of rows act w]) (simp_all add: log_of_def)
qed

lemma respond_logged:
  assumes "respond pf a hc c p s = (Inr r, t)" "\<not> reads_only c" "quiet_router (as_router a)"
    and "db_ok (w_db s)"
  obtains (logged) i row where "caller_id p = Inr i" "log_of t = log_of s @ [row]" "al_actor_id row = Some i"
    "al_action row \<in> set (write_actions c)"
proof (cases "\<exists>f. c = UploadDocument f")
  case True
  then obtain f out where c: "c = UploadDocument f" and "upload_document a hc f p s = (Inr out, t)"
    using assms(1) by (auto simp: giving_Inr)
  from upload_Inr [OF this(2)] obtain i up d u rr where
    "caller_id p = Inr i" "ingest (as_storage_root a) (as_dims a) up s = (Inr d, u)"
    "record_audit (upload_event p i hc d) u = (Inr rr, t)" by metis
  with uploaded_tables(2,3) [OF this(2,3)] show thesis
    by (intro logged [of i rr]) (simp_all add: c records_event_def upload_event_def)
next
  case False
  let ?sv = "workflow_service (pf_libs pf) a"
  obtain i where i: "caller_id p = Inr i" "write_effect ?sv c i s t" by (rule respond_writes [OF assms(1,2)])
  have quiet: "quiet_executor (sv_executor ?sv)"
    using assms(3) by (simp add: quiet_executor_def workflow_service_def)
  have one: thesis if e: "log_of t = log_of s @ rows" "audit_entries ?sv act w (Some i) rows"
    "act \<in> set (write_actions c)" for act w rows
  proof -
    obtain row where "rows = [row]" "al_action row = act" "al_actor_id row = Some i"
      using e(2) by (auto simp: audit_entries_def workflow_service_def)
    with e(1,3) i(1) show thesis by (intro logged [of i row]) simp_all
  qed
  have dec: thesis if d: "decide ?sv w target dec kind i reason req s = (Inr v, t)"
    "''workflow.'' @ approval_decision_value dec \<in> set (write_actions c)" for w target dec kind reason req v
    by (rule decided_log [OF d(1) assms(4)]) (rule one [OF _ _ d(2)])
  from i(2) False show thesis
  proof (cases rule: write_effect.cases)
    case (started ty input req v ref)
    show thesis
      by (rule started_action [OF started(2) quiet assms(4)]) (rule one, simp_all only: started(1))
  qed (auto intro: dec)
qed

section \<open>A manager approves\<close>

text \<open>The waiting case, whose approval asks for the given permission.\<close>

definition waiting_on :: "string \<Rightarrow> db" where
  "waiting_on perm = waiting_db\<lparr>db_approvals := [waiting_approval\<lparr>ap_required_permission := perm\<rparr>]\<rparr>"

lemma waiting_on_simps [simp]:
  "db_workflows (waiting_on perm) = [waiting_case]" "db_agent_runs (waiting_on perm) = []"
  "db_approvals (waiting_on perm) = [waiting_approval\<lparr>ap_required_permission := perm\<rparr>]"
  "db_tasks (waiting_on perm) = []" "db_audit_logs (waiting_on perm) = []"
  by (simp_all add: waiting_on_def waiting_db_def empty_db_def)

lemma approved_rows:
  "waiting_case\<lparr>wf_status := workflow_status_value WS_COMPLETED\<rparr> \<noteq> waiting_case"
  "decided_approval AD_APPROVED k i reason (waiting_approval\<lparr>ap_required_permission := perm\<rparr>)
     \<noteq> waiting_approval\<lparr>ap_required_permission := perm\<rparr>"
  by (auto simp: decided_approval_def dest: arg_cong [where f = wf_status] arg_cong [where f = ap_decision])

lemma decided_sel:
  "ap_id (decided_approval dec k i reason a) = ap_id a"
  "ap_workflow_id (decided_approval dec k i reason a) = ap_workflow_id a"
  "ap_required_permission (decided_approval dec k i reason a) = ap_required_permission a"
  "ap_decision (decided_approval dec k i reason a) = approval_decision_value dec"
  "ap_decided_by (decided_approval dec k i reason a) = Some i"
  by (simp_all add: decided_approval_def)

lemma approved_detail:
  "\<exists>out. workflow_detail_of \<lparr> wv_workflow = waiting_case\<lparr>wf_status := workflow_status_value WS_COMPLETED,
     wf_updated_at := n\<rparr>, wv_agent_runs = [], wv_approvals = as, wv_tasks = [] \<rparr> = Inr out"
proof -
  have "as_member workflow_type_value (workflow_type_value KYC) = Inr KYC"
    "as_member workflow_status_value (workflow_status_value WS_COMPLETED) = Inr WS_COMPLETED"
    by (simp_all only: as_member_def workflow_type.parse_val workflow_status.parse_val option.case)
  then show ?thesis
    by (simp add: workflow_detail_of_def workflow_out_of_def bind_res_def map_right_def
        del: workflow_status_value.simps workflow_type_value.simps)
qed

lemma manager_decides:
  "\<exists>d t. decide (workflow_service lb a) 11 WS_APPROVED AD_APPROVED AK_APPROVAL i None req
      (w_at u c p (waiting_on perm)) = (Inr d, t)
    \<and> (\<exists>out. workflow_detail_of d = Inr out)
    \<and> (\<exists>ap. db_approvals (w_db t) = [ap] \<and> ap_required_permission ap = perm
         \<and> decided AD_APPROVED ap \<and> ap_decided_by ap = Some i)"
proof -
  let ?v = "view_of (waiting_on perm) waiting_case"
  have "enum_parse workflow_status_value (wf_status (wv_workflow ?v)) = Some WS_AWAITING_APPROVAL"
    using workflow_status.parse_val [of WS_AWAITING_APPROVAL] by (simp add: view_of_def)
  moreover have "WS_AWAITING_APPROVAL \<in> set DECIDABLE" by (simp add: DECIDABLE_def)
  moreover have "pending_approval ?v = Some (waiting_approval\<lparr>ap_required_permission := perm\<rparr>)"
    by (simp add: pending_approval_def view_of_def)
  moreover have "get_workflow 11 (w_at u c p (waiting_on perm)) = (Inr ?v, w_at u c p (waiting_on perm))"
    by (simp add: get_workflow_def reload_def find_workflow_def)
  ultimately show ?thesis
    unfolding decide_def bindE_def
    by (simp add: settle_approval_def update_workflow_def update_approval_def Let_def thenE_def bindE_def
        maybe_audit_def record_audit_def insert_audit_log_def reload_def find_workflow_def view_of_def
        workflow_service_def ret_def final_status_def approved_rows approved_detail
        decided_def decided_sel del: workflow_status_value.simps)
qed

lemma session_clock: "request_time (w_at u c p d) = session_start + 1000000 * int c"
  by (simp add: request_time_def session_start_def w_at_def)

lemma manager_caller: "caller_id (principal_of sample_user rs jti) = Inr (us_id sample_user)"
  by (simp add: caller_id_def principal_of_def uuid_roundtrip)

lemma manager_approves:
  "\<exists>resp t r. handle_request sample_platform sample_app (request_as [role_value MANAGER] (ApproveWorkflow 11 None))
      (w_at 20 0 0 (waiting_on perm)) = (resp, t)
    \<and> hs_status resp = 200 \<and> hs_body resp = Inr r
    \<and> (\<exists>ap. db_approvals (w_db t) = [ap] \<and> ap_required_permission ap = perm
         \<and> decided AD_APPROVED ap \<and> ap_decided_by ap = Some (us_id sample_user))"
proof -
  let ?c = "ApproveWorkflow 11 None"
  let ?rq = "request_as [role_value MANAGER] ?c"
  let ?s = "w_at 20 0 0 (waiting_on perm)"
  let ?p = "principal_of sample_user [role_value MANAGER] ''jti''"
  have "authenticated sample_platform default_settings (ctx_of ?rq ''r1'') (request_time ?s) ?p"
    by (rule session_authenticated) (simp_all add: session_clock session_start_def)
  moreover have "permission_value WORKFLOW_APPROVE \<in> pr_permissions ?p"
    unfolding principal_of_def principal.select_convs permissions_for_roles_iff
    by (intro exI [where x = MANAGER]) simp
  ultimately have "require_permissions sample_platform default_settings (ctx_of ?rq ''r1'')
      [permission_value WORKFLOW_APPROVE] ?s = (Inr ?p, snd (utc_now ?s))"
    by (simp only: require_permissions_Inr request_time_def) simp
  then have adm: "admit sample_platform default_settings (ctx_of ?rq ''r1'') ?c ?s
      = (Inr ?p, w_at 20 1 0 (waiting_on perm))"
    by (simp add: admit_def bindE_def app_action_def ret_def short_text_def)
  obtain d t out where d: "decide (workflow_service sample_libs sample_app) 11 WS_APPROVED AD_APPROVED
      AK_APPROVAL (us_id sample_user) None (Some ''r1'') (w_at 20 1 0 (waiting_on perm)) = (Inr d, t)"
    "workflow_detail_of d = Inr out" "\<exists>ap. db_approvals (w_db t) = [ap] \<and> ap_required_permission ap = perm
         \<and> decided AD_APPROVED ap \<and> ap_decided_by ap = Some (us_id sample_user)"
    using manager_decides by blast
  have "respond sample_platform sample_app (ctx_of ?rq ''r1'') ?c ?p (w_at 20 1 0 (waiting_on perm))
      = (Inr (OneWorkflow out), t)"
    using d(1,2) by (simp add: giving_def decision_endpoint_def bindE_def liftE_def manager_caller
        approve_workflow_def ret_def sample_platform_def ctx_of_def)
  with adm have "api_step sample_platform sample_app (ctx_of ?rq ''r1'') ?c ?s = (Inr (OneWorkflow out), t)"
    by (simp add: api_step_def in_transaction_def bindE_def app_action_def)
  then have "handle_request sample_platform sample_app ?rq ?s = (\<lparr> hs_status = 200,
      hs_body = Inr (OneWorkflow out), hs_request_id = Some ''r1'', hs_cookies = [] \<rparr>, t)"
    by (simp add: handle_request_def request_id_of_def request_as_def ctx_of_def ret_def)
  with d(3) show ?thesis by simp
qed

section \<open>Writes and their authors\<close>

text \<open>
  C11: every request that changes something appends exactly one entry to the audit trail, with the
  action of its endpoint and the caller its token names as the actor.
\<close>
theorem successful_write_audited:
  assumes "handle_request pf a rq s = (resp, t)" "hs_body resp = Inr r" "\<not> reads_only (hq_call rq)"
    and "quiet_router (as_router a)" "cases_ok (w_db s)"
  shows "\<exists>p i row. authenticated pf (as_settings a) (ctx_of rq []) (request_time s) p
    \<and> caller_id p = Inr i \<and> log_of t = log_of s @ [row] \<and> al_actor_id row = Some i
    \<and> al_action row \<in> set (write_actions (hq_call rq))"
proof -
  obtain u x rid where u: "w_db u = w_db s" "request_time u = request_time s"
    "api_step pf a (ctx_of rq rid) (hq_call rq) u = (x, t)"
    "hs_body resp = (case x of Inl e \<Rightarrow> Inl (snd (render_exception e)) | Inr r \<Rightarrow> Inr r)"
    by (rule request_runs [OF assms(1)])
  have "x = Inr r" using u(4) assms(2) by (rule body_Inr)
  with u(3) obtain p v where v: "admit pf (as_settings a) (ctx_of rq rid) (hq_call rq) u = (Inr p, v)"
    "w_db v = w_db u" "respond pf a (ctx_of rq rid) (hq_call rq) p v = (Inr r, t)"
    by (auto elim: api_step_Inr)
  obtain perms where "needs (hq_call rq) = Some perms" using assms(3) by (cases "hq_call rq") simp_all
  from admit_Inr(1) [OF v(1) this] u(2)
  have p: "authenticated pf (as_settings a) (ctx_of rq []) (request_time s) p"
    by (simp add: ctx_any_id(2) [where rid = rid] request_time_def)
  have "db_ok (w_db v)" "log_of v = log_of s" using assms(5) u(1) v(2) by (simp_all add: cases_ok_def log_of_def)
  from respond_logged [OF v(3) assms(3,4) this(1)] this(2) p show ?thesis by metis
qed

lemma waiting_on_same: "waiting_on (ap_required_permission waiting_approval) = waiting_db"
  by (simp add: waiting_on_def waiting_db_def)

lemma successful_write_witness:
  "\<exists>resp t row. handle_request sample_platform sample_app (request_as [role_value MANAGER] (ApproveWorkflow 11 None))
      (w_at 20 0 0 waiting_db) = (resp, t)
    \<and> log_of t = [row] \<and> al_actor_id row \<noteq> None \<and> al_action row = ''workflow.approved''"
proof -
  obtain resp t r where r: "handle_request sample_platform sample_app
      (request_as [role_value MANAGER] (ApproveWorkflow 11 None)) (w_at 20 0 0 waiting_db) = (resp, t)"
    "hs_body resp = Inr r"
    using manager_approves [of "ap_required_permission waiting_approval"] unfolding waiting_on_same by blast
  from successful_write_audited [OF r] r show ?thesis
    by (fastforce simp: request_as_def echo_router_quiet waiting_cases_ok log_of_def)
qed

text \<open>
  C30: the permission an approval asks for is never checked. A manager holds neither the KYC nor the
  fraud review permission, yet approves a waiting case whatever permission its approval requires.
\<close>
theorem required_permission_not_enforced:
  "permission_value KYC_REVIEW \<notin> permissions_for_roles [role_value MANAGER]
   \<and> permission_value FRAUD_REVIEW_PERM \<notin> permissions_for_roles [role_value MANAGER]
   \<and> (\<exists>resp t ap. handle_request sample_platform sample_app
          (request_as [role_value MANAGER] (ApproveWorkflow 11 None)) (w_at 20 0 0 (waiting_on perm)) = (resp, t)
        \<and> hs_status resp = 200 \<and> db_approvals (w_db t) = [ap] \<and> ap_required_permission ap = perm
        \<and> decided AD_APPROVED ap)"
proof -
  have "permission_value q \<notin> permissions_for_roles [role_value MANAGER]"
    if "q \<notin> permissions_of MANAGER" for q
    using that by (auto simp only: permissions_for_roles_iff list.set role.val_eq_iff)
  then have "permission_value KYC_REVIEW \<notin> permissions_for_roles [role_value MANAGER]"
    "permission_value FRAUD_REVIEW_PERM \<notin> permissions_for_roles [role_value MANAGER]"
    by (simp_all add: read_only_def del: role_value.simps permission_value.simps)
  with manager_approves [of perm] show ?thesis by blast
qed

text \<open>
  The permissions of a caller are those of the roles the token names, and unknown role names
  give none; the roles that may approve a case are the administrator, the manager, the compliance
  officer and the risk analyst, and only the administrator may manage the platform.
\<close>
lemma role_permissions_exact:
  "(permission_value q \<in> permissions_for_roles rs \<longleftrightarrow> (\<exists>r. role_value r \<in> set rs \<and> q \<in> permissions_of r))
   \<and> (set rs \<inter> range role_value = {} \<longrightarrow> permissions_for_roles rs = {})
   \<and> {r. WORKFLOW_APPROVE \<in> permissions_of r} = {SYSTEM_ADMIN, MANAGER, COMPLIANCE_OFFICER, RISK_ANALYST}
   \<and> {r. ADMIN_MANAGE \<in> permissions_of r} = {SYSTEM_ADMIN}"
proof -
  have "WORKFLOW_APPROVE \<in> permissions_of r \<longleftrightarrow> r \<in> {SYSTEM_ADMIN, MANAGER, COMPLIANCE_OFFICER, RISK_ANALYST}"
    "ADMIN_MANAGE \<in> permissions_of r \<longleftrightarrow> r = SYSTEM_ADMIN" for r
    by (cases r; simp add: enum_permission_def read_only_def)+
  moreover have "permissions_for_roles rs = {}" if none: "set rs \<inter> range role_value = {}"
  proof -
    have "role_grants raw = {}" if "raw \<in> set rs" for raw
      using that none role_grants_iff [of _ raw] by blast
    then show ?thesis by (simp add: permissions_for_roles_eq)
  qed
  ultimately show ?thesis unfolding permissions_for_roles_iff by blast
qed

end
