(* ===== verification/StoredRows.thy ===== *)
theory StoredRows
  imports ApiFacts
begin

text \<open>
  What holds of the stored rows whatever requests come: columns that hold enumeration members hold
  one, and every reference from a row to another resolves. It follows that a stored row always has
  its public schema, and that what a request answered is what a later one reads.
\<close>

section \<open>Well-typed tables\<close>

definition member_of :: "('e :: enum \<Rightarrow> string) \<Rightarrow> string \<Rightarrow> bool" where
  "member_of val raw \<longleftrightarrow> enum_parse val raw \<noteq> None"

definition workflow_typed :: "workflow_row \<Rightarrow> bool" where
  "workflow_typed w \<longleftrightarrow> member_of workflow_type_value (wf_type w)
     \<and> member_of workflow_status_value (wf_status w)"

definition approval_typed :: "approval_row \<Rightarrow> bool" where
  "approval_typed a \<longleftrightarrow> member_of approval_kind_value (ap_kind a)
     \<and> member_of approval_decision_value (ap_decision a)"

definition document_typed :: "document_row \<Rightarrow> bool" where
  "document_typed d \<longleftrightarrow> do_sha256 d \<noteq> None \<and> member_of document_status_value (do_status d)"

definition rows_typed :: "db \<Rightarrow> bool" where
  "rows_typed d \<longleftrightarrow> (\<forall>w \<in> set (db_workflows d). workflow_typed w)
     \<and> (\<forall>r \<in> set (db_agent_runs d). member_of agent_run_status_value (ag_status r))
     \<and> (\<forall>a \<in> set (db_approvals d). approval_typed a)
     \<and> (\<forall>k \<in> set (db_tasks d). member_of task_state_value (tk_state k))
     \<and> (\<forall>x \<in> set (db_documents d). document_typed x)"

definition refs_resolve :: "db \<Rightarrow> bool" where
  "refs_resolve d \<longleftrightarrow>
     (\<forall>r \<in> set (db_agent_runs d). ag_workflow_id r \<in> insert None (Some ` wf_id ` set (db_workflows d)))
     \<and> (\<forall>a \<in> set (db_approvals d). ap_workflow_id a \<in> wf_id ` set (db_workflows d))
     \<and> (\<forall>k \<in> set (db_tasks d). tk_workflow_id k \<in> wf_id ` set (db_workflows d))
     \<and> (\<forall>c \<in> set (db_chunks d). ch_document_id c \<in> do_id ` set (db_documents d))
     \<and> (\<forall>e \<in> set (db_embeddings d). em_chunk_id e \<in> ch_id ` set (db_chunks d))"

definition tables_ok :: "db \<Rightarrow> bool" where
  "tables_ok d \<longleftrightarrow> rows_typed d \<and> refs_resolve d"

lemma member_of_val [simp]:
  "member_of workflow_type_value (workflow_type_value a)"
  "member_of workflow_status_value (workflow_status_value b)"
  "member_of agent_run_status_value (agent_run_status_value c)"
  "member_of approval_kind_value (approval_kind_value k)"
  "member_of approval_decision_value (approval_decision_value e)"
  "member_of document_status_value (document_status_value f)"
  by (simp_all only: member_of_def workflow_type.parse_val workflow_status.parse_val
      agent_run_status.parse_val approval_kind.parse_val approval_decision.parse_val
      document_status.parse_val option.distinct not_False_eq_True)

declare workflow_type_value.simps [simp del] workflow_status_value.simps [simp del]
  agent_run_status_value.simps [simp del] approval_kind_value.simps [simp del]
  approval_decision_value.simps [simp del] document_status_value.simps [simp del]

section \<open>A stored row has its schema\<close>

lemma as_member_of: "member_of val raw \<Longrightarrow> \<exists>x. as_member val raw = Inr x"
  by (auto simp: member_of_def as_member_def)

lemma run_shown: "member_of agent_run_status_value (ag_status r) \<Longrightarrow> \<exists>x. agent_run_out_of r = Inr x"
  by (auto simp: agent_run_out_of_def map_right_Inr dest!: as_member_of)

lemma task_shown: "member_of task_state_value (tk_state k) \<Longrightarrow> \<exists>x. task_out_of k = Inr x"
  by (auto simp: task_out_of_def map_right_Inr dest!: as_member_of)

lemma workflow_shown: "workflow_typed w \<Longrightarrow> \<exists>x. workflow_out_of w = Inr x"
  by (auto simp: workflow_typed_def workflow_out_of_def res_Inr dest!: as_member_of)

lemma document_shown: "document_typed d \<Longrightarrow> \<exists>x. document_out_of d = Inr x"
  by (auto simp: document_typed_def document_out_of_def res_Inr dest!: as_member_of)

lemma view_shown:
  assumes "rows_typed d" "w \<in> set (db_workflows d)"
  shows "\<exists>x. workflow_detail_of (view_of d w) = Inr x"
proof -
  have "\<exists>y. agent_run_out_of r = Inr y" if "r \<in> set (wv_agent_runs (view_of d w))" for r
    using assms(1) that run_shown by (auto simp: rows_typed_def view_of_def)
  then obtain runs where runs: "map_res agent_run_out_of (wv_agent_runs (view_of d w)) = Inr runs"
    using map_res_total [of "wv_agent_runs (view_of d w)" agent_run_out_of] by blast
  have "\<exists>y. task_out_of k = Inr y" if "k \<in> set (wv_tasks (view_of d w))" for k
    using assms(1) that task_shown by (auto simp: rows_typed_def view_of_def)
  then obtain tasks where tasks: "map_res task_out_of (wv_tasks (view_of d w)) = Inr tasks"
    using map_res_total [of "wv_tasks (view_of d w)" task_out_of] by blast
  have "\<exists>x. workflow_out_of (wv_workflow (view_of d w)) = Inr x"
    using assms workflow_shown by (simp add: rows_typed_def view_of_def)
  with runs tasks show ?thesis by (auto simp: workflow_detail_of_def res_Inr)
qed

section \<open>Writes keep the tables\<close>

lemma uploaded_tables_ok:
  assumes "ingest base dims up s = (Inr d, u)" "record_audit ev u = (Inr r, t)" "tables_ok (w_db s)"
  shows "tables_ok (w_db t)"
proof -
  obtain chs ems where u: "w_db u = (w_db s)\<lparr>db_documents := db_documents (w_db s) @ [d],
       db_chunks := db_chunks (w_db s) @ chs, db_embeddings := db_embeddings (w_db s) @ ems\<rparr>"
    and chs: "chunk_rows_ok d 0 (default_chunks (upload_text up)) chs"
    and ems: "list_all2 (embedding_of dims) chs ems"
    and st: "do_status d = document_status_value
       (if default_chunks (upload_text up) \<noteq> [] then DS_PROCESSED else DS_NEEDS_REVIEW)"
      "do_sha256 d \<noteq> None"
    by (rule ingest_run [OF assms(1)])
  have "em_chunk_id e \<in> ch_id ` set chs" if "e \<in> set ems" for e
    using ems that by (induction rule: list_all2_induct) (auto simp: embedding_of_def)
  moreover have "ch_document_id c = do_id d" if "c \<in> set chs" for c
    using chs that by (simp add: chunk_rows_ok_def)
  moreover have "document_typed d" using st by (simp add: document_typed_def)
  ultimately show ?thesis
    using assms(3) record_audit_Inr(1) [OF assms(2)] unfolding tables_ok_def rows_typed_def refs_resolve_def
    by (auto simp: u image_Un)
qed

lemma runs_typed:
  "steps_trace w steps results flagged rs en \<Longrightarrow>
     \<forall>r \<in> set rs. ag_workflow_id r = Some w \<and> member_of agent_run_status_value (ag_status r)"
  by (induction rule: steps_trace.induct) (auto simp: run_records_def)

lemma start_outcome_typed:
  assumes "start_outcome ty w runs aps act"
  shows "member_of workflow_status_value (wf_status w)"
    "\<forall>r \<in> set runs. ag_workflow_id r = Some (wf_id w) \<and> member_of agent_run_status_value (ag_status r)"
    "\<forall>a \<in> set aps. approval_typed a \<and> ap_workflow_id a = wf_id w"
proof -
  show "member_of workflow_status_value (wf_status w)"
    "\<forall>a \<in> set aps. approval_typed a \<and> ap_workflow_id a = wf_id w"
    using assms by (cases rule: start_outcome.cases; simp add: approval_typed_def is_pending_def)+
  obtain en where "steps_trace (wf_id w) (map ps_agent (wp_steps (plan_of ty))) [] False runs en"
    using assms by (cases rule: start_outcome.cases) blast+
  then show "\<forall>r \<in> set runs. ag_workflow_id r = Some (wf_id w) \<and> member_of agent_run_status_value (ag_status r)"
    by (rule runs_typed)
qed

lemma started_tables_ok:
  assumes "start_workflow sv ty input creator req s = (Inr v, t)" "quiet_executor (sv_executor sv)"
    and "db_ok (w_db s)" "tables_ok (w_db s)"
  shows "tables_ok (w_db t)"
proof -
  obtain w runs aps rows act where e:
    "w_db t = (w_db s)\<lparr>db_workflows := db_workflows (w_db s) @ [w],
       db_agent_runs := db_agent_runs (w_db s) @ runs, db_approvals := db_approvals (w_db s) @ aps,
       db_audit_logs := db_audit_logs (w_db s) @ rows\<rparr>"
    "start_outcome ty w runs aps act" "wf_type w = workflow_type_value ty"
    by (rule start_effect [OF assms(1-3)])
  note new = start_outcome_typed [OF e(2)]
  have "workflow_typed w" using new(1) e(3) by (simp add: workflow_typed_def)
  with new(2,3) assms(4) show ?thesis
    unfolding tables_ok_def rows_typed_def refs_resolve_def by (auto simp: e(1))
qed

lemma settles_typed:
  assumes "settles dec kind actor reason i as bs" "\<forall>a \<in> set as. approval_typed a" "b \<in> set bs"
  shows "approval_typed b \<and> ap_workflow_id b \<in> insert i (ap_workflow_id ` set as)"
  using assms(1)
proof cases
  case (answered a a')
  with assms(2,3) show ?thesis
    by (auto simp: decision_of_def same_request_def approval_typed_def dest!: find_SomeD split: if_splits)
next
  case (added a')
  with assms(2,3) show ?thesis by (auto simp: decision_of_def approval_typed_def)
qed

lemma decided_tables_ok:
  assumes "decide sv i target dec kind actor reason req s = (Inr v, t)" "db_ok (w_db s)" "tables_ok (w_db s)"
  shows "tables_ok (w_db t)"
proof -
  obtain w w' bs rows where d: "find_workflow i (w_db s) = Some w" "same_case w w'"
    "wf_status w' = workflow_status_value (final_status target)"
    "w_db t = (w_db s)\<lparr>db_workflows := map (\<lambda>x. if wf_id x = i then w' else x) (db_workflows (w_db s)),
       db_approvals := bs, db_audit_logs := db_audit_logs (w_db s) @ rows\<rparr>"
    "settles dec kind actor reason i (db_approvals (w_db s)) bs"
    by (rule decide_effect [OF assms(1,2)])
  note w = find_workflow_Some [OF d(1)]
  have typed: "workflow_typed w'"
    using w assms(3) d(2,3) by (simp add: tables_ok_def rows_typed_def workflow_typed_def same_case_def)
  have id': "wf_id w' = i" using d(2) w by (simp add: same_case_def)
  then have "map wf_id (db_workflows (w_db t)) = map wf_id (db_workflows (w_db s))" by (simp add: d(4))
  from arg_cong [OF this, of set] have ids: "wf_id ` set (db_workflows (w_db t)) = wf_id ` set (db_workflows (w_db s))"
    by (simp only: set_map)
  have "i \<in> wf_id ` set (db_workflows (w_db s))" using w by auto
  then have "approval_typed b \<and> ap_workflow_id b \<in> wf_id ` set (db_workflows (w_db s))" if "b \<in> set bs" for b
    using settles_typed [OF d(5) _ that] assms(3)
    by (auto simp: tables_ok_def rows_typed_def refs_resolve_def)
  with typed assms(3) show ?thesis
    unfolding tables_ok_def refs_resolve_def ids by (auto simp: rows_typed_def d(4))
qed

lemma write_keeps_tables:
  assumes "write_effect sv c i s t" "quiet_executor (sv_executor sv)" "db_ok (w_db s)" "tables_ok (w_db s)"
  shows "tables_ok (w_db t)"
  using assms(1)
proof cases
  case (uploaded base dims up d u ev r f)
  show ?thesis by (rule uploaded_tables_ok [OF uploaded(2,3) assms(4)])
next
  case (started ty input req v ref)
  show ?thesis by (rule started_tables_ok [OF started(2) assms(2-4)])
qed (use decided_tables_ok [OF _ assms(3,4)] in auto)

section \<open>Whole sessions\<close>

text \<open>What every writing request keeps, every sequence of requests keeps.\<close>

lemma api_run_invariant:
  assumes "api_run pf a s t" "P (w_db s)"
    and step: "\<And>c i u v. write_effect (workflow_service (pf_libs pf) a) c i u v \<Longrightarrow> P (w_db u) \<Longrightarrow> P (w_db v)"
  shows "P (w_db t)"
  using assms(1)
proof induction
  case none
  show ?case by (rule assms(2))
next
  case (more t rq u)
  obtain resp where "handle_request pf a rq t = (resp, u)" using more.hyps(2) by (metis prod.collapse)
  then obtain v x hc where v: "w_db v = w_db t" "api_step pf a hc (hq_call rq) v = (x, u)"
    by (rule handle_request_step)
  show ?case
  proof (cases "reads_only (hq_call rq) \<or> isl x")
    case True
    then have "w_db u = w_db v"
      using api_step_reads [OF v(2)] v(2) by (cases x) (auto dest: api_step_Inl)
    with more.IH v(1) show ?thesis by simp
  next
    case False
    then obtain r where "x = Inr r" by (cases x) auto
    with v(2) obtain p y where y: "w_db y = w_db v" "respond pf a hc (hq_call rq) p y = (Inr r, u)"
      by (auto elim: api_step_Inr)
    from respond_writes [OF y(2)] False obtain i where
      "write_effect (workflow_service (pf_libs pf) a) (hq_call rq) i y u" by blast
    from step [OF this] y(1) v(1) more.IH show ?thesis by simp
  qed
qed

lemma api_run_tables_ok:
  assumes "api_run pf a s t" "quiet_router (as_router a)" "cases_ok (w_db s)" "tables_ok (w_db s)"
  shows "tables_ok (w_db t)"
proof -
  let ?sv = "workflow_service (pf_libs pf) a"
  have quiet: "quiet_executor (sv_executor ?sv)"
    using assms(2) by (simp add: quiet_executor_def workflow_service_def)
  have "cases_ok (w_db t) \<and> tables_ok (w_db t)"
  proof (rule api_run_invariant [OF assms(1), where P = "\<lambda>d. cases_ok d \<and> tables_ok d"])
    show "cases_ok (w_db v) \<and> tables_ok (w_db v)"
      if "write_effect ?sv c i u v" "cases_ok (w_db u) \<and> tables_ok (w_db u)" for c i u v
      using write_keeps(1) [OF that(1) quiet] write_keeps_tables [OF that(1) quiet] that(2)
      by (simp add: cases_ok_def)
  qed (use assms(3,4) in simp)
  then show ?thesis ..
qed

section \<open>Reading back\<close>

lemma reload_back:
  assumes "reload i u = (Inr v, t)"
  shows "get_workflow (wf_id (wv_workflow v)) t = (Inr v, t)"
proof -
  from reload_Inr [OF assms] obtain w where w: "find_workflow i (w_db t) = Some w" "v = view_of (w_db t) w"
    by auto
  with find_workflow_Some [OF w(1)] have "wf_id (wv_workflow v) = i" by (simp add: view_of_def)
  with w show ?thesis by (simp add: get_workflow_def reload_def)
qed

lemma start_reload:
  assumes "start_workflow sv ty input creator req s = (Inr v, t)"
  shows "get_workflow (wf_id (wv_workflow v)) t = (Inr v, t)"
proof -
  obtain i u where "reload i u = (Inr v, t)"
    using assms unfolding start_workflow_def bindE_Inr thenE_def by blast
  then show ?thesis by (rule reload_back)
qed

lemma decide_reload:
  assumes "decide sv i target dec kind actor reason req s = (Inr v, t)"
  shows "get_workflow (wf_id (wv_workflow v)) t = (Inr v, t)"
proof -
  from assms obtain x y where y:
    "(case enum_parse workflow_status_value (wf_status (wv_workflow x)) of
         None \<Rightarrow> throw (Py ''ValueError'' (wf_status (wv_workflow x)))
       | Some current \<Rightarrow>
           if current \<notin> set DECIDABLE then throw (not_decidable i current)
           else
             bindE (update_workflow ((wv_workflow x)\<lparr>wf_status :=
                 workflow_status_value (final_status target)\<rparr>)) (\<lambda>w'.
             thenE (settle_approval x dec kind actor reason)
             (thenE (maybe_audit sv (''workflow.'' @ approval_decision_value dec) w' (Some actor) req
                [(''reason'', JStr (case reason of None \<Rightarrow> '''' | Some r \<Rightarrow> r))])
             (reload i)))) y = (Inr v, t)" unfolding decide_def bindE_Inr by blast
  obtain cur where "enum_parse workflow_status_value (wf_status (wv_workflow x)) = Some cur"
    "cur \<in> set DECIDABLE" using y by (auto simp: throw_def split: option.splits if_splits)
  with y obtain u where "reload i u = (Inr v, t)" by (auto simp: bindE_Inr thenE_def)
  then show ?thesis by (rule reload_back)
qed

lemma detail_id: "workflow_detail_of v = Inr d \<Longrightarrow> wo_id d = wf_id (wv_workflow v)"
  by (auto simp: workflow_detail_of_def workflow_out_of_def res_Inr workflow_out.defs)

lemma document_out_id: "document_out_of d = Inr x \<Longrightarrow> dc_id x = do_id d"
  by (auto simp: document_out_of_def res_Inr)

lemma get_endpoint_reads:
  "get_workflow (wf_id (wv_workflow v)) t = (Inr v, t) \<Longrightarrow> workflow_detail_of v = Inr d \<Longrightarrow>
     get_endpoint (wo_id d) t = (Inr d, t)"
  by (simp add: get_endpoint_def bindE_def liftE_def detail_id)

lemma upload_reload:
  assumes "upload_document a hc f p s = (Inr out, t)"
  shows "get_document (dc_id out) t = (Inr out, t)"
proof -
  obtain i up d u r where up: "ingest (as_storage_root a) (as_dims a) up s = (Inr d, u)"
    "record_audit (upload_event p i hc d) u = (Inr r, t)" "document_out_of d = Inr out"
    by (rule upload_Inr [OF assms])
  have fresh: "do_id d \<notin> do_id ` set (db_documents (w_db s))"
    and docs: "db_documents (w_db t) = db_documents (w_db s) @ [d]"
    by (rule ingest_run [OF up(1)]; simp add: record_audit_Inr(1) [OF up(2)])+
  have "do_id d \<notin> do_id ` set ds \<Longrightarrow> List.find (\<lambda>x. do_id x = do_id d) (ds @ [d]) = Some d" for ds
    by (induction ds) auto
  with fresh docs up(3) show ?thesis
    by (simp add: get_document_def select_one_def getE_def bindE_def liftE_def document_out_id [OF up(3)])
qed

definition reads_back :: "api_result \<Rightarrow> world \<Rightarrow> bool" where
  "reads_back r t \<longleftrightarrow> (case r of
       OneWorkflow d \<Rightarrow> get_endpoint (wo_id d) t = (Inr d, t)
     | OneDocument d \<Rightarrow> get_document (dc_id d) t = (Inr d, t)
     | _ \<Rightarrow> True)"

lemma decision_reads_back:
  assumes "decision_endpoint act hc i reason p s = (Inr d, t)"
    and "\<And>c req v. act i c reason req s = (Inr v, t) \<Longrightarrow> get_workflow (wf_id (wv_workflow v)) t = (Inr v, t)"
  shows "get_endpoint (wo_id d) t = (Inr d, t)"
  by (rule decision_endpoint_Inr [OF assms(1)]) (rule get_endpoint_reads [OF assms(2)])

lemma start_reads_back:
  "start_endpoint sv hc ty input p s = (Inr d, t) \<Longrightarrow> get_endpoint (wo_id d) t = (Inr d, t)"
  by (erule start_endpoint_Inr) (rule get_endpoint_reads [OF start_reload])

lemma get_reads_back:
  assumes "get_endpoint i s = (Inr d, t)"
  shows "get_endpoint (wo_id d) t = (Inr d, t)"
proof -
  from assms obtain v where v: "reload i s = (Inr v, t)" "workflow_detail_of v = Inr d"
    by (auto simp: get_endpoint_def get_workflow_def bindE_Inr liftE_def)
  show ?thesis by (rule get_endpoint_reads [OF reload_back [OF v(1)] v(2)])
qed

lemma document_reads_back:
  assumes "get_document i s = (Inr out, t)"
  shows "get_document (dc_id out) t = (Inr out, t)"
proof -
  from assms obtain d where d: "List.find (\<lambda>x. do_id x = i) (db_documents (w_db t)) = Some d"
    "document_out_of d = Inr out"
    by (auto simp: get_document_def bindE_Inr select_one_def getE_def liftE_def throw_def split: option.splits)
  have "dc_id out = i" using find_SomeD [OF d(1)] document_out_id [OF d(2)] by simp
  with d show ?thesis by (simp add: get_document_def bindE_def select_one_def getE_def liftE_def)
qed

lemma respond_reads_back:
  assumes "respond pf a hc c p s = (Inr r, t)"
  shows "reads_back r t"
proof -
  have decs: "get_endpoint (wo_id d) t = (Inr d, t)"
    if "decision_endpoint (act sv) hc i reason p s = (Inr d, t)"
      "act \<in> {approve_workflow, reject_workflow, escalate_workflow}" for act sv i reason d
    by (rule decision_reads_back [OF that(1)])
      (use that(2) decide_reload in \<open>auto simp: approve_workflow_def reject_workflow_def escalate_workflow_def\<close>)
  show ?thesis
    using assms decs
    by (cases c) (auto simp: reads_back_def giving_Inr ret_def intro: start_reads_back get_reads_back
        document_reads_back upload_reload)
qed

declare workflow_type_value.simps [simp] workflow_status_value.simps [simp]
  agent_run_status_value.simps [simp] approval_kind_value.simps [simp]
  approval_decision_value.simps [simp] document_status_value.simps [simp]

end
