(* ===== verification/TypeProperties.thy ===== *)
theory TypeProperties
  imports StoredRows ApiProperties
begin

text \<open>
  Properties of what the API stores and shows: its rows stay well typed and well linked, reading a
  stored row never fails, and a later reader sees what a request answered.
\<close>

section \<open>The stored rows\<close>


lemma waiting_tables_ok: "tables_ok waiting_db"
proof -
  have "workflow_typed waiting_case"
    by (simp add: workflow_typed_def waiting_case_def new_workflow_def del: workflow_type_value.simps
        workflow_status_value.simps)
  moreover have "approval_typed waiting_approval"
    by (simp add: approval_typed_def waiting_approval_def new_approval_def del: approval_kind_value.simps
        approval_decision_value.simps)
  ultimately show ?thesis
    by (simp add: tables_ok_def rows_typed_def refs_resolve_def waiting_db_def empty_db_def
        waiting_approval_def new_approval_def waiting_case_def new_workflow_def)
qed


section \<open>Reading\<close>

lemma stored_document_read:
  assumes "rows_typed (w_db s)"
  shows "case List.find (\<lambda>x. do_id x = i) (db_documents (w_db s)) of
      None \<Rightarrow> get_document i s = (Inl (app_err NotFoundError (''Document '' @ uuid_str i @ '' not found.'')), s)
    | Some x \<Rightarrow> \<exists>d. get_document i s = (Inr d, s) \<and> dc_id d = i \<and> dc_size_bytes d = do_size_bytes x"
proof (cases "List.find (\<lambda>x. do_id x = i) (db_documents (w_db s))")
  case None
  then show ?thesis by (simp add: get_document_def bindE_def select_one_def getE_def throw_def)
next
  case (Some x)
  then have x: "x \<in> set (db_documents (w_db s))" "do_id x = i" by (auto dest: find_SomeD)
  with assms have "document_typed x" by (simp add: rows_typed_def)
  then obtain d where d: "document_out_of x = Inr d" using document_shown by blast
  have "dc_id d = i \<and> dc_size_bytes d = do_size_bytes x"
    using x(2) d by (auto simp: document_out_of_def res_Inr)
  with Some d show ?thesis by (simp add: get_document_def bindE_def select_one_def getE_def liftE_def)
qed

lemma stored_case_read:
  assumes "rows_typed (w_db s)"
  shows "case find_workflow i (w_db s) of
      None \<Rightarrow> get_endpoint i s = (Inl (workflow_not_found i), s)
    | Some w \<Rightarrow> \<exists>d. get_endpoint i s = (Inr d, s) \<and> wo_id d = i
        \<and> workflow_status_value (wo_status d) = wf_status w"
proof (cases "find_workflow i (w_db s)")
  case None
  then show ?thesis by (simp add: get_endpoint_def get_workflow_def reload_def bindE_def)
next
  case (Some w)
  note w = find_workflow_Some [OF Some]
  from view_shown [OF assms] w obtain d where d: "workflow_detail_of (view_of (w_db s) w) = Inr d" by blast
  then have "wo_id d = i \<and> workflow_status_value (wo_status d) = wf_status w"
    using w by (auto simp: workflow_detail_of_def workflow_out_of_def res_Inr workflow_out.defs view_of_def
        dest: as_member_Inr simp del: workflow_status_value.simps)
  with Some d show ?thesis
    by (simp add: get_endpoint_def get_workflow_def reload_def bindE_def liftE_def)
qed

lemma queue_read:
  assumes "rows_typed (w_db s)" "page_args_ok n k"
  shows "\<exists>pg. review_endpoint n k s = (Inr pg, s)
    \<and> pn_total (pg_meta pg) = int (length (filter is_queued (db_workflows (w_db s))))"
proof -
  let ?queue = "sort_key wf_created_at (filter is_queued (db_workflows (w_db s)))"
  have "\<exists>y. workflow_out_of w = Inr y" if "w \<in> set (take (nat k) (drop (nat ((n - 1) * k)) ?queue))" for w
  proof -
    have "w \<in> set (db_workflows (w_db s))"
      using that by (auto dest!: in_set_takeD in_set_dropD)
    with assms(1) workflow_shown show ?thesis by (simp add: rows_typed_def)
  qed
  then obtain items where "map_res workflow_out_of (take (nat k) (drop (nat ((n - 1) * k)) ?queue)) = Inr items"
    using map_res_total by metis
  then show ?thesis
    using assms(2) page_build_run [of n k "int (length (filter is_queued (db_workflows (w_db s))))" items]
    by (auto simp: review_endpoint_def review_queue_def bindE_def getE_def liftE_def Let_def page_args_ok_def)
qed

lemma page_built:
  "page_args_ok n k \<Longrightarrow> \<exists>pg. page_build items n k (int m) = Inr pg \<and> pn_total (pg_meta pg) = int m"
  using page_build_run [of n k "int m" items] unfolding page_args_ok_def by auto

lemma runs_read:
  assumes "rows_typed (w_db s)" "page_args_ok n k"
  shows "\<exists>pg. list_agent_runs g n k w s = (Inr pg, s)"
proof -
  define rows where "rows = filter (\<lambda>r. ag_agent_name r = g
         \<and> (case w of None \<Rightarrow> True | Some i \<Rightarrow> ag_workflow_id r = Some i)) (db_agent_runs (w_db s))"
  have "\<exists>y. agent_run_out_of r = Inr y" if "r \<in> set (newest ag_created_at n k rows)" for r
  proof -
    have "r \<in> set (db_agent_runs (w_db s))"
      using that by (auto simp: rows_def newest_def slice_def sort_desc_def dest!: in_set_takeD in_set_dropD)
    with assms(1) run_shown show ?thesis by (simp add: rows_typed_def)
  qed
  then obtain items where "map_res agent_run_out_of (newest ag_created_at n k rows) = Inr items"
    using map_res_total by metis
  moreover obtain pg where "page_build items n k (int (length rows)) = Inr pg"
    using page_built [OF assms(2)] by metis
  ultimately show ?thesis
    unfolding list_agent_runs_def bindE_def getE_def liftE_def rows_def by simp
qed

lemma logs_read:
  assumes "page_args_ok n k"
  shows "\<exists>pg. list_audit_logs n k x y z s = (Inr pg, s)"
  using page_built [OF assms] unfolding list_audit_logs_def bindE_def getE_def liftE_def by fastforce



section \<open>Reading back\<close>



end
