(* ===== verification/AuthProperties.thy ===== *)
theory AuthProperties
  imports ApiSamples
begin

text \<open>
  Properties of authentication: who can log in, what the issued tokens carry and how long they are
  accepted, when a session can be refreshed; and what keeps secrets out of configuration, trail and
  log.
\<close>

section \<open>Logging in\<close>

text \<open>
  C27: logging in succeeds exactly for an active user known by the e-mail whose stored hash was made
  from the password; an active user without a stored hash gets in with the fixed password of the
  timing decoy. Every failure is the same error, whatever its reason.
\<close>
theorem login_exact:
  assumes "pwd_spec (au_pwd lb)"
  shows "fst (authenticate lb email password s) =
    (case List.find (\<lambda>u. us_email u = email) (db_users (w_db s)) of
       None \<Rightarrow> Inl bad_credentials
     | Some u \<Rightarrow>
         if us_is_active u \<and> (case stored_hash (Some u) of
               Some h \<Rightarrow> pwd_verify (au_pwd lb) password h = Some True
             | None \<Rightarrow> password = ''not-a-real-password'')
         then Inr u else Inl bad_credentials)"
proof -
  have "lets_in lb u password \<longleftrightarrow> us_is_active u \<and> (case stored_hash (Some u) of
      Some h \<Rightarrow> pwd_verify (au_pwd lb) password h = Some True
    | None \<Rightarrow> password = ''not-a-real-password'')" for u
    by (auto simp: lets_in_def verify_password_def dummy_password_def split: option.splits)
  then show ?thesis by (simp add: authenticate_run [OF assms] cong: option.case_cong)
qed

text \<open>A directory with one person of external identity, who has no hash.\<close>

definition external_user :: user_row where
  "external_user = sample_user\<lparr>us_hashed_password := None, us_external_subject := Some ''oidc|7''\<rparr>"

lemma login_witness:
  "fst (authenticate sample_auth ''meera@bank.test'' ''not-a-real-password''
     (w_at 0 0 0 (empty_db\<lparr>db_users := [external_user]\<rparr>))) = Inr external_user"
  using login_exact [of sample_auth "''meera@bank.test''" "''not-a-real-password''"
      "w_at 0 0 0 (empty_db\<lparr>db_users := [external_user]\<rparr>)"] sample_pwd_spec
  by (simp add: sample_auth_def external_user_def sample_user_def stored_hash_def)

section \<open>Tokens\<close>

lemma issue_token_foreign:
  assumes "issue_token lb st u rs ty s = (Inr tok, t)" "jwt_spec (au_jwt lb)"
    and "security_jwt_secret st \<noteq> security_jwt_secret st'"
  shows "decode_token (au_jwt lb) st' expected tok now
    = Inl (app_err AuthenticationError ''Invalid authentication token.'')"
  using assms(1) decode_other_key [OF assms(2,3)]
  by (auto simp: issue_token_def bindE_def utc_now_def uuid4_def ret_def)

lemma issue_tokens_Inr:
  assumes "issue_tokens lb st u s = (Inr tp, t)"
  obtains v where "issue_token lb st u (role_names (w_db s) u) ACCESS s = (Inr (tp_access_token tp), v)"
    "issue_token lb st u (role_names (w_db s) u) REFRESH v = (Inr (tp_refresh_token tp), t)"
    "w_db v = w_db s" "en_clock v = en_clock s" "en_clock_pos v = Suc (en_clock_pos s)"
  using assms
  by (auto simp: issue_tokens_def issue_token_def bindE_def getE_def utc_now_def uuid4_def ret_def)

definition token_in :: "token_pair \<Rightarrow> token_type \<Rightarrow> string" where
  "token_in tp ty = (if ty = ACCESS then tp_access_token tp else tp_refresh_token tp)"

text \<open>
  C28: each token of an issued pair stands for the user with the roles held at that time. From its
  issue on it is accepted as a token of its type until its lifetime has passed, then reported as
  expired; it is never accepted as one of the other type, nor under another secret.
\<close>
theorem issued_tokens:
  assumes "issue_tokens lb st u s = (Inr tp, t)" "jwt_spec (au_jwt lb)"
  shows "\<exists>issued jti claims. issued \<in> {en_clock s (en_clock_pos s), en_clock s (Suc (en_clock_pos s))}
    \<and> from_claims claims = Inr (principal_of u (role_names (w_db s) u) jti)
    \<and> (\<forall>now. issued \<le> now \<longrightarrow> decode_token (au_jwt lb) st (Some ty) (token_in tp ty) now =
          (if now < (timestamp issued + token_ttl st ty) * 1000000 then Inr claims
           else Inl (app_err AuthenticationError ''Token has expired.''))
        \<and> (\<forall>other. other \<noteq> ty \<longrightarrow> (\<exists>e. decode_token (au_jwt lb) st (Some other) (token_in tp ty) now = Inl e)))
    \<and> (\<forall>st' expected now. security_jwt_secret st \<noteq> security_jwt_secret st'
        \<longrightarrow> (\<exists>e. decode_token (au_jwt lb) st' expected (token_in tp ty) now = Inl e))"
proof -
  obtain x where x: "issue_token lb st u (role_names (w_db s) u) ACCESS s = (Inr (tp_access_token tp), x)"
    "issue_token lb st u (role_names (w_db s) u) REFRESH x = (Inr (tp_refresh_token tp), t)"
    "en_clock x = en_clock s" "en_clock_pos x = Suc (en_clock_pos s)"
    by (rule issue_tokens_Inr [OF assms(1)])
  define v where "v = (if ty = ACCESS then s else x)"
  define w where "w = (if ty = ACCESS then x else t)"
  have v: "issue_token lb st u (role_names (w_db s) u) ty v = (Inr (token_in tp ty), w)"
    "en_clock v (en_clock_pos v) \<in> {en_clock s (en_clock_pos s), en_clock s (Suc (en_clock_pos s))}"
    using x by (cases ty; simp add: token_in_def v_def w_def)+
  from issue_token_run [OF v(1) assms(2)] obtain issued jti claims where i:
    "en_clock v (en_clock_pos v) = issued"
    "from_claims claims = Inr (principal_of u (role_names (w_db s) u) jti)"
    "\<And>now expected. issued \<le> now \<Longrightarrow> decode_token (au_jwt lb) st expected (token_in tp ty) now =
       (if now < (timestamp issued + token_ttl st ty) * 1000000 then
          if expected = None \<or> expected = Some ty then Inr claims
          else Inl (app_err AuthenticationError
                 (''Expected a '' @ token_type_value (the expected) @ '' token.''))
        else Inl (app_err AuthenticationError ''Token has expired.''))" by metis
  have "issued \<in> {en_clock s (en_clock_pos s), en_clock s (Suc (en_clock_pos s))}" using v(2) i(1) by simp
  with i(2,3) issue_token_foreign [OF v(1) assms(2)] show ?thesis
    by (intro exI [of _ issued] exI [of _ jti] exI [of _ claims]) simp
qed

lemma issued_tokens_witness:
  "\<exists>tp t issued claims. issue_tokens sample_auth default_settings sample_user fresh_world = (Inr tp, t)
     \<and> decode_token sample_jwt default_settings (Some REFRESH) (tp_refresh_token tp) issued = Inr claims"
proof -
  obtain tp t where r: "issue_tokens sample_auth default_settings sample_user fresh_world = (Inr tp, t)"
    by (auto simp: issue_tokens_def issue_token_def bindE_def getE_def ret_def fresh_world_def)
  have lt: "i < (timestamp i + token_ttl default_settings REFRESH) * 1000000" for i
    by (simp add: timestamp_def token_ttl_def default_settings_def)
  from issued_tokens [OF r, of REFRESH] obtain issued claims where
    "decode_token sample_jwt default_settings (Some REFRESH) (token_in tp REFRESH) issued
      = (if issued < (timestamp issued + token_ttl default_settings REFRESH) * 1000000 then Inr claims
         else Inl (app_err AuthenticationError ''Token has expired.''))"
    using sample_jwt_spec by (auto simp: sample_auth_def)
  with r lt show ?thesis by (auto simp: token_in_def)
qed

section \<open>Refreshing a session\<close>

text \<open>
  C29: a refresh succeeds exactly when the token is a refresh token that still holds and its subject
  is an active user, with the user's present roles; it writes nothing, so the same token works again
  until it expires, and it stops working as soon as the user is deactivated.
\<close>
theorem refresh_follows_user:
  "((\<exists>tp. fst (refresh_tokens lb st token s) = Inr tp)
     \<longleftrightarrow> (\<exists>claims sub i u.
           decode_token (au_jwt lb) st (Some REFRESH) token (en_clock s (en_clock_pos s)) = Inr claims
         \<and> dict_get ''sub'' claims = Some sub \<and> uuid_parse (claim_str sub) = Some i
         \<and> List.find (\<lambda>u. us_id u = i) (db_users (w_db s)) = Some u \<and> us_is_active u))
   \<and> w_db (snd (refresh_tokens lb st token s)) = w_db s"
proof -
  have "\<exists>tp. fst (issue_tokens lb st u x) = Inr tp" for u x
    by (simp add: issue_tokens_def issue_token_def bindE_def getE_def utc_now_def uuid4_def ret_def)
  then have "(\<exists>tp. fst (refresh_tokens lb st token s) = Inr tp)
     \<longleftrightarrow> (\<exists>claims sub i u.
           decode_token (au_jwt lb) st (Some REFRESH) token (en_clock s (en_clock_pos s)) = Inr claims
         \<and> dict_get ''sub'' claims = Some sub \<and> uuid_parse (claim_str sub) = Some i
         \<and> List.find (\<lambda>u. us_id u = i) (db_users (w_db s)) = Some u \<and> us_is_active u)"
    by (auto simp: refresh_tokens_def bindE_def liftE_def utc_now_def as_uuid_def select_one_def getE_def
        throw_def split: sum.splits option.splits if_splits)
  moreover have "w_db (snd (refresh_tokens lb st token s)) = w_db s"
    using quiet_refresh [of lb st token] unfolding keeps_def by metis
  ultimately show ?thesis by blast
qed

section \<open>Secrets\<close>

text \<open>
  Settings are accepted exactly with a known log level and, outside the local environment, with
  a token secret of at least 32 characters that is not the placeholder and, in OIDC mode, a client
  secret; nothing but the log level is normalised.
\<close>
lemma settings_accepted_iff:
  "make_settings raw = Inr st \<longleftrightarrow>
     upper (app_log_level raw) \<in> set allowed_log_levels
     \<and> st = raw\<lparr>app_log_level := upper (app_log_level raw)\<rparr>
     \<and> (app_env raw = ENV_LOCAL
        \<or> (security_jwt_secret raw \<noteq> placeholder_secret \<and> 32 \<le> length (security_jwt_secret raw)
           \<and> (security_auth_mode raw = AUTH_OIDC \<longrightarrow> oidc_client_secret raw \<noteq> [])))"
  unfolding make_settings_iff secrets_ok_def by blast


end
