(* ===== verification/StartupProperties.thy ===== *)
theory StartupProperties
  imports AuthProperties ApiProperties
begin

text \<open>
  A property of the parts together: what a freshly started local platform can be used for.
\<close>

section \<open>The administrator\<close>

lemma role_names_linked:
  assumes "(us_id u, rl_id r) \<in> set (db_user_roles d)" "r \<in> set (db_roles d)"
  shows "rl_name r \<in> set (role_names d u)"
  using assms by (fastforce simp: role_names_def)

lemma admin_permissions:
  assumes "role_value SYSTEM_ADMIN \<in> set rs"
  shows "range permission_value \<subseteq> permissions_for_roles rs"
proof -
  have "permission_value q \<in> permissions_for_roles rs" for q
    unfolding permissions_for_roles_iff using assms by (intro exI [of _ SYSTEM_ADMIN]) (simp add: enum_UNIV)
  then show ?thesis by blast
qed

text \<open>Every guard asks for permissions of the catalogue only.\<close>

lemma needs_catalogue: "needs c = Some perms \<Longrightarrow> set perms \<subseteq> range permission_value"
  by (cases c) (auto simp del: permission_value.simps)

lemma admin_admitted:
  assumes "authenticated pf st hc (request_time v) p" "range permission_value \<subseteq> pr_permissions p"
    and "args_ok pf c"
  shows "\<exists>q w. admit pf st hc c v = (Inr q, w)"
proof (cases "needs c")
  case None
  with assms(3) show ?thesis by (simp add: admit_def bindE_def ret_def)
next
  case (Some perms)
  then have "set perms \<subseteq> pr_permissions p" using needs_catalogue assms(2) by blast
  with assms(1) have "require_permissions pf st hc perms v = (Inr p, snd (utc_now v))"
    by (simp add: require_permissions_Inr request_time_def)
  with Some assms(3) show ?thesis by (simp add: admit_def bindE_def app_action_def ret_def)
qed

section \<open>Logging in\<close>

lemma authenticate_hashed:
  assumes "List.find (\<lambda>u. us_email u = email) (db_users (w_db s)) = Some u" "us_is_active u"
    and "us_hashed_password u = Some (hash_password (au_pwd lb) salt password)" "pwd_spec (au_pwd lb)"
  shows "authenticate lb email password s = (Inr u, s)"
proof -
  obtain c cs where "hash_password (au_pwd lb) salt password = c # cs"
    using assms(4) by (cases "hash_password (au_pwd lb) salt password")
      (auto simp: pwd_spec_def hash_password_def)
  then have "stored_hash (Some u) = Some (hash_password (au_pwd lb) salt password)"
    using assms(3) by (simp add: stored_hash_def)
  moreover have "verify_password (au_pwd lb) password (hash_password (au_pwd lb) salt password)"
    using assms(4) by (simp add: verify_password_def hash_password_def pwd_spec_def)
  ultimately show ?thesis
    using assms(1,2) by (simp add: authenticate_def get_by_email_def select_one_def bindE_def getE_def ret_def)
qed

lemma issue_tokens_total: "\<exists>tp t. issue_tokens lb st u s = (Inr tp, t)"
  by (simp add: issue_tokens_def issue_token_def bindE_def getE_def utc_now_def uuid4_def ret_def)

lemma access_token_accepted:
  assumes "issue_tokens lb st u s = (Inr tp, t)" "jwt_spec (au_jwt lb)" "request_time s \<le> now"
    and "now < (timestamp (request_time s) + security_access_token_ttl_seconds st) * 1000000"
  obtains jti claims where "from_claims claims = Inr (principal_of u (role_names (w_db s) u) jti)"
    "decode_token (au_jwt lb) st (Some ACCESS) (tp_access_token tp) now = Inr claims"
proof -
  obtain z where "issue_token lb st u (role_names (w_db s) u) ACCESS s = (Inr (tp_access_token tp), z)"
    by (rule issue_tokens_Inr [OF assms(1)])
  then show thesis
  proof (rule issue_token_run [OF _ assms(2)])
    fix issued jti claims
    assume i: "en_clock s (en_clock_pos s) = issued"
      "from_claims claims = Inr (principal_of u (role_names (w_db s) u) jti)"
      and dec: "\<And>now expected. issued \<le> now \<Longrightarrow>
        decode_token (au_jwt lb) st expected (tp_access_token tp) now =
          (if now < (timestamp issued + token_ttl st ACCESS) * 1000000 then
             if expected = None \<or> expected = Some ACCESS then Inr claims
             else Inl (app_err AuthenticationError
                    (''Expected a '' @ token_type_value (the expected) @ '' token.''))
           else Inl (app_err AuthenticationError ''Token has expired.''))"
    have "issued = request_time s" using i(1) by (simp add: request_time_def)
    then show thesis using dec [of now "Some ACCESS"] assms(3,4) by (intro that [OF i(2)]) (simp add: token_ttl_def)
  qed
qed

text \<open>A request that logs in, and what it answers.\<close>

lemma login_answers:
  assumes "authenticate (pf_auth pf) email password u = (Inr usr, u)"
    and "pf_email pf email = Some email" "1 \<le> length password" "length password \<le> 256"
    and "issue_tokens (pf_auth pf) (as_settings a) usr u = (Inr tp, t)"
  shows "api_step pf a hc (Login email password) u = (Inr (TokensOut tp), t)"
  using assms
  by (simp add: api_step_def in_transaction_def bindE_def admit_def ret_def app_action_def giving_def
      login_def)


section \<open>A start on the seeded catalogue\<close>

definition empty_directory :: db where
  "empty_directory = seeded_sample\<lparr>db_users := []\<rparr>"

lemma empty_directory_seeded: "seeded empty_directory"
  using seeded_sample_ok seeded_cong [of empty_directory seeded_sample] by (simp add: empty_directory_def)

lemma sample_build:
  "\<exists>a u. build_app_state [''tmp''] default_settings (w_at 0 0 0 d) = (Inr a, u) \<and> w_db u = d"
proof -
  obtain rt where "build_router default_settings (Some db_observer) = Inr rt"
    by (simp add: build_router_def chain_names_def default_settings_def build_provider_def make_router_def)
  then show ?thesis
    by (simp add: build_app_state_def bindE_def liftE_def thenE_def Let_def build_storage_def open_storage_def
        mkdirs_def modifyE_def ret_def default_settings_def w_at_def list_ex_iff)
qed

lemma sample_admin:
  assumes "w_db s = empty_directory"
  shows "\<exists>u t. seed_admin sample_pwd default_settings s = (Inr u, t) \<and> db_users (w_db t) = [u]"
proof -
  have "seed_rbac s = (Inr (by_key rl_name (db_roles (w_db s))), s)"
    by (rule seed_rbac_again) (simp add: assms empty_directory_seeded)
  moreover obtain r where "dict_get (role_value SYSTEM_ADMIN) (by_key rl_name (db_roles (w_db s))) = Some r"
    using empty_directory_seeded unfolding assms seeded_def by (fastforce simp: role_seeded_def ROLE_PERMISSIONS_def)
  moreover have "db_users (w_db s) = []" by (simp add: assms empty_directory_def)
  ultimately show ?thesis
    by (simp add: seed_admin_def bindE_def select_one_def getE_def create_admin_def draw_salt_def
        insert_user_def insert_row_def uuid4_def utc_now_def modifyE_def ret_def del: role_value.simps)
qed

lemma sample_startup:
  "\<exists>a t. startup [''tmp''] sample_pwd default_settings (w_at 0 0 0 empty_directory) = (Inr a, t)
     \<and> w_db t \<noteq> empty_directory"
proof -
  obtain a u where u: "build_app_state [''tmp''] default_settings (w_at 0 0 0 empty_directory) = (Inr a, u)"
    "w_db u = empty_directory" using sample_build by blast
  obtain x t where "seed_admin sample_pwd default_settings u = (Inr x, t)" "db_users (w_db t) = [x]"
    using sample_admin [OF u(2)] by blast
  moreover have "db_users empty_directory = []" by (simp add: empty_directory_def)
  moreover have "app_env default_settings = ENV_LOCAL" by (simp add: default_settings_def)
  ultimately show ?thesis
    using u(1) by (auto simp: startup_def bindE_def thenE_def catchE_def seed_if_local_def in_transaction_def ret_def)
qed

definition admin_login :: http_request where
  "admin_login = \<lparr> hq_authorization = None, hq_cookies = [], hq_request_id = None,
     hq_call = Login (seed_admin_email default_settings) (seed_admin_password default_settings) \<rparr>"


end
