(* ===== verification/Schema.thy ===== *)
theory Schema
  imports Prelude PyString
begin

text \<open>
  The database schema, as it is declared twice: by the ORM classes of db/models (with the mixins of
  db/base.py) and by the Alembic revision cf86fd88064a of migrations/versions. The revision is a
  list of DDL operations with the checks a database makes on each; the classes are data, and
  \<open>table_of\<close> is the table SQLAlchemy derives from one. The properties compare the two.
\<close>

section \<open>Tables\<close>

datatype col_type =
  UuidType | StringType nat | TextType | JsonType | BooleanType | IntegerType | FloatType
| DateTimeType bool

record column =
  co_name :: string
  co_type :: col_type
  co_nullable :: bool

record foreign_key =
  fk_column :: string
  fk_table :: string
  fk_target :: string
  fk_ondelete :: string

record index =
  ix_name :: string
  ix_columns :: "string list"
  ix_unique :: bool

record table =
  tb_name :: string
  tb_columns :: "column list"
  tb_primary :: "string list"
  tb_foreign :: "foreign_key list"
  tb_unique :: "(string \<times> string list) list"
  tb_indexes :: "index list"

definition col :: "string \<Rightarrow> col_type \<Rightarrow> bool \<Rightarrow> column" where
  "col nm ty nullable = \<lparr> co_name = nm, co_type = ty, co_nullable = nullable \<rparr>"

definition fkey :: "string \<Rightarrow> string \<Rightarrow> string \<Rightarrow> string \<Rightarrow> foreign_key" where
  "fkey c t x od = \<lparr> fk_column = c, fk_table = t, fk_target = x, fk_ondelete = od \<rparr>"

definition idx :: "string \<Rightarrow> string list \<Rightarrow> bool \<Rightarrow> index" where
  "idx nm cs u = \<lparr> ix_name = nm, ix_columns = cs, ix_unique = u \<rparr>"

section \<open>DDL\<close>

datatype ddl =
  CreateTable table
| CreateIndex string index
| DropIndex string string
| DropTable string

type_synonym schema = "table list"

definition lookup_table :: "string \<Rightarrow> schema \<Rightarrow> table option" where
  "lookup_table nm s = List.find (\<lambda>t. tb_name t = nm) s"

definition has_columns :: "table \<Rightarrow> string list \<Rightarrow> bool" where
  "has_columns t cs \<longleftrightarrow> list_all (\<lambda>c. c \<in> co_name ` set (tb_columns t)) cs"

definition refers_well :: "schema \<Rightarrow> table \<Rightarrow> foreign_key \<Rightarrow> bool" where
  "refers_well s t fk \<longleftrightarrow> has_columns t [fk_column fk]
     \<and> (case lookup_table (fk_table fk) s of None \<Rightarrow> False | Some r \<Rightarrow> tb_primary r = [fk_target fk])"

definition well_formed_table :: "schema \<Rightarrow> table \<Rightarrow> bool" where
  "well_formed_table s t \<longleftrightarrow> distinct (map co_name (tb_columns t)) \<and> tb_primary t \<noteq> []
     \<and> has_columns t (tb_primary t) \<and> list_all (refers_well s t) (tb_foreign t)
     \<and> list_all (\<lambda>(_, cs). has_columns t cs) (tb_unique t)"

definition index_names :: "schema \<Rightarrow> string list" where
  "index_names s = concat (map (\<lambda>t. map ix_name (tb_indexes t)) s)"

definition on_table :: "string \<Rightarrow> (table \<Rightarrow> table) \<Rightarrow> schema \<Rightarrow> schema" where
  "on_table nm f s = map (\<lambda>t. if tb_name t = nm then f t else t) s"

text \<open>An operation, or \<open>None\<close> when the database refuses it.\<close>

fun apply_ddl :: "ddl \<Rightarrow> schema \<Rightarrow> schema option" where
  "apply_ddl (CreateTable t) s =
     (if lookup_table (tb_name t) s = None \<and> well_formed_table s t then Some (s @ [t]) else None)"
| "apply_ddl (CreateIndex nm i) s =
     (case lookup_table nm s of
        None \<Rightarrow> None
      | Some t \<Rightarrow>
          if has_columns t (ix_columns i) \<and> ix_name i \<notin> set (index_names s)
          then Some (on_table nm (\<lambda>t. t\<lparr>tb_indexes := tb_indexes t @ [i]\<rparr>) s) else None)"
| "apply_ddl (DropIndex nm i) s =
     (case lookup_table nm s of
        None \<Rightarrow> None
      | Some t \<Rightarrow>
          if i \<in> ix_name ` set (tb_indexes t)
          then Some (on_table nm (\<lambda>t. t\<lparr>tb_indexes :=
                 filter (\<lambda>j. ix_name j \<noteq> i) (tb_indexes t)\<rparr>) s)
          else None)"
| "apply_ddl (DropTable nm) s =
     (if lookup_table nm s \<noteq> None
         \<and> list_all (\<lambda>t. tb_name t = nm \<or> list_all (\<lambda>fk. fk_table fk \<noteq> nm) (tb_foreign t)) s
      then Some (filter (\<lambda>t. tb_name t \<noteq> nm) s) else None)"

fun run_ddl :: "ddl list \<Rightarrow> schema \<Rightarrow> schema option" where
  "run_ddl [] s = Some s"
| "run_ddl (c # cs) s = (case apply_ddl c s of None \<Rightarrow> None | Some s' \<Rightarrow> run_ddl cs s')"

section \<open>The revision\<close>

definition up_audit_logs :: "ddl list" where
  "up_audit_logs =
    [CreateTable \<lparr> tb_name = ''audit_logs'',
       tb_columns = [col ''actor_id'' UuidType True,
          col ''actor_email'' (StringType 320) True,
          col ''action'' (StringType 128) False,
          col ''resource_type'' (StringType 64) False,
          col ''resource_id'' (StringType 64) True,
          col ''outcome'' (StringType 32) False,
          col ''request_id'' (StringType 64) True,
          col ''context'' JsonType False,
          col ''id'' UuidType False,
          col ''created_at'' (DateTimeType True) False,
          col ''updated_at'' (DateTimeType True) False],
       tb_primary = [''id''],
       tb_foreign = [],
       tb_unique = [], tb_indexes = [] \<rparr>,
     CreateIndex ''audit_logs'' (idx ''ix_audit_logs_action'' [''action''] False),
     CreateIndex ''audit_logs'' (idx ''ix_audit_logs_actor_id'' [''actor_id''] False),
     CreateIndex ''audit_logs'' (idx ''ix_audit_logs_request_id'' [''request_id''] False),
     CreateIndex ''audit_logs'' (idx ''ix_audit_logs_resource_id'' [''resource_id''] False),
     CreateIndex ''audit_logs'' (idx ''ix_audit_logs_resource_type'' [''resource_type''] False)]"

definition up_incidents :: "ddl list" where
  "up_incidents =
    [CreateTable \<lparr> tb_name = ''incidents'',
       tb_columns = [col ''title'' (StringType 255) False,
          col ''severity'' (StringType 16) False,
          col ''status'' (StringType 32) False,
          col ''description'' TextType True,
          col ''workflow_id'' UuidType True,
          col ''detail'' JsonType False,
          col ''id'' UuidType False,
          col ''created_at'' (DateTimeType True) False,
          col ''updated_at'' (DateTimeType True) False],
       tb_primary = [''id''],
       tb_foreign = [],
       tb_unique = [], tb_indexes = [] \<rparr>,
     CreateIndex ''incidents'' (idx ''ix_incidents_workflow_id'' [''workflow_id''] False)]"

definition up_permissions :: "ddl list" where
  "up_permissions =
    [CreateTable \<lparr> tb_name = ''permissions'',
       tb_columns = [col ''code'' (StringType 64) False,
          col ''description'' (StringType 255) True,
          col ''id'' UuidType False,
          col ''created_at'' (DateTimeType True) False,
          col ''updated_at'' (DateTimeType True) False],
       tb_primary = [''id''],
       tb_foreign = [],
       tb_unique = [(''uq_permission_code'', [''code''])], tb_indexes = [] \<rparr>,
     CreateIndex ''permissions'' (idx ''ix_permissions_code'' [''code''] False)]"

definition up_roles :: "ddl list" where
  "up_roles =
    [CreateTable \<lparr> tb_name = ''roles'',
       tb_columns = [col ''name'' (StringType 64) False,
          col ''description'' (StringType 255) True,
          col ''id'' UuidType False,
          col ''created_at'' (DateTimeType True) False,
          col ''updated_at'' (DateTimeType True) False],
       tb_primary = [''id''],
       tb_foreign = [],
       tb_unique = [], tb_indexes = [] \<rparr>,
     CreateIndex ''roles'' (idx ''ix_roles_name'' [''name''] True)]"

definition up_users :: "ddl list" where
  "up_users =
    [CreateTable \<lparr> tb_name = ''users'',
       tb_columns = [col ''email'' (StringType 320) False,
          col ''full_name'' (StringType 255) True,
          col ''hashed_password'' (StringType 255) True,
          col ''is_active'' BooleanType False,
          col ''external_subject'' (StringType 255) True,
          col ''id'' UuidType False,
          col ''created_at'' (DateTimeType True) False,
          col ''updated_at'' (DateTimeType True) False],
       tb_primary = [''id''],
       tb_foreign = [],
       tb_unique = [], tb_indexes = [] \<rparr>,
     CreateIndex ''users'' (idx ''ix_users_email'' [''email''] True),
     CreateIndex ''users'' (idx ''ix_users_external_subject'' [''external_subject''] False)]"

definition up_applications :: "ddl list" where
  "up_applications =
    [CreateTable \<lparr> tb_name = ''applications'',
       tb_columns = [col ''reference'' (StringType 64) False,
          col ''kind'' (StringType 32) False,
          col ''subject'' (StringType 255) True,
          col ''payload'' JsonType False,
          col ''created_by'' UuidType True,
          col ''id'' UuidType False,
          col ''created_at'' (DateTimeType True) False,
          col ''updated_at'' (DateTimeType True) False],
       tb_primary = [''id''],
       tb_foreign = [fkey ''created_by'' ''users'' ''id'' ''SET NULL''],
       tb_unique = [], tb_indexes = [] \<rparr>,
     CreateIndex ''applications'' (idx ''ix_applications_reference'' [''reference''] True)]"

definition up_documents :: "ddl list" where
  "up_documents =
    [CreateTable \<lparr> tb_name = ''documents'',
       tb_columns = [col ''filename'' (StringType 512) False,
          col ''content_type'' (StringType 128) False,
          col ''size_bytes'' IntegerType False,
          col ''storage_key'' (StringType 1024) False,
          col ''sha256'' (StringType 64) True,
          col ''status'' (StringType 32) False,
          col ''doc_metadata'' JsonType False,
          col ''uploaded_by'' UuidType True,
          col ''id'' UuidType False,
          col ''created_at'' (DateTimeType True) False,
          col ''updated_at'' (DateTimeType True) False],
       tb_primary = [''id''],
       tb_foreign = [fkey ''uploaded_by'' ''users'' ''id'' ''SET NULL''],
       tb_unique = [], tb_indexes = [] \<rparr>,
     CreateIndex ''documents'' (idx ''ix_documents_sha256'' [''sha256''] False)]"

definition up_feedback :: "ddl list" where
  "up_feedback =
    [CreateTable \<lparr> tb_name = ''feedback'',
       tb_columns = [col ''user_id'' UuidType True,
          col ''workflow_id'' UuidType True,
          col ''agent_run_id'' UuidType True,
          col ''rating'' IntegerType False,
          col ''comment'' TextType True,
          col ''id'' UuidType False,
          col ''created_at'' (DateTimeType True) False,
          col ''updated_at'' (DateTimeType True) False],
       tb_primary = [''id''],
       tb_foreign = [fkey ''user_id'' ''users'' ''id'' ''SET NULL''],
       tb_unique = [], tb_indexes = [] \<rparr>,
     CreateIndex ''feedback'' (idx ''ix_feedback_agent_run_id'' [''agent_run_id''] False),
     CreateIndex ''feedback'' (idx ''ix_feedback_workflow_id'' [''workflow_id''] False)]"

definition up_role_permissions :: "ddl list" where
  "up_role_permissions =
    [CreateTable \<lparr> tb_name = ''role_permissions'',
       tb_columns = [col ''role_id'' UuidType False,
          col ''permission_id'' UuidType False],
       tb_primary = [''role_id'', ''permission_id''],
       tb_foreign = [fkey ''permission_id'' ''permissions'' ''id'' ''CASCADE'',
          fkey ''role_id'' ''roles'' ''id'' ''CASCADE''],
       tb_unique = [], tb_indexes = [] \<rparr>]"

definition up_user_roles :: "ddl list" where
  "up_user_roles =
    [CreateTable \<lparr> tb_name = ''user_roles'',
       tb_columns = [col ''user_id'' UuidType False,
          col ''role_id'' UuidType False],
       tb_primary = [''user_id'', ''role_id''],
       tb_foreign = [fkey ''role_id'' ''roles'' ''id'' ''CASCADE'',
          fkey ''user_id'' ''users'' ''id'' ''CASCADE''],
       tb_unique = [], tb_indexes = [] \<rparr>]"

definition up_document_chunks :: "ddl list" where
  "up_document_chunks =
    [CreateTable \<lparr> tb_name = ''document_chunks'',
       tb_columns = [col ''document_id'' UuidType False,
          col ''chunk_index'' IntegerType False,
          col ''content'' TextType False,
          col ''token_count'' IntegerType False,
          col ''id'' UuidType False,
          col ''created_at'' (DateTimeType True) False,
          col ''updated_at'' (DateTimeType True) False],
       tb_primary = [''id''],
       tb_foreign = [fkey ''document_id'' ''documents'' ''id'' ''CASCADE''],
       tb_unique = [], tb_indexes = [] \<rparr>,
     CreateIndex ''document_chunks'' (idx ''ix_document_chunks_document_id'' [''document_id''] False)]"

definition up_workflows :: "ddl list" where
  "up_workflows =
    [CreateTable \<lparr> tb_name = ''workflows'',
       tb_columns = [col ''workflow_type'' (StringType 32) False,
          col ''status'' (StringType 32) False,
          col ''application_id'' UuidType True,
          col ''input_payload'' JsonType False,
          col ''result'' JsonType True,
          col ''error'' TextType True,
          col ''external_run_id'' (StringType 255) True,
          col ''requires_human_approval'' BooleanType False,
          col ''created_by'' UuidType True,
          col ''id'' UuidType False,
          col ''created_at'' (DateTimeType True) False,
          col ''updated_at'' (DateTimeType True) False],
       tb_primary = [''id''],
       tb_foreign = [fkey ''application_id'' ''applications'' ''id'' ''SET NULL'',
          fkey ''created_by'' ''users'' ''id'' ''SET NULL''],
       tb_unique = [], tb_indexes = [] \<rparr>,
     CreateIndex ''workflows'' (idx ''ix_workflows_external_run_id'' [''external_run_id''] False),
     CreateIndex ''workflows'' (idx ''ix_workflows_status'' [''status''] False)]"

definition up_agent_runs :: "ddl list" where
  "up_agent_runs =
    [CreateTable \<lparr> tb_name = ''agent_runs'',
       tb_columns = [col ''workflow_id'' UuidType True,
          col ''agent_name'' (StringType 64) False,
          col ''status'' (StringType 32) False,
          col ''input'' JsonType False,
          col ''output'' JsonType True,
          col ''error'' TextType True,
          col ''latency_ms'' IntegerType True,
          col ''prompt_version'' (StringType 64) True,
          col ''model_used'' (StringType 128) True,
          col ''id'' UuidType False,
          col ''created_at'' (DateTimeType True) False,
          col ''updated_at'' (DateTimeType True) False],
       tb_primary = [''id''],
       tb_foreign = [fkey ''workflow_id'' ''workflows'' ''id'' ''CASCADE''],
       tb_unique = [], tb_indexes = [] \<rparr>,
     CreateIndex ''agent_runs'' (idx ''ix_agent_runs_agent_name'' [''agent_name''] False),
     CreateIndex ''agent_runs'' (idx ''ix_agent_runs_workflow_id'' [''workflow_id''] False)]"

definition up_approvals :: "ddl list" where
  "up_approvals =
    [CreateTable \<lparr> tb_name = ''approvals'',
       tb_columns = [col ''workflow_id'' UuidType False,
          col ''kind'' (StringType 32) False,
          col ''decision'' (StringType 32) False,
          col ''required_permission'' (StringType 64) False,
          col ''summary'' TextType True,
          col ''decided_by'' UuidType True,
          col ''decision_reason'' TextType True,
          col ''id'' UuidType False,
          col ''created_at'' (DateTimeType True) False,
          col ''updated_at'' (DateTimeType True) False],
       tb_primary = [''id''],
       tb_foreign = [fkey ''decided_by'' ''users'' ''id'' ''SET NULL'',
          fkey ''workflow_id'' ''workflows'' ''id'' ''CASCADE''],
       tb_unique = [], tb_indexes = [] \<rparr>,
     CreateIndex ''approvals'' (idx ''ix_approvals_decision'' [''decision''] False),
     CreateIndex ''approvals'' (idx ''ix_approvals_workflow_id'' [''workflow_id''] False)]"

definition up_embeddings_metadata :: "ddl list" where
  "up_embeddings_metadata =
    [CreateTable \<lparr> tb_name = ''embeddings_metadata'',
       tb_columns = [col ''chunk_id'' UuidType False,
          col ''model'' (StringType 128) False,
          col ''dimensions'' IntegerType False,
          col ''vector'' JsonType False,
          col ''id'' UuidType False,
          col ''created_at'' (DateTimeType True) False,
          col ''updated_at'' (DateTimeType True) False],
       tb_primary = [''id''],
       tb_foreign = [fkey ''chunk_id'' ''document_chunks'' ''id'' ''CASCADE''],
       tb_unique = [], tb_indexes = [] \<rparr>,
     CreateIndex ''embeddings_metadata'' (idx ''ix_embeddings_metadata_chunk_id'' [''chunk_id''] False)]"

definition up_task_status :: "ddl list" where
  "up_task_status =
    [CreateTable \<lparr> tb_name = ''task_status'',
       tb_columns = [col ''workflow_id'' UuidType False,
          col ''name'' (StringType 128) False,
          col ''state'' (StringType 32) False,
          col ''detail'' TextType True,
          col ''progress'' FloatType False,
          col ''id'' UuidType False,
          col ''created_at'' (DateTimeType True) False,
          col ''updated_at'' (DateTimeType True) False],
       tb_primary = [''id''],
       tb_foreign = [fkey ''workflow_id'' ''workflows'' ''id'' ''CASCADE''],
       tb_unique = [], tb_indexes = [] \<rparr>,
     CreateIndex ''task_status'' (idx ''ix_task_status_workflow_id'' [''workflow_id''] False)]"

definition up_model_calls :: "ddl list" where
  "up_model_calls =
    [CreateTable \<lparr> tb_name = ''model_calls'',
       tb_columns = [col ''agent_run_id'' UuidType True,
          col ''provider'' (StringType 64) False,
          col ''model'' (StringType 128) False,
          col ''routing_policy'' (StringType 32) False,
          col ''used_fallback'' BooleanType False,
          col ''fallback_reason'' (StringType 255) True,
          col ''prompt_tokens'' IntegerType False,
          col ''completion_tokens'' IntegerType False,
          col ''latency_ms'' IntegerType True,
          col ''success'' BooleanType False,
          col ''error'' TextType True,
          col ''prompt_version'' (StringType 64) True,
          col ''id'' UuidType False,
          col ''created_at'' (DateTimeType True) False,
          col ''updated_at'' (DateTimeType True) False],
       tb_primary = [''id''],
       tb_foreign = [fkey ''agent_run_id'' ''agent_runs'' ''id'' ''SET NULL''],
       tb_unique = [], tb_indexes = [] \<rparr>,
     CreateIndex ''model_calls'' (idx ''ix_model_calls_agent_run_id'' [''agent_run_id''] False),
     CreateIndex ''model_calls'' (idx ''ix_model_calls_provider'' [''provider''] False)]"

definition up_cost_tracking :: "ddl list" where
  "up_cost_tracking =
    [CreateTable \<lparr> tb_name = ''cost_tracking'',
       tb_columns = [col ''model_call_id'' UuidType True,
          col ''provider'' (StringType 64) False,
          col ''model'' (StringType 128) False,
          col ''total_tokens'' IntegerType False,
          col ''estimated_cost_usd'' FloatType False,
          col ''id'' UuidType False,
          col ''created_at'' (DateTimeType True) False,
          col ''updated_at'' (DateTimeType True) False],
       tb_primary = [''id''],
       tb_foreign = [fkey ''model_call_id'' ''model_calls'' ''id'' ''SET NULL''],
       tb_unique = [], tb_indexes = [] \<rparr>,
     CreateIndex ''cost_tracking'' (idx ''ix_cost_tracking_model_call_id'' [''model_call_id''] False)]"

definition upgrade :: "ddl list" where
  "upgrade = concat
     [up_audit_logs, up_incidents, up_permissions, up_roles, up_users, up_applications, up_documents, up_feedback, up_role_permissions, up_user_roles, up_document_chunks, up_workflows, up_agent_runs, up_approvals, up_embeddings_metadata, up_task_status, up_model_calls, up_cost_tracking]"

definition downgrade :: "ddl list" where
  "downgrade =
    [DropIndex ''cost_tracking'' ''ix_cost_tracking_model_call_id'',
     DropTable ''cost_tracking'',
     DropIndex ''model_calls'' ''ix_model_calls_provider'',
     DropIndex ''model_calls'' ''ix_model_calls_agent_run_id'',
     DropTable ''model_calls'',
     DropIndex ''task_status'' ''ix_task_status_workflow_id'',
     DropTable ''task_status'',
     DropIndex ''embeddings_metadata'' ''ix_embeddings_metadata_chunk_id'',
     DropTable ''embeddings_metadata'',
     DropIndex ''approvals'' ''ix_approvals_workflow_id'',
     DropIndex ''approvals'' ''ix_approvals_decision'',
     DropTable ''approvals'',
     DropIndex ''agent_runs'' ''ix_agent_runs_workflow_id'',
     DropIndex ''agent_runs'' ''ix_agent_runs_agent_name'',
     DropTable ''agent_runs'',
     DropIndex ''workflows'' ''ix_workflows_status'',
     DropIndex ''workflows'' ''ix_workflows_external_run_id'',
     DropTable ''workflows'',
     DropIndex ''document_chunks'' ''ix_document_chunks_document_id'',
     DropTable ''document_chunks'',
     DropTable ''user_roles'',
     DropTable ''role_permissions'',
     DropIndex ''feedback'' ''ix_feedback_workflow_id'',
     DropIndex ''feedback'' ''ix_feedback_agent_run_id'',
     DropTable ''feedback'',
     DropIndex ''documents'' ''ix_documents_sha256'',
     DropTable ''documents'',
     DropIndex ''applications'' ''ix_applications_reference'',
     DropTable ''applications'',
     DropIndex ''users'' ''ix_users_external_subject'',
     DropIndex ''users'' ''ix_users_email'',
     DropTable ''users'',
     DropIndex ''roles'' ''ix_roles_name'',
     DropTable ''roles'',
     DropIndex ''permissions'' ''ix_permissions_code'',
     DropTable ''permissions'',
     DropIndex ''incidents'' ''ix_incidents_workflow_id'',
     DropTable ''incidents'',
     DropIndex ''audit_logs'' ''ix_audit_logs_resource_type'',
     DropIndex ''audit_logs'' ''ix_audit_logs_resource_id'',
     DropIndex ''audit_logs'' ''ix_audit_logs_request_id'',
     DropIndex ''audit_logs'' ''ix_audit_logs_actor_id'',
     DropIndex ''audit_logs'' ''ix_audit_logs_action'',
     DropTable ''audit_logs'']"

section \<open>The ORM classes\<close>

record mapped_column =
  mp_name :: string
  mp_type :: col_type
  mp_nullable :: bool
  mp_primary :: bool
  mp_index :: bool
  mp_unique :: bool
  mp_foreign :: "(string \<times> string \<times> string) option"

record model_class =
  mc_table :: string
  mc_mixins :: bool
  mc_columns :: "mapped_column list"
  mc_unique :: "(string \<times> string list) list"

definition mapped ::
  "string \<Rightarrow> col_type \<Rightarrow> bool \<Rightarrow> bool \<Rightarrow> bool \<Rightarrow> bool \<Rightarrow> (string \<times> string \<times> string) option \<Rightarrow> mapped_column"
where
  "mapped nm ty nullable pk index unique fk = \<lparr> mp_name = nm, mp_type = ty, mp_nullable = nullable,
     mp_primary = pk, mp_index = index, mp_unique = unique, mp_foreign = fk \<rparr>"

definition uuid_mixin :: "mapped_column list" where
  "uuid_mixin = [mapped ''id'' UuidType False True False False None]"

definition timestamp_mixin :: "mapped_column list" where
  "timestamp_mixin =
     [mapped ''created_at'' (DateTimeType True) False False False False None,
      mapped ''updated_at'' (DateTimeType True) False False False False None]"

definition model_user_roles :: model_class where
  "model_user_roles = \<lparr> mc_table = ''user_roles'', mc_mixins = False,
     mc_columns = [mapped ''user_id'' UuidType False True False False (Some (''users'', ''id'', ''CASCADE'')),
         mapped ''role_id'' UuidType False True False False (Some (''roles'', ''id'', ''CASCADE''))],
     mc_unique = [] \<rparr>"

definition model_role_permissions :: model_class where
  "model_role_permissions = \<lparr> mc_table = ''role_permissions'', mc_mixins = False,
     mc_columns = [mapped ''role_id'' UuidType False True False False (Some (''roles'', ''id'', ''CASCADE'')),
         mapped ''permission_id'' UuidType False True False False (Some (''permissions'', ''id'', ''CASCADE''))],
     mc_unique = [] \<rparr>"

definition model_users :: model_class where
  "model_users = \<lparr> mc_table = ''users'', mc_mixins = True,
     mc_columns = [mapped ''email'' (StringType 320) False False True True None,
         mapped ''full_name'' (StringType 255) True False False False None,
         mapped ''hashed_password'' (StringType 255) True False False False None,
         mapped ''is_active'' BooleanType False False False False None,
         mapped ''external_subject'' (StringType 255) True False True False None],
     mc_unique = [] \<rparr>"

definition model_roles :: model_class where
  "model_roles = \<lparr> mc_table = ''roles'', mc_mixins = True,
     mc_columns = [mapped ''name'' (StringType 64) False False True True None,
         mapped ''description'' (StringType 255) True False False False None],
     mc_unique = [] \<rparr>"

definition model_permissions :: model_class where
  "model_permissions = \<lparr> mc_table = ''permissions'', mc_mixins = True,
     mc_columns = [mapped ''code'' (StringType 64) False False True False None,
         mapped ''description'' (StringType 255) True False False False None],
     mc_unique = [(''uq_permission_code'', [''code''])] \<rparr>"

definition model_documents :: model_class where
  "model_documents = \<lparr> mc_table = ''documents'', mc_mixins = True,
     mc_columns = [mapped ''filename'' (StringType 512) False False False False None,
         mapped ''content_type'' (StringType 128) False False False False None,
         mapped ''size_bytes'' IntegerType False False False False None,
         mapped ''storage_key'' (StringType 1024) False False False False None,
         mapped ''sha256'' (StringType 64) True False True False None,
         mapped ''status'' (StringType 32) False False False False None,
         mapped ''doc_metadata'' JsonType False False False False None,
         mapped ''uploaded_by'' UuidType True False False False (Some (''users'', ''id'', ''SET NULL''))],
     mc_unique = [] \<rparr>"

definition model_document_chunks :: model_class where
  "model_document_chunks = \<lparr> mc_table = ''document_chunks'', mc_mixins = True,
     mc_columns = [mapped ''document_id'' UuidType False False True False (Some (''documents'', ''id'', ''CASCADE'')),
         mapped ''chunk_index'' IntegerType False False False False None,
         mapped ''content'' TextType False False False False None,
         mapped ''token_count'' IntegerType False False False False None],
     mc_unique = [] \<rparr>"

definition model_embeddings_metadata :: model_class where
  "model_embeddings_metadata = \<lparr> mc_table = ''embeddings_metadata'', mc_mixins = True,
     mc_columns = [mapped ''chunk_id'' UuidType False False True False (Some (''document_chunks'', ''id'', ''CASCADE'')),
         mapped ''model'' (StringType 128) False False False False None,
         mapped ''dimensions'' IntegerType False False False False None,
         mapped ''vector'' JsonType False False False False None],
     mc_unique = [] \<rparr>"

definition model_applications :: model_class where
  "model_applications = \<lparr> mc_table = ''applications'', mc_mixins = True,
     mc_columns = [mapped ''reference'' (StringType 64) False False True True None,
         mapped ''kind'' (StringType 32) False False False False None,
         mapped ''subject'' (StringType 255) True False False False None,
         mapped ''payload'' JsonType False False False False None,
         mapped ''created_by'' UuidType True False False False (Some (''users'', ''id'', ''SET NULL''))],
     mc_unique = [] \<rparr>"

definition model_workflows :: model_class where
  "model_workflows = \<lparr> mc_table = ''workflows'', mc_mixins = True,
     mc_columns = [mapped ''workflow_type'' (StringType 32) False False False False None,
         mapped ''status'' (StringType 32) False False True False None,
         mapped ''application_id'' UuidType True False False False (Some (''applications'', ''id'', ''SET NULL'')),
         mapped ''input_payload'' JsonType False False False False None,
         mapped ''result'' JsonType True False False False None,
         mapped ''error'' TextType True False False False None,
         mapped ''external_run_id'' (StringType 255) True False True False None,
         mapped ''requires_human_approval'' BooleanType False False False False None,
         mapped ''created_by'' UuidType True False False False (Some (''users'', ''id'', ''SET NULL''))],
     mc_unique = [] \<rparr>"

definition model_agent_runs :: model_class where
  "model_agent_runs = \<lparr> mc_table = ''agent_runs'', mc_mixins = True,
     mc_columns = [mapped ''workflow_id'' UuidType True False True False (Some (''workflows'', ''id'', ''CASCADE'')),
         mapped ''agent_name'' (StringType 64) False False True False None,
         mapped ''status'' (StringType 32) False False False False None,
         mapped ''input'' JsonType False False False False None,
         mapped ''output'' JsonType True False False False None,
         mapped ''error'' TextType True False False False None,
         mapped ''latency_ms'' IntegerType True False False False None,
         mapped ''prompt_version'' (StringType 64) True False False False None,
         mapped ''model_used'' (StringType 128) True False False False None],
     mc_unique = [] \<rparr>"

definition model_approvals :: model_class where
  "model_approvals = \<lparr> mc_table = ''approvals'', mc_mixins = True,
     mc_columns = [mapped ''workflow_id'' UuidType False False True False (Some (''workflows'', ''id'', ''CASCADE'')),
         mapped ''kind'' (StringType 32) False False False False None,
         mapped ''decision'' (StringType 32) False False True False None,
         mapped ''required_permission'' (StringType 64) False False False False None,
         mapped ''summary'' TextType True False False False None,
         mapped ''decided_by'' UuidType True False False False (Some (''users'', ''id'', ''SET NULL'')),
         mapped ''decision_reason'' TextType True False False False None],
     mc_unique = [] \<rparr>"

definition model_task_status :: model_class where
  "model_task_status = \<lparr> mc_table = ''task_status'', mc_mixins = True,
     mc_columns = [mapped ''workflow_id'' UuidType False False True False (Some (''workflows'', ''id'', ''CASCADE'')),
         mapped ''name'' (StringType 128) False False False False None,
         mapped ''state'' (StringType 32) False False False False None,
         mapped ''detail'' TextType True False False False None,
         mapped ''progress'' FloatType False False False False None],
     mc_unique = [] \<rparr>"

definition model_audit_logs :: model_class where
  "model_audit_logs = \<lparr> mc_table = ''audit_logs'', mc_mixins = True,
     mc_columns = [mapped ''actor_id'' UuidType True False True False None,
         mapped ''actor_email'' (StringType 320) True False False False None,
         mapped ''action'' (StringType 128) False False True False None,
         mapped ''resource_type'' (StringType 64) False False True False None,
         mapped ''resource_id'' (StringType 64) True False True False None,
         mapped ''outcome'' (StringType 32) False False False False None,
         mapped ''request_id'' (StringType 64) True False True False None,
         mapped ''context'' JsonType False False False False None],
     mc_unique = [] \<rparr>"

definition model_model_calls :: model_class where
  "model_model_calls = \<lparr> mc_table = ''model_calls'', mc_mixins = True,
     mc_columns = [mapped ''agent_run_id'' UuidType True False True False (Some (''agent_runs'', ''id'', ''SET NULL'')),
         mapped ''provider'' (StringType 64) False False True False None,
         mapped ''model'' (StringType 128) False False False False None,
         mapped ''routing_policy'' (StringType 32) False False False False None,
         mapped ''used_fallback'' BooleanType False False False False None,
         mapped ''fallback_reason'' (StringType 255) True False False False None,
         mapped ''prompt_tokens'' IntegerType False False False False None,
         mapped ''completion_tokens'' IntegerType False False False False None,
         mapped ''latency_ms'' IntegerType True False False False None,
         mapped ''success'' BooleanType False False False False None,
         mapped ''error'' TextType True False False False None,
         mapped ''prompt_version'' (StringType 64) True False False False None],
     mc_unique = [] \<rparr>"

definition model_cost_tracking :: model_class where
  "model_cost_tracking = \<lparr> mc_table = ''cost_tracking'', mc_mixins = True,
     mc_columns = [mapped ''model_call_id'' UuidType True False True False (Some (''model_calls'', ''id'', ''SET NULL'')),
         mapped ''provider'' (StringType 64) False False False False None,
         mapped ''model'' (StringType 128) False False False False None,
         mapped ''total_tokens'' IntegerType False False False False None,
         mapped ''estimated_cost_usd'' FloatType False False False False None],
     mc_unique = [] \<rparr>"

definition model_feedback :: model_class where
  "model_feedback = \<lparr> mc_table = ''feedback'', mc_mixins = True,
     mc_columns = [mapped ''user_id'' UuidType True False False False (Some (''users'', ''id'', ''SET NULL'')),
         mapped ''workflow_id'' UuidType True False True False None,
         mapped ''agent_run_id'' UuidType True False True False None,
         mapped ''rating'' IntegerType False False False False None,
         mapped ''comment'' TextType True False False False None],
     mc_unique = [] \<rparr>"

definition model_incidents :: model_class where
  "model_incidents = \<lparr> mc_table = ''incidents'', mc_mixins = True,
     mc_columns = [mapped ''title'' (StringType 255) False False False False None,
         mapped ''severity'' (StringType 16) False False False False None,
         mapped ''status'' (StringType 32) False False False False None,
         mapped ''description'' TextType True False False False None,
         mapped ''workflow_id'' UuidType True False True False None,
         mapped ''detail'' JsonType False False False False None],
     mc_unique = [] \<rparr>"

definition metadata :: "model_class list" where
  "metadata =
    [model_user_roles, model_role_permissions, model_users, model_roles, model_permissions,
     model_documents, model_document_chunks, model_embeddings_metadata, model_applications,
     model_workflows, model_agent_runs, model_approvals, model_task_status, model_audit_logs,
     model_model_calls, model_cost_tracking, model_feedback, model_incidents]"

section \<open>The table of a class\<close>

definition all_columns :: "model_class \<Rightarrow> mapped_column list" where
  "all_columns m = mc_columns m @ (if mc_mixins m then uuid_mixin @ timestamp_mixin else [])"

text \<open>
  SQLAlchemy's rules: \<open>index=True\<close> asks for the index \<open>ix_<table>_<column>\<close>, unique when the column
  is; \<open>unique=True\<close> alone asks for an unnamed unique constraint, which no class does.
\<close>

definition column_index :: "string \<Rightarrow> mapped_column \<Rightarrow> index" where
  "column_index tb c = idx (''ix_'' @ tb @ ''_'' @ mp_name c) [mp_name c] (mp_unique c)"

definition table_of :: "model_class \<Rightarrow> table" where
  "table_of m = \<lparr> tb_name = mc_table m,
     tb_columns = map (\<lambda>c. col (mp_name c) (mp_type c) (mp_nullable c)) (all_columns m),
     tb_primary = map mp_name (filter mp_primary (all_columns m)),
     tb_foreign = List.map_filter (\<lambda>c. map_option (\<lambda>(t, x, od). fkey (mp_name c) t x od) (mp_foreign c))
       (all_columns m),
     tb_unique = mc_unique m @
       map (\<lambda>c. ([], [mp_name c])) (filter (\<lambda>c. mp_unique c \<and> \<not> mp_index c) (all_columns m)),
     tb_indexes = map (column_index (mc_table m)) (filter mp_index (all_columns m)) \<rparr>"

text \<open>Tables that differ at most in the order of their parts.\<close>

definition same_table :: "table \<Rightarrow> table \<Rightarrow> bool" where
  "same_table a b \<longleftrightarrow> tb_name a = tb_name b \<and> set (tb_columns a) = set (tb_columns b)
     \<and> length (tb_columns a) = length (tb_columns b)
     \<and> set (tb_primary a) = set (tb_primary b) \<and> set (tb_foreign a) = set (tb_foreign b)
     \<and> set (tb_unique a) = set (tb_unique b) \<and> set (tb_indexes a) = set (tb_indexes b)
     \<and> length (tb_indexes a) = length (tb_indexes b)"

definition schema_matches :: "schema \<Rightarrow> model_class list \<Rightarrow> bool" where
  "schema_matches s ms \<longleftrightarrow> length s = length ms
     \<and> list_all (\<lambda>m. case lookup_table (mc_table m) s of
          None \<Rightarrow> False | Some t \<Rightarrow> same_table t (table_of m)) ms"

end
