(* ===== verification/Worker.thy ===== *)
theory Worker
  imports Executor Factory
begin

text \<open>
  apps/worker: the Temporal scaffold. Temporal is third-party: running an activity is the parameter
  \<open>activity\<close>, whose result is the dumped outcome, and the workflow's code is the loop over the plan.
  The activity builds its own executor, with a router without observer and an empty vector store.
\<close>

definition worker_executor :: "settings \<Rightarrow> executor res" where
  "worker_executor st = (case build_router st None of
       Inl e \<Rightarrow> Inl e
     | Inr rt \<Rightarrow> Inr \<lparr> ex_router = Some rt, ex_embedder = Some (embed (vector_dimensions st)),
                      ex_has_store = True \<rparr>)"

definition with_empty_store :: "'a action \<Rightarrow> 'a action" where
  "with_empty_store m s = (case m (s\<lparr>w_vectors := []\<rparr>) of (r, t) \<Rightarrow> (r, t\<lparr>w_vectors := w_vectors s\<rparr>))"

definition run_agent_step :: "libs \<Rightarrow> settings \<Rightarrow> string \<Rightarrow> json_dict \<Rightarrow> step_outcome action" where
  "run_agent_step lb st agent payload =
     bindE (liftE (worker_executor st)) (\<lambda>ex. with_empty_store (run_step lb ex agent payload))"

text \<open>What the activity returns to the workflow: the outcome, dumped.\<close>

definition outcome_json :: "step_outcome \<Rightarrow> json" where
  "outcome_json oc = JObj [(''agent_name'', JStr (ao_agent_name oc)), (''status'', JStr (ao_status oc)),
     (''output'', case ao_output oc of None \<Rightarrow> JNull | Some out \<Rightarrow> output_json out),
     (''error'', jopt JStr (ao_error oc)), (''latency_ms'', JInt (ao_latency_ms oc)),
     (''model_used'', jopt JStr (ao_model_used oc)), (''prompt_version'', jopt JStr (ao_prompt_version oc))]"

text \<open>The module defines the activity as a placeholder when temporalio cannot be imported.\<close>

definition agent_activity :: "libs \<Rightarrow> settings \<Rightarrow> bool \<Rightarrow> string \<Rightarrow> json_dict \<Rightarrow> json action" where
  "agent_activity lb st has_temporal agent payload =
     (if has_temporal then bindE (run_agent_step lb st agent payload) (\<lambda>oc. ret (outcome_json oc))
      else throw (Py ''RuntimeError'' ''temporalio is not installed; install the [workflow] extra.''))"

fun run_activities ::
  "(string \<Rightarrow> json_dict \<Rightarrow> json action) \<Rightarrow> json_dict \<Rightarrow> string list \<Rightarrow> json_dict \<Rightarrow> json_dict action" where
  "run_activities activity payload [] results = ret results"
| "run_activities activity payload (agent # rest) results =
     bindE (activity agent payload) (\<lambda>r. run_activities activity payload rest (dict_set agent r results))"

definition banking_workflow ::
  "(string \<Rightarrow> json_dict \<Rightarrow> json action) \<Rightarrow> string \<Rightarrow> json_dict \<Rightarrow> json_dict action" where
  "banking_workflow activity ty payload = (case enum_parse workflow_type_value ty of
       None \<Rightarrow> throw (Py ''ValueError'' ty)
     | Some t \<Rightarrow>
         bindE (execute ''orchestrator_agent'' None (pure_run (run_orchestrator t))) (\<lambda>oc.
           case ao_output oc of None \<Rightarrow> throw (Py ''AssertionError'' '''')
           | Some plan \<Rightarrow>
               bindE (run_activities activity payload (map ps_agent (wp_steps plan)) []) (\<lambda>results.
                 ret [(''requires_human_approval'', JBool (wp_requires_human_approval plan)),
                      (''results'', JObj results)])))"

text \<open>The entrypoint polls the queue only when configured to.\<close>

datatype worker_start = Disabled string | DependencyMissing | Polling string string string

definition worker_run :: "settings \<Rightarrow> bool \<Rightarrow> worker_start" where
  "worker_run st has_temporal =
     (if workflow_backend st \<noteq> WB_TEMPORAL then Disabled (workflow_backend_value (workflow_backend st))
      else if \<not> has_temporal then DependencyMissing
      else Polling (temporal_host st) (temporal_namespace st) (temporal_task_queue st))"

section \<open>Facts\<close>

text \<open>
  Unlike the service, the workflow runs every step whatever the earlier ones returned, and asks for
  a human by the plan alone.
\<close>

lemma run_activities_all:
  assumes "\<And>agent s. \<exists>t. activity agent payload s = (Inr (out agent), t)"
  shows "\<exists>t. run_activities activity payload agents results s =
    (Inr (fold (\<lambda>g d. dict_set g (out g) d) agents results), t)"
proof (induction agents arbitrary: results s)
  case (Cons g rest)
  obtain t where "activity g payload s = (Inr (out g), t)" using assms by blast
  with Cons.IH [of "dict_set g (out g) results" t] show ?case by (simp add: bindE_def)
qed (simp add: ret_def)

end
