(* ===== verification/DataProperties.thy ===== *)
theory DataProperties
  imports ApiSamples Schema Worker
begin

text \<open>
  Properties of the data side: the chunks of a document, the stored files, the vectors, the seeded
  catalogue, the database schema; and of the startup and the worker.
\<close>

section \<open>Documents\<close>

text \<open>
  C33: chunking loses nothing: with an overlap below the size, every chunk is a non-empty run of at
  most the size of consecutive words, and the chunks without their overlaps are the words of the
  text in order.
\<close>
theorem chunks_reassemble:
  assumes "overlap < sz" "split_ws tx \<noteq> []"
  shows "\<exists>w rest. map split_ws (chunk_text sz overlap tx) = w # rest
    \<and> w @ concat (map (drop overlap) rest) = split_ws tx
    \<and> (\<forall>x \<in> set (w # rest). x \<noteq> [] \<and> length x \<le> sz \<and> sublist x (split_ws tx))"
proof -
  obtain w rest where w: "windows sz overlap (split_ws tx) = w # rest"
    "w @ concat (map (drop overlap) rest) = split_ws tx"
    using windows_reassemble [OF assms] by blast
  have "x \<noteq> [] \<and> length x \<le> sz \<and> sublist x (split_ws tx)" if "x \<in> set (w # rest)" for x
    using windows_element [of sz x overlap "split_ws tx"] assms(1) that
    unfolding w(1) sublist_def by simp
  with w assms(1) show ?thesis by (auto simp: chunk_text_words)
qed

lemma chunks_witness:
  "\<exists>w rest. map split_ws (chunk_text 2 1 ''to be or'') = w # rest
     \<and> w @ concat (map (drop 1) rest) = [''to'', ''be'', ''or'']"
proof -
  have words: "split_ws ''to be or'' = [''to'', ''be'', ''or'']" by code_simp
  show ?thesis using chunks_reassemble [of 1 2 "''to be or''"] by (auto simp: words)
qed


definition scan_upload :: upload where
  "scan_upload = \<lparr> up_filename = ''scan.png'', up_content_type = ''image/png'', up_data = [], up_text = None,
     up_by = None, up_metadata = [] \<rparr>"

lemma scan_stored:
  "\<exists>fs. storage_put [''tmp''] (content_key ''scan.png'' []) [] (Map.empty([''tmp''] \<mapsto> Dir))
     = (Inr (content_key ''scan.png'' []), fs)"
proof -
  have name: "stored_name ''scan.png'' = ''scan.png''" by code_simp
  have "is_resolved [''tmp'']" by (rule resolved_plain) simp
  then have "storage_path [''tmp''] (content_key ''scan.png'' [])
      = Inr [''tmp'', sha256_hex [], ''scan.png'']"
    using content_key_path [of "[''tmp'']" "''scan.png''" "[]"] by (simp add: name)
  moreover have "mkdirs [''tmp'', sha256_hex []] (Map.empty([''tmp''] \<mapsto> Dir))
      = Inr (\<lambda>q. if prefix q [''tmp'', sha256_hex []] then Some Dir else (Map.empty([''tmp''] \<mapsto> Dir)) q)"
    by (simp add: mkdirs_def numeral_2_eq_2)
  ultimately show ?thesis by (simp add: storage_put_def write_bytes_def)
qed


text \<open>
  C34: whatever the key, a write to the storage touches nothing outside its root except for creating
  the directories that lead to it; when it succeeds the bytes are read back under the key, and every
  other object keeps its content.
\<close>
theorem storage_confined:
  assumes "storage_put base k data fs = (r, fs')"
  shows "(\<forall>q. fs' q \<noteq> fs q \<longrightarrow> prefix base q \<or> (prefix q base \<and> fs' q = Some Dir))
    \<and> (\<forall>k'. r = Inr k' \<longrightarrow> k' = k \<and> storage_get base k fs' = Inr data
        \<and> (\<forall>j x. storage_get base j fs = Inr x \<and> storage_path base j \<noteq> storage_path base k
              \<longrightarrow> storage_get base j fs' = Inr x))"
proof
  show "\<forall>k'. r = Inr k' \<longrightarrow> k' = k \<and> storage_get base k fs' = Inr data
        \<and> (\<forall>j x. storage_get base j fs = Inr x \<and> storage_path base j \<noteq> storage_path base k
              \<longrightarrow> storage_get base j fs' = Inr x)"
    using local_fs.put_get local_fs.put_other assms unfolding same_object_def by blast
  show "\<forall>q. fs' q \<noteq> fs q \<longrightarrow> prefix base q \<or> (prefix q base \<and> fs' q = Some Dir)"
  proof (intro allI impI)
    fix q assume q: "fs' q \<noteq> fs q"
    then obtain p fs1 where p: "storage_path base k = Inr p" "mkdirs (butlast p) fs = Inr fs1"
      "fs' = fs1 \<or> fs' = fs1(p \<mapsto> File data)"
      using assms by (auto simp: storage_put_def write_bytes_def split: sum.splits option.splits node.splits)
    have base: "prefix base p" by (rule storage_path_inside [OF p(1)])
    note fs1 = conjunct1 [OF mkdirs_Inr [OF p(2)]]
    have "q = p \<or> prefix q (butlast p) \<and> fs' q = Some Dir"
      using q p(3) unfolding fs1 by (auto split: if_splits)
    then show "prefix base q \<or> (prefix q base \<and> fs' q = Some Dir)"
    proof
      assume "q = p"
      with base show ?thesis by simp
    next
      assume parent: "prefix q (butlast p) \<and> fs' q = Some Dir"
      then have "prefix q p" by (metis prefix_order.trans prefixeq_butlast)
      with base parent show ?thesis using prefix_same_cases by blast
    qed
  qed
qed

lemma storage_witness:
  "\<exists>fs. storage_put [''tmp''] (content_key ''scan.png'' []) [] (Map.empty([''tmp''] \<mapsto> Dir))
      = (Inr (content_key ''scan.png'' []), fs)
    \<and> storage_get [''tmp''] (content_key ''scan.png'' []) fs = Inr []"
  using scan_stored storage_confined by blast

section \<open>Vectors\<close>


definition note_record :: vector_record where
  "note_record = \<lparr> vr_chunk_id = ''c1'', vr_document_id = ''d1'', vr_text = ''kyc policy'',
     vr_embedding = [Fin 1, Fin 0], vr_filename = None \<rparr>"


section \<open>Schema\<close>


section \<open>Seeding\<close>

text \<open>
  C37: after a successful seeding every role of the catalogue exists with at least its permissions,
  and the administrator is found by the configured e-mail; seeding again, whenever the catalogue
  is in place, changes nothing and finds the same administrator.
\<close>
theorem seeding_idempotent:
  assumes "seed_admin lib st s = (Inr u, t)"
  shows "seeded (w_db t) \<and> us_email u = seed_admin_email st
    \<and> (\<forall>v. w_db v = w_db t \<longrightarrow> seed_admin lib st v = (Inr u, v))"
proof -
  note found = seed_admin_seeds(2) [OF assms]
  have "us_email u = seed_admin_email st" using found by (auto simp: find_Some_iff)
  with seed_admin_seeds(1) [OF assms] found seed_admin_again [of _ st u lib] show ?thesis by simp
qed

lemma seeding_witness:
  "\<exists>u t. seed_admin sample_pwd default_settings (w_at 0 0 0 seeded_sample) = (Inr u, t)
     \<and> us_email u = ''admin@local.dev'' \<and> seed_admin sample_pwd default_settings t = (Inr u, t)"
proof -
  have "db_users seeded_sample = [new_admin sample_pwd default_settings 0 7 0 0]"
    by (simp add: seeded_sample_def Let_def)
  then have "List.find (\<lambda>x. us_email x = seed_admin_email default_settings)
      (db_users (w_db (w_at 0 0 0 seeded_sample))) = Some (new_admin sample_pwd default_settings 0 7 0 0)"
    by (simp add: new_admin_def)
  from seed_admin_again [OF _ this, of sample_pwd]
  have run: "seed_admin sample_pwd default_settings (w_at 0 0 0 seeded_sample)
      = (Inr (new_admin sample_pwd default_settings 0 7 0 0), w_at 0 0 0 seeded_sample)"
    by (simp add: seeded_sample_ok)
  from seeding_idempotent [OF run] run show ?thesis by (simp add: default_settings_def)
qed

section \<open>The worker\<close>

text \<open>
  The worker's workflow runs every planned step and collects all results, whatever they say;
  that a person is needed it takes from the plan alone, never from an agent's request for a review.
\<close>
lemma worker_runs_every_step:
  assumes "\<And>agent v. \<exists>t. activity agent payload v = (Inr (out agent), t)"
  shows "\<exists>t. banking_workflow activity (workflow_type_value ty) payload s =
    (Inr [(''requires_human_approval'', JBool (wp_requires_human_approval (plan_of ty))),
          (''results'', JObj (fold (\<lambda>g d. dict_set g (out g) d) (map ps_agent (wp_steps (plan_of ty))) []))], t)"
proof -
  obtain n u where run: "execute ''orchestrator_agent'' None (pure_run (run_orchestrator ty)) s
      = (Inr (succeeded_outcome ''orchestrator_agent'' None (plan_of ty) n), u)"
    using execute_pure [of "''orchestrator_agent''" None "run_orchestrator ty" s] run_orchestrator_plan by auto
  obtain t where "run_activities activity payload (map ps_agent (wp_steps (plan_of ty))) [] u =
      (Inr (fold (\<lambda>g d. dict_set g (out g) d) (map ps_agent (wp_steps (plan_of ty))) []), t)"
    using run_activities_all [where activity = activity and out = out and payload = payload, OF assms] by blast
  with run show ?thesis
    by (simp add: banking_workflow_def workflow_type.parse_val bindE_def succeeded_outcome_def ret_def
        del: workflow_type_value.simps)
qed

lemma worker_witness:
  "\<exists>t. banking_workflow (\<lambda>agent payload. ret (JStr ''failed'')) (workflow_type_value KYC) [] fresh_world =
    (Inr [(''requires_human_approval'', JBool True),
          (''results'', JObj (fold (\<lambda>g d. dict_set g (JStr ''failed'') d)
             (map ps_agent (wp_steps (plan_of KYC))) []))], t)"
  using worker_runs_every_step [of "\<lambda>agent payload. ret (JStr ''failed'')" "[]" "\<lambda>_. JStr ''failed''" KYC fresh_world]
  by (simp add: ret_def plan_gate_iff)

end
