(* ===== verification/Application.thy ===== *)
theory Application
  imports AppState Routes Logging
begin

text \<open>
  main.py: building the application and its lifespan, with the settings and the services a process
  holds. The framework's application object is the list of what \<open>create_app\<close> puts into it; closing a
  provider's HTTP client is a parameter.
\<close>

section \<open>Settings of the process\<close>

text \<open>\<open>get_settings\<close> under \<open>lru_cache\<close>: a result is kept, an exception is not.\<close>

definition get_settings :: "settings \<Rightarrow> settings option \<Rightarrow> settings res \<times> settings option" where
  "get_settings environment cache = (case cache of
       Some st \<Rightarrow> (Inr st, cache)
     | None \<Rightarrow> (case make_settings environment of
         Inl e \<Rightarrow> (Inl e, None) | Inr st \<Rightarrow> (Inr st, Some st)))"

lemma get_settings_once:
  "get_settings env c = (Inr st, c') \<Longrightarrow> get_settings env' c' = (Inr st, c')"
  by (auto simp: get_settings_def split: option.splits sum.splits)

section \<open>The application object\<close>

datatype middleware =
    RequestContextMiddleware
  | CORSMiddleware "string list" bool "string list" "string list"

record fastapi_app =
  fa_title :: string
  fa_version :: string
  fa_description :: string
  fa_docs_url :: string
  fa_openapi_url :: string
  fa_middleware :: "middleware list"
  fa_routes :: "route list"

text \<open>\<open>add_middleware\<close> wraps what is there, so the last one added sees a request first.\<close>

definition add_middleware :: "middleware \<Rightarrow> fastapi_app \<Rightarrow> fastapi_app" where
  "add_middleware m app = app\<lparr>fa_middleware := m # fa_middleware app\<rparr>"

definition create_app :: "settings \<Rightarrow> bool \<Rightarrow> log_config \<times> fastapi_app" where
  "create_app st prometheus = (configure_logging (app_log_level st) (app_log_json st),
     add_middleware (CORSMiddleware (cors_origins_list st) True [''*''] [''*''])
     (add_middleware RequestContextMiddleware
       \<lparr> fa_title = app_name st, fa_version = ''1.0.0'',
         fa_description = ''Enterprise Agentic AI Platform for Banking Operations.'',
         fa_docs_url = ''/docs'', fa_openapi_url = ''/openapi.json'', fa_middleware = [],
         fa_routes = app_routes st prometheus \<rparr>))"

text \<open>What \<open>run\<close> hands to the server.\<close>

record server_args =
  sa_app :: string
  sa_host :: string
  sa_port :: int
  sa_reload :: bool

definition run_args :: "settings \<Rightarrow> server_args" where
  "run_args st = \<lparr> sa_app = ''banking_ai.main:app'', sa_host = app_host st, sa_port = app_port st,
     sa_reload = app_debug st \<rparr>"

section \<open>The lifespan\<close>

record process =
  pr_engine :: "engine option"
  pr_app_state :: "app_state option"

text \<open>Before the first request: the engine and the services, then the seeding.\<close>

definition enter_lifespan ::
  "path \<Rightarrow> pwd_lib \<Rightarrow> settings \<Rightarrow> process \<times> world \<Rightarrow> (exn + unit) \<times> (process \<times> world)" where
  "enter_lifespan tmp lib st = (\<lambda>(p, s).
     let p1 = p\<lparr>pr_engine := snd (init_engine st (pr_engine p))\<rparr>
     in (case startup tmp lib st s of
           (Inl e, t) \<Rightarrow> (Inl e, (p1, t))
         | (Inr a, t) \<Rightarrow> (Inr (), (p1\<lparr>pr_app_state := Some a\<rparr>, t))))"

definition router_aclose :: "('s provider \<Rightarrow> (exn, 's, unit) comp) \<Rightarrow> 's router \<Rightarrow> (exn, 's, unit) comp" where
  "router_aclose close rt = forE (rt_providers rt) close"

text \<open>After the last: what goes wrong while the clients are closed is dropped, the engine is disposed of.\<close>

definition exit_lifespan ::
  "(world provider \<Rightarrow> unit action) \<Rightarrow> process \<times> world \<Rightarrow> process \<times> world" where
  "exit_lifespan close = (\<lambda>(p, s).
     let t = (case pr_app_state p of
           None \<Rightarrow> s
         | Some a \<Rightarrow> snd (catchE (router_aclose close (as_router a)) (\<lambda>e. ret ()) s))
     in (p\<lparr>pr_engine := dispose_engine (pr_engine p)\<rparr>, t))"

text \<open>\<open>app_state_dep\<close> of api/deps.py\<close>

definition app_state_dep :: "process \<Rightarrow> app_state res" where
  "app_state_dep p = (case pr_app_state p of
       None \<Rightarrow> Inl (Py ''RuntimeError'' ''Application state is not initialised.'')
     | Some a \<Rightarrow> Inr a)"

section \<open>Facts\<close>

text \<open>The CORS middleware is outermost: it answers a preflight request before a request id is given.\<close>

lemma middleware_order:
  "map (\<lambda>m. m = RequestContextMiddleware) (fa_middleware (snd (create_app st b))) = [False, True]"
  by (simp add: create_app_def add_middleware_def)

text \<open>While the application runs its services are those of its settings and one engine is in use.\<close>

lemma lifespan_services:
  assumes "enter_lifespan tmp lib st (p, s) = (Inr (), (q, t))"
  shows "\<exists>a. app_state_dep q = Inr a \<and> as_settings a = st"
    and "pr_engine q = Some (fst (init_engine st (pr_engine p)))"
proof -
  from assms obtain a where a: "startup tmp lib st s = (Inr a, t)"
    "q = p\<lparr>pr_engine := snd (init_engine st (pr_engine p)), pr_app_state := Some a\<rparr>"
    by (auto simp: enter_lifespan_def Let_def split: prod.splits sum.splits)
  from a(1) obtain u where "build_app_state tmp st s = (Inr a, u)"
    by (auto simp: startup_def bindE_Inr thenE_def ret_def)
  then have "as_settings a = st" by (rule built_service_quiet(2))
  with a(2) show "\<exists>a. app_state_dep q = Inr a \<and> as_settings a = st" by (simp add: app_state_dep_def)
  show "pr_engine q = Some (fst (init_engine st (pr_engine p)))"
    by (auto simp: a(2) init_engine_def split: option.splits)
qed

text \<open>
  After the shutdown the next session opens an engine of the current settings; the services stay in
  the application's state.
\<close>

lemma exit_lifespan_engine:
  "exit_lifespan close (p, s) = (q, t) \<Longrightarrow>
     fst (get_sessionmaker st (pr_engine q)) = build_engine st \<and> app_state_dep q = app_state_dep p"
  by (auto simp: exit_lifespan_def Let_def dispose_engine_def get_sessionmaker_def init_engine_def app_state_dep_def)

text \<open>
  The loop that closes the providers stops at the first that fails, so the clients after it stay open.
\<close>

lemma close_stops:
  assumes "close p s = (Inl e, t)"
  shows "router_aclose close (rt\<lparr>rt_providers := p # ps\<rparr>) s = (Inl e, t)"
  by (simp add: router_aclose_def thenE_def bindE_def assms)

end
