(* ===== verification/MigrationEnv.thy ===== *)
theory MigrationEnv
  imports Config
begin

text \<open>
  migrations/env.py: the URL of the settings is put into Alembic's configuration, which is Python's
  \<open>configparser\<close> with its interpolation, and the migrations run in a context for the offline or the
  online mode. The configuration is the \<open>[alembic]\<close> section with the defaults as a dictionary, running
  the revisions is Alembic's and a parameter, and so is the name of the dialect of a URL.
\<close>

section \<open>Interpolation\<close>

text \<open>A reference \<open>%(name)s\<close> at the start of a string: the name, and what follows.\<close>

definition key_match :: "string \<Rightarrow> (string \<times> string) option" where
  "key_match s =
     (if starts_with ''%('' s then
        (let name = takeWhile (\<lambda>c. c \<noteq> CHR '')'') (drop 2 s); rest = drop (2 + length name) s
         in if name \<noteq> [] \<and> starts_with '')s'' rest then Some (name, drop 2 rest) else None)
      else None)"

lemma key_match_shorter: "key_match s = Some (name, rest) \<Longrightarrow> length rest < length s"
  by (cases s) (auto simp: key_match_def starts_with_def Let_def split: if_splits)

fun drop_escapes :: "string \<Rightarrow> string" where
  "drop_escapes (p # q # s) =
     (if p = CHR ''%'' \<and> q = CHR ''%'' then drop_escapes s else p # drop_escapes (q # s))"
| "drop_escapes s = s"

function drop_keys :: "string \<Rightarrow> string" where
  "drop_keys s = (case key_match s of
       Some (name, rest) \<Rightarrow> drop_keys rest
     | None \<Rightarrow> (case s of [] \<Rightarrow> [] | c # cs \<Rightarrow> c # drop_keys cs))"
  by pat_completeness auto
termination
  by (relation "measure length") (auto dest: key_match_shorter)

declare drop_keys.simps [simp del]

text \<open>\<open>before_set\<close>: a value is refused when a percent sign is left over.\<close>

definition bad_syntax :: exn where
  "bad_syntax = Py ''ValueError'' ''invalid interpolation syntax''"

definition before_set :: "string \<Rightarrow> string res" where
  "before_set v = (if CHR ''%'' \<in> set (drop_keys (drop_escapes v)) then Inl bad_syntax else Inr v)"

text \<open>
  \<open>before_get\<close>: the references are replaced, up to ten levels deep; the first argument counts the
  levels that are left.
\<close>

function interpolate :: "nat \<Rightarrow> (string \<Rightarrow> string option) \<Rightarrow> string \<Rightarrow> string res" where
  "interpolate d opts s =
     (case s of [] \<Rightarrow> Inr []
      | c # cs \<Rightarrow>
         if c \<noteq> CHR ''%'' then map_sum id ((#) c) (interpolate d opts cs)
         else if starts_with ''%'' cs then map_sum id ((#) c) (interpolate d opts (drop 1 cs))
         else if \<not> starts_with ''('' cs then Inl (Py ''InterpolationSyntaxError'' s)
         else (case key_match s of
             None \<Rightarrow> Inl (Py ''InterpolationSyntaxError'' s)
           | Some (name, rest) \<Rightarrow> (case opts (lower name) of
               None \<Rightarrow> Inl (Py ''InterpolationMissingOptionError'' name)
             | Some v \<Rightarrow>
                 (case (if CHR ''%'' \<notin> set v then Inr v
                        else if d = 0 then Inl (Py ''InterpolationDepthError'' name)
                        else interpolate (d - 1) opts v) of
                    Inl e \<Rightarrow> Inl e
                  | Inr x \<Rightarrow> map_sum id ((@) x) (interpolate d opts rest)))))"
  by pat_completeness auto
termination
  by (relation "measures [\<lambda>(d, opts, s). d, \<lambda>(d, opts, s). length s]")
    (auto dest: key_match_shorter)

declare interpolate.simps [simp del]

section \<open>The environment\<close>

type_synonym ini = "(string, string) dict"

definition set_main_option :: "string \<Rightarrow> string \<Rightarrow> ini \<Rightarrow> ini res" where
  "set_main_option name v cfg = map_sum id (\<lambda>x. dict_set name x cfg) (before_set v)"

definition get_option :: "ini \<Rightarrow> string \<Rightarrow> string res" where
  "get_option cfg v = interpolate 9 (map_of cfg) v"

definition get_main_option :: "string \<Rightarrow> ini \<Rightarrow> string option res" where
  "get_main_option name cfg = (case dict_get name cfg of
       None \<Rightarrow> Inr None | Some v \<Rightarrow> map_sum id Some (get_option cfg v))"

fun get_items :: "ini \<Rightarrow> ini \<Rightarrow> ini res" where
  "get_items cfg [] = Inr []"
| "get_items cfg ((name, v) # rest) = (case get_option cfg v of
       Inl e \<Rightarrow> Inl e | Inr x \<Rightarrow> map_sum id ((#) (name, x)) (get_items cfg rest))"

definition url_option :: string where
  "url_option = ''sqlalchemy.url''"

definition open_config :: "settings \<Rightarrow> ini \<Rightarrow> ini res" where
  "open_config st cfg = set_main_option url_option (database_url st) cfg"

text \<open>What \<open>context.configure\<close> is given beside the metadata.\<close>

record migration_context =
  mg_url :: "string option"
  mg_connection :: "string option"
  mg_literal_binds :: bool
  mg_paramstyle :: "string option"
  mg_compare_type :: bool
  mg_render_as_batch :: bool

definition run_migrations_offline :: "ini \<Rightarrow> migration_context res" where
  "run_migrations_offline cfg = map_sum id (\<lambda>url. \<lparr> mg_url = url, mg_connection = None,
     mg_literal_binds = True, mg_paramstyle = Some ''named'', mg_compare_type = True,
     mg_render_as_batch = False \<rparr>) (get_main_option url_option cfg)"

definition do_run_migrations :: "(string \<Rightarrow> string) \<Rightarrow> string \<Rightarrow> migration_context" where
  "do_run_migrations dialect url = \<lparr> mg_url = None, mg_connection = Some url, mg_literal_binds = False,
     mg_paramstyle = None, mg_compare_type = True,
     mg_render_as_batch = (dialect url = ''sqlite'') \<rparr>"

definition run_migrations_online :: "(string \<Rightarrow> string) \<Rightarrow> ini \<Rightarrow> migration_context res" where
  "run_migrations_online dialect cfg = (case get_items cfg cfg of
       Inl e \<Rightarrow> Inl e
     | Inr items \<Rightarrow> (case dict_get url_option items of
         None \<Rightarrow> Inl (Py ''KeyError'' ''url'')
       | Some url \<Rightarrow> Inr (do_run_migrations dialect url)))"

text \<open>The module: configure, then run the revisions in the context of the mode.\<close>

definition migrate ::
  "(migration_context \<Rightarrow> 'd \<Rightarrow> 'd res) \<Rightarrow> (string \<Rightarrow> string) \<Rightarrow> bool \<Rightarrow> settings \<Rightarrow> ini \<Rightarrow> 'd \<Rightarrow> 'd res" where
  "migrate revisions dialect offline st cfg d = (case open_config st cfg of
       Inl e \<Rightarrow> Inl e
     | Inr cfg' \<Rightarrow>
         (case (if offline then run_migrations_offline cfg' else run_migrations_online dialect cfg') of
            Inl e \<Rightarrow> Inl e | Inr ctx \<Rightarrow> revisions ctx d))"

section \<open>Facts\<close>

lemma key_match_none: "CHR ''%'' \<notin> set s \<or> CHR ''('' \<notin> set s \<Longrightarrow> key_match s = None"
proof -
  have "starts_with ''%('' s \<Longrightarrow> CHR ''%'' \<in> set s \<and> CHR ''('' \<in> set s"
    by (cases s; cases "tl s") (auto simp: starts_with_def)
  then show "CHR ''%'' \<notin> set s \<or> CHR ''('' \<notin> set s \<Longrightarrow> ?thesis" by (auto simp: key_match_def)
qed

lemma interpolate_simps:
  "interpolate d opts [] = Inr []"
  "c \<noteq> CHR ''%'' \<Longrightarrow> interpolate d opts (c # cs) = map_sum id ((#) c) (interpolate d opts cs)"
  "interpolate d opts (CHR ''%'' # CHR ''%'' # cs) = map_sum id ((#) CHR ''%'') (interpolate d opts cs)"
  by (simp_all add: interpolate.simps [of d opts "[]"] interpolate.simps [of d opts "_ # _"] starts_with_def)

lemma drop_escapes_plain: "CHR ''%'' \<notin> set s \<Longrightarrow> drop_escapes s = s"
  by (induction s rule: drop_escapes.induct) auto

lemma drop_keys_plain: "CHR ''%'' \<notin> set s \<or> CHR ''('' \<notin> set s \<Longrightarrow> drop_keys s = s"
proof (induction s)
  case (Cons c s)
  with key_match_none [of "c # s"] show ?case by (auto simp: drop_keys.simps [of "c # s"])
qed (simp add: drop_keys.simps [of "[]"] key_match_none)

text \<open>A percent sign that is not doubled is refused, so a password cannot be percent-encoded.\<close>

lemma drop_escapes_subset: "set (drop_escapes s) \<subseteq> set s"
  by (induction s rule: drop_escapes.induct) auto

lemma single_percent_refused:
  "CHR ''('' \<notin> set v \<Longrightarrow> before_set v = (if CHR ''%'' \<in> set (drop_escapes v) then Inl bad_syntax else Inr v)"
  using drop_keys_plain [of "drop_escapes v"] drop_escapes_subset [of v] unfolding before_set_def by (metis subsetD)

lemma percent_encoded_password_refused:
  "before_set ''postgresql+asyncpg://banking:p%40ss@db:5432/banking'' = Inl bad_syntax"
  by (subst single_percent_refused) simp_all

lemma interpolate_plain: "CHR ''%'' \<notin> set s \<Longrightarrow> interpolate d opts s = Inr s"
  by (induction s) (auto simp: interpolate_simps)

lemma before_set_plain: "CHR ''%'' \<notin> set v \<Longrightarrow> before_set v = Inr v"
  by (simp add: before_set_def drop_escapes_plain drop_keys_plain)

text \<open>What the migrations see: the URL of the settings, as it is.\<close>

lemma migrations_use_settings_url:
  assumes "CHR ''%'' \<notin> set (database_url st)" "open_config st cfg = Inr cfg'"
  shows "run_migrations_offline cfg' = Inr \<lparr> mg_url = Some (database_url st), mg_connection = None,
       mg_literal_binds = True, mg_paramstyle = Some ''named'', mg_compare_type = True, mg_render_as_batch = False \<rparr>"
    and "run_migrations_online dialect cfg' = Inr ctx \<Longrightarrow> ctx = do_run_migrations dialect (database_url st)"
proof -
  from assms have cfg': "cfg' = dict_set url_option (database_url st) cfg"
    by (simp add: open_config_def set_main_option_def before_set_plain)
  have here: "dict_get url_option cfg' = Some (database_url st)" by (simp add: cfg')
  then show "run_migrations_offline cfg' = Inr \<lparr> mg_url = Some (database_url st), mg_connection = None,
       mg_literal_binds = True, mg_paramstyle = Some ''named'', mg_compare_type = True, mg_render_as_batch = False \<rparr>"
    using assms(1) by (simp add: run_migrations_offline_def get_main_option_def get_option_def interpolate_plain)
  have items: "get_items all rest = Inr items \<Longrightarrow> dict_get k rest = Some v \<Longrightarrow>
      \<exists>x. get_option all v = Inr x \<and> dict_get k items = Some x" for all rest items k v
    by (induction all rest arbitrary: items rule: get_items.induct)
      (auto split: sum.splits if_splits simp: map_sum_def)
  show "run_migrations_online dialect cfg' = Inr ctx \<Longrightarrow> ctx = do_run_migrations dialect (database_url st)"
    using items [OF _ here] assms(1)
    by (auto simp: run_migrations_online_def get_option_def interpolate_plain split: sum.splits option.splits)
qed

text \<open>Doubling the percent signs would let every URL through.\<close>

definition doubled :: "string \<Rightarrow> string" where
  "doubled s = concat (map (\<lambda>c. if c = CHR ''%'' then ''%%'' else [c]) s)"

lemma doubled_read_back: "interpolate d opts (doubled s) = Inr s"
  by (induction s) (auto simp: doubled_def interpolate_simps)

lemma doubled_accepted: "before_set (doubled s) = Inr (doubled s)"
proof -
  have step: "c \<noteq> CHR ''%'' \<Longrightarrow> drop_escapes (c # t) = c # drop_escapes t" for c t by (cases t) auto
  have "CHR ''%'' \<notin> set (drop_escapes (doubled s))"
    by (induction s) (auto simp: doubled_def step)
  then show ?thesis by (simp add: before_set_def drop_keys_plain)
qed

end
