(* ===== verification/Spec2Isabelle.thy ===== *)
theory Spec2Isabelle
  imports AgentProperties RoutingProperties CaseProperties InterleavingProperties Routes ApiProperties TypeProperties AuthProperties StartupProperties DataProperties
    Application MigrationEnv
begin

text \<open>
  A model of the banking AI platform: the Python backend \<open>src/apps/backend/banking_ai\<close>, its worker
  \<open>src/apps/worker/banking_worker\<close> and the database migration \<open>src/migrations\<close>. Every theory below
  names the file it translates; a definition has the name of the function or class it stands for.

  \<^bold>\<open>The program.\<close> An HTTP request passes the middleware, the authentication and the permission
  check of its endpoint (api/, core/security.py, core/rbac.py) and runs in a database transaction.
  The main service starts a case (services/workflow_service.py): the orchestrator gives the plan of
  the workflow type, the executor (services/agent_executor.py) runs one agent per step, some of which
  call a language model through the router (ai/router.py), and the case is closed, fails, or waits
  for a person, who approves, rejects or escalates it. Every write leaves an entry in the audit trail
  (services/audit_service.py). Documents are chunked, embedded and indexed
  (services/document_service.py, services/storage_service.py, ai/vector_store.py).

  \<^bold>\<open>State and errors.\<close> An operation that reads or changes the state is a computation
  \<open>world \<Rightarrow> (exn + 'a) \<times> world\<close> (Prelude; \<open>bindE\<close>, \<open>catchE\<close>). The \<open>world\<close> of Database has the tables as
  lists of rows in insertion order, the telemetry tables, the vector store, the files, and, from Env,
  the streams of random identifiers, clock readings, performance counters and HTTP replies, each with
  its position, so that a theorem holds for whatever they yield. An exception is a value of \<open>exn\<close>:
  an application error with its class (Errors) or a Python one by name. \<open>in_transaction\<close> undoes the
  tables, and only these, when its body raises: telemetry, files and vectors stay, as in the source.

  \<^bold>\<open>Theories and sources.\<close>
  \<^item> Prelude, StrEnum, PyString, PyFloat, Json, Uuid, Calendar, Regex, Sha256, Env: what the program uses
    of Python and its standard library. Dictionaries are association lists in insertion order,
    floats are exact rationals rounded to 53 bits with the special values, \<open>Regex\<close> is the backtracking
    matcher for the two patterns in use.
  \<^item> Enums (db/models/enums.py), Errors (core/errors.py, api/exception_handlers.py), Config
    (core/config.py), Rbac (core/rbac.py), Security (core/security.py), Logging (core/logging.py: the configuration with its
    level and renderer, the processors, the bound context).
  \<^item> LlmTypes (ai/types.py, ai/cost.py), Router (ai/router.py), Providers (ai/providers/), Factory
    (ai/factory.py), VectorStore (ai/vector_store.py).
  \<^item> AgentBase (agents/base.py) and one theory per deterministic agent: DocumentAgent, KycAgent,
    FraudAgent, LoanAgent, Orchestrator, AuditAgent, NotificationAgent; TextAgents holds retrieval,
    summarisation, compliance and prompts/. Executor (services/agent_executor.py) adapts payloads.
  \<^item> Storage (services/storage_service.py), Database (db/models, db/session.py), Schema (the mapped
    classes as table declarations, and migrations/versions), AuditService (services/audit_service.py,
    services/observer.py), UserService, Seed, DocumentService, and Workflow
    (services/workflow_service.py). Interleaving splits a decision of the workflow service at the
    point where another request can run. MigrationEnv is migrations/env.py.
  \<^item> Schemas (schemas/), AppState (api/state.py, startup of main.py), Application (the application
    object, its middleware and its lifespan in main.py, \<open>get_settings\<close>), Api (api/): a request is a
    constructor of \<open>api_call\<close>, \<open>api_step\<close> runs it and \<open>handle_request\<close> wraps it. Routes holds the routing
    table of api/v1 and main.py. Worker is the worker.

  \<^bold>\<open>Interfaces.\<close> The locales are the contracts on which one part relies in another, each interpreted on
  the program's own definitions: \<open>str_enum\<close> (enumerations stored as strings), \<open>llm_provider\<close> and
  \<open>provider_identity\<close> (what the router relies on, given by both providers), \<open>observed\<close> (the router over
  an observer that keeps every record, given by the in-memory observer; the one of the database, which
  may lose a record but never raises, is \<open>db_observer_run\<close>), \<open>text_embedder\<close>,
  \<open>vector_store\<close>, \<open>object_storage\<close>, \<open>audit_trail\<close>, and \<open>pure_agent\<close> (an agent that raises on no valid
  input).

  \<^bold>\<open>Lemmas.\<close>
  \<^item> WorkflowFacts, Decisions, Failures: the exact change of the tables by a start and by a decision, and
    that both fail, if at all, by the clash of a unique key. \<open>start_outcome\<close>, \<open>steps_trace\<close> and
    \<open>settles\<close> are the abstract specifications these operations are shown to meet.
  \<^item> Lifecycle: the cases as a transition system; \<open>case_state\<close> says what each status means for the
    approvals of a case, and \<open>cases_ok\<close> is kept by every request.
  \<^item> Interleaving: a decision is a first half that reads the case and checks its status and a second half
    that writes; run without a pause they are the decision (\<open>decide_phases\<close>). \<open>interleaved\<close> runs any
    number of them in any order, and \<open>gates_ok\<close> and \<open>held_ok\<close> are kept by every turn.
  \<^item> ApiFacts, StoredRows: who is admitted, which endpoints write, and invariants over arbitrary
    sequences of requests (\<open>api_run\<close>): the cases, the growth of the audit trail, typing and referential
    integrity of the rows, and that answers are read back.
  \<^item> The theories named Properties hold the properties with an identifier. CaseProperties: the life of a
    case. InterleavingProperties: decisions that overlap. Routes: which handler a request reaches.
    ApiProperties: authorisation, refusal, audit, rollback. TypeProperties: stored rows and
    reading. AuthProperties: login, tokens, masking. StartupProperties: the parts together after a start. RoutingProperties: failover, telemetry, retries.
    AgentProperties: the rules of the agents. DataProperties: documents, storage, vectors, schema,
    seeding, worker.
  \<^item> Samples and ApiSamples are concrete worlds, libraries and sessions on which the hypotheses hold.

  \<^bold>\<open>Parameters.\<close> Third-party code is an argument, with its documented behaviour as a named hypothesis
  where a theorem needs it: \<open>jwt_spec\<close> (PyJWT returns the payload it signed under the same key until it
  expires), \<open>pwd_spec\<close> (passlib accepts exactly the password hashed), \<open>pydantic_spec\<close> (validated inputs
  meet the declared constraints; strings, identifiers and lists of the right type pass unchanged). The
  power of the annuity formula is C's \<open>pow\<close>, a parameter; the model endpoints are the reply stream;
  \<open>replies_ok\<close>, where used, says that their replies are well formed. Cryptography is idealised in
  \<open>jwt_spec\<close> and \<open>pwd_spec\<close>: different keys or passwords do not collide. \<open>quiet_router\<close> says that the
  providers do not write to the tables; it is proved of every router built from settings.

  \<^bold>\<open>Loops and bounds.\<close> No definition uses fuel. Loops over lists are structural; the window of the
  chunker and the decoder of UTF-8 recurse on the length of what is left (the step is at least one),
  the retry loop on the number of retries left, the matcher on the length of its input, and the hash on
  the blocks of the padded message. Words of the hash and the 128-bit identifiers wrap around; Python's
  integers are unbounded.

  \<^bold>\<open>Choices of the model.\<close>
  \<^item> Strings are lists of the characters 0 to 255, read as bytes where the source encodes; case mapping
    is that of ASCII. The Python is 3.12.
  \<^item> A row is inserted with its unique keys checked. Lengths of string columns and foreign keys are not
    enforced by the store (StoredRows proves that references resolve). Entity identity in a session is
    not modelled: what the code reloads from the database is read from the tables.
  \<^item> A request is one step, except in Interleaving, where two or more decisions overlap. There the
    isolation is read committed, the default of PostgreSQL: the first half of a decision reads what is
    committed, the second writes the columns that changed in its session (\<open>flush_workflow\<close>,
    \<open>flush_approval\<close>) onto what is stored by then. Other pairs of requests that overlap are not modelled.
  \<^item> A body that is no JSON, or of the wrong shape, is refused by the framework before the endpoint's
    code, and has no constructor of \<open>api_call\<close>; declared bounds of fields are checked by \<open>args_ok\<close>.
  \<^item> The embedding rows are written at once, while the source leaves them to the next flush; nothing
    reads them in between. NaN is ordered below every number where a list is sorted by score.
  \<^item> The tables of the migration and of the mapped classes are compared up to the order of columns, with
    SQLAlchemy's naming of indexes \<open>ix_<table>_<column>\<close>.

  \<^bold>\<open>Not modelled.\<close> What the framework does with the documentation routes and with CORS, the content of
  the metrics and the server loop (the arguments they get are \<open>create_app\<close> and \<open>run_args\<close>); how
  structlog's renderers print an event, and the log lines each function emits; what closing a
  provider's client does (a parameter of \<open>router_aclose\<close>); table creation for SQLite on startup (the
  framework's); Alembic beyond the context it is given and Temporal beyond the calls of its activities;
  writing the tables no code writes (incidents, feedback, applications, tasks), which appear only in
  Schema and as rows that are read; the frontend, tests, scripts and deployment files.
\<close>

end
